(* ===== verification/LD_Prelude.thy ===== *)
theory LD_Prelude
  imports Main
begin

text \<open>
  Shared material of the development: the fact collections that carry the component
  proofs, and the list functions the specifications are written with.

  \<^item> \<open>py_simps\<close> collects the unfolding rules of the effect monad of theory
    \<open>PyEffects\<close> and of its primitive actions; \<open>py_ops\<close> the defining equations
    of the Python built-ins on values (theory \<open>PyValue\<close>); \<open>handler_defs\<close>
    the definitions of the user data handlers themselves.
  \<^item> \<open>join\<close> is the reference meaning of Python's \<^verbatim>\<open>sep.join(xs)\<close>; the
    handlers never call it, they build the same string with a loop, and the
    component theories prove the loop equal to it.
  \<^item> \<open>sum_list_group_lengths\<close>: grouping a list by a key loses and repeats nothing.
  \<^item> \<open>split_on\<close> is Python's \<^verbatim>\<open>s.split(c)\<close> for a one-character separator,
    the inverse of \<open>join\<close> on fields that do not contain the separator.
\<close>

named_theorems py_simps "unfolding rules of the effect monad and its primitive actions"
named_theorems py_ops "defining equations of the Python built-ins on values"
named_theorems handler_defs "definitions of the user data handlers"

section \<open>Joining with a separator\<close>

fun join :: "'a list \<Rightarrow> 'a list list \<Rightarrow> 'a list" where
  "join sep [] = []"
| "join sep [x] = x"
| "join sep (x # y # ys) = x @ sep @ join sep (y # ys)"

lemma join_Cons: "ys \<noteq> [] \<Longrightarrow> join sep (x # ys) = x @ sep @ join sep ys"
  by (cases ys) simp_all

lemma join_snoc: "xs \<noteq> [] \<Longrightarrow> join sep (xs @ [x]) = join sep xs @ sep @ x"
  by (induction sep xs rule: join.induct) simp_all

lemma join_snoc_if:
  "join sep (xs @ [x]) = (if xs = [] then x else join sep xs @ sep @ x)"
  by (simp add: join_snoc)

lemma length_join:
  "length (join sep xs) = sum_list (map length xs) + (length xs - 1) * length sep"
  by (induction sep xs rule: join.induct) simp_all

lemma set_join_subset: "set (join sep xs) \<subseteq> set sep \<union> \<Union> (set ` set xs)"
  by (induction sep xs rule: join.induct) auto

section \<open>Splitting at a separator\<close>

fun split_on :: "'a \<Rightarrow> 'a list \<Rightarrow> 'a list list" where
  "split_on c [] = [[]]"
| "split_on c (x # xs) =
     (if x = c then [] # split_on c xs
      else (case split_on c xs of [] \<Rightarrow> [[x]] | y # ys \<Rightarrow> (x # y) # ys))"

lemma split_on_not_Nil [simp]: "split_on c s \<noteq> []"
  by (induction s) (auto split: list.splits)

lemma split_on_notin: "c \<notin> set s \<Longrightarrow> split_on c s = [s]"
  by (induction s) auto

lemma split_on_field: "c \<notin> set x \<Longrightarrow> split_on c (x @ c # s) = x # split_on c s"
  by (induction x) auto

lemma length_split_on: "length (split_on c s) = Suc (count_list s c)"
  by (induction s) (auto split: list.splits)

text \<open>Splitting undoes joining when no field contains the separator.\<close>

lemma split_on_join:
  "xs \<noteq> [] \<Longrightarrow> list_all (\<lambda>x. c \<notin> set x) xs \<Longrightarrow> split_on c (join [c] xs) = xs"
proof (induction "[c]" xs rule: join.induct)
  case 1
  then show ?case by simp
next
  case (2 x)
  then show ?case by (simp add: split_on_notin)
next
  case (3 x y ys)
  then show ?case by (simp add: split_on_field)
qed

lemma join_merge: "join sep ((a @ sep @ b) # xs) = join sep (a # b # xs)"
  by (cases xs) simp_all

lemma join_merge_char: "join [c] ((a @ c # b) # xs) = join [c] (a # b # xs)"
  using join_merge [of "[c]" a b xs] by simp

lemma join_hd_Cons: "join sep ((x # y) # ys) = x # join sep (y # ys)"
  by (cases ys) simp_all

text \<open>Joining undoes splitting, whatever the string.\<close>

lemma join_split_on: "join [c] (split_on c s) = s"
proof (induction s)
  case Nil
  show ?case by simp
next
  case (Cons x s)
  obtain y ys where y: "split_on c s = y # ys"
    by (cases "split_on c s") simp_all
  with Cons have IH: "join [c] (y # ys) = s" by simp
  show ?case
  proof (cases "x = c")
    case True
    have "join [c] ([] # y # ys) = c # join [c] (y # ys)" by simp
    with True y IH show ?thesis by simp
  next
    case False
    have "join [c] ((x # y) # ys) = x # join [c] (y # ys)" by (rule join_hd_Cons)
    with False y IH show ?thesis by simp
  qed
qed

lemma join_inject:
  assumes "xs \<noteq> []" "ys \<noteq> []"
    and "list_all (\<lambda>x. c \<notin> set x) xs" "list_all (\<lambda>x. c \<notin> set x) ys"
    and "join [c] xs = join [c] ys"
  shows "xs = ys"
proof -
  have "xs = split_on c (join [c] xs)"
    by (rule split_on_join [OF assms(1,3), symmetric])
  also have "\<dots> = split_on c (join [c] ys)"
    by (simp only: assms(5))
  also have "\<dots> = ys"
    by (rule split_on_join [OF assms(2,4)])
  finally show ?thesis .
qed

section \<open>Counting by groups\<close>

text \<open>The sizes of the groups of a list by a key add up to the size of the list.\<close>

lemma sum_list_indicator:
  "distinct ls \<Longrightarrow> (\<Sum>l\<leftarrow>ls. if a = l then (1::nat) else 0) = (if a \<in> set ls then 1 else 0)"
  by (induction ls) auto

lemma sum_list_group_lengths:
  assumes "distinct ls"
  shows "f ` set xs \<subseteq> set ls \<Longrightarrow>
    (\<Sum>l\<leftarrow>ls. length (filter (\<lambda>r. f r = l \<and> P r) xs)) = length (filter P xs)"
proof (induction xs)
  case Nil
  show ?case by simp
next
  case (Cons x xs)
  have "(\<Sum>l\<leftarrow>ls. length (filter (\<lambda>r. f r = l \<and> P r) (x # xs))) =
      (\<Sum>l\<leftarrow>ls. (if f x = l then (if P x then 1 else 0) else 0) +
                length (filter (\<lambda>r. f r = l \<and> P r) xs))"
    by (intro arg_cong [where f = sum_list] map_cong) auto
  also have "\<dots> = (\<Sum>l\<leftarrow>ls. if f x = l then (if P x then 1 else 0) else 0) +
      (\<Sum>l\<leftarrow>ls. length (filter (\<lambda>r. f r = l \<and> P r) xs))"
    by (simp add: sum_list_addf)
  also have "(\<Sum>l\<leftarrow>ls. if f x = l then (if P x then 1 else 0) else (0::nat)) =
      (if P x then 1 else 0)"
    using sum_list_indicator [OF assms, of "f x"] Cons.prems by (cases "P x") auto
  finally show ?case using Cons by simp
qed

section \<open>Results of computations that may raise\<close>

text \<open>
  A Python expression that may raise is a value of a sum type with the exception on the
  left.  \<open>sum_bind\<close> sequences two of them as the interpreter does: the second is not
  evaluated when the first raises.
\<close>

definition sum_bind :: "'e + 'a \<Rightarrow> ('a \<Rightarrow> 'e + 'b) \<Rightarrow> 'e + 'b" where
  "sum_bind m f = (case m of Inl e \<Rightarrow> Inl e | Inr x \<Rightarrow> f x)"

lemma sum_bind_simps [simp]:
  "sum_bind (Inl e) f = Inl e"
  "sum_bind (Inr x) f = f x"
  by (simp_all add: sum_bind_def)

lemma sum_bind_Inr_iff: "sum_bind m f = Inr y \<longleftrightarrow> (\<exists>x. m = Inr x \<and> f x = Inr y)"
  by (cases m) simp_all

lemma sum_bind_Inl_iff:
  "sum_bind m f = Inl e \<longleftrightarrow> m = Inl e \<or> (\<exists>x. m = Inr x \<and> f x = Inl e)"
  by (cases m) simp_all

lemma sum_bind_assoc: "sum_bind (sum_bind m f) g = sum_bind m (\<lambda>x. sum_bind (f x) g)"
  by (cases m) simp_all


text \<open>
  \<open>sum_mapM f xs\<close> evaluates \<open>f\<close> on the elements of \<open>xs\<close> from left to right and
  stops at the first that raises.
\<close>

fun sum_mapM :: "('a \<Rightarrow> 'e + 'b) \<Rightarrow> 'a list \<Rightarrow> 'e + 'b list" where
  "sum_mapM f [] = Inr []"
| "sum_mapM f (x # xs) = sum_bind (f x) (\<lambda>y. sum_bind (sum_mapM f xs) (\<lambda>ys. Inr (y # ys)))"

lemma sum_bind_cong [fundef_cong]:
  "m = m' \<Longrightarrow> (\<And>x. m' = Inr x \<Longrightarrow> f x = f' x) \<Longrightarrow> sum_bind m f = sum_bind m' f'"
  by (cases m') simp_all

lemma sum_mapM_cong [fundef_cong]:
  "xs = ys \<Longrightarrow> (\<And>x. x \<in> set ys \<Longrightarrow> f x = g x) \<Longrightarrow> sum_mapM f xs = sum_mapM g ys"
  by (induction ys arbitrary: xs) auto

lemma sum_mapM_Inr: "sum_mapM (\<lambda>x. Inr (f x)) xs = Inr (map f xs)"
  by (induction xs) simp_all

lemma sum_mapM_all_Inr:
  "(\<And>x. x \<in> set xs \<Longrightarrow> f x = Inr (g x)) \<Longrightarrow> sum_mapM f xs = Inr (map g xs)"
  by (induction xs) simp_all

lemma sum_mapM_Inr_iff:
  "sum_mapM f xs = Inr ys \<longleftrightarrow> list_all2 (\<lambda>x y. f x = Inr y) xs ys"
proof (induction xs arbitrary: ys)
  case Nil
  show ?case by auto
next
  case (Cons x xs)
  show ?case
    by (cases ys) (auto simp: sum_bind_Inr_iff Cons.IH)
qed

lemma sum_mapM_raises:
  "sum_mapM f xs = Inl e \<Longrightarrow> \<exists>x \<in> set xs. f x = Inl e"
  by (induction xs) (auto simp: sum_bind_Inl_iff)

lemma sum_mapM_if:
  "(\<And>x. x \<in> set xs \<Longrightarrow> f x = (if P x then Inr (g x) else Inl e)) \<Longrightarrow>
     sum_mapM f xs = (if list_all P xs then Inr (map g xs) else Inl e)"
  by (induction xs) simp_all


lemma sum_mapM_returns_iff:
  "(\<exists>ys. sum_mapM f xs = Inr ys) \<longleftrightarrow> (\<forall>x \<in> set xs. \<exists>y. f x = Inr y)"
  by (induction xs) (auto simp: sum_bind_Inr_iff)

end
