(* ===== verification/Uuid.thy ===== *)
theory Uuid
  imports LD_Prelude "HOL-Library.Word"
begin

text \<open>
  The fallback identifier of the handlers, \<^verbatim>\<open>str(uuid.uuid4())\<close>.  The standard
  library reads 16 bytes of operating-system entropy as one big-endian 128-bit integer,
  overwrites the variant bits (two bits, \<open>10\<close>) and the version bits (four bits, the
  number 4), and prints the result as 32 lower-case hexadecimal digits in groups of
  8, 4, 4, 4 and 12.  The entropy is a parameter here; theory \<open>PyEffects\<close> draws
  it from the world.  \<open>uuid4_str_format\<close> shows that the result has the form of a
  version 4 identifier whatever the entropy is.
\<close>

unbundle bit_operations_syntax

definition set_version4 :: "128 word \<Rightarrow> 128 word" where
  "set_version4 r =
     (((r AND NOT (push_bit 48 0xc000)) OR push_bit 48 0x8000)
        AND NOT (push_bit 64 0xf000)) OR push_bit 76 4"

definition hex_digit :: "nat \<Rightarrow> char" where
  "hex_digit n = ''0123456789abcdef'' ! n"

text \<open>The \<open>i\<close>-th hexadecimal digit of 32, the most significant first.\<close>

definition nibble :: "128 word \<Rightarrow> nat \<Rightarrow> nat" where
  "nibble w i = unat (drop_bit (4 * (31 - i)) w AND 15)"

definition hex32 :: "128 word \<Rightarrow> string" where
  "hex32 w = map (\<lambda>i. hex_digit (nibble w i)) [0..<32]"

definition uuid_str :: "128 word \<Rightarrow> string" where
  "uuid_str w =
     (let h = hex32 w in
      take 8 h @ ''-'' @ take 4 (drop 8 h) @ ''-'' @ take 4 (drop 12 h) @ ''-''
        @ take 4 (drop 16 h) @ ''-'' @ drop 20 h)"

definition uuid4_str :: "128 word \<Rightarrow> string" where
  "uuid4_str r = uuid_str (set_version4 r)"

lemmas uuid_defs = uuid4_str_def uuid_str_def set_version4_def hex32_def nibble_def hex_digit_def

section \<open>Shape of the printed identifier\<close>

lemma length_hex32 [simp]: "length (hex32 w) = 32"
  by (simp add: hex32_def)

lemma length_uuid_str [simp]: "length (uuid_str w) = 36"
  by (simp add: uuid_str_def Let_def)

lemma length_uuid4_str [simp]: "length (uuid4_str r) = 36"
  by (simp add: uuid4_str_def)

lemma nibble_less: "nibble w i < 16"
proof -
  have "drop_bit (4 * (31 - i)) w AND 15 \<le> 15" by (rule word_and_le1)
  then have "unat (drop_bit (4 * (31 - i)) w AND 15) \<le> unat (15 :: 128 word)"
    by (simp only: word_le_nat_alt)
  then show ?thesis by (simp add: nibble_def)
qed

lemma uuid_str_hyphens:
  "uuid_str w ! 8 = CHR ''-''" "uuid_str w ! 13 = CHR ''-''"
  "uuid_str w ! 18 = CHR ''-''" "uuid_str w ! 23 = CHR ''-''"
  by (simp_all add: uuid_str_def Let_def nth_append)

lemma uuid4_str_zero: "uuid4_str 0 = ''00000000-0000-4000-8000-000000000000''"
  by (simp add: uuid_defs upt_rec)

section \<open>Version and variant\<close>

text \<open>
  \<open>uuid4_format s\<close>: \<open>s\<close> has the form of a version 4 identifier of RFC 4122:
  36 characters, hyphens after 8, 13, 18 and 23 of them, lower-case hexadecimal digits
  elsewhere, the version digit \<open>4\<close> and a variant digit among \<open>8\<close>, \<open>9\<close>, \<open>a\<close>,
  \<open>b\<close>.
\<close>

definition uuid4_format :: "string \<Rightarrow> bool" where
  "uuid4_format s \<longleftrightarrow>
     length s = 36 \<and> s ! 8 = CHR ''-'' \<and> s ! 13 = CHR ''-'' \<and> s ! 18 = CHR ''-'' \<and>
     s ! 23 = CHR ''-'' \<and> s ! 14 = CHR ''4'' \<and> s ! 19 \<in> set ''89ab'' \<and>
     set s \<subseteq> set ''0123456789abcdef'' \<union> {CHR ''-''}"

lemma mask4: "(15 :: 128 word) = mask 4"
  by (simp add: mask_eq_exp_minus_1)

lemma four_bits: "bit (4 :: 128 word) n \<longleftrightarrow> n = 2"
proof -
  have "(4 :: 128 word) = push_bit 2 1" by simp
  then show ?thesis by (simp only: bit_push_bit_iff bit_1_iff) auto
qed

lemma version_word: "drop_bit 76 (set_version4 r) AND mask 4 = 4"
proof (rule bit_word_eqI)
  fix n assume "n < LENGTH(128)"
  consider "n = 0" | "n = 1" | "n = 2" | "n = 3" | "4 \<le> n" by linarith
  then show "bit (drop_bit 76 (set_version4 r) AND mask 4) n = bit (4 :: 128 word) n"
  proof cases
    case 1 then show ?thesis by (simp add: set_version4_def bit_simps four_bits)
  next
    case 2 then show ?thesis by (simp add: set_version4_def bit_simps four_bits)
  next
    case 3 then show ?thesis by (simp add: set_version4_def bit_simps four_bits)
  next
    case 4 then show ?thesis by (simp add: set_version4_def bit_simps four_bits)
  next
    case 5
    with four_bits [of n] show ?thesis by (simp add: bit_and_iff bit_mask_iff)
  qed
qed

lemma nibble_version: "nibble (set_version4 r) 12 = 4"
  by (simp add: nibble_def mask4 version_word)

lemma mask2: "(3 :: 128 word) = mask 2"
  by (simp add: mask_eq_exp_minus_1)

lemma two_bits: "bit (2 :: 128 word) n \<longleftrightarrow> n = 1"
proof -
  have "(2 :: 128 word) = push_bit 1 1" by simp
  then show ?thesis by (simp only: bit_push_bit_iff bit_1_iff) auto
qed

lemma variant_word: "drop_bit 62 (set_version4 r) AND mask 2 = 2"
proof (rule bit_word_eqI)
  fix n assume "n < LENGTH(128)"
  consider "n = 0" | "n = 1" | "2 \<le> n" by linarith
  then show "bit (drop_bit 62 (set_version4 r) AND mask 2) n = bit (2 :: 128 word) n"
  proof cases
    case 1 then show ?thesis by (simp add: set_version4_def bit_simps two_bits)
  next
    case 2 then show ?thesis by (simp add: set_version4_def bit_simps two_bits)
  next
    case 3
    with two_bits [of n] show ?thesis by (simp add: bit_and_iff bit_mask_iff)
  qed
qed

lemma nibble_top_bits:
  "drop_bit 2 (drop_bit 60 w AND mask 4) = drop_bit 62 w AND (mask 2 :: 128 word)"
  by (rule bit_word_eqI) (auto simp: bit_simps)

lemma unat_drop_bit2: "unat (drop_bit 2 x) = unat x div 4" for x :: "128 word"
  by (simp add: drop_bit_eq_div unat_div)

lemma nibble_variant: "nibble (set_version4 r) 16 div 4 = 2"
proof -
  have "nibble (set_version4 r) 16 div 4 =
      unat (drop_bit 2 (drop_bit 60 (set_version4 r) AND mask 4))"
    by (simp only: unat_drop_bit2) (simp add: nibble_def mask4)
  also have "\<dots> = unat (2 :: 128 word)"
    by (simp only: nibble_top_bits variant_word)
  finally show ?thesis by simp
qed

lemma hex_digit_simps:
  "hex_digit 4 = CHR ''4''" "hex_digit 8 = CHR ''8''" "hex_digit 9 = CHR ''9''"
  "hex_digit 10 = CHR ''a''" "hex_digit 11 = CHR ''b''"
  by (simp_all add: hex_digit_def)

lemma hex_digit_in: "n < 16 \<Longrightarrow> hex_digit n \<in> set ''0123456789abcdef''"
  unfolding hex_digit_def by (rule nth_mem) simp

lemma hex32_nth: "i < 32 \<Longrightarrow> hex32 w ! i = hex_digit (nibble w i)"
  by (simp add: hex32_def)

lemma uuid_str_digits:
  "uuid_str w ! 14 = hex32 w ! 12" "uuid_str w ! 19 = hex32 w ! 16"
  by (simp_all add: uuid_str_def Let_def nth_append)

lemma set_hex32: "set (hex32 w) \<subseteq> set ''0123456789abcdef''"
proof
  fix c assume "c \<in> set (hex32 w)"
  then obtain i where "c = hex_digit (nibble w i)" by (auto simp: hex32_def)
  then show "c \<in> set ''0123456789abcdef''"
    by (simp only: hex_digit_in [OF nibble_less])
qed

lemma set_uuid_str: "set (uuid_str w) \<subseteq> set ''0123456789abcdef'' \<union> {CHR ''-''}"
proof -
  have dash: "set ''-'' = {CHR ''-''}" by simp
  have "set (uuid_str w) \<subseteq> set (hex32 w) \<union> {CHR ''-''}"
    unfolding uuid_str_def Let_def set_append dash
    by (blast dest: in_set_takeD in_set_dropD)
  with set_hex32 [of w] show ?thesis by blast
qed

lemma uuid4_str_version: "uuid4_str r ! 14 = CHR ''4''"
  by (simp add: uuid4_str_def uuid_str_digits hex32_nth nibble_version hex_digit_simps)

lemma uuid4_str_variant: "uuid4_str r ! 19 \<in> set ''89ab''"
proof -
  have "n = 8 \<or> n = 9 \<or> n = 10 \<or> n = 11" if "n div 4 = 2" for n :: nat
    using that by presburger
  from this [OF nibble_variant [of r]] show ?thesis
    by (auto simp: uuid4_str_def uuid_str_digits hex32_nth hex_digit_simps)
qed

lemma uuid4_str_format: "uuid4_format (uuid4_str r)"
  unfolding uuid4_format_def
  using uuid4_str_version [of r] uuid4_str_variant [of r] set_uuid_str [of "set_version4 r"]
    uuid_str_hyphens [of "set_version4 r"] length_uuid_str [of "set_version4 r"]
  by (simp only: uuid4_str_def simp_thms)

end
