(* ===== verification/PyStr.thy ===== *)
theory PyStr
  imports Uuid
begin

text \<open>
  The text of a string and of an integer as Python prints them: \<^verbatim>\<open>repr(s)\<close> and
  \<^verbatim>\<open>str(i)\<close>.  The handlers call neither by name; they format values into their log
  messages with f-strings and with \<^verbatim>\<open>str\<close>, and the text of a formatted dict or list
  is made of the representations of the strings in it (theory \<open>PyFormat\<close>).

  \<^item> \<open>py_repr_str\<close> is \<^verbatim>\<open>repr\<close> on \<^verbatim>\<open>str\<close>: the string between quotes, single
    ones unless it holds a single and no double quote (\<open>repr_quote\<close>), with the quote
    and the backslash escaped, tab, line feed and carriage return as \<^verbatim>\<open>\t\<close>,
    \<^verbatim>\<open>\n\<close>, \<^verbatim>\<open>\r\<close>, and every other character that is not printable as
    \<^verbatim>\<open>\xhh\<close> with two lower-case hexadecimal digits (\<open>repr_char\<close>).  A character is
    a code point below 256 here; among these \<open>py_isprintable\<close> is CPython's
    \<^verbatim>\<open>str.isprintable\<close>: not a control character, not the no-break space and not the
    soft hyphen.
  \<^item> \<open>py_str_int\<close> is \<^verbatim>\<open>str\<close> on \<^verbatim>\<open>int\<close>: the decimal digits, most significant
    first, after a minus sign for a negative number.
  \<^item> \<open>scan_str\<close> reads an escaped string up to its closing quote and returns what
    follows; \<open>py_unrepr\<close> and \<open>py_int\<close> read a whole representation back.  They
    are the inverses the round trips are stated with, not code of the handlers.
  \<^item> The lemmas: \<open>py_unrepr (py_repr_str s) = Some s\<close> and
    \<open>py_int (py_str_int i) = Some i\<close>, hence both are injective; a representation
    consists of printable characters, so it never holds a line break.
\<close>

section \<open>Printable characters\<close>

definition py_isprintable :: "char \<Rightarrow> bool" where
  "py_isprintable ch =
     (let n = (of_char ch :: nat) in (0x20 \<le> n \<and> n < 0x7f) \<or> (0xa1 \<le> n \<and> n \<noteq> 0xad))"

section \<open>The representation of a string\<close>

definition backslash :: char where
  "backslash = CHR 0x5C"

definition hex2 :: "char \<Rightarrow> string" where
  "hex2 ch = [hex_digit (of_char ch div 16), hex_digit (of_char ch mod 16)]"

definition repr_quote :: "string \<Rightarrow> char" where
  "repr_quote s = (if CHR 0x27 \<in> set s \<and> CHR 0x22 \<notin> set s then CHR 0x22 else CHR 0x27)"

definition repr_char :: "char \<Rightarrow> char \<Rightarrow> string" where
  "repr_char quote ch =
     (if ch = quote \<or> ch = backslash then [backslash, ch]
      else if ch = CHR 0x09 then [backslash, CHR ''t'']
      else if ch = CHR 0x0A then [backslash, CHR ''n'']
      else if ch = CHR 0x0D then [backslash, CHR ''r'']
      else if py_isprintable ch then [ch]
      else backslash # CHR ''x'' # hex2 ch)"

definition py_repr_str :: "string \<Rightarrow> string" where
  "py_repr_str s = (let quote = repr_quote s in quote # concat (map (repr_char quote) s) @ [quote])"

section \<open>The decimal form of an integer\<close>

definition digit_char :: "nat \<Rightarrow> char" where
  "digit_char d = ''0123456789'' ! d"

fun digits10 :: "nat \<Rightarrow> string" where
  "digits10 n = (if n < 10 then [digit_char n] else digits10 (n div 10) @ [digit_char (n mod 10)])"

declare digits10.simps [simp del]

definition py_str_int :: "int \<Rightarrow> string" where
  "py_str_int i = (if i < 0 then CHR ''-'' # digits10 (nat (- i)) else digits10 (nat i))"

section \<open>Reading a representation back\<close>

definition hex_val :: "char \<Rightarrow> nat option" where
  "hex_val ch =
     (let n = (of_char ch :: nat) in
      if 48 \<le> n \<and> n < 58 then Some (n - 48)
      else if 97 \<le> n \<and> n < 103 then Some (n - 87)
      else None)"

fun scan_str :: "char \<Rightarrow> string \<Rightarrow> (string \<times> string) option" where
  "scan_str quote [] = None"
| "scan_str quote [c] = (if c = quote then Some ([], []) else None)"
| "scan_str quote (c # d # cs) =
     (if c = quote then Some ([], d # cs)
      else if c \<noteq> backslash then map_option (apfst ((#) c)) (scan_str quote (d # cs))
      else if d = quote \<or> d = backslash then map_option (apfst ((#) d)) (scan_str quote cs)
      else if d = CHR ''t'' then map_option (apfst ((#) (CHR 0x09))) (scan_str quote cs)
      else if d = CHR ''n'' then map_option (apfst ((#) (CHR 0x0A))) (scan_str quote cs)
      else if d = CHR ''r'' then map_option (apfst ((#) (CHR 0x0D))) (scan_str quote cs)
      else if d = CHR ''x'' then
        (case cs of
           h # l # rest \<Rightarrow>
             (case (hex_val h, hex_val l) of
                (Some a, Some b) \<Rightarrow>
                  map_option (apfst ((#) (char_of (16 * a + b)))) (scan_str quote rest)
              | _ \<Rightarrow> None)
         | _ \<Rightarrow> None)
      else None)"

definition is_quote :: "char \<Rightarrow> bool" where
  "is_quote ch \<longleftrightarrow> ch = CHR 0x27 \<or> ch = CHR 0x22"

definition py_unrepr :: "string \<Rightarrow> string option" where
  "py_unrepr r =
     (case r of
        [] \<Rightarrow> None
      | quote # body \<Rightarrow>
          if is_quote quote then
            (case scan_str quote body of Some (s, []) \<Rightarrow> Some s | _ \<Rightarrow> None)
          else None)"

definition is_digit :: "char \<Rightarrow> bool" where
  "is_digit ch \<longleftrightarrow> 48 \<le> (of_char ch :: nat) \<and> (of_char ch :: nat) < 58"

definition nat_of_digits :: "string \<Rightarrow> nat" where
  "nat_of_digits ds = foldl (\<lambda>a ch. 10 * a + (of_char ch - 48)) 0 ds"

definition py_int :: "string \<Rightarrow> int option" where
  "py_int s =
     (case s of
        [] \<Rightarrow> None
      | c # ds \<Rightarrow>
          if c = CHR ''-'' then
            (if ds \<noteq> [] \<and> list_all is_digit ds then Some (- int (nat_of_digits ds)) else None)
          else if list_all is_digit s then Some (int (nat_of_digits s)) else None)"

section \<open>Characters\<close>

lemma is_quote_repr_quote [simp]: "is_quote (repr_quote s)"
  by (simp add: is_quote_def repr_quote_def)

lemma is_quote_simps [simp]:
  "is_quote q \<Longrightarrow> q \<noteq> backslash" "is_quote q \<Longrightarrow> q \<noteq> CHR ''t''" "is_quote q \<Longrightarrow> q \<noteq> CHR ''n''"
  "is_quote q \<Longrightarrow> q \<noteq> CHR ''r''" "is_quote q \<Longrightarrow> q \<noteq> CHR ''x''" "is_quote q \<Longrightarrow> py_isprintable q"
  by (auto simp: is_quote_def backslash_def py_isprintable_def)

lemma of_char_div_16: "(of_char ch :: nat) div 16 < 16"
proof -
  have "(of_char ch :: nat) < 256" by (rule nat_of_char_less_256)
  then show ?thesis by (simp add: div_less_iff_less_mult)
qed

lemma hex_cases: "k < 16 \<Longrightarrow> k \<in> set [0..<16]"
  by simp

lemma hex_val_hex_digit: "k < 16 \<Longrightarrow> hex_val (hex_digit k) = Some k"
  by (drule hex_cases) (auto simp: upt_rec hex_digit_def hex_val_def)

lemma printable_hex_digit: "k < 16 \<Longrightarrow> py_isprintable (hex_digit k)"
  by (drule hex_cases) (auto simp: upt_rec hex_digit_def py_isprintable_def)

lemma hex_digit_not_quote: "k < 16 \<Longrightarrow> \<not> is_quote (hex_digit k)"
  by (drule hex_cases) (auto simp: upt_rec hex_digit_def is_quote_def)

lemma char_of_hex2: "char_of (16 * ((of_char ch :: nat) div 16) + of_char ch mod 16) = ch"
  by simp

section \<open>The round trip of a string\<close>

declare scan_str.simps [simp del]

lemma scan_str_quote [simp]: "scan_str q (q # r) = Some ([], r)"
  by (cases r) (simp_all add: scan_str.simps)

lemma scan_str_plain:
  "c \<noteq> q \<Longrightarrow> c \<noteq> backslash \<Longrightarrow> scan_str q (c # r) = map_option (apfst ((#) c)) (scan_str q r)"
  by (cases r) (simp_all add: scan_str.simps)

lemma scan_str_escaped:
  "is_quote q \<Longrightarrow> d = q \<or> d = backslash \<Longrightarrow>
     scan_str q (backslash # d # r) = map_option (apfst ((#) d)) (scan_str q r)"
  by (auto simp: scan_str.simps is_quote_def backslash_def)

lemma scan_str_letter:
  assumes "is_quote q"
  shows "scan_str q (backslash # CHR ''t'' # r) = map_option (apfst ((#) (CHR 0x09))) (scan_str q r)"
    and "scan_str q (backslash # CHR ''n'' # r) = map_option (apfst ((#) (CHR 0x0A))) (scan_str q r)"
    and "scan_str q (backslash # CHR ''r'' # r) = map_option (apfst ((#) (CHR 0x0D))) (scan_str q r)"
  using assms by (auto simp: scan_str.simps is_quote_def backslash_def)

lemma scan_str_hex:
  assumes "is_quote q"
  shows "scan_str q (backslash # CHR ''x'' # hex2 ch @ r) = map_option (apfst ((#) ch)) (scan_str q r)"
proof -
  have "scan_str q (backslash # CHR ''x'' # h # l # r) =
          (case (hex_val h, hex_val l) of
             (Some a, Some b) \<Rightarrow> map_option (apfst ((#) (char_of (16 * a + b)))) (scan_str q r)
           | _ \<Rightarrow> None)" for h l
    using assms by (auto simp: scan_str.simps is_quote_def backslash_def)
  then show ?thesis
    by (simp add: hex2_def hex_val_hex_digit of_char_div_16)
qed

lemma scan_str_repr_char:
  assumes "is_quote q"
  shows "scan_str q (repr_char q ch @ r) = map_option (apfst ((#) ch)) (scan_str q r)"
proof -
  consider "ch = q \<or> ch = backslash" | "ch = CHR 0x09" | "ch = CHR 0x0A" | "ch = CHR 0x0D"
    | "ch \<noteq> q" "ch \<noteq> backslash" "ch \<noteq> CHR 0x09" "ch \<noteq> CHR 0x0A" "ch \<noteq> CHR 0x0D"
    by blast
  then show ?thesis
  proof cases
    case 1
    with assms show ?thesis by (simp add: repr_char_def scan_str_escaped)
  next
    case 2
    with assms show ?thesis
      by (simp add: repr_char_def scan_str_letter) (auto simp: is_quote_def backslash_def)
  next
    case 3
    with assms show ?thesis
      by (simp add: repr_char_def scan_str_letter) (auto simp: is_quote_def backslash_def)
  next
    case 4
    with assms show ?thesis
      by (simp add: repr_char_def scan_str_letter) (auto simp: is_quote_def backslash_def)
  next
    case 5
    with assms show ?thesis by (simp add: repr_char_def scan_str_plain scan_str_hex)
  qed
qed

lemma scan_str_body:
  "is_quote q \<Longrightarrow> scan_str q (concat (map (repr_char q) s) @ q # r) = Some (s, r)"
  by (induction s) (simp_all add: scan_str_repr_char)

text \<open>A representation is read back to the end of the string it renders, whatever follows.\<close>

lemma scan_str_repr:
  "\<exists>q body. py_repr_str s @ r = q # body \<and> is_quote q \<and> scan_str q body = Some (s, r)"
  by (simp add: py_repr_str_def Let_def scan_str_body)

lemma py_unrepr_repr: "py_unrepr (py_repr_str s) = Some s"
  using scan_str_repr [of s "[]"] by (auto simp: py_unrepr_def)

lemma py_repr_str_inject: "py_repr_str s = py_repr_str t \<Longrightarrow> s = t"
  by (metis py_unrepr_repr option.inject)

section \<open>What a representation consists of\<close>

lemma printable_repr_char:
  "is_quote q \<Longrightarrow> list_all py_isprintable (repr_char q ch)"
  by (auto simp: repr_char_def hex2_def printable_hex_digit of_char_div_16)
     (simp_all add: py_isprintable_def backslash_def)

lemma printable_repr_str: "list_all py_isprintable (py_repr_str s)"
  using printable_repr_char [of "repr_quote s"]
  by (auto simp: py_repr_str_def Let_def list_all_iff)

lemma py_repr_str_Cons: "\<exists>q body. py_repr_str s = q # body \<and> is_quote q"
  by (simp add: py_repr_str_def Let_def)

lemma length_repr_str: "2 \<le> length (py_repr_str s)"
  by (simp add: py_repr_str_def Let_def)

text \<open>
  A string without quote, backslash and unprintable character is written as it is,
  between single quotes.
\<close>

definition plain_char :: "char \<Rightarrow> bool" where
  "plain_char ch \<longleftrightarrow> py_isprintable ch \<and> ch \<noteq> CHR 0x27 \<and> ch \<noteq> backslash"

lemma py_repr_str_plain:
  assumes "list_all plain_char s"
  shows "py_repr_str s = CHR 0x27 # s @ [CHR 0x27]"
proof -
  from assms have "CHR 0x27 \<notin> set s"
    by (auto simp: list_all_iff plain_char_def)
  then have q: "repr_quote s = CHR 0x27"
    by (simp add: repr_quote_def)
  have "concat (map (repr_char (CHR 0x27)) s) = s"
    using assms
    by (induction s) (auto simp: repr_char_def plain_char_def py_isprintable_def)
  with q show ?thesis by (simp add: py_repr_str_def Let_def)
qed

section \<open>The round trip of an integer\<close>

lemma digit_cases: "d < 10 \<Longrightarrow> d \<in> set [0..<10]"
  by simp

lemma is_digit_digit_char [simp]: "d < 10 \<Longrightarrow> is_digit (digit_char d)"
  by (drule digit_cases) (auto simp: upt_rec is_digit_def digit_char_def)

lemma of_char_digit_char [simp]: "d < 10 \<Longrightarrow> (of_char (digit_char d) :: nat) = 48 + d"
  by (drule digit_cases) (auto simp: upt_rec digit_char_def)

lemma digits10_less [simp]: "n < 10 \<Longrightarrow> digits10 n = [digit_char n]"
  by (simp add: digits10.simps)

lemma digits10_not_Nil [simp]: "digits10 n \<noteq> []"
  by (subst digits10.simps) simp

lemma digits10_digits [simp]: "list_all is_digit (digits10 n)"
  by (induction n rule: digits10.induct) (subst digits10.simps, simp)

lemma nat_of_digits_snoc [simp]:
  "nat_of_digits (ds @ [ch]) = 10 * nat_of_digits ds + (of_char ch - 48)"
  by (simp add: nat_of_digits_def)

lemma nat_of_digits10 [simp]: "nat_of_digits (digits10 n) = n"
proof (induction n rule: digits10.induct)
  case (1 n)
  show ?case
  proof (cases "n < 10")
    case True
    then show ?thesis by (simp add: nat_of_digits_def)
  next
    case False
    with 1 show ?thesis by (subst digits10.simps) simp
  qed
qed

lemma minus_not_digit [simp]: "\<not> is_digit (CHR ''-'')"
  by (simp add: is_digit_def)

lemma hd_digits10: "hd (digits10 n) \<noteq> CHR ''-''"
proof -
  have "list_all is_digit (digits10 n)" by simp
  then have "is_digit (hd (digits10 n))" by (cases "digits10 n") simp_all
  then show ?thesis by auto
qed

lemma py_int_str: "py_int (py_str_int i) = Some i"
proof (cases "i < 0")
  case True
  then show ?thesis by (simp add: py_int_def py_str_int_def)
next
  case False
  obtain c ds where ds: "digits10 (nat i) = c # ds" by (cases "digits10 (nat i)") simp_all
  with hd_digits10 [of "nat i"] have "c \<noteq> CHR ''-''" by simp
  moreover from ds have "list_all is_digit (c # ds)" "nat_of_digits (c # ds) = nat i"
    by (metis digits10_digits, metis nat_of_digits10)
  ultimately show ?thesis using False ds by (simp add: py_int_def py_str_int_def)
qed

lemma py_str_int_inject: "py_str_int i = py_str_int j \<Longrightarrow> i = j"
  by (metis py_int_str option.inject)

lemma py_str_int_examples:
  "py_str_int 0 = ''0''" "py_str_int 42 = ''42''" "py_str_int (- 1203) = ''-1203''"
  by (simp_all add: py_str_int_def digits10.simps digit_char_def)


lemma py_str_int_not_Nil [simp]: "py_str_int i \<noteq> []"
  by (simp add: py_str_int_def)

end
