(* ===== verification/PyValue.thy ===== *)
theory PyValue
  imports PyStr
begin

text \<open>
  The values the handlers receive, and the Python built-ins the handlers apply to them.

  The platform hands a handler JSON-shaped values: \<open>pyval\<close> has \<^verbatim>\<open>None\<close>,
  \<^verbatim>\<open>bool\<close>, \<^verbatim>\<open>int\<close>, \<^verbatim>\<open>str\<close> and \<^verbatim>\<open>dict\<close> with string keys.  A dict is an
  association list, because \<^verbatim>\<open>dict.values()\<close> iterates in insertion order and the
  derived identifier depends on that order.  Lists and floats are outside the universe.

  The handlers' parameters carry type hints only; nothing checks them at run time.  So
  every built-in is total on \<open>pyval\<close> and returns \<open>py_exn + 'a\<close>: where CPython
  raises, the model returns the exception with CPython's message (the message is part of
  the handlers' output, \<^verbatim>\<open>f"Exception - {ex}"\<close>).
\<close>

section \<open>Values and exceptions\<close>

datatype pyval =
    PNone
  | PBool bool
  | PInt int
  | PStr string
  | PDict "(string \<times> pyval) list"

datatype py_exn =
    TypeError string
  | AttributeError string
  | IndexError string
  | KeyError string
  | ValueError string
  | LibraryError string

type_synonym 'a result = "py_exn + 'a"

fun type_name :: "pyval \<Rightarrow> string" where
  "type_name PNone = ''NoneType''"
| "type_name (PBool b) = ''bool''"
| "type_name (PInt i) = ''int''"
| "type_name (PStr s) = ''str''"
| "type_name (PDict kvs) = ''dict''"

definition squote :: "string \<Rightarrow> string" where
  "squote s = CHR 0x27 # s @ [CHR 0x27]"

definition dquote :: "string \<Rightarrow> string" where
  "dquote s = CHR 0x22 # s @ [CHR 0x22]"

text \<open>
  \<^verbatim>\<open>str(ex)\<close>: the message; a \<^verbatim>\<open>KeyError\<close> prints the \<^verbatim>\<open>repr\<close> of its key.
  \<open>LibraryError\<close> stands for any exception that a library the sources call (the
  secret manager, the Spark session) raises of its own.
\<close>

fun exn_str :: "py_exn \<Rightarrow> string" where
  "exn_str (TypeError m) = m"
| "exn_str (AttributeError m) = m"
| "exn_str (IndexError m) = m"
| "exn_str (KeyError k) = py_repr_str k"
| "exn_str (ValueError m) = m"
| "exn_str (LibraryError m) = m"

section \<open>The exceptions of the built-ins\<close>

text \<open>What CPython raises, with its message, by the operation that fails.\<close>

definition no_attribute_error :: "pyval \<Rightarrow> string \<Rightarrow> py_exn" where
  "no_attribute_error v a =
     AttributeError (squote (type_name v) @ '' object has no attribute '' @ squote a)"

definition concat_error :: "pyval \<Rightarrow> py_exn" where
  "concat_error v =
     TypeError (''can only concatenate str (not '' @ dquote (type_name v) @ '') to str'')"

definition iadd_error :: "pyval \<Rightarrow> py_exn" where
  "iadd_error d =
     TypeError (''unsupported operand type(s) for +=: '' @ squote (type_name d)
       @ '' and '' @ squote ''str'')"

definition no_len_error :: "pyval \<Rightarrow> py_exn" where
  "no_len_error v = TypeError (''object of type '' @ squote (type_name v) @ '' has no len()'')"

lemmas exn_defs = no_attribute_error_def concat_error_def iadd_error_def no_len_error_def
  squote_def dquote_def

section \<open>Built-ins\<close>

text \<open>\<^verbatim>\<open>d.values()\<close>: only a dict has the attribute.\<close>

definition py_values :: "pyval \<Rightarrow> pyval list result" where
  "py_values d =
     (case d of
        PDict kvs \<Rightarrow> Inr (map snd kvs)
      | _ \<Rightarrow> Inl (no_attribute_error d ''values''))"

text \<open>\<^verbatim>\<open>s + v\<close> for a string \<open>s\<close>: concatenation, defined for strings only.\<close>

definition py_str_add :: "string \<Rightarrow> pyval \<Rightarrow> string result" where
  "py_str_add s v = (case v of PStr t \<Rightarrow> Inr (s @ t) | _ \<Rightarrow> Inl (concat_error v))"

text \<open>
  \<^verbatim>\<open>d += s\<close> for a string \<open>s\<close>: none of the types of \<open>pyval\<close> has an in-place
  addition, so it is \<^verbatim>\<open>d = d + s\<close>, defined when \<open>d\<close> is a string.
\<close>

definition py_iadd_str :: "pyval \<Rightarrow> string \<Rightarrow> pyval result" where
  "py_iadd_str d s = (case d of PStr t \<Rightarrow> Inr (PStr (t @ s)) | _ \<Rightarrow> Inl (iadd_error d))"

text \<open>\<^verbatim>\<open>len(v)\<close>: the number of characters of a string, of entries of a dict.\<close>

definition py_len :: "pyval \<Rightarrow> int result" where
  "py_len v =
     (case v of
        PStr s \<Rightarrow> Inr (int (length s))
      | PDict kvs \<Rightarrow> Inr (int (length kvs))
      | _ \<Rightarrow> Inl (no_len_error v))"

section \<open>Lists and ranges\<close>

text \<open>
  Lists occur in the sources as lists of strings only (the array a Spark
  \<^verbatim>\<open>split\<close> produces, the \<^verbatim>\<open>readUris\<close> of the reducer), so they are HOL lists and
  not values of \<open>pyval\<close>; a list that may be \<^verbatim>\<open>None\<close> is an \<open>option\<close>.
  \<open>py_index\<close> is \<^verbatim>\<open>xs[i]\<close> for an index that is not negative, \<open>py_len_list\<close> is
  \<^verbatim>\<open>len(xs)\<close>, and \<open>py_range\<close> is \<^verbatim>\<open>range(start, stop, step)\<close> for a positive
  step, as the list of its elements.
\<close>

definition py_index :: "'a list \<Rightarrow> nat \<Rightarrow> 'a result" where
  "py_index xs i = (if i < length xs then Inr (xs ! i) else Inl (IndexError ''list index out of range''))"

definition py_len_list :: "'a list option \<Rightarrow> nat result" where
  "py_len_list xs = (case xs of None \<Rightarrow> Inl (no_len_error PNone) | Some ys \<Rightarrow> Inr (length ys))"

definition py_range :: "nat \<Rightarrow> nat \<Rightarrow> nat \<Rightarrow> nat list" where
  "py_range start stop step =
     map (\<lambda>k. start + k * step) [0..<(stop - start + (step - 1)) div step]"

section \<open>Well-formed values\<close>

text \<open>A Python dict holds each key once; so does every dict inside it.\<close>

fun wf_pyval :: "pyval \<Rightarrow> bool" where
  "wf_pyval (PDict kvs) = (distinct (map fst kvs) \<and> list_all (\<lambda>kv. wf_pyval (snd kv)) kvs)"
| "wf_pyval v = True"

text \<open>The values that a key mapping of strings has.\<close>

definition is_str :: "pyval \<Rightarrow> bool" where
  "is_str v = (case v of PStr s \<Rightarrow> True | _ \<Rightarrow> False)"

fun the_str :: "pyval \<Rightarrow> string" where
  "the_str (PStr s) = s"
| "the_str v = []"

section \<open>The built-ins, case by case\<close>

lemma is_str_simps [simp]:
  "is_str (PStr s)" "\<not> is_str PNone" "\<not> is_str (PBool b)" "\<not> is_str (PInt i)"
  "\<not> is_str (PDict kvs)"
  by (simp_all add: is_str_def)

lemma is_str_iff: "is_str v \<longleftrightarrow> (\<exists>s. v = PStr s)"
  by (cases v) simp_all

lemma PStr_the_str [simp]: "is_str v \<Longrightarrow> PStr (the_str v) = v"
  by (cases v) simp_all

lemma map_the_str_PStr [simp]: "map the_str (map PStr ss) = ss"
  by (induction ss) simp_all

lemma list_all_is_str_PStr [simp]: "list_all is_str (map PStr ss)"
  by (induction ss) simp_all

lemma PStr_the_str_iff: "PStr (the_str v) = v \<longleftrightarrow> is_str v"
  by (cases v) simp_all

lemma list_all_is_str_iff: "list_all is_str vs \<longleftrightarrow> map PStr (map the_str vs) = vs"
  by (induction vs) (simp_all add: PStr_the_str_iff)

lemma py_str_add_not_str: "\<not> is_str v \<Longrightarrow> py_str_add s v = Inl (concat_error v)"
  by (cases v) (simp_all add: py_str_add_def)

lemma py_iadd_str_not_str: "\<not> is_str d \<Longrightarrow> py_iadd_str d s = Inl (iadd_error d)"
  by (cases d) (simp_all add: py_iadd_str_def)

lemma py_values_PDict [simp, py_ops]: "py_values (PDict kvs) = Inr (map snd kvs)"
  by (simp add: py_values_def)

lemma py_values_Inr_iff: "py_values d = Inr vs \<longleftrightarrow> (\<exists>kvs. d = PDict kvs \<and> vs = map snd kvs)"
  by (cases d) (auto simp: py_values_def)

lemma py_values_raises:
  "py_values d = Inl e \<longleftrightarrow>
     (\<forall>kvs. d \<noteq> PDict kvs) \<and> e = no_attribute_error d ''values''"
  by (cases d) (auto simp: py_values_def)

lemma py_str_add_PStr [simp, py_ops]: "py_str_add s (PStr t) = Inr (s @ t)"
  by (simp add: py_str_add_def)

lemma py_str_add_Inr_iff: "py_str_add s v = Inr r \<longleftrightarrow> (\<exists>t. v = PStr t \<and> r = s @ t)"
  by (cases v) (auto simp: py_str_add_def)

lemma py_str_add_raises:
  "py_str_add s v = Inl e \<longleftrightarrow>
     \<not> is_str v \<and> e = concat_error v"
  by (cases v) (auto simp: py_str_add_def)

lemma py_iadd_str_PStr [simp, py_ops]: "py_iadd_str (PStr t) s = Inr (PStr (t @ s))"
  by (simp add: py_iadd_str_def)

lemma py_iadd_str_Inr_iff: "py_iadd_str d s = Inr r \<longleftrightarrow> (\<exists>t. d = PStr t \<and> r = PStr (t @ s))"
  by (cases d) (auto simp: py_iadd_str_def)

lemma py_iadd_str_raises:
  "py_iadd_str d s = Inl e \<longleftrightarrow>
     \<not> is_str d \<and> e = iadd_error d"
  by (cases d) (auto simp: py_iadd_str_def)

lemma py_len_simps [simp, py_ops]:
  "py_len (PStr s) = Inr (int (length s))"
  "py_len (PDict kvs) = Inr (int (length kvs))"
  by (simp_all add: py_len_def)

lemma py_len_Inr_iff:
  "py_len v = Inr n \<longleftrightarrow>
     (\<exists>s. v = PStr s \<and> n = int (length s)) \<or> (\<exists>kvs. v = PDict kvs \<and> n = int (length kvs))"
  by (cases v) (auto simp: py_len_def)

lemma py_len_nonneg: "py_len v = Inr n \<Longrightarrow> 0 \<le> n"
  by (auto simp: py_len_Inr_iff)

lemma py_len_raises:
  "py_len v = Inl e \<longleftrightarrow>
     (v = PNone \<or> (\<exists>b. v = PBool b) \<or> (\<exists>i. v = PInt i)) \<and> e = no_len_error v"
  by (cases v) (auto simp: py_len_def)

lemma wf_pyval_values: "wf_pyval (PDict kvs) \<Longrightarrow> list_all wf_pyval (map snd kvs)"
  by (simp add: list_all_iff)

lemma py_index_simps [simp, py_ops]:
  "i < length xs \<Longrightarrow> py_index xs i = Inr (xs ! i)"
  "length xs \<le> i \<Longrightarrow> py_index xs i = Inl (IndexError ''list index out of range'')"
  by (simp_all add: py_index_def)

lemma py_len_list_simps [simp, py_ops]:
  "py_len_list None = Inl (no_len_error PNone)"
  "py_len_list (Some ys) = Inr (length ys)"
  by (simp_all add: py_len_list_def)

lemma length_py_range: "length (py_range start stop step) = (stop - start + (step - 1)) div step"
  by (simp add: py_range_def)

lemma py_range_odd: "py_range 1 n 2 = map (\<lambda>k. 1 + 2 * k) [0..<n div 2]"
proof -
  have "(n - 1 + (2 - 1)) div 2 = n div 2" by (cases n) simp_all
  then show ?thesis by (simp add: py_range_def mult.commute)
qed

lemma py_range_odd_Suc [simp]: "py_range (Suc 0) n 2 = map (\<lambda>k. Suc (2 * k)) [0..<n div 2]"
  using py_range_odd [of n] by simp

lemma set_py_range_odd: "i \<in> set (py_range 1 n 2) \<Longrightarrow> i < n \<and> odd i"
  unfolding py_range_odd by auto

end
