(* ===== verification/PyEffects.thy ===== *)
theory PyEffects
  imports PyValue Uuid
begin

text \<open>
  What a handler does besides returning a value: it writes log records and it may draw a
  random UUID.  Both are effects on a \<open>world\<close>, threaded explicitly.  A computation
  \<open>'a py\<close> takes the world and returns the world it leaves with either a value or the
  exception it raised; unlike a transaction, a raise keeps the effects that happened
  before it (a record that was logged stays logged).

  \<^item> \<open>py_return\<close>, \<open>py_raise\<close>, \<open>py_bind\<close> and \<open>py_lift\<close> are the sequencing of
    statements; \<open>py_try\<close> is \<^verbatim>\<open>try: ... except Exception as ex: ...\<close>.  Every
    exception of \<open>py_exn\<close> is a subclass of \<^verbatim>\<open>Exception\<close>, so the handler of a
    \<open>py_try\<close> catches all of them.
  \<^item> \<open>logger_error\<close> and \<open>logger_debug\<close> append one record to the log, \<open>py_print\<close>
    one line to the standard output.  A formatted message is kept as the list of its
    parts (literal text and formatted values); theory \<open>LogLines\<close> renders it to text.
  \<^item> \<open>uuid4\<close> is \<^verbatim>\<open>str(uuid.uuid4())\<close>: it consumes the next 16 bytes of entropy.
  \<^item> \<open>py_mapM\<close> is a sequence of calls, each in the state the one before left.
  The sequencing is over any state: the Spark handlers use it over a cluster
  (theory \<open>SparkEngine\<close>), with computations of type \<open>('s, 'a) pym\<close>.
\<close>

section \<open>The world\<close>

datatype log_level = ERROR | DEBUG

datatype fpart = FLit string | FVal pyval | FExn py_exn | FArr "string list option"

record log_record =
  level :: log_level
  message :: "fpart list"

record world =
  logs :: "log_record list"
  stdout :: "fpart list list"
  urandom :: "nat \<Rightarrow> 128 word"
  draws :: nat

text \<open>
  Computations over a state \<open>'s\<close>; the readers run over the \<open>world\<close>, the Spark
  handlers over a cluster (theory \<open>SparkEngine\<close>).
\<close>

type_synonym ('s, 'a) pym = "'s \<Rightarrow> 'a result \<times> 's"

type_synonym 'a py = "(world, 'a) pym"

text \<open>A world to run examples in: an empty log and entropy that is all zero.\<close>

definition world0 :: world where
  "world0 = \<lparr>logs = [], stdout = [], urandom = (\<lambda>_. 0), draws = 0\<rparr>"

lemma world0_sel [simp]:
  "logs world0 = []" "stdout world0 = []" "urandom world0 n = 0" "draws world0 = 0"
  by (simp_all add: world0_def)

section \<open>Sequencing and exceptions\<close>

definition py_return :: "'a \<Rightarrow> ('s, 'a) pym" where
  "py_return x = (\<lambda>w. (Inr x, w))"

definition py_raise :: "py_exn \<Rightarrow> ('s, 'a) pym" where
  "py_raise e = (\<lambda>w. (Inl e, w))"

definition py_lift :: "'a result \<Rightarrow> ('s, 'a) pym" where
  "py_lift r = (\<lambda>w. (r, w))"

definition py_bind :: "('s, 'a) pym \<Rightarrow> ('a \<Rightarrow> ('s, 'b) pym) \<Rightarrow> ('s, 'b) pym" where
  "py_bind m f = (\<lambda>w. case m w of (Inl e, w') \<Rightarrow> (Inl e, w') | (Inr x, w') \<Rightarrow> f x w')"

definition py_try :: "('s, 'a) pym \<Rightarrow> (py_exn \<Rightarrow> ('s, 'a) pym) \<Rightarrow> ('s, 'a) pym" where
  "py_try m h = (\<lambda>w. case m w of (Inl e, w') \<Rightarrow> h e w' | (Inr x, w') \<Rightarrow> (Inr x, w'))"

section \<open>Primitive actions\<close>

definition logger_error :: "fpart list \<Rightarrow> unit py" where
  "logger_error msg = (\<lambda>w. (Inr (), w\<lparr>logs := logs w @ [\<lparr>level = ERROR, message = msg\<rparr>]\<rparr>))"

definition logger_debug :: "fpart list \<Rightarrow> unit py" where
  "logger_debug msg = (\<lambda>w. (Inr (), w\<lparr>logs := logs w @ [\<lparr>level = DEBUG, message = msg\<rparr>]\<rparr>))"

definition py_print :: "fpart list \<Rightarrow> unit py" where
  "py_print line = (\<lambda>w. (Inr (), w\<lparr>stdout := stdout w @ [line]\<rparr>))"

definition uuid4 :: "string py" where
  "uuid4 = (\<lambda>w. (Inr (uuid4_str (urandom w (draws w))), w\<lparr>draws := Suc (draws w)\<rparr>))"

section \<open>Rules\<close>

lemma py_bind_apply [py_simps]:
  "py_bind m f w = (case m w of (Inl e, w') \<Rightarrow> (Inl e, w') | (Inr x, w') \<Rightarrow> f x w')"
  by (simp add: py_bind_def)

lemma py_try_apply [py_simps]:
  "py_try m h w = (case m w of (Inl e, w') \<Rightarrow> h e w' | (Inr x, w') \<Rightarrow> (Inr x, w'))"
  by (simp add: py_try_def)

lemma py_return_apply [py_simps]: "py_return x w = (Inr x, w)"
  by (simp add: py_return_def)

lemma py_raise_apply [py_simps]: "py_raise e w = (Inl e, w)"
  by (simp add: py_raise_def)

lemma py_lift_apply [py_simps]: "py_lift r w = (r, w)"
  by (simp add: py_lift_def)

lemma logger_error_apply [py_simps]:
  "logger_error msg w = (Inr (), w\<lparr>logs := logs w @ [\<lparr>level = ERROR, message = msg\<rparr>]\<rparr>)"
  by (simp add: logger_error_def)

lemma logger_debug_apply [py_simps]:
  "logger_debug msg w = (Inr (), w\<lparr>logs := logs w @ [\<lparr>level = DEBUG, message = msg\<rparr>]\<rparr>)"
  by (simp add: logger_debug_def)

lemma py_print_apply [py_simps]:
  "py_print line w = (Inr (), w\<lparr>stdout := stdout w @ [line]\<rparr>)"
  by (simp add: py_print_def)

lemma uuid4_apply [py_simps]:
  "uuid4 w = (Inr (uuid4_str (urandom w (draws w))), w\<lparr>draws := Suc (draws w)\<rparr>)"
  by (simp add: uuid4_def)

text \<open>The monad laws.\<close>

lemma py_return_bind [simp]: "py_bind (py_return x) f = f x"
  by (rule ext) (simp add: py_simps)

lemma py_bind_return [simp]: "py_bind m py_return = m"
  by (rule ext) (simp add: py_simps split: prod.splits sum.splits)

lemma py_raise_bind [simp]: "py_bind (py_raise e) f = py_raise e"
  by (rule ext) (simp add: py_simps)

lemma py_bind_assoc: "py_bind (py_bind m f) g = py_bind m (\<lambda>x. py_bind (f x) g)"
  by (rule ext) (simp add: py_simps split: prod.splits sum.splits)

lemma py_lift_Inr [simp]: "py_lift (Inr x) = py_return x"
  by (rule ext) (simp add: py_simps)

lemma py_lift_Inl [simp]: "py_lift (Inl e) = py_raise e"
  by (rule ext) (simp add: py_simps)

lemma py_try_return [simp]: "py_try (py_return x) h = py_return x"
  by (rule ext) (simp add: py_simps)

lemma py_try_raise [simp]: "py_try (py_raise e) h = h e"
  by (rule ext) (simp add: py_simps)

section \<open>Computations that cannot raise\<close>

text \<open>
  \<open>returns m\<close>: from every world, \<open>m\<close> ends with a value.  A \<open>py_try\<close> returns as
  soon as its handler does, whatever its body: this is the containment argument of the
  handlers.
\<close>

definition returns :: "('s, 'a) pym \<Rightarrow> bool" where
  "returns m = (\<forall>w. \<exists>x w'. m w = (Inr x, w'))"

lemma returnsD: "returns m \<Longrightarrow> \<exists>x w'. m w = (Inr x, w')"
  by (simp add: returns_def)

lemma returns_return [simp, intro]: "returns (py_return x)"
  by (simp add: returns_def py_simps)

lemma returns_logger [simp, intro]: "returns (logger_error msg)" "returns (logger_debug msg)"
  by (simp_all add: returns_def py_simps)

lemma returns_print [simp, intro]: "returns (py_print line)"
  by (simp add: returns_def py_simps)

lemma returns_uuid4 [simp, intro]: "returns uuid4"
  by (simp add: returns_def py_simps)

lemma returns_bind [intro]:
  assumes "returns m" and "\<And>x. returns (f x)"
  shows "returns (py_bind m f)"
  unfolding returns_def
proof
  fix w
  from assms(1) obtain x w' where m: "m w = (Inr x, w')"
    by (blast dest: returnsD)
  from assms(2) obtain y w'' where "f x w' = (Inr y, w'')"
    by (blast dest: returnsD)
  with m show "\<exists>y w''. py_bind m f w = (Inr y, w'')"
    by (simp add: py_simps)
qed

lemma returns_try [intro]:
  assumes "\<And>e. returns (h e)"
  shows "returns (py_try m h)"
  unfolding returns_def
proof
  fix w
  obtain r w' where m: "m w = (r, w')" by (cases "m w")
  show "\<exists>x w''. py_try m h w = (Inr x, w'')"
  proof (cases r)
    case (Inl e)
    from assms obtain x w'' where "h e w' = (Inr x, w'')"
      by (blast dest: returnsD)
    with m Inl show ?thesis by (simp add: py_simps)
  next
    case (Inr x)
    with m show ?thesis by (simp add: py_simps)
  qed
qed

section \<open>A sequence of calls\<close>

text \<open>
  \<open>py_mapM f xs\<close> calls \<open>f\<close> on the elements of \<open>xs\<close> in order, each call in the
  state the one before left, and stops at the first that raises: the caller's loop
  \<^verbatim>\<open>[f(x) for x in xs]\<close>.  It is used to state what a run of calls of a handler does.
\<close>

fun py_mapM :: "('a \<Rightarrow> ('s, 'b) pym) \<Rightarrow> 'a list \<Rightarrow> ('s, 'b list) pym" where
  "py_mapM f [] = py_return []"
| "py_mapM f (x # xs) = py_bind (f x) (\<lambda>y. py_bind (py_mapM f xs) (\<lambda>ys. py_return (y # ys)))"

lemma returns_mapM [intro]: "(\<And>x. returns (f x)) \<Longrightarrow> returns (py_mapM f xs)"
  by (induction xs) auto

end
