(* ===== verification/Documents.thy ===== *)
theory Documents
  imports PyValue
begin

text \<open>
  The result contract of the readers.  The classes \<^verbatim>\<open>Document\<close>, \<^verbatim>\<open>ErrorDoc\<close>,
  \<^verbatim>\<open>SkipDoc\<close> and \<^verbatim>\<open>ParseDocumentResult\<close> belong to the platform's interface
  package; the handlers only construct them, positionally.  They are records here, with
  the fields the specification lists, and one positional constructor each that takes the
  arguments in the order of the handlers' calls.

  \<^item> \<open>document\<close>: type, identifier, tag, partition key, metadata mapping, payload.
  \<^item> \<open>diag_doc\<close>, the common shape of \<^verbatim>\<open>ErrorDoc\<close> and \<^verbatim>\<open>SkipDoc\<close>: identifier, reason
    code, partition key, two metadata mappings, two context mappings, reason text.
  \<^item> \<open>parse_result\<close>: the triple a handler returns (a reserved first field, the document
    and the status tag).
  The records are over a type \<open>'v\<close> of values, since the classes store what they are
  given: \<open>pyval\<close> for the readers of theories \<open>DynamoDBTableItemReader\<close> and
  \<open>DynamoDBStreamsRecordReader\<close>, values with references for the readers in full;
  \<open>map_result\<close> translates a result from the one to the other.
  \<^item> \<open>well_tagged\<close> is the outbound contract: the status tag names the variant of the
    document.  \<open>outcome_of\<close> abstracts a result to the three outcomes of the
    specification's data model.
\<close>

section \<open>The interface classes\<close>

datatype DocumentType = DocumentType_Document

record 'v document =
  doc_type :: DocumentType
  doc_id :: 'v
  doc_tag :: string
  doc_partition_key :: 'v
  doc_metadata :: 'v
  doc_payload :: 'v

record 'v diag_doc =
  diag_id :: 'v
  diag_code :: string
  diag_partition_key :: 'v
  diag_metadata :: 'v
  diag_key_values :: 'v
  diag_start_context :: 'v
  diag_end_context :: 'v
  diag_reason :: string

datatype 'v doc = Doc "'v document" | ErrDoc "'v diag_doc" | SkpDoc "'v diag_doc"

record 'v parse_result =
  reserved :: 'v
  parsed :: "'v doc"
  status :: string

definition Document ::
  "DocumentType \<Rightarrow> 'v \<Rightarrow> string \<Rightarrow> 'v \<Rightarrow> 'v \<Rightarrow> 'v \<Rightarrow> 'v doc" where
  "Document t i tag pk md kv =
     Doc \<lparr>doc_type = t, doc_id = i, doc_tag = tag, doc_partition_key = pk,
          doc_metadata = md, doc_payload = kv\<rparr>"

definition diag ::
  "'v \<Rightarrow> string \<Rightarrow> 'v \<Rightarrow> 'v \<Rightarrow> 'v \<Rightarrow> 'v \<Rightarrow> 'v \<Rightarrow> string \<Rightarrow> 'v diag_doc" where
  "diag i code pk md kv c1 c2 reason =
     \<lparr>diag_id = i, diag_code = code, diag_partition_key = pk, diag_metadata = md,
      diag_key_values = kv, diag_start_context = c1, diag_end_context = c2,
      diag_reason = reason\<rparr>"

definition ErrorDoc ::
  "'v \<Rightarrow> string \<Rightarrow> 'v \<Rightarrow> 'v \<Rightarrow> 'v \<Rightarrow> 'v \<Rightarrow> 'v \<Rightarrow> string \<Rightarrow> 'v doc" where
  "ErrorDoc i code pk md kv c1 c2 reason = ErrDoc (diag i code pk md kv c1 c2 reason)"

definition SkipDoc ::
  "'v \<Rightarrow> string \<Rightarrow> 'v \<Rightarrow> 'v \<Rightarrow> 'v \<Rightarrow> 'v \<Rightarrow> 'v \<Rightarrow> string \<Rightarrow> 'v doc" where
  "SkipDoc i code pk md kv c1 c2 reason = SkpDoc (diag i code pk md kv c1 c2 reason)"

definition ParseDocumentResult :: "'v \<Rightarrow> 'v doc \<Rightarrow> string \<Rightarrow> 'v parse_result" where
  "ParseDocumentResult r d s = \<lparr>reserved = r, parsed = d, status = s\<rparr>"

lemmas doc_defs = Document_def ErrorDoc_def SkipDoc_def diag_def ParseDocumentResult_def

section \<open>The outbound contract\<close>

fun doc_status :: "'v doc \<Rightarrow> string" where
  "doc_status (Doc d) = ''SUCCESS''"
| "doc_status (ErrDoc d) = ''ERROR''"
| "doc_status (SkpDoc d) = ''SKIP''"

definition well_tagged :: "'v parse_result \<Rightarrow> bool" where
  "well_tagged r = (status r = doc_status (parsed r))"

fun doc_identifier :: "'v doc \<Rightarrow> 'v" where
  "doc_identifier (Doc d) = doc_id d"
| "doc_identifier (ErrDoc d) = diag_id d"
| "doc_identifier (SkpDoc d) = diag_id d"

fun doc_partition :: "'v doc \<Rightarrow> 'v" where
  "doc_partition (Doc d) = doc_partition_key d"
| "doc_partition (ErrDoc d) = diag_partition_key d"
| "doc_partition (SkpDoc d) = diag_partition_key d"

section \<open>The three outcomes of the data model\<close>

datatype outcome =
    Success pyval pyval
  | Skip pyval string string
  | Error pyval string string

fun outcome_of_doc :: "pyval doc \<Rightarrow> outcome" where
  "outcome_of_doc (Doc d) = Success (doc_id d) (doc_payload d)"
| "outcome_of_doc (SkpDoc d) = Skip (diag_id d) (diag_code d) (diag_reason d)"
| "outcome_of_doc (ErrDoc d) = Error (diag_id d) (diag_code d) (diag_reason d)"

definition outcome_of :: "pyval parse_result \<Rightarrow> outcome" where
  "outcome_of r = outcome_of_doc (parsed r)"

section \<open>Selectors of the constructors\<close>

lemma ParseDocumentResult_sel [simp]:
  "reserved (ParseDocumentResult r d s) = r"
  "parsed (ParseDocumentResult r d s) = d"
  "status (ParseDocumentResult r d s) = s"
  by (simp_all add: ParseDocumentResult_def)

lemma doc_status_simps [simp]:
  "doc_status (Document t i tag pk md kv) = ''SUCCESS''"
  "doc_status (ErrorDoc i code pk md kv c1 c2 reason) = ''ERROR''"
  "doc_status (SkipDoc i code pk md kv c1 c2 reason) = ''SKIP''"
  by (simp_all add: doc_defs)

lemma doc_identifier_simps [simp]:
  "doc_identifier (Document t i tag pk md kv) = i"
  "doc_identifier (ErrorDoc i code pk md kv c1 c2 reason) = i"
  "doc_identifier (SkipDoc i code pk md kv c1 c2 reason) = i"
  by (simp_all add: doc_defs)

lemma doc_partition_simps [simp]:
  "doc_partition (Document t i tag pk md kv) = pk"
  "doc_partition (ErrorDoc i code pk md kv c1 c2 reason) = pk"
  "doc_partition (SkipDoc i code pk md kv c1 c2 reason) = pk"
  by (simp_all add: doc_defs)

lemma outcome_of_doc_simps [simp]:
  "outcome_of_doc (Document t i tag pk md kv) = Success i kv"
  "outcome_of_doc (ErrorDoc i code pk md kv c1 c2 reason) = Error i code reason"
  "outcome_of_doc (SkipDoc i code pk md kv c1 c2 reason) = Skip i code reason"
  by (simp_all add: doc_defs)

lemma constructors_distinct [simp]:
  "Document t i tag pk md kv \<noteq> ErrorDoc i' code pk' md' kv' c1 c2 reason"
  "Document t i tag pk md kv \<noteq> SkipDoc i' code pk' md' kv' c1 c2 reason"
  "ErrorDoc i code pk md kv c1 c2 reason \<noteq> SkipDoc i' code' pk' md' kv' c1' c2' reason'"
  by (simp_all add: doc_defs)

lemma well_tagged_ParseDocumentResult [simp]:
  "well_tagged (ParseDocumentResult r d s) \<longleftrightarrow> s = doc_status d"
  by (simp add: well_tagged_def)

lemma well_tagged_status:
  "well_tagged r \<Longrightarrow> status r = ''SUCCESS'' \<or> status r = ''ERROR'' \<or> status r = ''SKIP''"
  by (cases "parsed r") (simp_all add: well_tagged_def)

lemma well_tagged_SUCCESS_iff:
  "well_tagged r \<Longrightarrow> status r = ''SUCCESS'' \<longleftrightarrow> (\<exists>d. parsed r = Doc d)"
  by (cases "parsed r") (simp_all add: well_tagged_def)


section \<open>A result over other values\<close>

text \<open>
  The classes do not look at the values they are given, so a result is a container of
  them: \<open>map_result f\<close> applies \<open>f\<close> to every value a result holds.
\<close>

definition map_document :: "('a \<Rightarrow> 'b) \<Rightarrow> 'a document \<Rightarrow> 'b document" where
  "map_document f d =
     \<lparr>doc_type = doc_type d, doc_id = f (doc_id d), doc_tag = doc_tag d,
      doc_partition_key = f (doc_partition_key d), doc_metadata = f (doc_metadata d),
      doc_payload = f (doc_payload d)\<rparr>"

definition map_diag :: "('a \<Rightarrow> 'b) \<Rightarrow> 'a diag_doc \<Rightarrow> 'b diag_doc" where
  "map_diag f d =
     \<lparr>diag_id = f (diag_id d), diag_code = diag_code d,
      diag_partition_key = f (diag_partition_key d), diag_metadata = f (diag_metadata d),
      diag_key_values = f (diag_key_values d), diag_start_context = f (diag_start_context d),
      diag_end_context = f (diag_end_context d), diag_reason = diag_reason d\<rparr>"

fun map_doc :: "('a \<Rightarrow> 'b) \<Rightarrow> 'a doc \<Rightarrow> 'b doc" where
  "map_doc f (Doc d) = Doc (map_document f d)"
| "map_doc f (ErrDoc d) = ErrDoc (map_diag f d)"
| "map_doc f (SkpDoc d) = SkpDoc (map_diag f d)"

definition map_result :: "('a \<Rightarrow> 'b) \<Rightarrow> 'a parse_result \<Rightarrow> 'b parse_result" where
  "map_result f r = \<lparr>reserved = f (reserved r), parsed = map_doc f (parsed r), status = status r\<rparr>"

lemma map_doc_simps [simp]:
  "map_doc f (Document t i tag pk md kv) = Document t (f i) tag (f pk) (f md) (f kv)"
  "map_doc f (ErrorDoc i code pk md kv c1 c2 reason) =
     ErrorDoc (f i) code (f pk) (f md) (f kv) (f c1) (f c2) reason"
  "map_doc f (SkipDoc i code pk md kv c1 c2 reason) =
     SkipDoc (f i) code (f pk) (f md) (f kv) (f c1) (f c2) reason"
  by (simp_all add: doc_defs map_document_def map_diag_def)

lemma map_result_simps [simp]:
  "map_result f (ParseDocumentResult r d s) = ParseDocumentResult (f r) (map_doc f d) s"
  "status (map_result f r') = status r'"
  "parsed (map_result f r') = map_doc f (parsed r')"
  by (simp_all add: map_result_def ParseDocumentResult_def)

lemma doc_status_map_doc [simp]: "doc_status (map_doc f d) = doc_status d"
  by (cases d) simp_all

lemma well_tagged_map_result [simp]: "well_tagged (map_result f r) = well_tagged r"
  by (simp add: well_tagged_def)

lemma doc_identifier_map_doc [simp]: "doc_identifier (map_doc f d) = f (doc_identifier d)"
  by (cases d) (simp_all add: map_document_def map_diag_def)

end
