(* ===== verification/DocId.thy ===== *)
theory DocId
  imports PyValue
begin

text \<open>
  Identifier derivation: the loop that opens both readers,
  \<^verbatim>\<open>docId = None; for keyValue in keys.values(): ...\<close>.

  \<^item> \<open>docId_step\<close> is the loop body, \<open>docId_loop\<close> the loop over the values in
    iteration order with the variable \<open>docId\<close> as accumulator, \<open>derive_docId\<close>
    the loop after \<^verbatim>\<open>keys.values()\<close>.  Each returns the exception where Python raises.
  \<^item> For a key mapping whose values are strings the identifier is the values joined by
    \<open>|\<close> (\<open>derive_docId_strs\<close>); it is \<^verbatim>\<open>None\<close> for an empty mapping.
  \<^item> \<open>docId_spec\<close> is the loop's closed form on every list of values
    (\<open>docId_loop_spec\<close>): values that are \<^verbatim>\<open>None\<close> are passed over while
    \<open>docId\<close> is \<^verbatim>\<open>None\<close>; after the first other value every value, that one
    included when another follows, must be a string.
  \<^item> The identifier determines the key values when no value contains the separator
    (\<open>derive_docId_inject\<close>), and not otherwise.
\<close>

section \<open>The loop\<close>

definition docId_step :: "pyval \<Rightarrow> pyval \<Rightarrow> pyval result" where
  "docId_step docId keyValue =
     (if docId = PNone then Inr keyValue
      else sum_bind (py_str_add ''|'' keyValue) (py_iadd_str docId))"

fun docId_loop :: "pyval \<Rightarrow> pyval list \<Rightarrow> pyval result" where
  "docId_loop docId [] = Inr docId"
| "docId_loop docId (keyValue # rest) =
     sum_bind (docId_step docId keyValue) (\<lambda>docId'. docId_loop docId' rest)"

definition derive_docId :: "pyval \<Rightarrow> pyval result" where
  "derive_docId keys = sum_bind (py_values keys) (docId_loop PNone)"

section \<open>The loop without the loop\<close>

text \<open>
  \<open>first_fault v ws\<close>: the exception of the loop when \<open>docId\<close> has taken the value
  \<open>v\<close> and the values \<open>ws\<close> follow.  The right operand of \<^verbatim>\<open>+=\<close> is evaluated
  first, so a value that is not a string is reported before a \<open>docId\<close> that is not.
\<close>

definition first_fault :: "pyval \<Rightarrow> pyval list \<Rightarrow> py_exn option" where
  "first_fault v ws =
     (case ws of
        [] \<Rightarrow> None
      | w # ws' \<Rightarrow>
          if \<not> is_str w then Some (concat_error w)
          else if \<not> is_str v then Some (iadd_error v)
          else map_option concat_error (find (\<lambda>x. \<not> is_str x) ws'))"

definition docId_spec :: "pyval list \<Rightarrow> pyval result" where
  "docId_spec vs =
     (case dropWhile (\<lambda>v. v = PNone) vs of
        [] \<Rightarrow> Inr PNone
      | v # ws \<Rightarrow>
          (case first_fault v ws of
             Some e \<Rightarrow> Inl e
           | None \<Rightarrow> if ws = [] then Inr v else Inr (PStr (join ''|'' (map the_str (v # ws))))))"

section \<open>One step\<close>

lemma docId_step_None [simp]: "docId_step PNone v = Inr v"
  by (simp add: docId_step_def)

lemma docId_step_PStr [simp]: "docId_step (PStr a) (PStr b) = Inr (PStr (a @ ''|'' @ b))"
  by (simp add: docId_step_def)

lemma docId_step_Inr_iff:
  "docId_step d v = Inr r \<longleftrightarrow>
     (d = PNone \<and> r = v) \<or> (\<exists>a b. d = PStr a \<and> v = PStr b \<and> r = PStr (a @ ''|'' @ b))"
  by (auto simp: docId_step_def sum_bind_Inr_iff py_str_add_Inr_iff py_iadd_str_Inr_iff)

lemma docId_step_raises_iff:
  "(\<exists>e. docId_step d v = Inl e) \<longleftrightarrow> d \<noteq> PNone \<and> \<not> (is_str d \<and> is_str v)"
proof (cases "docId_step d v")
  case (Inl e)
  then have "\<not> ((d = PNone) \<or> (\<exists>a b. d = PStr a \<and> v = PStr b))"
    by (auto simp: docId_step_def)
  with Inl show ?thesis by (auto simp: is_str_iff)
next
  case (Inr r)
  then show ?thesis by (auto simp: docId_step_Inr_iff)
qed

text \<open>The exception names the first operand that is not a string: the value, then \<open>docId\<close>.\<close>

lemma docId_step_raises_value:
  "d \<noteq> PNone \<Longrightarrow> \<not> is_str v \<Longrightarrow> docId_step d v = Inl (concat_error v)"
  by (simp add: docId_step_def py_str_add_not_str)

lemma docId_step_raises_docId:
  "d \<noteq> PNone \<Longrightarrow> \<not> is_str d \<Longrightarrow> is_str v \<Longrightarrow> docId_step d v = Inl (iadd_error d)"
  by (auto simp: docId_step_def is_str_iff [of v] py_iadd_str_not_str)

section \<open>The whole loop\<close>

lemma docId_loop_append:
  "docId_loop d (xs @ ys) = sum_bind (docId_loop d xs) (\<lambda>d'. docId_loop d' ys)"
  by (induction xs arbitrary: d) (simp_all add: sum_bind_assoc)

lemma docId_loop_from_str:
  "docId_loop (PStr a) ws =
     (case find (\<lambda>x. \<not> is_str x) ws of
        Some x \<Rightarrow> Inl (concat_error x)
      | None \<Rightarrow> Inr (PStr (join ''|'' (a # map the_str ws))))"
proof (induction ws arbitrary: a)
  case Nil
  show ?case by simp
next
  case (Cons w ws)
  show ?case
  proof (cases "is_str w")
    case True
    then obtain b where w: "w = PStr b" by (auto simp: is_str_iff)
    have "docId_loop (PStr a) (w # ws) = docId_loop (PStr (a @ ''|'' @ b)) ws"
      by (simp add: w)
    also have "\<dots> =
        (case find (\<lambda>x. \<not> is_str x) ws of
           Some x \<Rightarrow> Inl (concat_error x)
         | None \<Rightarrow> Inr (PStr (join ''|'' ((a @ ''|'' @ b) # map the_str ws))))"
      by (rule Cons.IH)
    also have "join ''|'' ((a @ ''|'' @ b) # map the_str ws) = join ''|'' (a # map the_str (w # ws))"
      by (simp only: join_merge w list.map the_str.simps)
    finally show ?thesis by (simp add: w)
  next
    case False
    then show ?thesis by (simp add: docId_step_raises_value)
  qed
qed

lemma docId_loop_dropWhile:
  "docId_loop PNone vs = docId_loop PNone (dropWhile (\<lambda>v. v = PNone) vs)"
  by (induction vs) simp_all

lemma docId_loop_first:
  assumes "v \<noteq> PNone"
  shows "docId_loop PNone (v # ws) =
     (case first_fault v ws of
        Some e \<Rightarrow> Inl e
      | None \<Rightarrow> if ws = [] then Inr v else Inr (PStr (join ''|'' (map the_str (v # ws)))))"
proof (cases ws)
  case Nil
  then show ?thesis by (simp add: first_fault_def)
next
  case (Cons w ws')
  consider (bad_value) "\<not> is_str w" | (bad_docId) "is_str w" "\<not> is_str v"
    | (strs) "is_str w" "is_str v"
    by blast
  then show ?thesis
  proof cases
    case bad_value
    with assms Cons show ?thesis
      by (simp add: first_fault_def docId_step_raises_value)
  next
    case bad_docId
    with assms Cons show ?thesis
      by (simp add: first_fault_def docId_step_raises_docId)
  next
    case strs
    then obtain a b where "v = PStr a" "w = PStr b" by (auto simp: is_str_iff)
    with Cons show ?thesis
      by (simp add: first_fault_def docId_loop_from_str join_merge_char split: option.splits)
  qed
qed

lemma docId_loop_spec: "docId_loop PNone vs = docId_spec vs"
proof -
  have loop: "docId_loop PNone vs = docId_loop PNone (dropWhile (\<lambda>v. v = PNone) vs)"
    by (rule docId_loop_dropWhile)
  show ?thesis
  proof (cases "dropWhile (\<lambda>v. v = PNone) vs")
    case Nil
    have "docId_spec vs = Inr PNone"
      unfolding docId_spec_def Nil by simp
    moreover from loop have "docId_loop PNone vs = Inr PNone"
      unfolding Nil by simp
    ultimately show ?thesis by simp
  next
    case (Cons v ws)
    then have "v \<noteq> PNone"
      using hd_dropWhile [of "\<lambda>v. v = PNone" vs] by auto
    then have "docId_loop PNone (v # ws) = docId_spec vs"
      unfolding docId_spec_def Cons list.case by (rule docId_loop_first)
    with loop show ?thesis
      unfolding Cons by simp
  qed
qed

lemma docId_loop_PStr:
  "docId_loop (PStr a) (map PStr ss) = Inr (PStr (join ''|'' (a # ss)))"
proof (induction ss arbitrary: a)
  case Nil
  show ?case by simp
next
  case (Cons s ss)
  have "docId_loop (PStr a) (map PStr (s # ss)) = docId_loop (PStr (a @ ''|'' @ s)) (map PStr ss)"
    by simp
  also have "\<dots> = Inr (PStr (join ''|'' ((a @ ''|'' @ s) # ss)))"
    by (rule Cons.IH)
  also have "join ''|'' ((a @ ''|'' @ s) # ss) = join ''|'' (a # s # ss)"
    by (cases ss) simp_all
  finally show ?case .
qed

lemma docId_loop_strs:
  "ss \<noteq> [] \<Longrightarrow> docId_loop PNone (map PStr ss) = Inr (PStr (join ''|'' ss))"
  by (cases ss) (simp_all add: docId_loop_PStr)

lemma docId_loop_skip_None: "docId_loop PNone (replicate n PNone @ vs) = docId_loop PNone vs"
  by (induction n) simp_all

section \<open>What the derivation promises\<close>

lemma derive_docId_PDict: "derive_docId (PDict kvs) = docId_loop PNone (map snd kvs)"
  by (simp add: derive_docId_def)

lemma derive_docId_empty: "derive_docId (PDict []) = Inr PNone"
  by (simp add: derive_docId_def)

text \<open>
  For a key mapping whose values are strings, at least one, the derived
  identifier is the string of the values joined by \<open>|\<close>, in the mapping's iteration
  order.
\<close>

theorem derive_docId_strs:
  assumes "map snd kvs = map PStr ss" and "ss \<noteq> []"
  shows "derive_docId (PDict kvs) = Inr (PStr (join ''|'' ss))"
  using assms by (simp add: derive_docId_PDict docId_loop_strs)

theorem derive_docId_strs_witness:
  "derive_docId (PDict [(''pk'', PStr ''A''), (''sk'', PStr ''B''), (''ts'', PStr ''7'')]) =
     Inr (PStr ''A|B|7'')"
  using derive_docId_strs
    [of "[(''pk'', PStr ''A''), (''sk'', PStr ''B''), (''ts'', PStr ''7'')]" "[''A'', ''B'', ''7'']"]
  by simp

text \<open>
  Claim C36.  On every argument the derivation equals its closed form: an
  \<^verbatim>\<open>AttributeError\<close> for a value that is not a dict; for a dict, \<^verbatim>\<open>None\<close> when every
  value is \<^verbatim>\<open>None\<close>, the single value left after the leading \<^verbatim>\<open>None\<close>s whatever its
  type, the join of the values when all of them are strings, and otherwise the
  \<^verbatim>\<open>TypeError\<close> of the first operand that is not a string.
\<close>

theorem derive_docId_closed_form:
  "derive_docId keys =
     (case keys of
        PDict kvs \<Rightarrow> docId_spec (map snd kvs)
      | _ \<Rightarrow> Inl (no_attribute_error keys ''values''))"
  by (cases keys) (simp_all add: derive_docId_def py_values_def docId_loop_spec)

text \<open>
  Claim C37.  The identifier determines the key values, read in order, as long as no
  value contains the separator: two non-empty key mappings with string values free of
  \<open>|\<close> that derive the same identifier have the same values, and splitting the
  identifier at \<open>|\<close> gives them back.
\<close>

theorem derive_docId_inject:
  assumes "map snd kvs = map PStr ss" and "map snd kvs' = map PStr ss'"
    and "ss \<noteq> []" and "ss' \<noteq> []"
    and "list_all (\<lambda>s. CHR ''|'' \<notin> set s) ss" and "list_all (\<lambda>s. CHR ''|'' \<notin> set s) ss'"
    and "derive_docId (PDict kvs) = derive_docId (PDict kvs')"
  shows "ss = ss' \<and> derive_docId (PDict kvs) = Inr (PStr (join ''|'' ss))
           \<and> split_on (CHR ''|'') (join ''|'' ss) = ss"
proof -
  have id: "derive_docId (PDict kvs) = Inr (PStr (join ''|'' ss))"
    using assms(1,3) by (simp add: derive_docId_PDict docId_loop_strs)
  have "derive_docId (PDict kvs') = Inr (PStr (join ''|'' ss'))"
    using assms(2,4) by (simp add: derive_docId_PDict docId_loop_strs)
  with id assms(7) have "join ''|'' ss = join ''|'' ss'" by simp
  with assms(3-6) have "ss = ss'" by (rule join_inject)
  moreover from assms(3,5) have "split_on (CHR ''|'') (join ''|'' ss) = ss"
    by (rule split_on_join)
  ultimately show ?thesis using id by simp
qed

theorem derive_docId_inject_witness:
  "[''A'', ''B''] = [''A'', ''B''] \<and>
   derive_docId (PDict [(''pk'', PStr ''A''), (''sk'', PStr ''B'')]) = Inr (PStr ''A|B'') \<and>
   split_on (CHR ''|'') ''A|B'' = [''A'', ''B'']"
  using derive_docId_inject
    [of "[(''pk'', PStr ''A''), (''sk'', PStr ''B'')]" "[''A'', ''B'']"
        "[(''hash'', PStr ''A''), (''range'', PStr ''B'')]" "[''A'', ''B'']"]
  by (simp add: derive_docId_PDict)

text \<open>
  Without that condition the identifier is ambiguous: the key values
  \<open>a|b\<close>, \<open>c\<close> and the key values \<open>a\<close>, \<open>b|c\<close> derive the same identifier.
\<close>

theorem derive_docId_collision:
  "derive_docId (PDict [(''pk'', PStr ''a|b''), (''sk'', PStr ''c'')]) =
   derive_docId (PDict [(''pk'', PStr ''a''), (''sk'', PStr ''b|c'')]) \<and>
   derive_docId (PDict [(''pk'', PStr ''a|b''), (''sk'', PStr ''c'')]) = Inr (PStr ''a|b|c'')"
  by (simp add: derive_docId_PDict)

end
