(* ===== verification/PayloadGuard.thy ===== *)
theory PayloadGuard
  imports PyValue
begin

text \<open>
  The guard both readers apply to the payload before they classify the record:
  \<^verbatim>\<open>item is None or len(item) <= 0\<close>.  The \<^verbatim>\<open>or\<close> is evaluated left to right and
  stops at the first true operand, so \<^verbatim>\<open>len\<close> is never applied to \<^verbatim>\<open>None\<close>; it is
  applied to every other value, and raises for a value that has no length.
\<close>

definition payload_missing :: "pyval \<Rightarrow> bool result" where
  "payload_missing item =
     (if item = PNone then Inr True
      else sum_bind (py_len item) (\<lambda>n. Inr (n \<le> 0)))"

lemma payload_missing_simps [simp]:
  "payload_missing PNone = Inr True"
  "payload_missing (PDict kvs) = Inr (kvs = [])"
  "payload_missing (PStr s) = Inr (s = [])"
  "payload_missing (PBool b) = Inl (no_len_error (PBool b))"
  "payload_missing (PInt i) = Inl (no_len_error (PInt i))"
  by (simp_all add: payload_missing_def py_len_def)

lemma payload_missing_True_iff:
  "payload_missing item = Inr True \<longleftrightarrow> item = PNone \<or> item = PDict [] \<or> item = PStr []"
  by (cases item) auto

lemma payload_missing_False_iff:
  "payload_missing item = Inr False \<longleftrightarrow>
     (\<exists>kvs. item = PDict kvs \<and> kvs \<noteq> []) \<or> (\<exists>s. item = PStr s \<and> s \<noteq> [])"
  by (cases item) auto

lemma payload_missing_raises_iff:
  "payload_missing item = Inl e \<longleftrightarrow>
     ((\<exists>b. item = PBool b) \<or> (\<exists>i. item = PInt i)) \<and> e = no_len_error item"
  by (cases item) auto

end
