(* ===== verification/DynamoDBTableItemReader.thy ===== *)
theory DynamoDBTableItemReader
  imports PyEffects Documents DocId PayloadGuard
begin

text \<open>
  The table item reader: \<^verbatim>\<open>DynamoDBTableItemReader.parseDynamoDBItem\<close>.

  \<^item> \<open>parseDynamoDBItem_try\<close> is the body of the \<^verbatim>\<open>try\<close>: the identifier loop, the
    payload guard, and the two returns, each after its log call.
  \<^item> \<open>parseDynamoDBItem_except\<close> is the \<^verbatim>\<open>except Exception as ex\<close> block: a log
    call, a fresh UUID, an error document that carries the exception's message.
  \<^item> \<open>parseDynamoDBItem\<close> is the method: the one guarded by the other.
  The parameters are values of \<open>pyval\<close>: the type hints promise strings and dicts, and
  the \<^verbatim>\<open>except\<close> block is what the code does when they are something else.  A log
  call takes the parts of its f-string and formats nothing, so this is the method on
  arguments without lists in an interpreter that writes integers of any length; theory
  \<open>StoreTableReader\<close> has the method with a store of lists and with formatting as a
  step that can raise, and shows where the two agree.
\<close>

section \<open>The method\<close>

definition parseDynamoDBItem_try :: "pyval \<Rightarrow> pyval \<Rightarrow> pyval \<Rightarrow> pyval \<Rightarrow> pyval parse_result py" where
  "parseDynamoDBItem_try tableName segmentNumber keys item =
     py_bind (py_lift (derive_docId keys)) (\<lambda>docId.
     py_bind (py_lift (payload_missing item)) (\<lambda>missing.
       if missing then
         py_bind (logger_error
           [FLit ''item is null, returning skip - tableName: '', FVal tableName,
            FLit '', segmentNumber: '', FVal segmentNumber, FLit '', keys: '', FVal keys]) (\<lambda>_.
         py_return (ParseDocumentResult PNone
           (ErrorDoc docId ''DDB_ERROR'' docId (PDict []) (PDict [])
              (PDict [(''keys'', keys)]) (PDict [(''keys'', keys)]) ''empty record'')
           ''ERROR''))
       else
         py_bind (logger_debug
           [FLit ''processing record, returning success - docId: '', FVal docId]) (\<lambda>_.
         py_return (ParseDocumentResult PNone
           (Document DocumentType_Document docId ''DOCUMENT'' docId (PDict []) item)
           ''SUCCESS''))))"

definition parseDynamoDBItem_except ::
  "pyval \<Rightarrow> pyval \<Rightarrow> pyval \<Rightarrow> pyval \<Rightarrow> py_exn \<Rightarrow> pyval parse_result py" where
  "parseDynamoDBItem_except tableName segmentNumber keys item ex =
     py_bind (logger_debug
       [FLit ''Exception in reading the document - tableName: '', FVal tableName,
        FLit '', segmentNumber: '', FVal segmentNumber, FLit '', keys: '', FVal keys,
        FLit '', ex: '', FExn ex]) (\<lambda>_.
     py_bind uuid4 (\<lambda>docIdUUID.
     py_return (ParseDocumentResult PNone
       (ErrorDoc (PStr docIdUUID) ''DDB_ERROR'' (PStr docIdUUID) (PDict []) (PDict [])
          (PDict [(''keys'', keys)]) (PDict [(''keys'', keys)])
          (''Exception - '' @ exn_str ex))
       ''ERROR'')))"

definition parseDynamoDBItem :: "pyval \<Rightarrow> pyval \<Rightarrow> pyval \<Rightarrow> pyval \<Rightarrow> pyval parse_result py" where
  "parseDynamoDBItem tableName segmentNumber keys item =
     py_try (parseDynamoDBItem_try tableName segmentNumber keys item)
            (parseDynamoDBItem_except tableName segmentNumber keys item)"

lemmas parseDynamoDBItem_defs [handler_defs] =
  parseDynamoDBItem_def parseDynamoDBItem_try_def parseDynamoDBItem_except_def

section \<open>The three ways through the method\<close>

text \<open>The log records of the three branches, and the documents they return.\<close>

definition ddb_empty_log :: "pyval \<Rightarrow> pyval \<Rightarrow> pyval \<Rightarrow> log_record" where
  "ddb_empty_log tableName segmentNumber keys =
     \<lparr>level = ERROR, message =
        [FLit ''item is null, returning skip - tableName: '', FVal tableName,
         FLit '', segmentNumber: '', FVal segmentNumber, FLit '', keys: '', FVal keys]\<rparr>"

definition ddb_success_log :: "pyval \<Rightarrow> log_record" where
  "ddb_success_log docId =
     \<lparr>level = DEBUG, message =
        [FLit ''processing record, returning success - docId: '', FVal docId]\<rparr>"

definition ddb_exception_log :: "pyval \<Rightarrow> pyval \<Rightarrow> pyval \<Rightarrow> py_exn \<Rightarrow> log_record" where
  "ddb_exception_log tableName segmentNumber keys ex =
     \<lparr>level = DEBUG, message =
        [FLit ''Exception in reading the document - tableName: '', FVal tableName,
         FLit '', segmentNumber: '', FVal segmentNumber, FLit '', keys: '', FVal keys,
         FLit '', ex: '', FExn ex]\<rparr>"

lemma parseDynamoDBItem_raised:
  assumes "derive_docId keys = Inl ex \<or>
           (\<exists>d. derive_docId keys = Inr d) \<and> payload_missing item = Inl ex"
  shows "parseDynamoDBItem tableName segmentNumber keys item w =
     (Inr (ParseDocumentResult PNone
        (ErrorDoc (PStr (uuid4_str (urandom w (draws w)))) ''DDB_ERROR''
           (PStr (uuid4_str (urandom w (draws w)))) (PDict []) (PDict [])
           (PDict [(''keys'', keys)]) (PDict [(''keys'', keys)])
           (''Exception - '' @ exn_str ex))
        ''ERROR''),
      w\<lparr>logs := logs w @ [ddb_exception_log tableName segmentNumber keys ex],
        draws := Suc (draws w)\<rparr>)"
  using assms
  by (auto simp: parseDynamoDBItem_defs py_simps ddb_exception_log_def)

lemma parseDynamoDBItem_missing:
  assumes "derive_docId keys = Inr docId" and "payload_missing item = Inr True"
  shows "parseDynamoDBItem tableName segmentNumber keys item w =
     (Inr (ParseDocumentResult PNone
        (ErrorDoc docId ''DDB_ERROR'' docId (PDict []) (PDict [])
           (PDict [(''keys'', keys)]) (PDict [(''keys'', keys)]) ''empty record'')
        ''ERROR''),
      w\<lparr>logs := logs w @ [ddb_empty_log tableName segmentNumber keys]\<rparr>)"
  using assms
  by (simp add: parseDynamoDBItem_defs py_simps ddb_empty_log_def)

lemma parseDynamoDBItem_present:
  assumes "derive_docId keys = Inr docId" and "payload_missing item = Inr False"
  shows "parseDynamoDBItem tableName segmentNumber keys item w =
     (Inr (ParseDocumentResult PNone
        (Document DocumentType_Document docId ''DOCUMENT'' docId (PDict []) item)
        ''SUCCESS''),
      w\<lparr>logs := logs w @ [ddb_success_log docId]\<rparr>)"
  using assms
  by (simp add: parseDynamoDBItem_defs py_simps ddb_success_log_def)

text \<open>Every call goes one of the three ways.\<close>

lemma parseDynamoDBItem_cases:
  obtains (raised) ex where
      "derive_docId keys = Inl ex \<or>
       (\<exists>d. derive_docId keys = Inr d) \<and> payload_missing item = Inl ex"
    | (missing) docId where "derive_docId keys = Inr docId" "payload_missing item = Inr True"
    | (present) docId where "derive_docId keys = Inr docId" "payload_missing item = Inr False"
proof (cases "derive_docId keys")
  case (Inl ex)
  then have "derive_docId keys = Inl ex \<or>
      (\<exists>d. derive_docId keys = Inr d) \<and> payload_missing item = Inl ex" ..
  then show ?thesis by (rule raised)
next
  case docId: (Inr docId)
  show ?thesis
  proof (cases "payload_missing item")
    case (Inl ex)
    with docId have "derive_docId keys = Inl ex \<or>
        (\<exists>d. derive_docId keys = Inr d) \<and> payload_missing item = Inl ex" by simp
    then show ?thesis by (rule raised)
  next
    case (Inr b)
    show ?thesis
    proof (cases b)
      case True
      with Inr have "payload_missing item = Inr True" by simp
      with docId show ?thesis by (rule missing)
    next
      case False
      with Inr have "payload_missing item = Inr False" by simp
      with docId show ?thesis by (rule present)
    qed
  qed
qed

section \<open>What the method promises\<close>


text \<open>
  Claim C2.  For a key mapping whose values are the strings \<open>ss\<close>, at least one, and an
  item with at least one attribute, the method logs one debug record and returns
  \<^verbatim>\<open>SUCCESS\<close> with a document whose identifier and partition key are the key values
  joined by \<open>|\<close> in the mapping's order, whose tag is \<^verbatim>\<open>DOCUMENT\<close>, whose
  metadata is empty and whose payload is the item, unchanged.
\<close>

theorem parseDynamoDBItem_success:
  assumes "map snd kvs = map PStr ss" and "ss \<noteq> []" and "attrs \<noteq> []"
  shows "parseDynamoDBItem tableName segmentNumber (PDict kvs) (PDict attrs) w =
     (Inr (ParseDocumentResult PNone
        (Document DocumentType_Document (PStr (join ''|'' ss)) ''DOCUMENT''
           (PStr (join ''|'' ss)) (PDict []) (PDict attrs))
        ''SUCCESS''),
      w\<lparr>logs := logs w @ [ddb_success_log (PStr (join ''|'' ss))]\<rparr>)"
proof -
  from assms(1,2) have "derive_docId (PDict kvs) = Inr (PStr (join ''|'' ss))"
    by (simp add: derive_docId_PDict docId_loop_strs)
  moreover from assms(3) have "payload_missing (PDict attrs) = Inr False"
    by simp
  ultimately show ?thesis by (rule parseDynamoDBItem_present)
qed

theorem parseDynamoDBItem_success_witness:
  "parseDynamoDBItem (PStr ''orders'') (PInt 3)
     (PDict [(''pk'', PStr ''A''), (''sk'', PStr ''B'')]) (PDict [(''x'', PStr ''1'')]) world0 =
     (Inr (ParseDocumentResult PNone
        (Document DocumentType_Document (PStr ''A|B'') ''DOCUMENT'' (PStr ''A|B'') (PDict [])
           (PDict [(''x'', PStr ''1'')]))
        ''SUCCESS''),
      world0\<lparr>logs := [ddb_success_log (PStr ''A|B'')]\<rparr>)"
  using parseDynamoDBItem_success
    [of "[(''pk'', PStr ''A''), (''sk'', PStr ''B'')]" "[''A'', ''B'']" "[(''x'', PStr ''1'')]"
        "PStr ''orders''" "PInt 3" world0]
  by simp

text \<open>
  Claim C3.  For an item that is \<^verbatim>\<open>None\<close> or has no attribute, and keys from which
  the identifier \<open>docId\<close> derives, the method logs one error record and returns
  \<^verbatim>\<open>ERROR\<close> with reason code \<^verbatim>\<open>DDB_ERROR\<close> and reason \<^verbatim>\<open>empty record\<close>; the
  identifier is the derived one, not a random one: no entropy is drawn.  Both context
  slots hold the key mapping under \<^verbatim>\<open>keys\<close>.
\<close>

theorem parseDynamoDBItem_empty:
  assumes "derive_docId keys = Inr docId" and "item = PNone \<or> item = PDict []"
  shows "parseDynamoDBItem tableName segmentNumber keys item w =
     (Inr (ParseDocumentResult PNone
        (ErrorDoc docId ''DDB_ERROR'' docId (PDict []) (PDict [])
           (PDict [(''keys'', keys)]) (PDict [(''keys'', keys)]) ''empty record'')
        ''ERROR''),
      w\<lparr>logs := logs w @ [ddb_empty_log tableName segmentNumber keys]\<rparr>)"
proof -
  from assms(2) have "payload_missing item = Inr True" by auto
  with assms(1) show ?thesis by (rule parseDynamoDBItem_missing)
qed

theorem parseDynamoDBItem_empty_witness:
  "parseDynamoDBItem (PStr ''orders'') (PInt 3) (PDict [(''pk'', PStr ''A'')]) (PDict []) world0 =
     (Inr (ParseDocumentResult PNone
        (ErrorDoc (PStr ''A'') ''DDB_ERROR'' (PStr ''A'') (PDict []) (PDict [])
           (PDict [(''keys'', PDict [(''pk'', PStr ''A'')])])
           (PDict [(''keys'', PDict [(''pk'', PStr ''A'')])]) ''empty record'')
        ''ERROR''),
      world0\<lparr>logs := [ddb_empty_log (PStr ''orders'') (PInt 3) (PDict [(''pk'', PStr ''A'')])]\<rparr>)"
  using parseDynamoDBItem_empty
    [of "PDict [(''pk'', PStr ''A'')]" "PStr ''A''" "PDict []" "PStr ''orders''" "PInt 3" world0]
  by (simp add: derive_docId_def)

text \<open>
  Claim C4.  When the identifier loop raises \<open>ex\<close>, the method logs one debug record,
  draws one UUID from the entropy and returns \<^verbatim>\<open>ERROR\<close> with that UUID as identifier
  and partition key, reason code \<^verbatim>\<open>DDB_ERROR\<close> and the reason
  \<^verbatim>\<open>Exception - \<close> followed by the exception's message.
\<close>

theorem parseDynamoDBItem_fault:
  assumes "derive_docId keys = Inl ex"
  shows "parseDynamoDBItem tableName segmentNumber keys item w =
     (Inr (ParseDocumentResult PNone
        (ErrorDoc (PStr (uuid4_str (urandom w (draws w)))) ''DDB_ERROR''
           (PStr (uuid4_str (urandom w (draws w)))) (PDict []) (PDict [])
           (PDict [(''keys'', keys)]) (PDict [(''keys'', keys)])
           (''Exception - '' @ exn_str ex))
        ''ERROR''),
      w\<lparr>logs := logs w @ [ddb_exception_log tableName segmentNumber keys ex],
        draws := Suc (draws w)\<rparr>)"
  using assms by (simp add: parseDynamoDBItem_raised)

theorem parseDynamoDBItem_fault_witness:
  "parseDynamoDBItem (PStr ''orders'') (PInt 3) PNone (PDict [(''x'', PStr ''1'')]) world0 =
     (Inr (ParseDocumentResult PNone
        (ErrorDoc (PStr ''00000000-0000-4000-8000-000000000000'') ''DDB_ERROR''
           (PStr ''00000000-0000-4000-8000-000000000000'') (PDict []) (PDict [])
           (PDict [(''keys'', PNone)]) (PDict [(''keys'', PNone)])
           (''Exception - 'NoneType' object has no attribute 'values'' @ [CHR 0x27]))
        ''ERROR''),
      world0\<lparr>logs := [ddb_exception_log (PStr ''orders'') (PInt 3) PNone
                         (no_attribute_error PNone ''values'')],
        draws := 1\<rparr>)"
  using parseDynamoDBItem_fault
    [of PNone "no_attribute_error PNone ''values''" "PStr ''orders''" "PInt 3"
        "PDict [(''x'', PStr ''1'')]" world0]
  by (simp add: derive_docId_def py_values_def uuid4_str_zero exn_defs)

end
