(* ===== verification/DynamoDBStreamsRecordReader.thy ===== *)
theory DynamoDBStreamsRecordReader
  imports PyEffects Documents DocId PayloadGuard
begin

text \<open>
  The stream record reader: \<^verbatim>\<open>DynamoDBStreamsRecordReader.parseRecord\<close>.

  \<^item> \<open>stream_record\<close> holds the thirteen parameters of the method, named as the method
    names them.
  \<^item> \<open>stream_context\<close> is the part the two long log messages share: the text before
    \<^verbatim>\<open>streamArn\<close> and the six formatted values with the text between them.
  \<^item> \<open>parseRecord_try\<close> is the body of the \<^verbatim>\<open>try\<close>: the identifier loop, the guard
    on \<^verbatim>\<open>newImage\<close>, the skip document of a record without a new image, and the
    success document after two debug records.
  \<^item> \<open>parseRecord_except\<close> is the \<^verbatim>\<open>except\<close> block, \<open>parseRecord\<close> the method.
  Five of the parameters (\<^verbatim>\<open>eventId\<close>, \<^verbatim>\<open>identityPrincipalId\<close>, \<^verbatim>\<open>identityType\<close>,
  \<^verbatim>\<open>sizeBytes\<close>, \<^verbatim>\<open>streamViewType\<close>) and \<^verbatim>\<open>oldImage\<close> occur nowhere in the body.
  The record is over any type of values; the method of this theory takes values of
  \<open>pyval\<close> and formats nothing, and theory \<open>StoreStreamReader\<close> has the method with a
  store of lists and with formatting as a step that can raise.
\<close>

section \<open>The method\<close>

record 'v stream_record =
  streamArn :: 'v
  shardId :: 'v
  eventId :: 'v
  eventName :: 'v
  identityPrincipalId :: 'v
  identityType :: 'v
  sequenceNumber :: 'v
  sizeBytes :: 'v
  streamViewType :: 'v
  approximateCreationDateTime :: 'v
  keys :: 'v
  oldImage :: 'v
  newImage :: 'v

definition stream_context :: "string \<Rightarrow> pyval stream_record \<Rightarrow> fpart list" where
  "stream_context prefix r =
     [FLit (prefix @ ''streamArn: ''), FVal (streamArn r), FLit '', shardId: '', FVal (shardId r),
      FLit '', eventName: '', FVal (eventName r),
      FLit '', sequenceNumber: '', FVal (sequenceNumber r),
      FLit '', approximateArrivalTimestamp: '', FVal (approximateCreationDateTime r),
      FLit '', keys: '', FVal (keys r)]"

definition parseRecord_try :: "pyval stream_record \<Rightarrow> pyval parse_result py" where
  "parseRecord_try r =
     py_bind (py_lift (derive_docId (keys r))) (\<lambda>docId.
     py_bind (py_lift (payload_missing (newImage r))) (\<lambda>missing.
       if missing then
         py_bind (logger_error
           (stream_context ''newImage is null, returning skip - '' r)) (\<lambda>_.
         py_return (ParseDocumentResult PNone
           (SkipDoc docId ''DYNAMODBSTREAMS_SKIP'' docId (PDict []) (PDict [])
              (PDict [(''sequenceNumber'', sequenceNumber r)])
              (PDict [(''sequenceNumber'', sequenceNumber r)]) ''delete record'')
           ''SKIP''))
       else
         py_bind (logger_debug
           [FLit ''processing record - sequenceNumber: '', FVal (sequenceNumber r)]) (\<lambda>_.
         py_bind (logger_debug [FLit ''returning success - docId: '', FVal docId]) (\<lambda>_.
         py_return (ParseDocumentResult PNone
           (Document DocumentType_Document docId ''DOCUMENT'' docId (PDict []) (newImage r))
           ''SUCCESS'')))))"

definition parseRecord_except :: "pyval stream_record \<Rightarrow> py_exn \<Rightarrow> pyval parse_result py" where
  "parseRecord_except r ex =
     py_bind (logger_debug
       (stream_context ''Exception in reading the document - '' r
          @ [FLit '', ex: '', FExn ex])) (\<lambda>_.
     py_bind uuid4 (\<lambda>docIdUUID.
     py_return (ParseDocumentResult PNone
       (ErrorDoc (PStr docIdUUID) ''KINESIS_ERROR'' (PStr docIdUUID) (PDict []) (PDict [])
          (PDict [(''sequenceNumber'', sequenceNumber r)])
          (PDict [(''sequenceNumber'', sequenceNumber r)])
          (''Exception - '' @ exn_str ex))
       ''ERROR'')))"

definition parseRecord :: "pyval stream_record \<Rightarrow> pyval parse_result py" where
  "parseRecord r = py_try (parseRecord_try r) (parseRecord_except r)"

lemmas parseRecord_defs [handler_defs] =
  parseRecord_def parseRecord_try_def parseRecord_except_def

section \<open>The three ways through the method\<close>

definition stream_skip_log :: "pyval stream_record \<Rightarrow> log_record" where
  "stream_skip_log r =
     \<lparr>level = ERROR,
      message = stream_context ''newImage is null, returning skip - '' r\<rparr>"

definition stream_success_logs :: "pyval stream_record \<Rightarrow> pyval \<Rightarrow> log_record list" where
  "stream_success_logs r docId =
     [\<lparr>level = DEBUG,
       message = [FLit ''processing record - sequenceNumber: '', FVal (sequenceNumber r)]\<rparr>,
      \<lparr>level = DEBUG, message = [FLit ''returning success - docId: '', FVal docId]\<rparr>]"

definition stream_exception_log :: "pyval stream_record \<Rightarrow> py_exn \<Rightarrow> log_record" where
  "stream_exception_log r ex =
     \<lparr>level = DEBUG,
      message = stream_context ''Exception in reading the document - '' r
                  @ [FLit '', ex: '', FExn ex]\<rparr>"

lemma parseRecord_raised:
  assumes "derive_docId (keys r) = Inl ex \<or>
           (\<exists>d. derive_docId (keys r) = Inr d) \<and> payload_missing (newImage r) = Inl ex"
  shows "parseRecord r w =
     (Inr (ParseDocumentResult PNone
        (ErrorDoc (PStr (uuid4_str (urandom w (draws w)))) ''KINESIS_ERROR''
           (PStr (uuid4_str (urandom w (draws w)))) (PDict []) (PDict [])
           (PDict [(''sequenceNumber'', sequenceNumber r)])
           (PDict [(''sequenceNumber'', sequenceNumber r)])
           (''Exception - '' @ exn_str ex))
        ''ERROR''),
      w\<lparr>logs := logs w @ [stream_exception_log r ex], draws := Suc (draws w)\<rparr>)"
  using assms
  by (auto simp: parseRecord_defs py_simps stream_exception_log_def)

lemma parseRecord_missing:
  assumes "derive_docId (keys r) = Inr docId" and "payload_missing (newImage r) = Inr True"
  shows "parseRecord r w =
     (Inr (ParseDocumentResult PNone
        (SkipDoc docId ''DYNAMODBSTREAMS_SKIP'' docId (PDict []) (PDict [])
           (PDict [(''sequenceNumber'', sequenceNumber r)])
           (PDict [(''sequenceNumber'', sequenceNumber r)]) ''delete record'')
        ''SKIP''),
      w\<lparr>logs := logs w @ [stream_skip_log r]\<rparr>)"
  using assms
  by (simp add: parseRecord_defs py_simps stream_skip_log_def)

lemma parseRecord_present:
  assumes "derive_docId (keys r) = Inr docId" and "payload_missing (newImage r) = Inr False"
  shows "parseRecord r w =
     (Inr (ParseDocumentResult PNone
        (Document DocumentType_Document docId ''DOCUMENT'' docId (PDict []) (newImage r))
        ''SUCCESS''),
      w\<lparr>logs := logs w @ stream_success_logs r docId\<rparr>)"
  using assms
  by (simp add: parseRecord_defs py_simps stream_success_logs_def)

lemma parseRecord_cases:
  obtains (raised) ex where
      "derive_docId (keys r) = Inl ex \<or>
       (\<exists>d. derive_docId (keys r) = Inr d) \<and> payload_missing (newImage r) = Inl ex"
    | (missing) docId where
      "derive_docId (keys r) = Inr docId" "payload_missing (newImage r) = Inr True"
    | (present) docId where
      "derive_docId (keys r) = Inr docId" "payload_missing (newImage r) = Inr False"
proof (cases "derive_docId (keys r)")
  case (Inl ex)
  then have "derive_docId (keys r) = Inl ex \<or>
      (\<exists>d. derive_docId (keys r) = Inr d) \<and> payload_missing (newImage r) = Inl ex" ..
  then show ?thesis by (rule raised)
next
  case docId: (Inr docId)
  show ?thesis
  proof (cases "payload_missing (newImage r)")
    case (Inl ex)
    with docId have "derive_docId (keys r) = Inl ex \<or>
        (\<exists>d. derive_docId (keys r) = Inr d) \<and> payload_missing (newImage r) = Inl ex"
      by simp
    then show ?thesis by (rule raised)
  next
    case (Inr b)
    show ?thesis
    proof (cases b)
      case True
      with Inr have "payload_missing (newImage r) = Inr True" by simp
      with docId show ?thesis by (rule missing)
    next
      case False
      with Inr have "payload_missing (newImage r) = Inr False" by simp
      with docId show ?thesis by (rule present)
    qed
  qed
qed

section \<open>Parameters the method does not read\<close>

lemma parseRecord_try_ignores:
  "parseRecord_try (r\<lparr>oldImage := old, eventId := eid, identityPrincipalId := ip,
                       identityType := it, sizeBytes := sz, streamViewType := svt\<rparr>) =
   parseRecord_try r"
  by (simp add: parseRecord_try_def stream_context_def cong: if_cong)

lemma parseRecord_except_ignores:
  "parseRecord_except (r\<lparr>oldImage := old, eventId := eid, identityPrincipalId := ip,
                          identityType := it, sizeBytes := sz, streamViewType := svt\<rparr>) =
   parseRecord_except r"
  by (rule ext) (simp add: parseRecord_except_def stream_context_def)

section \<open>What the method promises\<close>

text \<open>A stream record to run examples on: an insert of the item with key \<open>A\<close>.\<close>

definition record0 :: "pyval stream_record" where
  "record0 =
     \<lparr>streamArn = PStr ''arn:stream'', shardId = PStr ''shard-0'', eventId = PStr ''e1'',
      eventName = PStr ''INSERT'', identityPrincipalId = PNone, identityType = PNone,
      sequenceNumber = PStr ''100'', sizeBytes = PInt 24,
      streamViewType = PStr ''NEW_AND_OLD_IMAGES'', approximateCreationDateTime = PInt 1700000000,
      keys = PDict [(''pk'', PStr ''A'')], oldImage = PNone,
      newImage = PDict [(''x'', PStr ''1'')]\<rparr>"

lemma record0_sel [simp]:
  "keys record0 = PDict [(''pk'', PStr ''A'')]"
  "newImage record0 = PDict [(''x'', PStr ''1'')]"
  "sequenceNumber record0 = PStr ''100''"
  by (simp_all add: record0_def)


text \<open>
  Claim C10.  For a record whose new image is \<^verbatim>\<open>None\<close> or has no attribute (a deletion),
  and keys from which the identifier \<open>docId\<close> derives, the method logs one error record
  and returns \<^verbatim>\<open>SKIP\<close> with reason code \<^verbatim>\<open>DYNAMODBSTREAMS_SKIP\<close>, reason
  \<^verbatim>\<open>delete record\<close>, the derived identifier, and the sequence number in both context
  slots; it draws no entropy.
\<close>

theorem parseRecord_skip:
  assumes "derive_docId (keys r) = Inr docId" and "newImage r = PNone \<or> newImage r = PDict []"
  shows "parseRecord r w =
     (Inr (ParseDocumentResult PNone
        (SkipDoc docId ''DYNAMODBSTREAMS_SKIP'' docId (PDict []) (PDict [])
           (PDict [(''sequenceNumber'', sequenceNumber r)])
           (PDict [(''sequenceNumber'', sequenceNumber r)]) ''delete record'')
        ''SKIP''),
      w\<lparr>logs := logs w @ [stream_skip_log r]\<rparr>)"
proof -
  from assms(2) have "payload_missing (newImage r) = Inr True" by auto
  with assms(1) show ?thesis by (rule parseRecord_missing)
qed

theorem parseRecord_skip_witness:
  "parseRecord (record0\<lparr>newImage := PNone\<rparr>) world0 =
     (Inr (ParseDocumentResult PNone
        (SkipDoc (PStr ''A'') ''DYNAMODBSTREAMS_SKIP'' (PStr ''A'') (PDict []) (PDict [])
           (PDict [(''sequenceNumber'', PStr ''100'')])
           (PDict [(''sequenceNumber'', PStr ''100'')]) ''delete record'')
        ''SKIP''),
      world0\<lparr>logs := [stream_skip_log (record0\<lparr>newImage := PNone\<rparr>)]\<rparr>)"
  using parseRecord_skip [of "record0\<lparr>newImage := PNone\<rparr>" "PStr ''A''" world0]
  by (simp add: derive_docId_def)

text \<open>
  Claim C11.  For a key mapping whose values are the strings \<open>ss\<close>, at least one, and a
  new image with at least one attribute, the method logs two debug records and returns
  \<^verbatim>\<open>SUCCESS\<close> with a document whose identifier and partition key are the key values
  joined by \<open>|\<close> and whose payload is the new image, unchanged.
\<close>

theorem parseRecord_success:
  assumes "keys r = PDict kvs" and "map snd kvs = map PStr ss" and "ss \<noteq> []"
    and "newImage r = PDict attrs" and "attrs \<noteq> []"
  shows "parseRecord r w =
     (Inr (ParseDocumentResult PNone
        (Document DocumentType_Document (PStr (join ''|'' ss)) ''DOCUMENT''
           (PStr (join ''|'' ss)) (PDict []) (PDict attrs))
        ''SUCCESS''),
      w\<lparr>logs := logs w @ stream_success_logs r (PStr (join ''|'' ss))\<rparr>)"
proof -
  from assms(1-3) have "derive_docId (keys r) = Inr (PStr (join ''|'' ss))"
    by (simp add: derive_docId_def docId_loop_strs)
  moreover from assms(4,5) have "payload_missing (newImage r) = Inr False"
    by simp
  ultimately have "parseRecord r w =
     (Inr (ParseDocumentResult PNone
        (Document DocumentType_Document (PStr (join ''|'' ss)) ''DOCUMENT''
           (PStr (join ''|'' ss)) (PDict []) (newImage r))
        ''SUCCESS''),
      w\<lparr>logs := logs w @ stream_success_logs r (PStr (join ''|'' ss))\<rparr>)"
    by (rule parseRecord_present)
  with assms(4) show ?thesis by simp
qed

theorem parseRecord_success_witness:
  "parseRecord record0 world0 =
     (Inr (ParseDocumentResult PNone
        (Document DocumentType_Document (PStr ''A'') ''DOCUMENT'' (PStr ''A'') (PDict [])
           (PDict [(''x'', PStr ''1'')]))
        ''SUCCESS''),
      world0\<lparr>logs := stream_success_logs record0 (PStr ''A'')\<rparr>)"
  using parseRecord_success
    [of record0 "[(''pk'', PStr ''A'')]" "[''A'']" "[(''x'', PStr ''1'')]" world0]
  by simp

text \<open>
  Claim C12.  When the identifier loop raises \<open>ex\<close>, the method logs one debug record,
  draws one UUID and returns \<^verbatim>\<open>ERROR\<close> with that UUID as identifier and partition key,
  reason code \<^verbatim>\<open>KINESIS_ERROR\<close>, the reason \<^verbatim>\<open>Exception - \<close> followed by the
  exception's message, and the sequence number in both context slots.
\<close>

theorem parseRecord_fault:
  assumes "derive_docId (keys r) = Inl ex"
  shows "parseRecord r w =
     (Inr (ParseDocumentResult PNone
        (ErrorDoc (PStr (uuid4_str (urandom w (draws w)))) ''KINESIS_ERROR''
           (PStr (uuid4_str (urandom w (draws w)))) (PDict []) (PDict [])
           (PDict [(''sequenceNumber'', sequenceNumber r)])
           (PDict [(''sequenceNumber'', sequenceNumber r)])
           (''Exception - '' @ exn_str ex))
        ''ERROR''),
      w\<lparr>logs := logs w @ [stream_exception_log r ex], draws := Suc (draws w)\<rparr>)"
  using assms by (simp add: parseRecord_raised)

theorem parseRecord_fault_witness:
  "parseRecord (record0\<lparr>keys := PDict [(''pk'', PStr ''A''), (''sk'', PInt 7)]\<rparr>) world0 =
     (Inr (ParseDocumentResult PNone
        (ErrorDoc (PStr ''00000000-0000-4000-8000-000000000000'') ''KINESIS_ERROR''
           (PStr ''00000000-0000-4000-8000-000000000000'') (PDict []) (PDict [])
           (PDict [(''sequenceNumber'', PStr ''100'')])
           (PDict [(''sequenceNumber'', PStr ''100'')])
           (''Exception - can only concatenate str (not '' @ dquote ''int'' @ '') to str''))
        ''ERROR''),
      world0\<lparr>logs := [stream_exception_log
                         (record0\<lparr>keys := PDict [(''pk'', PStr ''A''), (''sk'', PInt 7)]\<rparr>)
                         (concat_error (PInt 7))],
        draws := 1\<rparr>)"
  using parseRecord_fault
    [of "record0\<lparr>keys := PDict [(''pk'', PStr ''A''), (''sk'', PInt 7)]\<rparr>"
        "concat_error (PInt 7)" world0]
  by (simp add: derive_docId_def docId_step_def py_str_add_def uuid4_str_zero concat_error_def)

text \<open>
  The old image does not affect the call, and neither do the event id, the
  identity, the record's size and the stream view type: the method is the same function
  of the record when these six fields are replaced by anything.
\<close>

theorem parseRecord_ignores:
  "parseRecord (r\<lparr>oldImage := old, eventId := eid, identityPrincipalId := ip,
                   identityType := it, sizeBytes := sz, streamViewType := svt\<rparr>) =
   parseRecord r"
  by (simp add: parseRecord_def parseRecord_try_ignores parseRecord_except_ignores)

end
