(* ===== verification/ReaderContract.thy ===== *)
theory ReaderContract
  imports DynamoDBTableItemReader DynamoDBStreamsRecordReader
begin

text \<open>
  What the two readers have in common, stated once: \<open>classify\<close>, the classification of
  a record into an outcome with no loop and no effect, and the lemmas that both readers
  compute it (\<open>table_outcome\<close>, \<open>stream_outcome\<close>); \<open>stream_of_table\<close>, the renaming
  of the table reader's outcomes to the stream reader's; what a call changes in the world
  (\<open>table_step\<close>, \<open>stream_step\<close>) and what a sequence of calls changes
  (\<open>py_mapM_steps\<close>).  The properties of the two readers together, in the root theory,
  and the reader task are stated over these.
\<close>

section \<open>The classification both readers implement\<close>

text \<open>
  The two readers are one classification of a record, given by its key mapping and its
  payload, into an outcome; they differ in what a missing payload is (an error of the
  table scan, an expected deletion of the stream) and in the code of a fault.
  \<open>classify\<close> states it with no loop and no effect: the identifier is the closed form
  \<open>docId_spec\<close> of theory \<open>DocId\<close>, and the identifier of a fault is a parameter.
\<close>

datatype source = TableScan | Stream

fun missing_outcome :: "source \<Rightarrow> pyval \<Rightarrow> outcome" where
  "missing_outcome TableScan d = Error d ''DDB_ERROR'' ''empty record''"
| "missing_outcome Stream d = Skip d ''DYNAMODBSTREAMS_SKIP'' ''delete record''"

fun fault_outcome :: "source \<Rightarrow> string \<Rightarrow> py_exn \<Rightarrow> outcome" where
  "fault_outcome TableScan fresh ex = Error (PStr fresh) ''DDB_ERROR'' (''Exception - '' @ exn_str ex)"
| "fault_outcome Stream fresh ex = Error (PStr fresh) ''KINESIS_ERROR'' (''Exception - '' @ exn_str ex)"

definition absent :: "pyval \<Rightarrow> bool" where
  "absent payload = (payload = PNone \<or> payload = PDict [] \<or> payload = PStr [])"

definition sized :: "pyval \<Rightarrow> bool" where
  "sized payload = (case payload of PDict _ \<Rightarrow> True | PStr _ \<Rightarrow> True | _ \<Rightarrow> False)"

definition classify :: "source \<Rightarrow> string \<Rightarrow> pyval \<Rightarrow> pyval \<Rightarrow> outcome" where
  "classify src fresh ks payload =
     (case ks of
        PDict kvs \<Rightarrow>
          (case docId_spec (map snd kvs) of
             Inl ex \<Rightarrow> fault_outcome src fresh ex
           | Inr d \<Rightarrow>
               if absent payload then missing_outcome src d
               else if sized payload then Success d payload
               else fault_outcome src fresh (no_len_error payload))
      | _ \<Rightarrow> fault_outcome src fresh (no_attribute_error ks ''values''))"

text \<open>
  The outcome of a run of a handler in a world, and the identifier a fault in that world
  would get: the rendering of the next draw of the entropy.
\<close>

definition run_outcome :: "pyval parse_result py \<Rightarrow> world \<Rightarrow> py_exn + outcome" where
  "run_outcome m w = map_sum (\<lambda>e. e) outcome_of (fst (m w))"

definition fresh_id :: "world \<Rightarrow> string" where
  "fresh_id w = uuid4_str (urandom w (draws w))"

lemma classify_steps:
  "classify src fresh ks payload =
     (case derive_docId ks of
        Inl ex \<Rightarrow> fault_outcome src fresh ex
      | Inr d \<Rightarrow>
          (case payload_missing payload of
             Inl ex \<Rightarrow> fault_outcome src fresh ex
           | Inr missing \<Rightarrow> if missing then missing_outcome src d else Success d payload))"
proof -
  have ks: "derive_docId ks =
      (case ks of PDict kvs \<Rightarrow> docId_spec (map snd kvs)
       | _ \<Rightarrow> Inl (no_attribute_error ks ''values''))"
    by (cases ks) (simp_all add: derive_docId_def py_values_def docId_loop_spec)
  have payload: "payload_missing payload =
      (if absent payload then Inr True else if sized payload then Inr False
       else Inl (no_len_error payload))"
    by (cases payload) (auto simp: absent_def sized_def)
  show ?thesis
    unfolding ks payload classify_def
    by (cases ks) (simp_all split: sum.splits)
qed

lemma table_outcome:
  "run_outcome (parseDynamoDBItem tableName segmentNumber ks item) w =
     Inr (classify TableScan (fresh_id w) ks item)"
proof (cases ks item rule: parseDynamoDBItem_cases)
  case (raised ex)
  then show ?thesis
    by (auto simp: run_outcome_def parseDynamoDBItem_raised classify_steps outcome_of_def fresh_id_def)
next
  case (missing d)
  then show ?thesis
    by (simp add: run_outcome_def parseDynamoDBItem_missing classify_steps outcome_of_def)
next
  case (present d)
  then show ?thesis
    by (simp add: run_outcome_def parseDynamoDBItem_present classify_steps outcome_of_def)
qed

lemma stream_outcome:
  "run_outcome (parseRecord r) w = Inr (classify Stream (fresh_id w) (keys r) (newImage r))"
proof (cases r rule: parseRecord_cases)
  case (raised ex)
  then show ?thesis
    by (auto simp: run_outcome_def parseRecord_raised classify_steps outcome_of_def fresh_id_def)
next
  case (missing d)
  then show ?thesis
    by (simp add: run_outcome_def parseRecord_missing classify_steps outcome_of_def)
next
  case (present d)
  then show ?thesis
    by (simp add: run_outcome_def parseRecord_present classify_steps outcome_of_def)
qed

text \<open>The table reader's outcomes renamed to the stream reader's.\<close>

fun stream_of_table :: "outcome \<Rightarrow> outcome" where
  "stream_of_table (Success d payload) = Success d payload"
| "stream_of_table (Skip d code reason) = Skip d code reason"
| "stream_of_table (Error d code reason) =
     (if reason = ''empty record'' then Skip d ''DYNAMODBSTREAMS_SKIP'' ''delete record''
      else Error d ''KINESIS_ERROR'' reason)"

text \<open>
  An outcome is a fault when its reason is the one the \<^verbatim>\<open>except\<close> blocks write;
  \<open>drawn r\<close> is the number of draws a call with result \<open>r\<close> takes.
\<close>

fun is_fault :: "outcome \<Rightarrow> bool" where
  "is_fault (Error d code reason) = (take 12 reason = ''Exception - '')"
| "is_fault _ = False"

definition drawn :: "pyval parse_result \<Rightarrow> nat" where
  "drawn r = (if is_fault (outcome_of r) then 1 else 0)"

text \<open>
  The contract on inputs of the promised types: string key values \<open>ss\<close>, at least
  one, and a payload that is absent or a dict.
\<close>

definition payload_val :: "(string \<times> pyval) list option \<Rightarrow> pyval" where
  "payload_val payload = (case payload of None \<Rightarrow> PNone | Some attrs \<Rightarrow> PDict attrs)"

definition spec_outcome :: "source \<Rightarrow> string list \<Rightarrow> (string \<times> pyval) list option \<Rightarrow> outcome" where
  "spec_outcome src ss payload =
     (case payload of
        Some (a # attrs) \<Rightarrow> Success (PStr (join ''|'' ss)) (PDict (a # attrs))
      | _ \<Rightarrow> missing_outcome src (PStr (join ''|'' ss)))"

section \<open>Lemmas\<close>

lemma is_fault_simps [simp]:
  "is_fault (fault_outcome src fresh ex)"
  "\<not> is_fault (missing_outcome src d)"
  by (cases src; simp)+

lemma stream_of_table_classify:
  "stream_of_table (classify TableScan fresh ks payload) = classify Stream fresh ks payload"
  by (simp add: classify_steps split: sum.splits)

lemma classify_typed:
  assumes "map snd kvs = map PStr ss" and "ss \<noteq> []"
  shows "classify src fresh (PDict kvs) (payload_val payload) = spec_outcome src ss payload"
proof -
  from assms have "derive_docId (PDict kvs) = Inr (PStr (join ''|'' ss))"
    by (simp add: derive_docId_PDict docId_loop_strs)
  then show ?thesis
    by (simp add: classify_steps payload_val_def spec_outcome_def split: option.splits list.splits)
qed

section \<open>What a call changes\<close>

lemma step_drawI:
  assumes "m w = (Inr r, w\<lparr>logs := logs w @ ls, draws := Suc (draws w)\<rparr>)"
    and "drawn r = 1" and "P r ls"
  shows "\<exists>r ls. m w = (Inr r, w\<lparr>logs := logs w @ ls, draws := draws w + drawn r\<rparr>) \<and> P r ls"
  using assms by (intro exI [of _ r] exI [of _ ls]) simp

lemma step_keepI:
  assumes "m w = (Inr r, w\<lparr>logs := logs w @ ls\<rparr>)" and "drawn r = 0" and "P r ls"
  shows "\<exists>r ls. m w = (Inr r, w\<lparr>logs := logs w @ ls, draws := draws w + drawn r\<rparr>) \<and> P r ls"
  using assms by (intro exI [of _ r] exI [of _ ls]) simp

lemmas drawn_simps = drawn_def outcome_of_def stream_success_logs_def

lemma table_step:
  "\<exists>r ls. parseDynamoDBItem tableName segmentNumber ks item w =
           (Inr r, w\<lparr>logs := logs w @ ls, draws := draws w + drawn r\<rparr>) \<and>
         well_tagged r \<and> length ls = 1"
proof (cases ks item rule: parseDynamoDBItem_cases)
  case (raised ex)
  then show ?thesis
    by (intro step_drawI [OF parseDynamoDBItem_raised]) (simp_all add: drawn_simps)
next
  case (missing d)
  then show ?thesis
    by (intro step_keepI [OF parseDynamoDBItem_missing]) (simp_all add: drawn_simps)
next
  case (present d)
  then show ?thesis
    by (intro step_keepI [OF parseDynamoDBItem_present]) (simp_all add: drawn_simps)
qed

lemma stream_step:
  "\<exists>res ls. parseRecord r w =
           (Inr res, w\<lparr>logs := logs w @ ls, draws := draws w + drawn res\<rparr>) \<and>
         well_tagged res \<and> length ls = (if status res = ''SUCCESS'' then 2 else 1)"
proof (cases r rule: parseRecord_cases)
  case (raised ex)
  then show ?thesis
    by (intro step_drawI [OF parseRecord_raised]) (simp_all add: drawn_simps)
next
  case (missing d)
  then show ?thesis
    by (intro step_keepI [OF parseRecord_missing]) (simp_all add: drawn_simps)
next
  case (present d)
  then show ?thesis
    by (intro step_keepI [OF parseRecord_present]) (simp_all add: drawn_simps)
qed

lemma py_mapM_steps:
  assumes step: "\<And>x w. \<exists>r ls. f x w =
        (Inr r, w\<lparr>logs := logs w @ ls, draws := draws w + drawn r\<rparr>) \<and>
      well_tagged r \<and> length ls = 1"
  shows "\<exists>rs ls. py_mapM f xs w =
           (Inr rs, w\<lparr>logs := logs w @ ls, draws := draws w + sum_list (map drawn rs)\<rparr>) \<and>
         length rs = length xs \<and> length ls = length xs \<and> list_all well_tagged rs"
proof (induction xs arbitrary: w)
  case Nil
  then show ?case by (simp add: py_simps)
next
  case (Cons x xs)
  from step [of x w] obtain r l where
    r: "f x w = (Inr r, w\<lparr>logs := logs w @ l, draws := draws w + drawn r\<rparr>)"
       "well_tagged r" "length l = 1"
    by blast
  let ?w = "w\<lparr>logs := logs w @ l, draws := draws w + drawn r\<rparr>"
  from Cons.IH [of ?w] obtain rs ls where
    rs: "py_mapM f xs ?w =
           (Inr rs, ?w\<lparr>logs := logs ?w @ ls, draws := draws ?w + sum_list (map drawn rs)\<rparr>)"
        "length rs = length xs" "length ls = length xs" "list_all well_tagged rs"
    by blast
  have "py_mapM f (x # xs) w =
      (Inr (r # rs), w\<lparr>logs := logs w @ (l @ ls), draws := draws w + sum_list (map drawn (r # rs))\<rparr>)"
    using r(1) rs(1) by (simp add: py_simps add.assoc)
  with r(2,3) rs(2-4) show ?case
    by (intro exI [of _ "r # rs"] exI [of _ "l @ ls"]) simp
qed

end
