(* ===== verification/ReaderTask.thy ===== *)
theory ReaderTask
  imports ReaderContract
begin

text \<open>
  The reader task that calls \<^verbatim>\<open>parseDynamoDBItem\<close>, as the docstring of the class
  \<^verbatim>\<open>DynamoDBTableItemReader\<close> draws it: the platform scans the table and passes each item
  to the handler; it writes the document the handler returns to the write destination or
  to the error destination; it checkpoints the location of the scan when it should; and
  when the document is an error document the configuration of the reader decides whether
  the task fails or goes on to the next item.  The platform's code is not in the
  repository; the task is modelled from the docstring, and what it does with a result is
  decided by the result's status tag.

  \<^item> \<open>reader_config\<close> is what the docstring calls the reader configuration: whether to
    throw on an error document, and when to checkpoint (a predicate on the number of items
    scanned, since the docstring does not say when).
  \<^item> \<open>reader_task\<close> is the state of a task: the two destinations, the number of items
    scanned, the location of the last checkpoint, and whether the task has thrown.
  \<^item> \<open>route\<close>, \<open>checkpoint_task\<close> and \<open>throw_on_error\<close> are the three decisions of
    the diagram, in its order; \<open>reader_step\<close> is one item and \<open>reader_run\<close> the loop
    over the items of a scan, for any handler; \<open>table_reader\<close> is the loop with
    \<^verbatim>\<open>parseDynamoDBItem\<close>.  The diagram labels the two branches of its first decision
    the other way round than the text above it; the model follows the text.  A handler
    that raises fails the task (the docstring leaves the error document of that case
    open); the two readers of the theories above never raise.  The task and the loop
    are over any type of values and any state of the handler: theory \<open>StoreTask\<close>
    runs them with the table reader in full, which can raise.
  \<^item> \<open>handler_refines h c\<close> is what the loop needs of a handler \<open>h\<close>: a call returns a
    well-tagged result whose status is that of the classification \<open>c\<close> of the item, with
    the outcome of \<open>c\<close> unless \<open>c\<close> reports a fault, and it only appends to the log and
    draws entropy.  The lemmas of the loop are stated for any such handler;
    \<open>table_handler_refines\<close> and \<open>stream_handler_refines\<close> show that the two readers
    are such handlers.
  \<^item> \<open>consumed\<close> is the part of a scan that is passed to the handler,
    \<open>accounts\<close> is what a run has done with it, and \<open>last_checkpoint\<close> is the
    position a task would resume from.
\<close>

section \<open>The task\<close>

record reader_config =
  throwOnError :: bool
  shouldCheckpoint :: "nat \<Rightarrow> bool"

record 'v reader_task =
  write_dest :: "'v doc list"
  error_dest :: "'v doc list"
  scanned :: nat
  checkpoint :: nat
  thrown :: bool

definition new_task :: "'v reader_task" where
  "new_task = \<lparr>write_dest = [], error_dest = [], scanned = 0, checkpoint = 0, thrown = False\<rparr>"

definition route :: "'v parse_result \<Rightarrow> 'v reader_task \<Rightarrow> 'v reader_task" where
  "route res t =
     (if status res = ''SUCCESS'' then t\<lparr>write_dest := write_dest t @ [parsed res]\<rparr>
      else if status res = ''ERROR'' then t\<lparr>error_dest := error_dest t @ [parsed res]\<rparr>
      else t)"

definition checkpoint_task :: "reader_config \<Rightarrow> 'v reader_task \<Rightarrow> 'v reader_task" where
  "checkpoint_task cfg t =
     (if shouldCheckpoint cfg (Suc (scanned t))
      then t\<lparr>scanned := Suc (scanned t), checkpoint := Suc (scanned t)\<rparr>
      else t\<lparr>scanned := Suc (scanned t)\<rparr>)"

definition throw_on_error ::
  "reader_config \<Rightarrow> 'v parse_result \<Rightarrow> 'v reader_task \<Rightarrow> 'v reader_task" where
  "throw_on_error cfg res t =
     (if status res = ''ERROR'' \<and> throwOnError cfg then t\<lparr>thrown := True\<rparr> else t)"

definition reader_step ::
  "reader_config \<Rightarrow> ('x \<Rightarrow> ('s, 'v parse_result) pym) \<Rightarrow> 'x \<Rightarrow> 'v reader_task \<times> 's
     \<Rightarrow> 'v reader_task \<times> 's" where
  "reader_step cfg h x s =
     (case s of (t, w) \<Rightarrow>
        (case h x w of
           (Inl e, w') \<Rightarrow> (t\<lparr>thrown := True\<rparr>, w')
         | (Inr res, w') \<Rightarrow> (throw_on_error cfg res (checkpoint_task cfg (route res t)), w')))"

fun reader_run ::
  "reader_config \<Rightarrow> ('x \<Rightarrow> ('s, 'v parse_result) pym) \<Rightarrow> 'x list \<Rightarrow> 'v reader_task \<times> 's
     \<Rightarrow> 'v reader_task \<times> 's" where
  "reader_run cfg h [] s = s"
| "reader_run cfg h (x # xs) s =
     (let s' = reader_step cfg h x s
      in if thrown (fst s') then s' else reader_run cfg h xs s')"

definition table_handler :: "pyval \<Rightarrow> pyval \<Rightarrow> pyval \<times> pyval \<Rightarrow> pyval parse_result py" where
  "table_handler tableName segmentNumber x = parseDynamoDBItem tableName segmentNumber (fst x) (snd x)"

definition table_reader ::
  "reader_config \<Rightarrow> pyval \<Rightarrow> pyval \<Rightarrow> (pyval \<times> pyval) list \<Rightarrow> world
     \<Rightarrow> pyval reader_task \<times> world" where
  "table_reader cfg tableName segmentNumber items w =
     reader_run cfg (table_handler tableName segmentNumber) items (new_task, w)"

section \<open>What the loop needs of a handler\<close>

fun outcome_status :: "outcome \<Rightarrow> string" where
  "outcome_status (Success d payload) = ''SUCCESS''"
| "outcome_status (Skip d code reason) = ''SKIP''"
| "outcome_status (Error d code reason) = ''ERROR''"

definition handler_refines :: "('x \<Rightarrow> pyval parse_result py) \<Rightarrow> ('x \<Rightarrow> outcome) \<Rightarrow> bool" where
  "handler_refines h c \<longleftrightarrow>
     (\<forall>x w. \<exists>res ls. h x w = (Inr res, w\<lparr>logs := logs w @ ls, draws := draws w + drawn res\<rparr>) \<and>
                     well_tagged res \<and> ls \<noteq> [] \<and>
                     status res = outcome_status (c x) \<and>
                     (\<not> is_fault (c x) \<longrightarrow> outcome_of res = c x))"

definition table_class :: "pyval \<times> pyval \<Rightarrow> outcome" where
  "table_class x = classify TableScan [] (fst x) (snd x)"

definition stream_class :: "pyval stream_record \<Rightarrow> outcome" where
  "stream_class r = classify Stream [] (keys r) (newImage r)"

fun consumed :: "reader_config \<Rightarrow> ('x \<Rightarrow> outcome) \<Rightarrow> 'x list \<Rightarrow> 'x list" where
  "consumed cfg c [] = []"
| "consumed cfg c (x # xs) =
     x # (if throwOnError cfg \<and> outcome_status (c x) = ''ERROR'' then [] else consumed cfg c xs)"

definition successes :: "('x \<Rightarrow> outcome) \<Rightarrow> 'x list \<Rightarrow> outcome list" where
  "successes c xs = filter (\<lambda>out. outcome_status out = ''SUCCESS'') (map c xs)"

definition failures :: "('x \<Rightarrow> outcome) \<Rightarrow> 'x list \<Rightarrow> outcome list" where
  "failures c xs = filter (\<lambda>out. outcome_status out = ''ERROR'') (map c xs)"

fun is_document :: "'v doc \<Rightarrow> bool" where
  "is_document (Doc d) = True"
| "is_document _ = False"

fun is_error_doc :: "'v doc \<Rightarrow> bool" where
  "is_error_doc (ErrDoc d) = True"
| "is_error_doc _ = False"

definition task_inv :: "'v reader_task \<Rightarrow> bool" where
  "task_inv t \<longleftrightarrow>
     list_all is_document (write_dest t) \<and> list_all is_error_doc (error_dest t) \<and>
     length (write_dest t) + length (error_dest t) \<le> scanned t \<and>
     checkpoint t \<le> scanned t"

text \<open>The location a task resumes from: the last position at which it should checkpoint.\<close>

primrec last_checkpoint :: "reader_config \<Rightarrow> nat \<Rightarrow> nat" where
  "last_checkpoint cfg 0 = 0"
| "last_checkpoint cfg (Suc n) =
     (if shouldCheckpoint cfg (Suc n) then Suc n else last_checkpoint cfg n)"

text \<open>What a run counts and where its documents go.\<close>

definition accounts ::
  "reader_config \<Rightarrow> ('x \<Rightarrow> outcome) \<Rightarrow> 'x list \<Rightarrow> pyval reader_task \<times> world
     \<Rightarrow> pyval reader_task \<times> world \<Rightarrow> bool" where
  "accounts cfg c xs s s' \<longleftrightarrow>
     (thrown (fst s') \<longleftrightarrow> throwOnError cfg \<and> failures c xs \<noteq> []) \<and>
     scanned (fst s') = scanned (fst s) + length (consumed cfg c xs) \<and>
     map outcome_of_doc (write_dest (fst s')) =
       map outcome_of_doc (write_dest (fst s)) @ successes c (consumed cfg c xs) \<and>
     length (error_dest (fst s')) =
       length (error_dest (fst s)) + length (failures c (consumed cfg c xs)) \<and>
     length (logs (snd s)) + length (consumed cfg c xs) \<le> length (logs (snd s'))"

section \<open>The two readers are such handlers\<close>

lemma well_tagged_outcome: "well_tagged res \<Longrightarrow> status res = outcome_status (outcome_of res)"
  by (cases "parsed res") (simp_all add: well_tagged_def outcome_of_def)

lemma is_fault_status: "is_fault out \<Longrightarrow> outcome_status out = ''ERROR''"
  by (cases out) simp_all

lemma outcome_status_classify:
  "outcome_status (classify src fresh ks payload) = outcome_status (classify src fresh' ks payload)"
  by (cases src) (simp_all add: classify_steps split: sum.splits)

lemma classify_fresh:
  "\<not> is_fault (classify src fresh' ks payload) \<Longrightarrow>
   classify src fresh ks payload = classify src fresh' ks payload"
  by (simp add: classify_steps split: sum.splits if_splits)

lemma table_class_status: "outcome_status (table_class x) \<noteq> ''SKIP''"
  unfolding table_class_def classify_steps by (simp split: sum.split)

lemma handler_refinesI:
  assumes step: "\<And>x w. \<exists>res ls. h x w =
        (Inr res, w\<lparr>logs := logs w @ ls, draws := draws w + drawn res\<rparr>) \<and>
      well_tagged res \<and> ls \<noteq> [] \<and> outcome_of res = cl (fresh_id w) x"
    and status: "\<And>fresh x. outcome_status (cl fresh x) = outcome_status (c x)"
    and fresh: "\<And>fresh x. \<not> is_fault (c x) \<Longrightarrow> cl fresh x = c x"
  shows "handler_refines h c"
  unfolding handler_refines_def
proof (intro allI)
  fix x w
  from step [of x w] obtain res ls where
    res: "h x w = (Inr res, w\<lparr>logs := logs w @ ls, draws := draws w + drawn res\<rparr>)"
      "well_tagged res" "ls \<noteq> []" "outcome_of res = cl (fresh_id w) x"
    by blast
  from res(2,4) have "status res = outcome_status (c x)"
    by (simp add: well_tagged_outcome status)
  moreover from res(4) have "\<not> is_fault (c x) \<longrightarrow> outcome_of res = c x"
    by (simp add: fresh)
  ultimately show "\<exists>res ls. h x w =
        (Inr res, w\<lparr>logs := logs w @ ls, draws := draws w + drawn res\<rparr>) \<and>
      well_tagged res \<and> ls \<noteq> [] \<and> status res = outcome_status (c x) \<and>
      (\<not> is_fault (c x) \<longrightarrow> outcome_of res = c x)"
    using res(1-3) by blast
qed

lemma table_handler_refines: "handler_refines (table_handler tableName segmentNumber) table_class"
proof (rule handler_refinesI [where cl = "\<lambda>fresh x. classify TableScan fresh (fst x) (snd x)"])
  fix x :: "pyval \<times> pyval" and w
  from table_step [of tableName segmentNumber "fst x" "snd x" w] obtain res ls where
    res: "parseDynamoDBItem tableName segmentNumber (fst x) (snd x) w =
           (Inr res, w\<lparr>logs := logs w @ ls, draws := draws w + drawn res\<rparr>)"
      "well_tagged res" "length ls = 1"
    by blast
  moreover from res(1) table_outcome [of tableName segmentNumber "fst x" "snd x" w]
  have "outcome_of res = classify TableScan (fresh_id w) (fst x) (snd x)"
    by (simp add: run_outcome_def)
  moreover from res(3) have "ls \<noteq> []" by auto
  ultimately show "\<exists>res ls. table_handler tableName segmentNumber x w =
        (Inr res, w\<lparr>logs := logs w @ ls, draws := draws w + drawn res\<rparr>) \<and>
      well_tagged res \<and> ls \<noteq> [] \<and> outcome_of res = classify TableScan (fresh_id w) (fst x) (snd x)"
    unfolding table_handler_def by blast
next
  fix fresh and x :: "pyval \<times> pyval"
  show "outcome_status (classify TableScan fresh (fst x) (snd x)) = outcome_status (table_class x)"
    unfolding table_class_def by (rule outcome_status_classify)
  show "classify TableScan fresh (fst x) (snd x) = table_class x" if "\<not> is_fault (table_class x)"
    using that unfolding table_class_def by (rule classify_fresh)
qed

lemma stream_handler_refines: "handler_refines parseRecord stream_class"
proof (rule handler_refinesI [where cl = "\<lambda>fresh r. classify Stream fresh (keys r) (newImage r)"])
  fix r w
  from stream_step [of r w] obtain res ls where
    res: "parseRecord r w = (Inr res, w\<lparr>logs := logs w @ ls, draws := draws w + drawn res\<rparr>)"
      "well_tagged res" "length ls = (if status res = ''SUCCESS'' then 2 else 1)"
    by blast
  moreover from res(1) stream_outcome [of r w]
  have "outcome_of res = classify Stream (fresh_id w) (keys r) (newImage r)"
    by (simp add: run_outcome_def)
  moreover from res(3) have "ls \<noteq> []" by (auto split: if_splits)
  ultimately show "\<exists>res ls. parseRecord r w =
        (Inr res, w\<lparr>logs := logs w @ ls, draws := draws w + drawn res\<rparr>) \<and>
      well_tagged res \<and> ls \<noteq> [] \<and> outcome_of res = classify Stream (fresh_id w) (keys r) (newImage r)"
    by blast
next
  fix fresh r
  show "outcome_status (classify Stream fresh (keys r) (newImage r)) = outcome_status (stream_class r)"
    unfolding stream_class_def by (rule outcome_status_classify)
  show "classify Stream fresh (keys r) (newImage r) = stream_class r" if "\<not> is_fault (stream_class r)"
    using that unfolding stream_class_def by (rule classify_fresh)
qed

section \<open>One item\<close>

lemma reader_step_refines:
  assumes "handler_refines h c"
  obtains res ls where
    "reader_step cfg h x (t, w) =
       (throw_on_error cfg res (checkpoint_task cfg (route res t)),
        w\<lparr>logs := logs w @ ls, draws := draws w + drawn res\<rparr>)"
    and "status res = outcome_status (c x)" and "well_tagged res" and "ls \<noteq> []"
    and "\<not> is_fault (c x) \<longrightarrow> outcome_of res = c x"
proof -
  from assms obtain res ls where
      "h x w = (Inr res, w\<lparr>logs := logs w @ ls, draws := draws w + drawn res\<rparr>)"
      "well_tagged res" "status res = outcome_status (c x)" "ls \<noteq> []"
      "\<not> is_fault (c x) \<longrightarrow> outcome_of res = c x"
    unfolding handler_refines_def by blast
  then show ?thesis
    by (intro that [of res ls]) (simp_all add: reader_step_def)
qed

lemma well_tagged_route:
  assumes "well_tagged res"
  shows "route res t =
     (case parsed res of
        Doc d \<Rightarrow> t\<lparr>write_dest := write_dest t @ [Doc d]\<rparr>
      | ErrDoc d \<Rightarrow> t\<lparr>error_dest := error_dest t @ [ErrDoc d]\<rparr>
      | SkpDoc d \<Rightarrow> t)"
  using assms by (cases "parsed res") (simp_all add: route_def well_tagged_def)

lemma task_sel [simp]:
  "scanned (route res t) = scanned t" "checkpoint (route res t) = checkpoint t"
  "thrown (route res t) = thrown t"
  "write_dest (checkpoint_task cfg t) = write_dest t"
  "error_dest (checkpoint_task cfg t) = error_dest t"
  "scanned (checkpoint_task cfg t) = Suc (scanned t)"
  "thrown (checkpoint_task cfg t) = thrown t"
  "write_dest (throw_on_error cfg res t) = write_dest t"
  "error_dest (throw_on_error cfg res t) = error_dest t"
  "scanned (throw_on_error cfg res t) = scanned t"
  "checkpoint (throw_on_error cfg res t) = checkpoint t"
  by (simp_all add: route_def checkpoint_task_def throw_on_error_def)

lemma checkpoint_le:
  "checkpoint t \<le> scanned t \<Longrightarrow> checkpoint (checkpoint_task cfg t) \<le> Suc (scanned t)"
  by (simp add: checkpoint_task_def)

lemma reader_step_inv:
  assumes "handler_refines h c" and "task_inv (fst s)"
  shows "task_inv (fst (reader_step cfg h x s))"
proof -
  obtain t w where s: "s = (t, w)" by (cases s)
  from assms(1) obtain res ls where
    step: "reader_step cfg h x (t, w) =
       (throw_on_error cfg res (checkpoint_task cfg (route res t)),
        w\<lparr>logs := logs w @ ls, draws := draws w + drawn res\<rparr>)"
    and res: "well_tagged res"
    by (rule reader_step_refines [where cfg = cfg and x = x and t = t and w = w])
  from assms(2) s have "task_inv (checkpoint_task cfg (route res t))"
    using checkpoint_le [of "route res t" cfg]
    by (cases "parsed res") (simp_all add: well_tagged_route [OF res] task_inv_def)
  then show ?thesis
    by (simp add: s step task_inv_def)
qed

lemma reader_step_accounts:
  assumes "handler_refines h c" and "\<not> thrown (fst s)"
  shows "accounts cfg c [x] s (reader_step cfg h x s)"
proof -
  obtain t w where s: "s = (t, w)" by (cases s)
  from assms(1) obtain res ls where
    step: "reader_step cfg h x (t, w) =
       (throw_on_error cfg res (checkpoint_task cfg (route res t)),
        w\<lparr>logs := logs w @ ls, draws := draws w + drawn res\<rparr>)"
    and res: "status res = outcome_status (c x)" "well_tagged res" "ls \<noteq> []"
    and out: "\<not> is_fault (c x) \<longrightarrow> outcome_of res = c x"
    by (rule reader_step_refines [where cfg = cfg and x = x and t = t and w = w])
  have "outcome_of_doc (parsed res) = c x" if "outcome_status (c x) = ''SUCCESS''"
    using that out is_fault_status [of "c x"] by (auto simp: outcome_of_def)
  moreover from res(3) have "Suc (length (logs w)) \<le> length (logs w) + length ls"
    by (cases ls) simp_all
  ultimately show ?thesis
    using assms(2) res
    by (auto simp: accounts_def s step route_def throw_on_error_def successes_def failures_def)
qed

lemma reader_step_checkpoint:
  assumes "checkpoint (fst s) = last_checkpoint cfg (scanned (fst s))"
  shows "checkpoint (fst (reader_step cfg h x s)) =
           last_checkpoint cfg (scanned (fst (reader_step cfg h x s)))"
proof -
  obtain t w where s: "s = (t, w)" by (cases s)
  obtain r w' where h: "h x w = (r, w')" by (cases "h x w")
  from assms s have "checkpoint (checkpoint_task cfg (route res t)) =
      last_checkpoint cfg (Suc (scanned t))" for res
    by (simp add: checkpoint_task_def)
  with assms show ?thesis
    by (cases r) (simp_all add: reader_step_def s h)
qed

section \<open>The loop\<close>

lemma reader_run_checkpoint:
  "checkpoint (fst s) = last_checkpoint cfg (scanned (fst s)) \<Longrightarrow>
   checkpoint (fst (reader_run cfg h xs s)) =
     last_checkpoint cfg (scanned (fst (reader_run cfg h xs s)))"
proof (induction xs arbitrary: s)
  case Nil
  then show ?case by simp
next
  case (Cons x xs)
  from reader_step_checkpoint [OF Cons.prems, of h x] show ?case
    by (simp add: Let_def Cons.IH)
qed

lemma last_checkpoint_le: "last_checkpoint cfg n \<le> n"
  by (induction n) simp_all

lemma reader_run_inv:
  assumes "handler_refines h c"
  shows "task_inv (fst s) \<Longrightarrow> task_inv (fst (reader_run cfg h xs s))"
proof (induction xs arbitrary: s)
  case Nil
  then show ?case by simp
next
  case (Cons x xs)
  have "task_inv (fst (reader_step cfg h x s))"
    using assms Cons.prems by (rule reader_step_inv)
  then show ?case by (simp add: Let_def Cons.IH)
qed

lemma accounts_trans:
  assumes "accounts cfg c [x] s s1" and "accounts cfg c xs s1 s'" and "\<not> thrown (fst s1)"
  shows "accounts cfg c (x # xs) s s'"
  using assms by (auto simp: accounts_def successes_def failures_def)

lemma reader_run_accounts:
  assumes "handler_refines h c"
  shows "\<not> thrown (fst s) \<Longrightarrow> accounts cfg c xs s (reader_run cfg h xs s)"
proof (induction xs arbitrary: s)
  case Nil
  then show ?case by (simp add: accounts_def successes_def failures_def)
next
  case (Cons x xs)
  let ?s1 = "reader_step cfg h x s"
  have one: "accounts cfg c [x] s ?s1"
    using assms Cons.prems by (rule reader_step_accounts)
  show ?case
  proof (cases "thrown (fst ?s1)")
    case True
    with one show ?thesis by (auto simp: accounts_def successes_def failures_def)
  next
    case False
    from one Cons.IH [OF False] False show ?thesis
      by (simp add: accounts_trans)
  qed
qed

lemma reader_run_consumed:
  assumes "handler_refines h c"
  shows "\<not> thrown (fst s) \<Longrightarrow> reader_run cfg h (consumed cfg c xs) s = reader_run cfg h xs s"
proof (induction xs arbitrary: s)
  case Nil
  then show ?case by simp
next
  case (Cons x xs)
  from reader_step_accounts [OF assms Cons.prems, of cfg x]
  have "thrown (fst (reader_step cfg h x s)) \<longleftrightarrow> throwOnError cfg \<and> outcome_status (c x) = ''ERROR''"
    by (simp add: accounts_def failures_def)
  with Cons.IH [of "reader_step cfg h x s"] show ?case
    by (simp add: Let_def)
qed

section \<open>The part of a scan that is consumed\<close>

lemma consumed_no_throw [simp]: "\<not> throwOnError cfg \<Longrightarrow> consumed cfg c xs = xs"
  by (induction xs) simp_all

lemma length_consumed: "length (consumed cfg c xs) \<le> length xs"
  by (induction xs) simp_all

lemma consumed_throw:
  "throwOnError cfg \<Longrightarrow>
   consumed cfg c xs =
     takeWhile (\<lambda>x. outcome_status (c x) \<noteq> ''ERROR'') xs @
     take 1 (dropWhile (\<lambda>x. outcome_status (c x) \<noteq> ''ERROR'') xs)"
  by (induction xs) simp_all

lemma failures_consumed:
  "throwOnError cfg \<Longrightarrow> failures c (consumed cfg c xs) = take 1 (failures c xs)"
  by (induction xs) (simp_all add: failures_def)

lemma successes_failures:
  "(\<And>x. outcome_status (c x) \<noteq> ''SKIP'') \<Longrightarrow>
   length (successes c xs) + length (failures c xs) = length xs"
proof (induction xs)
  case Nil
  show ?case by (simp add: successes_def failures_def)
next
  case (Cons x xs)
  from Cons.prems [of x] have "outcome_status (c x) = ''SUCCESS'' \<or> outcome_status (c x) = ''ERROR''"
    by (cases "c x") simp_all
  with Cons show ?case by (auto simp: successes_def failures_def)
qed

lemma table_reader_accounts_aux:
  "accounts cfg table_class items (new_task, w) (table_reader cfg tableName segmentNumber items w)"
  unfolding table_reader_def
  by (rule reader_run_accounts [OF table_handler_refines]) (simp add: new_task_def)

section \<open>The task of the table reader\<close>

text \<open>
  Claim C17.  What a task of the table reader has done when it stops, whatever the scan,
  the configuration and the world: the write destination holds documents only and the
  error destination error documents only; every item scanned has one document in one of
  the two; the checkpoint is the last position of the scan at which the configuration
  asks for one, so it is not ahead of the scan; and the log has a record for each item
  scanned.
\<close>

theorem table_reader_accounts:
  "task_inv (fst (table_reader cfg tableName segmentNumber items w)) \<and>
   length (write_dest (fst (table_reader cfg tableName segmentNumber items w))) +
     length (error_dest (fst (table_reader cfg tableName segmentNumber items w))) =
     scanned (fst (table_reader cfg tableName segmentNumber items w)) \<and>
   scanned (fst (table_reader cfg tableName segmentNumber items w)) \<le> length items \<and>
   checkpoint (fst (table_reader cfg tableName segmentNumber items w)) =
     last_checkpoint cfg (scanned (fst (table_reader cfg tableName segmentNumber items w))) \<and>
   length (logs w) + scanned (fst (table_reader cfg tableName segmentNumber items w))
     \<le> length (logs (snd (table_reader cfg tableName segmentNumber items w)))"
proof -
  let ?s = "table_reader cfg tableName segmentNumber items w"
  have "task_inv (fst ?s)"
    unfolding table_reader_def
    by (rule reader_run_inv [OF table_handler_refines]) (simp add: task_inv_def new_task_def)
  moreover
  have "checkpoint (fst ?s) = last_checkpoint cfg (scanned (fst ?s))"
    unfolding table_reader_def by (rule reader_run_checkpoint) (simp add: new_task_def)
  moreover
  have "length (map outcome_of_doc (write_dest (fst ?s))) + length (error_dest (fst ?s)) =
      scanned (fst ?s)"
    using table_reader_accounts_aux [of cfg items w tableName segmentNumber]
      successes_failures [of table_class "consumed cfg table_class items"]
    by (simp add: accounts_def new_task_def table_class_status)
  moreover note table_reader_accounts_aux [of cfg items w tableName segmentNumber]
    length_consumed [of cfg table_class items]
  ultimately show ?thesis by (simp add: accounts_def new_task_def)
qed

text \<open>
  Claim C18.  A task that is configured not to throw goes through the whole scan: it does
  not fail, every item is scanned, the write destination holds, in the order of the scan,
  the identifier and the payload of every item that classifies as a success, and the
  error destination one error document for every other item.
\<close>

theorem table_reader_continues:
  assumes "\<not> throwOnError cfg"
  shows "\<not> thrown (fst (table_reader cfg tableName segmentNumber items w)) \<and>
         scanned (fst (table_reader cfg tableName segmentNumber items w)) = length items \<and>
         map outcome_of_doc (write_dest (fst (table_reader cfg tableName segmentNumber items w))) =
           successes table_class items \<and>
         length (error_dest (fst (table_reader cfg tableName segmentNumber items w))) =
           length (failures table_class items)"
  using table_reader_accounts_aux [of cfg items w tableName segmentNumber] assms
  by (simp add: accounts_def new_task_def)

text \<open>
  Claim C19.  A task that is configured to throw stops at the first item that classifies as
  an error: it fails exactly when the scan has such an item; the items after it are not
  passed to the handler, so the task is the task on the scan up to and including that item;
  and the error destination holds the error document of that item and no other.
\<close>

theorem table_reader_throws:
  assumes "throwOnError cfg"
  shows "(thrown (fst (table_reader cfg tableName segmentNumber items w)) \<longleftrightarrow>
            failures table_class items \<noteq> []) \<and>
         table_reader cfg tableName segmentNumber items w =
           table_reader cfg tableName segmentNumber
             (takeWhile (\<lambda>x. outcome_status (table_class x) \<noteq> ''ERROR'') items @
              take 1 (dropWhile (\<lambda>x. outcome_status (table_class x) \<noteq> ''ERROR'') items)) w \<and>
         length (error_dest (fst (table_reader cfg tableName segmentNumber items w))) =
           length (take 1 (failures table_class items))"
proof -
  let ?s = "table_reader cfg tableName segmentNumber items w"
  have acc: "accounts cfg table_class items (new_task, w) ?s"
    by (rule table_reader_accounts_aux)
  have "reader_run cfg (table_handler tableName segmentNumber) (consumed cfg table_class items)
          (new_task, w) =
        reader_run cfg (table_handler tableName segmentNumber) items (new_task, w)"
    by (rule reader_run_consumed [OF table_handler_refines]) (simp add: new_task_def)
  then have "?s = table_reader cfg tableName segmentNumber (consumed cfg table_class items) w"
    by (simp add: table_reader_def)
  then have "?s = table_reader cfg tableName segmentNumber
      (takeWhile (\<lambda>x. outcome_status (table_class x) \<noteq> ''ERROR'') items @
       take 1 (dropWhile (\<lambda>x. outcome_status (table_class x) \<noteq> ''ERROR'') items)) w"
    by (simp only: consumed_throw [OF assms])
  moreover from acc assms have "thrown (fst ?s) \<longleftrightarrow> failures table_class items \<noteq> []"
    by (simp add: accounts_def)
  moreover from acc assms have "length (error_dest (fst ?s)) = length (take 1 (failures table_class items))"
    by (simp add: accounts_def new_task_def failures_consumed)
  ultimately show ?thesis by blast
qed

section \<open>A scan of three items\<close>

definition items0 :: "(pyval \<times> pyval) list" where
  "items0 =
     [(PDict [(''pk'', PStr ''A'')], PDict [(''x'', PStr ''1'')]),
      (PDict [(''pk'', PStr ''B'')], PDict []),
      (PDict [(''pk'', PStr ''C'')], PDict [(''y'', PStr ''2'')])]"

lemma table_class_items0:
  "map table_class items0 =
     [Success (PStr ''A'') (PDict [(''x'', PStr ''1'')]),
      Error (PStr ''B'') ''DDB_ERROR'' ''empty record'',
      Success (PStr ''C'') (PDict [(''y'', PStr ''2'')])]"
  by (simp add: items0_def table_class_def classify_def docId_spec_def first_fault_def
      absent_def sized_def)


definition keep_going :: reader_config where
  "keep_going = \<lparr>throwOnError = False, shouldCheckpoint = (\<lambda>n. n mod 2 = 0)\<rparr>"

definition fail_fast :: reader_config where
  "fail_fast = \<lparr>throwOnError = True, shouldCheckpoint = (\<lambda>n. True)\<rparr>"

theorem table_reader_continues_witness:
  "\<not> thrown (fst (table_reader keep_going (PStr ''orders'') (PInt 3) items0 world0)) \<and>
   scanned (fst (table_reader keep_going (PStr ''orders'') (PInt 3) items0 world0)) = 3 \<and>
   map outcome_of_doc (write_dest (fst (table_reader keep_going (PStr ''orders'') (PInt 3) items0 world0))) =
     [Success (PStr ''A'') (PDict [(''x'', PStr ''1'')]),
      Success (PStr ''C'') (PDict [(''y'', PStr ''2'')])] \<and>
   length (error_dest (fst (table_reader keep_going (PStr ''orders'') (PInt 3) items0 world0))) = 1"
proof -
  have "\<not> throwOnError keep_going" by (simp add: keep_going_def)
  from table_reader_continues [OF this, of "PStr ''orders''" "PInt 3" items0 world0]
  show ?thesis
    by (simp add: successes_def failures_def table_class_items0) (simp add: items0_def)
qed

theorem table_reader_throws_witness:
  "thrown (fst (table_reader fail_fast (PStr ''orders'') (PInt 3) items0 world0)) \<and>
   table_reader fail_fast (PStr ''orders'') (PInt 3) items0 world0 =
     table_reader fail_fast (PStr ''orders'') (PInt 3) (take 2 items0) world0 \<and>
   length (error_dest (fst (table_reader fail_fast (PStr ''orders'') (PInt 3) items0 world0))) = 1"
proof -
  have "map (\<lambda>x. outcome_status (table_class x)) items0 = [''SUCCESS'', ''ERROR'', ''SUCCESS'']"
    using table_class_items0 by (simp add: items0_def)
  then have first: "takeWhile (\<lambda>x. outcome_status (table_class x) \<noteq> ''ERROR'') items0 @
      take 1 (dropWhile (\<lambda>x. outcome_status (table_class x) \<noteq> ''ERROR'') items0) = take 2 items0"
    by (simp add: items0_def)
  have "throwOnError fail_fast" by (simp add: fail_fast_def)
  note thr = table_reader_throws [OF this, of "PStr ''orders''" "PInt 3" items0 world0, unfolded first]
  have "failures table_class items0 \<noteq> []" and one: "length (take 1 (failures table_class items0)) = 1"
    by (simp_all add: failures_def table_class_items0)
  with thr have "thrown (fst (table_reader fail_fast (PStr ''orders'') (PInt 3) items0 world0))"
    by blast
  moreover from thr [THEN conjunct2, THEN conjunct2] one
  have "length (error_dest (fst (table_reader fail_fast (PStr ''orders'') (PInt 3) items0 world0))) = 1"
    by (rule trans)
  moreover from thr have "table_reader fail_fast (PStr ''orders'') (PInt 3) items0 world0 =
      table_reader fail_fast (PStr ''orders'') (PInt 3) (take 2 items0) world0"
    by (rule conjunct1 [OF conjunct2])
  ultimately show ?thesis by (intro conjI)
qed

end
