(* ===== verification/SparkEngine.thy ===== *)
theory SparkEngine
  imports PyEffects
begin

text \<open>
  The collaborators of the Spark handlers, as the handlers see them.  The mapper and the
  reducer do no work of their own on the data: they look up the region, ask the secret
  manager for credentials, open a session, ask the engine to read, compose engine
  operators, and ask the engine to write.  The code of these calls
  (\<^verbatim>\<open>letsdata_utils.spark_utils\<close>, \<^verbatim>\<open>letsdata_utils.secretmanager_util\<close>, \<^verbatim>\<open>pyspark\<close>) is
  not in the repository, so this theory fixes an interface:

  \<^item> a \<open>cluster\<close> holds what the calls depend on (the process environment, the secret
    manager's answers, the content of each readable location) and a \<open>trace\<close> of the
    calls made, in order, with the data frame handed to each write;
  \<^item> the secret manager and a read may fail: their answers are results, and a failure
    is raised in the handler; opening a session and writing are taken to return;
  \<^item> a data frame is the list of its rows.  The engine gives rows no order, so the
    properties of the component theories that mention the order of rows say so.
  The type parameters of a cluster are the rows it reads and the rows it writes.
\<close>

section \<open>Requests\<close>

type_synonym credentials = string
type_synonym options = "(string \<times> string) list"

record session_conf =
  s_appName :: string
  s_readDestination :: string
  s_writeDestination :: string
  s_readUri :: string
  s_writeUri :: string
  s_readCredentials :: credentials
  s_writeCredentials :: credentials

record read_request =
  r_session :: session_conf
  r_destination :: string
  r_uri :: string
  r_format :: string
  r_options :: options

record write_request =
  w_session :: session_conf
  w_destination :: string
  w_uri :: string
  w_format :: string
  w_mode :: string
  w_options :: options

datatype 'o ext_call =
    GetCredentials string string string string
  | CreateSession session_conf
  | ReadDataframe read_request
  | WriteDataframe write_request "'o list"

section \<open>The cluster\<close>

record ('i, 'o) cluster =
  environ :: "string \<rightharpoonup> string"
  secrets :: "string \<Rightarrow> string \<Rightarrow> string \<Rightarrow> string \<Rightarrow> credentials result"
  storage :: "read_request \<Rightarrow> 'i list result"
  trace :: "'o ext_call list"

section \<open>The calls\<close>

text \<open>\<^verbatim>\<open>os.environ[name]\<close>: a \<^verbatim>\<open>KeyError\<close> for a variable that is not set.\<close>

definition os_environ :: "string \<Rightarrow> (('i, 'o) cluster, string) pym" where
  "os_environ name =
     (\<lambda>c. case environ c name of None \<Rightarrow> (Inl (KeyError name), c) | Some v \<Rightarrow> (Inr v, c))"

definition get_spark_aws_credentials ::
  "string \<Rightarrow> string \<Rightarrow> string \<Rightarrow> string \<Rightarrow> (('i, 'o) cluster, credentials) pym" where
  "get_spark_aws_credentials region arn stage direction =
     (\<lambda>c. (secrets c region arn stage direction,
           c\<lparr>trace := trace c @ [GetCredentials region arn stage direction]\<rparr>))"

definition createSparkSession ::
  "string \<Rightarrow> string \<Rightarrow> string \<Rightarrow> string \<Rightarrow> string \<Rightarrow> credentials \<Rightarrow> credentials
     \<Rightarrow> (('i, 'o) cluster, session_conf) pym" where
  "createSparkSession appName readDestination writeDestination readUri writeUri
       readCredentials writeCredentials =
     (let spark = \<lparr>s_appName = appName, s_readDestination = readDestination,
                    s_writeDestination = writeDestination, s_readUri = readUri,
                    s_writeUri = writeUri, s_readCredentials = readCredentials,
                    s_writeCredentials = writeCredentials\<rparr>
      in (\<lambda>c. (Inr spark, c\<lparr>trace := trace c @ [CreateSession spark]\<rparr>)))"

definition read_req :: "session_conf \<Rightarrow> string \<Rightarrow> string \<Rightarrow> string \<Rightarrow> options \<Rightarrow> read_request" where
  "read_req spark readDestination readUri readFormat readOptions =
     \<lparr>r_session = spark, r_destination = readDestination, r_uri = readUri,
      r_format = readFormat, r_options = readOptions\<rparr>"

definition readSparkDataframe ::
  "session_conf \<Rightarrow> string \<Rightarrow> string \<Rightarrow> string \<Rightarrow> options \<Rightarrow> (('i, 'o) cluster, 'i list) pym" where
  "readSparkDataframe spark readDestination readUri readFormat readOptions =
     (let req = read_req spark readDestination readUri readFormat readOptions
      in (\<lambda>c. (storage c req, c\<lparr>trace := trace c @ [ReadDataframe req]\<rparr>)))"

definition write_req ::
  "session_conf \<Rightarrow> string \<Rightarrow> string \<Rightarrow> string \<Rightarrow> string \<Rightarrow> options \<Rightarrow> write_request" where
  "write_req spark writeDestination writeUri writeFormat writeMode writeOptions =
     \<lparr>w_session = spark, w_destination = writeDestination, w_uri = writeUri,
      w_format = writeFormat, w_mode = writeMode, w_options = writeOptions\<rparr>"

definition writeSparkDataframe ::
  "session_conf \<Rightarrow> string \<Rightarrow> string \<Rightarrow> string \<Rightarrow> string \<Rightarrow> options \<Rightarrow> 'o list
     \<Rightarrow> (('i, 'o) cluster, unit) pym" where
  "writeSparkDataframe spark writeDestination writeUri writeFormat writeMode writeOptions df =
     (let req = write_req spark writeDestination writeUri writeFormat writeMode writeOptions
      in (\<lambda>c. (Inr (), c\<lparr>trace := trace c @ [WriteDataframe req df]\<rparr>)))"

text \<open>\<^verbatim>\<open>df.union(other)\<close>: a new data frame with the rows of both; neither operand changes.\<close>

definition df_union :: "'r list \<Rightarrow> 'r list \<Rightarrow> 'r list" where
  "df_union df other = df @ other"

section \<open>Parameters of a job\<close>

text \<open>The parameters the mapper and the reducer have in common, under their names.\<close>

record job_args =
  appName :: string
  readDestination :: string
  readFormat :: string
  readOptions :: options
  writeDestination :: string
  writeUri :: string
  writeFormat :: string
  writeMode :: string
  writeOptions :: options
  spark_credentials_secret_arn :: string

section \<open>Rules\<close>

lemma os_environ_apply [py_simps]:
  "os_environ name c =
     (case environ c name of None \<Rightarrow> (Inl (KeyError name), c) | Some v \<Rightarrow> (Inr v, c))"
  by (simp add: os_environ_def)

lemma get_spark_aws_credentials_apply [py_simps]:
  "get_spark_aws_credentials region arn stage direction c =
     (secrets c region arn stage direction,
      c\<lparr>trace := trace c @ [GetCredentials region arn stage direction]\<rparr>)"
  by (simp add: get_spark_aws_credentials_def)

lemma createSparkSession_apply [py_simps]:
  "createSparkSession an rd wd ru wu rc wc c =
     (Inr \<lparr>s_appName = an, s_readDestination = rd, s_writeDestination = wd, s_readUri = ru,
           s_writeUri = wu, s_readCredentials = rc, s_writeCredentials = wc\<rparr>,
      c\<lparr>trace := trace c @
           [CreateSession \<lparr>s_appName = an, s_readDestination = rd, s_writeDestination = wd,
              s_readUri = ru, s_writeUri = wu, s_readCredentials = rc,
              s_writeCredentials = wc\<rparr>]\<rparr>)"
  by (simp add: createSparkSession_def Let_def)

lemma readSparkDataframe_apply [py_simps]:
  "readSparkDataframe spark rd ru fmt ro c =
     (storage c (read_req spark rd ru fmt ro),
      c\<lparr>trace := trace c @ [ReadDataframe (read_req spark rd ru fmt ro)]\<rparr>)"
  by (simp add: readSparkDataframe_def Let_def)

lemma writeSparkDataframe_apply [py_simps]:
  "writeSparkDataframe spark wd wu fmt wm wo df c =
     (Inr (), c\<lparr>trace := trace c @ [WriteDataframe (write_req spark wd wu fmt wm wo) df]\<rparr>)"
  by (simp add: writeSparkDataframe_def Let_def)

end
