(* ===== verification/TextOps.thy ===== *)
theory TextOps
  imports LD_Prelude "HOL-Library.Sublist"
begin

text \<open>
  The two text functions of the engine that the mapper applies with fixed patterns:
  removing white space at both ends, and splitting at separators.

  \<^item> \<open>trim\<close> is \<^verbatim>\<open>regexp_replace(value, "^\s+|\s+$", "")\<close>: the white space at the
    start and at the end of the text is removed, the white space inside stays.
    \<open>is_space\<close> is the class \<^verbatim>\<open>\s\<close> of the engine's regular expressions.
  \<^item> \<open>split_seps seps s\<close> is \<^verbatim>\<open>split(s, pattern)\<close> for a pattern that is an alternation
    of literal strings, \<open>seps\<close>: the text is cut at every match, scanning from the left,
    at each position the first alternative that matches is taken, and empty fields are
    kept, the last included.  A text without a match is its own single field.
  The patterns of the mapper are \<open>crlf2\<close> (a blank line) and \<open>header_seps\<close> (the end
  of a header line, or the colon and space after a field name).
\<close>

section \<open>White space\<close>

definition is_space :: "char \<Rightarrow> bool" where
  "is_space c = (c \<in> {CHR '' '', CHR 0x09, CHR 0x0A, CHR 0x0B, CHR 0x0C, CHR 0x0D})"

definition trim :: "string \<Rightarrow> string" where
  "trim s = rev (dropWhile is_space (rev (dropWhile is_space s)))"

section \<open>Splitting at separators\<close>

fun match_sep :: "'a list list \<Rightarrow> 'a list \<Rightarrow> 'a list option" where
  "match_sep [] s = None"
| "match_sep (sep # seps) s =
     (if sep \<noteq> [] \<and> prefix sep s then Some (drop (length sep) s) else match_sep seps s)"

lemma match_sep_shorter: "match_sep seps s = Some rest \<Longrightarrow> length rest < length s"
  by (induction seps) (auto split: if_splits simp: prefix_def)

function split_seps :: "'a list list \<Rightarrow> 'a list \<Rightarrow> 'a list list" where
  "split_seps seps s =
     (case match_sep seps s of
        Some rest \<Rightarrow> [] # split_seps seps rest
      | None \<Rightarrow>
          (case s of
             [] \<Rightarrow> [[]]
           | c # cs \<Rightarrow> (case split_seps seps cs of [] \<Rightarrow> [[c]] | f # fs \<Rightarrow> (c # f) # fs)))"
  by pat_completeness auto

termination
  by (relation "measure (\<lambda>(seps, s). length s)") (auto dest: match_sep_shorter)

declare split_seps.simps [simp del]

definition crlf :: string where
  "crlf = [CHR 0x0D, CHR 0x0A]"

definition crlf2 :: string where
  "crlf2 = crlf @ crlf"

definition header_seps :: "string list" where
  "header_seps = ['': '', crlf]"

section \<open>Rules for splitting\<close>

lemma match_sep_Nil [simp]: "match_sep seps [] = None"
  by (induction seps) auto

lemma split_seps_Nil [simp]: "split_seps seps [] = [[]]"
  by (simp add: split_seps.simps)

lemma split_seps_match:
  "match_sep seps s = Some rest \<Longrightarrow> split_seps seps s = [] # split_seps seps rest"
  by (simp add: split_seps.simps [of seps s])

lemma split_seps_not_Nil [simp]: "split_seps seps s \<noteq> []"
  by (induction seps s rule: split_seps.induct)
     (subst split_seps.simps, auto split: option.splits list.splits)

lemma split_seps_skip:
  "match_sep seps (c # cs) = None \<Longrightarrow>
   split_seps seps (c # cs) = (c # hd (split_seps seps cs)) # tl (split_seps seps cs)"
  by (subst split_seps.simps) (auto split: list.splits)

lemma split_seps_single: "split_seps [[c]] s = split_on c s"
proof (induction s)
  case Nil
  show ?case by simp
next
  case (Cons x s)
  show ?case
  proof (cases "x = c")
    case True
    then have "match_sep [[c]] (x # s) = Some s" by simp
    with Cons True show ?thesis by (simp add: split_seps_match)
  next
    case False
    then have "match_sep [[c]] (x # s) = None" by simp
    with Cons False show ?thesis by (simp add: split_seps_skip split: list.splits)
  qed
qed

section \<open>Joining and splitting\<close>

text \<open>Joining the fields with the separator gives the text back, whatever the text.\<close>

lemma join_split_seps:
  assumes "sep \<noteq> []"
  shows "join sep (split_seps [sep] s) = s"
proof (induction "[sep]" s rule: split_seps.induct)
  case (1 s)
  show ?case
  proof (cases "match_sep [sep] s")
    case (Some rest)
    with assms have s: "s = sep @ rest"
      by (auto simp: prefix_def split: if_splits)
    from 1(2) [OF Some] have "join sep (split_seps [sep] rest) = rest" .
    moreover have "join sep ([] # split_seps [sep] rest) = sep @ join sep (split_seps [sep] rest)"
      by (simp add: join_Cons)
    ultimately show ?thesis using Some s by (simp add: split_seps_match)
  next
    case None
    show ?thesis
    proof (cases s)
      case Nil
      then show ?thesis by simp
    next
      case (Cons c cs)
      obtain f fs where f: "split_seps [sep] cs = f # fs"
        by (cases "split_seps [sep] cs") simp_all
      with 1(1) [OF None Cons] have "join sep (f # fs) = cs" by simp
      moreover have "join sep ((c # f) # fs) = c # join sep (f # fs)" by (rule join_hd_Cons)
      ultimately show ?thesis using None Cons f by (simp add: split_seps_skip)
    qed
  qed
qed

text \<open>
  \<open>sep_free seps x\<close>: no separator begins inside \<open>x\<close>, whatever follows \<open>x\<close>: no
  end of \<open>x\<close> starts with a separator or is the start of one.
\<close>

definition sep_free :: "'a list list \<Rightarrow> 'a list \<Rightarrow> bool" where
  "sep_free seps x =
     (\<forall>t \<in> set (suffixes x). t \<noteq> [] \<longrightarrow> (\<forall>sep \<in> set seps. \<not> prefix sep t \<and> \<not> prefix t sep))"

lemma sep_free_Nil [simp]: "sep_free seps []"
  by (simp add: sep_free_def)

lemma sep_free_tl: "sep_free seps (c # x) \<Longrightarrow> sep_free seps x"
  by (simp add: sep_free_def)

lemma sep_free_no_match:
  assumes "sep_free seps x" and "x \<noteq> []"
  shows "match_sep seps (x @ rest) = None"
proof -
  from assms have "\<forall>sep \<in> set seps. \<not> prefix sep x \<and> \<not> prefix x sep"
    by (auto simp: sep_free_def)
  then have "\<forall>sep \<in> set seps. \<not> prefix sep (x @ rest)"
    by (auto simp: prefix_append)
  then show ?thesis by (induction seps) auto
qed

lemma split_seps_field:
  assumes "match_sep seps (sep @ s) = Some s"
  shows "sep_free seps x \<Longrightarrow> split_seps seps (x @ sep @ s) = x # split_seps seps s"
proof (induction x)
  case Nil
  with assms show ?case by (simp add: split_seps_match)
next
  case (Cons c x)
  from Cons.prems have "match_sep seps ((c # x) @ sep @ s) = None"
    by (rule sep_free_no_match) simp
  moreover from Cons have "split_seps seps (x @ sep @ s) = x # split_seps seps s"
    by (simp add: sep_free_tl)
  ultimately show ?case by (simp add: split_seps_skip)
qed

lemma split_seps_free: "sep_free seps x \<Longrightarrow> split_seps seps x = [x]"
proof (induction x)
  case Nil
  show ?case by simp
next
  case (Cons c x)
  from Cons.prems have "match_sep seps ((c # x) @ []) = None"
    by (rule sep_free_no_match) simp
  with Cons show ?case by (simp add: split_seps_skip sep_free_tl)
qed

text \<open>Splitting undoes joining when no field has a separator in it.\<close>

lemma split_seps_join:
  assumes "\<And>s. match_sep seps (sep @ s) = Some s"
  shows "xs \<noteq> [] \<Longrightarrow> list_all (sep_free seps) xs \<Longrightarrow> split_seps seps (join sep xs) = xs"
proof (induction xs)
  case Nil
  then show ?case by simp
next
  case (Cons x xs)
  show ?case
  proof (cases "xs = []")
    case True
    with Cons.prems show ?thesis by (simp add: split_seps_free)
  next
    case False
    with Cons have "split_seps seps (join sep xs) = xs" by simp
    moreover from Cons.prems have "split_seps seps (x @ sep @ join sep xs) =
        x # split_seps seps (join sep xs)"
      by (intro split_seps_field assms) simp
    ultimately show ?thesis using False by (simp add: join_Cons)
  qed
qed

section \<open>The separators of the mapper\<close>

lemma crlf_not_Nil [simp]: "crlf \<noteq> []" "crlf2 \<noteq> []"
  by (simp_all add: crlf2_def crlf_def)

lemma match_crlf2 [simp]: "match_sep [crlf2] (crlf2 @ s) = Some s"
  by simp

lemma match_header_seps [simp]:
  "match_sep header_seps (crlf @ s) = Some s"
  "match_sep header_seps (CHR 0x3A # CHR 0x20 # s) = Some s"
  by (simp_all add: header_seps_def crlf_def)

lemma sep_free_Cons:
  "sep_free seps (c # x) \<longleftrightarrow>
     (\<forall>sep \<in> set seps. \<not> prefix sep (c # x) \<and> \<not> prefix (c # x) sep) \<and> sep_free seps x"
  by (auto simp: sep_free_def)

lemmas sep_free_eval = sep_free_Cons header_seps_def crlf2_def crlf_def

section \<open>Trimming\<close>

lemma trim_Nil [simp]: "trim [] = []"
  by (simp add: trim_def)

lemma trim_spaces:
  assumes "list_all is_space s"
  shows "trim s = []"
proof -
  from assms have "dropWhile is_space s = []"
    by (simp add: dropWhile_eq_Nil_conv list_all_iff)
  then have "trim s = rev (dropWhile is_space (rev []))"
    by (simp only: trim_def)
  then show ?thesis by simp
qed

lemma trim_padded:
  assumes "list_all is_space a" and "list_all is_space b"
    and "s \<noteq> []" and "\<not> is_space (hd s)" and "\<not> is_space (last s)"
  shows "trim (a @ s @ b) = s"
proof -
  from assms(1,3,4) have "dropWhile is_space (a @ s @ b) = s @ b"
    by (cases s) (simp_all add: dropWhile_append list_all_iff)
  moreover from assms(2,3,5) have "dropWhile is_space (rev b @ rev s) = rev s"
    by (cases s rule: rev_cases) (simp_all add: dropWhile_append list_all_iff)
  ultimately show ?thesis by (simp add: trim_def)
qed

lemma trim_ends:
  "trim s = [] \<or> \<not> is_space (hd (trim s)) \<and> \<not> is_space (last (trim s))"
proof (cases "trim s = []")
  case False
  let ?t = "dropWhile is_space s"
  let ?u = "dropWhile is_space (rev ?t)"
  from False have u: "?u \<noteq> []" by (simp add: trim_def)
  then have "\<not> is_space (hd ?u)" by (rule hd_dropWhile)
  then have last: "\<not> is_space (last (trim s))"
    using u by (simp add: trim_def last_rev)
  from u have t: "?t \<noteq> []" by (metis dropWhile.simps(1) rev.simps(1))
  then have "\<not> is_space (hd ?t)" by (rule hd_dropWhile)
  moreover have "hd (trim s) = hd ?t"
  proof -
    obtain v where "rev ?t = takeWhile is_space (rev ?t) @ ?u" by simp
    then have "?t = rev ?u @ rev (takeWhile is_space (rev ?t))"
      by (metis rev_append rev_rev_ident)
    with u show ?thesis by (metis hd_append2 rev_is_Nil_conv trim_def)
  qed
  ultimately show ?thesis using last by simp
qed simp

lemma trim_idem [simp]: "trim (trim s) = trim s"
proof (cases "trim s = []")
  case True
  then show ?thesis by simp
next
  case False
  with trim_ends [of s] have "\<not> is_space (hd (trim s))" "\<not> is_space (last (trim s))" by auto
  with False show ?thesis using trim_padded [of "[]" "[]" "trim s"] by simp
qed

end
