(* ===== verification/WarcSchema.thy ===== *)
theory WarcSchema
  imports Main
begin

text \<open>
  The columns of the frames the Spark handlers exchange.  The mapper writes one row per
  WARC conversion record, with the columns of \<open>warc_row\<close>; the reducer reads such rows
  and uses two of the columns, \<^verbatim>\<open>language\<close> and \<^verbatim>\<open>contentLength\<close>, which are the
  record \<open>lang_row\<close> that \<open>warc_row\<close> extends.  A column is nullable: its value is an
  option.  The type of a timestamp is a parameter: it is the engine's.
\<close>

record lang_row =
  language :: "string option"
  contentLength :: "int option"

record 't warc_row = lang_row +
  warcDate :: "'t option"
  warcRecordId :: "string option"
  contentType :: "string option"
  warcType :: "string option"
  warcRefersTo :: "string option"
  blockDigest :: "string option"
  url :: "string option"
  docId :: "string option"
  partitionKey :: "string option"
  docText :: "string option"

text \<open>The frame of the \<^verbatim>\<open>select\<close>, before \<^verbatim>\<open>drop('warcFileName')\<close>.\<close>

record 't selected_row = "'t warc_row" +
  warcFileName :: "string option"

end
