(* ===== verification/SparkMapper.thy ===== *)
theory SparkMapper
  imports PyEffects SparkEngine TextOps WarcSchema "HOL-Library.AList"
begin

text \<open>
  \<^verbatim>\<open>src/letsdata_interfaces/readers/spark/SparkMapperInterface.py\<close>, in two parts:
  the function \<^verbatim>\<open>to_map\<close>, and from section "The method" on the method
  \<^verbatim>\<open>mapper\<close> with its two credential helpers (named \<open>mapper_read_credentials\<close> and
  \<open>mapper_write_credentials\<close> here, since the reducer has helpers of the same names).

  \<^verbatim>\<open>to_map\<close> is the function the mapper registers as a UDF.  It
  turns the list \<^verbatim>\<open>[warcFormatKey, k1, v1, k2, v2, ...]\<close>, which the engine produces by
  splitting a WARC header, into the dict \<^verbatim>\<open>{k1: v1, k2: v2, ...}\<close>.

  \<^item> The argument is a list of strings, or \<^verbatim>\<open>None\<close> for a null column.  The dict is an
    association list in insertion order; \<^verbatim>\<open>map_value[key] = value\<close> is
    \<open>AList.update\<close>, which overwrites a key where it stands and appends a new one.
  \<^item> \<open>to_map_loop\<close> is the \<^verbatim>\<open>for\<close> loop over \<^verbatim>\<open>range(1, len(arr), 2)\<close> with the
    dict as its state.  It stops at the first exception and returns it with the dict
    built so far, since the \<^verbatim>\<open>except\<close> block falls through to \<^verbatim>\<open>return map_value\<close>.
  \<^item> \<open>to_map\<close> is the function: the loop under \<^verbatim>\<open>try\<close>, with \<^verbatim>\<open>len(arr)\<close> inside
    it, and the \<^verbatim>\<open>print\<close> of the \<^verbatim>\<open>except\<close> block.
\<close>

section \<open>The function\<close>

type_synonym str_dict = "(string \<times> string) list"

fun to_map_loop :: "string list \<Rightarrow> nat list \<Rightarrow> str_dict \<Rightarrow> py_exn option \<times> str_dict" where
  "to_map_loop arr [] map_value = (None, map_value)"
| "to_map_loop arr (i # rest) map_value =
     (case py_index arr i of
        Inl err \<Rightarrow> (Some err, map_value)
      | Inr key \<Rightarrow>
          (case py_index arr (i + 1) of
             Inl err \<Rightarrow> (Some err, map_value)
           | Inr val \<Rightarrow> to_map_loop arr rest (AList.update key val map_value)))"

definition to_map_try :: "string list option \<Rightarrow> py_exn option \<times> str_dict" where
  "to_map_try arr =
     (case py_len_list arr of
        Inl err \<Rightarrow> (Some err, [])
      | Inr n \<Rightarrow> to_map_loop (case arr of Some xs \<Rightarrow> xs | None \<Rightarrow> []) (py_range 1 n 2) [])"

definition to_map :: "string list option \<Rightarrow> str_dict py" where
  "to_map arr =
     (case to_map_try arr of
        (None, map_value) \<Rightarrow> py_return map_value
      | (Some err, map_value) \<Rightarrow>
          py_bind (py_print [FLit ''error: '', FExn err, FLit '', arr: '', FArr arr])
            (\<lambda>_. py_return map_value))"

section \<open>The list a header splits into\<close>

text \<open>\<open>flatten kvs\<close>: the keys and values in turn, \<^verbatim>\<open>k1, v1, k2, v2, ...\<close>.\<close>

fun flatten :: "str_dict \<Rightarrow> string list" where
  "flatten [] = []"
| "flatten ((k, v) # kvs) = k # v # flatten kvs"

text \<open>The dict after the assignments \<^verbatim>\<open>m[k1] = v1; m[k2] = v2; ...\<close>, in this order.\<close>

definition assign_all :: "str_dict \<Rightarrow> str_dict \<Rightarrow> str_dict" where
  "assign_all kvs m = fold (\<lambda>(k, v). AList.update k v) kvs m"

lemma length_flatten [simp]: "length (flatten kvs) = 2 * length kvs"
  by (induction kvs) auto

lemma flatten_append [simp]: "flatten (xs @ ys) = flatten xs @ flatten ys"
  by (induction xs) auto

lemma assign_all_simps [simp]:
  "assign_all [] m = m"
  "assign_all ((k, v) # kvs) m = assign_all kvs (AList.update k v m)"
  by (simp_all add: assign_all_def)

lemma distinct_assign_all: "distinct (map fst m) \<Longrightarrow> distinct (map fst (assign_all kvs m))"
  by (induction kvs arbitrary: m) (auto simp: distinct_update)

lemma map_of_assign_all: "map_of (assign_all kvs m) = map_of m ++ map_of (rev kvs)"
  by (induction kvs arbitrary: m) (auto simp: update_conv' map_add_def fun_eq_iff split: option.splits)

lemma update_append_new:
  "k \<notin> fst ` set m \<Longrightarrow> AList.update k v m = m @ [(k, v)]"
  by (induction m) auto

lemma assign_all_distinct:
  "distinct (map fst (m @ kvs)) \<Longrightarrow> assign_all kvs m = m @ kvs"
proof (induction kvs arbitrary: m)
  case Nil
  show ?case by simp
next
  case (Cons kv kvs)
  obtain k v where kv: "kv = (k, v)" by (cases kv)
  from Cons.prems kv have new: "k \<notin> fst ` set m" by auto
  from Cons.prems kv have "distinct (map fst ((m @ [(k, v)]) @ kvs))" by simp
  then have "assign_all kvs (m @ [(k, v)]) = (m @ [(k, v)]) @ kvs" by (rule Cons.IH)
  with new kv show ?case by (simp add: update_append_new)
qed

section \<open>The loop\<close>

lemma odd_indices_Suc:
  "map (\<lambda>k. i + 2 * k) [0..<Suc n] = i # map (\<lambda>k. (i + 2) + 2 * k) [0..<n]"
proof -
  have "[0..<Suc n] = 0 # map Suc [0..<n]"
    by (simp add: upt_conv_Cons map_Suc_upt del: upt_Suc)
  then show ?thesis by (simp add: comp_def del: upt_Suc)
qed

text \<open>
  Running over the indices of the keys of a stretch \<open>flatten kvs\<close> that starts at
  position \<open>i\<close> performs the assignments of \<open>kvs\<close> and raises nothing.
\<close>

lemma to_map_loop_pairs:
  "length pre = i \<Longrightarrow>
   to_map_loop (pre @ flatten kvs @ post) (map (\<lambda>k. i + 2 * k) [0..<length kvs] @ rest) m =
   to_map_loop (pre @ flatten kvs @ post) rest (assign_all kvs m)"
proof (induction kvs arbitrary: pre i m)
  case Nil
  show ?case by simp
next
  case (Cons kv kvs)
  obtain k v where kv: "kv = (k, v)" by (cases kv)
  let ?arr = "pre @ flatten (kv # kvs) @ post"
  have arr: "?arr = (pre @ [k, v]) @ flatten kvs @ post" by (simp add: kv)
  from Cons.prems have at_i: "py_index ?arr i = Inr k" "py_index ?arr (i + 1) = Inr v"
    by (simp_all add: kv py_index_def nth_append)
  from Cons.prems have "length (pre @ [k, v]) = i + 2" by simp
  then have IH: "to_map_loop ?arr (map (\<lambda>j. (i + 2) + 2 * j) [0..<length kvs] @ rest)
        (AList.update k v m) =
      to_map_loop ?arr rest (assign_all kvs (AList.update k v m))"
    unfolding arr by (rule Cons.IH)
  have "to_map_loop ?arr (map (\<lambda>j. i + 2 * j) [0..<length (kv # kvs)] @ rest) m =
      to_map_loop ?arr (map (\<lambda>j. (i + 2) + 2 * j) [0..<length kvs] @ rest) (AList.update k v m)"
    by (simp only: length_Cons odd_indices_Suc append_Cons to_map_loop.simps at_i sum.case)
  with IH show ?case by (simp add: kv)
qed

section \<open>Pairing up any list\<close>

text \<open>\<open>pairs_of xs\<close>: the elements of \<open>xs\<close> two by two; a last element without partner is left out.\<close>

fun pairs_of :: "string list \<Rightarrow> str_dict" where
  "pairs_of (k # v # xs) = (k, v) # pairs_of xs"
| "pairs_of xs = []"

lemma pairs_of_flatten [simp]: "pairs_of (flatten kvs) = kvs"
  by (induction kvs) auto

lemma pairs_of_flatten_snoc [simp]: "pairs_of (flatten kvs @ [k]) = kvs"
  by (induction kvs) auto

lemma length_pairs_of [simp]: "length (pairs_of xs) = length xs div 2"
  by (induction xs rule: pairs_of.induct) simp_all

lemma flatten_pairs_of:
  "xs = flatten (pairs_of xs) @ (if even (length xs) then [] else [last xs])"
  by (induction xs rule: pairs_of.induct) auto

section \<open>The body of the try\<close>

lemma to_map_try_None [simp]: "to_map_try None = (Some (no_len_error PNone), [])"
  by (simp add: to_map_try_def)

lemma to_map_try_Nil [simp]: "to_map_try (Some []) = (None, [])"
  by (simp add: to_map_try_def py_range_odd)

lemma to_map_try_complete:
  "to_map_try (Some (h # flatten kvs)) = (None, assign_all kvs [])"
proof -
  have "to_map_loop ([h] @ flatten kvs @ []) (map (\<lambda>k. 1 + 2 * k) [0..<length kvs] @ []) [] =
      to_map_loop ([h] @ flatten kvs @ []) [] (assign_all kvs [])"
    by (rule to_map_loop_pairs) simp
  then show ?thesis by (simp add: to_map_try_def py_range_odd)
qed

lemma to_map_try_dangling:
  "to_map_try (Some (h # flatten kvs @ [k])) =
     (Some (IndexError ''list index out of range''), assign_all kvs [])"
proof -
  let ?arr = "[h] @ flatten kvs @ [k]"
  have "to_map_loop ?arr (map (\<lambda>j. 1 + 2 * j) [0..<length kvs] @ [1 + 2 * length kvs]) [] =
      to_map_loop ?arr [1 + 2 * length kvs] (assign_all kvs [])"
    by (rule to_map_loop_pairs) simp
  moreover have "py_index ?arr (1 + 2 * length kvs) = Inr k"
    by (simp add: py_index_def nth_append)
  moreover have "py_index ?arr (1 + 2 * length kvs + 1) = Inl (IndexError ''list index out of range'')"
    by (simp add: py_index_def)
  ultimately have "to_map_loop ?arr (map (\<lambda>j. 1 + 2 * j) [0..<Suc (length kvs)]) [] =
      (Some (IndexError ''list index out of range''), assign_all kvs [])"
    by simp
  then show ?thesis by (simp add: to_map_try_def py_range_odd)
qed

text \<open>On any list: the pairs after the first element are assigned, and a key without
  value at the end raises \<^verbatim>\<open>IndexError\<close>.\<close>

lemma to_map_try_Some:
  "to_map_try (Some arr) =
     (if arr \<noteq> [] \<and> even (length arr) then Some (IndexError ''list index out of range'') else None,
      assign_all (pairs_of (tl arr)) [])"
proof (cases arr)
  case Nil
  then show ?thesis by simp
next
  case (Cons h xs)
  show ?thesis
  proof (cases "even (length xs)")
    case True
    with flatten_pairs_of [of xs] have "xs = flatten (pairs_of xs)" by simp
    then have "to_map_try (Some (h # xs)) = (None, assign_all (pairs_of xs) [])"
      using to_map_try_complete [of h "pairs_of xs"] by simp
    with Cons True show ?thesis by simp
  next
    case False
    with flatten_pairs_of [of xs] have "xs = flatten (pairs_of xs) @ [last xs]" by simp
    then have "to_map_try (Some (h # xs)) =
        (Some (IndexError ''list index out of range''), assign_all (pairs_of xs) [])"
      using to_map_try_dangling [of h "pairs_of xs" "last xs"] by simp
    with Cons False show ?thesis by simp
  qed
qed

section \<open>What the function promises\<close>

definition to_map_error_line :: "py_exn \<Rightarrow> string list option \<Rightarrow> fpart list" where
  "to_map_error_line err arr = [FLit ''error: '', FExn err, FLit '', arr: '', FArr arr]"

lemma to_map_apply:
  "to_map arr w =
     (case to_map_try arr of
        (None, m) \<Rightarrow> (Inr m, w)
      | (Some err, m) \<Rightarrow> (Inr m, w\<lparr>stdout := stdout w @ [to_map_error_line err arr]\<rparr>))"
  by (simp add: to_map_def to_map_error_line_def py_simps split: prod.splits option.splits)

text \<open>
  Claim C38.  On every list of strings \<open>to_map\<close> returns the dict of the assignments
  \<^verbatim>\<open>m[k] = v\<close> for the pairs \<open>k, v\<close> that follow the first element, in order.  A list of
  even length ends with a key that has no value: the function then prints one line for
  the \<^verbatim>\<open>IndexError\<close> and returns the dict of the pairs before it.  Otherwise it prints
  nothing.
\<close>

theorem to_map_closed_form:
  "to_map (Some arr) w =
     (Inr (assign_all (pairs_of (tl arr)) []),
      if arr \<noteq> [] \<and> even (length arr)
      then w\<lparr>stdout := stdout w @
              [to_map_error_line (IndexError ''list index out of range'') (Some arr)]\<rparr>
      else w)"
  by (simp add: to_map_apply to_map_try_Some)

text \<open>
  \<open>to_map\<close> raises nothing, whatever its argument, a null column included,
  and the dict it returns holds each key once.
\<close>

theorem to_map_total:
  "\<exists>m w'. to_map arr w = (Inr m, w') \<and> distinct (map fst m)"
proof (cases arr)
  case None
  then show ?thesis by (simp add: to_map_apply)
next
  case (Some xs)
  have "distinct (map fst (assign_all (pairs_of (tl xs)) []))"
    by (rule distinct_assign_all) simp
  with Some show ?thesis by (simp add: to_map_apply to_map_try_Some)
qed

text \<open>
  Round trip: for header fields with distinct names, \<open>to_map\<close> of the list
  of the format key followed by the names and values in turn is the fields, in their
  order, and nothing is printed.
\<close>

theorem to_map_roundtrip:
  assumes "distinct (map fst kvs)"
  shows "to_map (Some (h # flatten kvs)) w = (Inr kvs, w)"
proof -
  from assms have "assign_all kvs [] = [] @ kvs"
    by (intro assign_all_distinct) simp
  then show ?thesis by (simp add: to_map_apply to_map_try_complete)
qed

theorem to_map_roundtrip_witness:
  "to_map (Some [''WARC/1.0'', ''WARC-Type'', ''conversion'', ''Content-Length'', ''382'']) world0 =
     (Inr [(''WARC-Type'', ''conversion''), (''Content-Length'', ''382'')], world0)"
  using to_map_roundtrip
    [of "[(''WARC-Type'', ''conversion''), (''Content-Length'', ''382'')]" "''WARC/1.0''" world0]
  by simp

text \<open>
  Looking a name up in the result gives the value of its last occurrence in
  the list: a header field that is repeated keeps its last value.
\<close>

theorem to_map_lookup:
  "\<exists>m w'. to_map (Some arr) w = (Inr m, w') \<and> map_of m = map_of (rev (pairs_of (tl arr)))"
  by (simp add: to_map_apply to_map_try_Some map_of_assign_all)

section \<open>The method\<close>

text \<open>
  \<^verbatim>\<open>SparkMapperInterface.mapper\<close>.  The engine's operators work on columns; a frame is
  the list of its rows, and each statement of the method is a function on rows:

  \<^item> \<open>trim_value\<close>: \<^verbatim>\<open>regexp_replace(df.value, r"^\s+|\s+$", "")\<close>;
  \<^item> \<open>split_record\<close>: \<^verbatim>\<open>split(df.value, '\r\n\r\n')\<close> and the columns \<^verbatim>\<open>s[0]\<close>,
    \<^verbatim>\<open>s[1]\<close>; an index past the end of the array is null;
  \<^item> \<open>split_header\<close>: \<^verbatim>\<open>split(df.header, ': |\r\n')\<close>;
  \<^item> \<open>array_to_map\<close>: the UDF, the dict \<^verbatim>\<open>to_map\<close> returns; what it prints is printed
    where the engine runs it and is not part of the frame;
  \<^item> \<open>select_row\<close>: the thirteen columns of the \<^verbatim>\<open>select\<close>; \<^verbatim>\<open>header_map[k]\<close> is the
    value under \<open>k\<close> or null;
  \<^item> \<open>transform\<close>: all of them, then \<^verbatim>\<open>where(col('warcType') == lit('conversion'))\<close>,
    which keeps a row when the comparison is true and drops it when it is false or null,
    then \<^verbatim>\<open>drop('warcFileName')\<close>.
  A null goes through every operator as null.  The cast to integer and
  \<^verbatim>\<open>to_timestamp\<close> are the engine's and are parameters of the model
  (\<open>sql_functions\<close>).
\<close>

record mapper_args = job_args +
  readUri :: string

record 't sql_functions =
  cast_integer :: "string \<Rightarrow> int option"
  to_timestamp :: "string \<Rightarrow> 't option"

definition trim_value :: "string option \<Rightarrow> string option" where
  "trim_value v = map_option trim v"

definition element :: "'a list \<Rightarrow> nat \<Rightarrow> 'a option" where
  "element s i = (if i < length s then Some (s ! i) else None)"

definition split_record :: "string option \<Rightarrow> string option \<times> string option" where
  "split_record v =
     (case map_option (split_seps [crlf2]) v of
        None \<Rightarrow> (None, None)
      | Some s \<Rightarrow> (element s 0, element s 1))"

definition split_header :: "string option \<Rightarrow> string list option" where
  "split_header header = map_option (split_seps header_seps) header"

definition array_to_map :: "string list option \<Rightarrow> str_dict" where
  "array_to_map h = snd (to_map_try h)"

definition select_row :: "'t sql_functions \<Rightarrow> str_dict \<Rightarrow> string option \<Rightarrow> 't selected_row" where
  "select_row sql header_map payload =
     \<lparr>language = map_of header_map ''WARC-Identified-Content-Language'',
      contentLength = Option.bind (map_of header_map ''Content-Length'') (cast_integer sql),
      warcDate = Option.bind (map_of header_map ''WARC-Date'') (to_timestamp sql),
      warcRecordId = map_of header_map ''WARC-Record-ID'',
      contentType = map_of header_map ''Content-Type'',
      warcType = map_of header_map ''WARC-Type'',
      warcRefersTo = map_of header_map ''WARC-Refers-To'',
      blockDigest = map_of header_map ''WARC-Block-Digest'',
      url = map_of header_map ''WARC-Target-URI'',
      docId = map_of header_map ''WARC-Target-URI'',
      partitionKey = map_of header_map ''WARC-Target-URI'',
      docText = payload,
      warcFileName = map_of header_map ''WARC-Filename''\<rparr>"

definition mapper_row :: "'t sql_functions \<Rightarrow> string option \<Rightarrow> 't selected_row" where
  "mapper_row sql v =
     (let (header, payload) = split_record (trim_value v);
          h = split_header header
      in select_row sql (array_to_map h) payload)"

definition drop_warcFileName :: "'t selected_row \<Rightarrow> 't warc_row" where
  "drop_warcFileName r = warc_row.truncate r"

definition transform :: "'t sql_functions \<Rightarrow> string option list \<Rightarrow> 't warc_row list" where
  "transform sql df =
     map drop_warcFileName
       (filter (\<lambda>r. warcType r = Some ''conversion'') (map (mapper_row sql) df))"

definition mapper_read_credentials ::
  "string \<Rightarrow> string \<Rightarrow> (('i, 'o) cluster, credentials) pym" where
  "mapper_read_credentials region arn = get_spark_aws_credentials region arn ''mapper'' ''read''"

definition mapper_write_credentials ::
  "string \<Rightarrow> string \<Rightarrow> (('i, 'o) cluster, credentials) pym" where
  "mapper_write_credentials region arn = get_spark_aws_credentials region arn ''mapper'' ''write''"

definition mapper ::
  "'t sql_functions \<Rightarrow> mapper_args \<Rightarrow> ((string option, 't warc_row) cluster, unit) pym" where
  "mapper sql a =
     py_bind (os_environ ''AWS_REGION'') (\<lambda>region.
     py_bind (mapper_read_credentials region (spark_credentials_secret_arn a))
       (\<lambda>readCredentials.
     py_bind (os_environ ''AWS_REGION'') (\<lambda>region'.
     py_bind (mapper_write_credentials region' (spark_credentials_secret_arn a))
       (\<lambda>writeCredentials.
     py_bind (createSparkSession (appName a) (readDestination a) (writeDestination a) (readUri a)
                (writeUri a) readCredentials writeCredentials) (\<lambda>spark.
     py_bind (readSparkDataframe spark (readDestination a) (readUri a) (readFormat a)
                (readOptions a)) (\<lambda>df.
     writeSparkDataframe spark (writeDestination a) (writeUri a) (writeFormat a) (writeMode a)
       (writeOptions a) (transform sql df)))))))"

lemmas mapper_defs [handler_defs] =
  mapper_def mapper_read_credentials_def mapper_write_credentials_def

lemmas mapper_row_defs =
  mapper_row_def trim_value_def split_record_def split_header_def array_to_map_def
  select_row_def element_def

section \<open>WARC records\<close>

text \<open>
  The text of a WARC record as the mapper expects it: the version line, one line
  \<^verbatim>\<open>name: value\<close> per header field, a blank line, and the payload.  \<open>clean_fields\<close>
  says that no field name or value has a separator of the header in it.
\<close>

fun render_fields :: "str_dict \<Rightarrow> string" where
  "render_fields [] = []"
| "render_fields ((k, v) # kvs) = crlf @ k @ '': '' @ v @ render_fields kvs"

definition render_record :: "string \<Rightarrow> str_dict \<Rightarrow> string \<Rightarrow> string" where
  "render_record version kvs payload = version @ render_fields kvs @ crlf2 @ payload"

definition clean_fields :: "str_dict \<Rightarrow> bool" where
  "clean_fields kvs = list_all (\<lambda>(k, v). sep_free header_seps k \<and> sep_free header_seps v) kvs"

section \<open>The operators on a record\<close>

lemma split_header_fields:
  "sep_free header_seps x \<Longrightarrow> clean_fields kvs \<Longrightarrow>
   split_seps header_seps (x @ render_fields kvs) = x # flatten kvs"
proof (induction kvs arbitrary: x)
  case Nil
  then show ?case by (simp add: split_seps_free)
next
  case (Cons kv kvs)
  obtain k v where kv: "kv = (k, v)" by (cases kv)
  with Cons.prems have k: "sep_free header_seps k" and v: "sep_free header_seps v"
    and kvs: "clean_fields kvs" by (simp_all add: clean_fields_def)
  have "split_seps header_seps (x @ crlf @ k @ '': '' @ v @ render_fields kvs) =
      x # split_seps header_seps (k @ '': '' @ v @ render_fields kvs)"
    using Cons.prems(1) by (intro split_seps_field) simp_all
  also have "split_seps header_seps (k @ '': '' @ v @ render_fields kvs) =
      k # split_seps header_seps (v @ render_fields kvs)"
    using k by (intro split_seps_field) simp_all
  also have "split_seps header_seps (v @ render_fields kvs) = v # flatten kvs"
    using v kvs by (rule Cons.IH)
  finally show ?case using kv by simp
qed

lemma element_simps [simp]:
  "element (x # xs) 0 = Some x"
  "element (x # y # ys) (Suc 0) = Some y"
  "element [x] (Suc 0) = None"
  "element [] i = None"
  by (simp_all add: element_def)

lemma split_record_two:
  assumes "sep_free [crlf2] header" and "sep_free [crlf2] payload"
  shows "split_record (Some (header @ crlf2 @ payload)) = (Some header, Some payload)"
proof -
  from assms(1) have "split_seps [crlf2] (header @ crlf2 @ payload) =
      header # split_seps [crlf2] payload"
    by (intro split_seps_field) simp_all
  with assms(2) show ?thesis by (simp add: split_record_def split_seps_free)
qed

lemma split_record_more:
  assumes "sep_free [crlf2] header" and "sep_free [crlf2] payload"
  shows "split_record (Some (header @ crlf2 @ payload @ crlf2 @ rest)) = (Some header, Some payload)"
proof -
  from assms(1) have "split_seps [crlf2] (header @ crlf2 @ payload @ crlf2 @ rest) =
      header # split_seps [crlf2] (payload @ crlf2 @ rest)"
    by (intro split_seps_field) simp_all
  moreover from assms(2) have "split_seps [crlf2] (payload @ crlf2 @ rest) =
      payload # split_seps [crlf2] rest"
    by (intro split_seps_field) simp_all
  ultimately show ?thesis
    by (cases "split_seps [crlf2] rest") (simp_all add: split_record_def element_def)
qed

lemma array_to_map_fields:
  assumes "distinct (map fst kvs)"
  shows "array_to_map (Some (version # flatten kvs)) = kvs"
proof -
  from assms have "assign_all kvs [] = [] @ kvs"
    by (intro assign_all_distinct) simp
  then show ?thesis by (simp add: array_to_map_def to_map_try_complete)
qed

lemma mapper_row_None:
  "mapper_row sql None = select_row sql [] None"
  by (simp add: mapper_row_def trim_value_def split_record_def split_header_def array_to_map_def)

section \<open>What the row transformation promises\<close>

text \<open>
  Claim C33.  Round trip on a well-formed record: for header fields with distinct names
  and no separator inside a name or a value, a version line and a payload that do not
  start or end with white space, and no blank line inside the header or the payload, the
  row the mapper computes from the text of the record, white space around it included, is
  the \<^verbatim>\<open>select\<close> of the header fields themselves with the payload as \<^verbatim>\<open>docText\<close>.
\<close>

theorem mapper_row_record:
  assumes "list_all is_space a" and "list_all is_space b"
    and "version \<noteq> []" and "\<not> is_space (hd version)"
    and "payload \<noteq> []" and "\<not> is_space (last payload)"
    and "sep_free header_seps version" and "clean_fields kvs" and "distinct (map fst kvs)"
    and "sep_free [crlf2] (version @ render_fields kvs)" and "sep_free [crlf2] payload"
  shows "mapper_row sql (Some (a @ render_record version kvs payload @ b)) =
           select_row sql kvs (Some payload)"
proof -
  let ?header = "version @ render_fields kvs"
  have "trim (a @ render_record version kvs payload @ b) = render_record version kvs payload"
    using assms(1-6) by (intro trim_padded) (simp_all add: render_record_def)
  moreover have "split_record (Some (?header @ crlf2 @ payload)) = (Some ?header, Some payload)"
    using assms(10,11) by (rule split_record_two)
  moreover have "split_seps header_seps ?header = version # flatten kvs"
    using assms(7,8) by (rule split_header_fields)
  ultimately show ?thesis
    using assms(9)
    by (simp add: mapper_row_def trim_value_def split_header_def render_record_def
        array_to_map_fields)
qed

text \<open>Records to run examples on.\<close>

definition version0 :: string where "version0 = ''WARC/1.0''"

definition fields0 :: str_dict where
  "fields0 = [(''WARC-Type'', ''conversion''), (''WARC-Target-URI'', ''http://a.io/x''),
              (''WARC-Identified-Content-Language'', ''eng''), (''Content-Length'', ''5'')]"

definition sql0 :: "string sql_functions" where
  "sql0 = \<lparr>cast_integer = (\<lambda>s. if s = ''5'' then Some 5 else None), to_timestamp = Some\<rparr>"

theorem mapper_row_record_witness:
  "mapper_row sql0 (Some (CHR 0x0A # render_record version0 fields0 ''hello'' @ crlf)) =
     \<lparr>language = Some ''eng'', contentLength = Some 5, warcDate = None, warcRecordId = None,
      contentType = None, warcType = Some ''conversion'', warcRefersTo = None,
      blockDigest = None, url = Some ''http://a.io/x'', docId = Some ''http://a.io/x'',
      partitionKey = Some ''http://a.io/x'', docText = Some ''hello'', warcFileName = None\<rparr>"
proof -
  have "mapper_row sql0 (Some ([CHR 0x0A] @ render_record version0 fields0 ''hello'' @ crlf)) =
      select_row sql0 fields0 (Some ''hello'')"
    by (rule mapper_row_record)
       (simp_all add: version0_def fields0_def clean_fields_def is_space_def sep_free_eval)
  then show ?thesis by (simp add: select_row_def fields0_def sql0_def)
qed

lemma transform_append: "transform sql (xs @ ys) = transform sql xs @ transform sql ys"
  by (simp add: transform_def)

lemma transform_Cons:
  "transform sql (v # df) =
     (if warcType (mapper_row sql v) = Some ''conversion''
      then drop_warcFileName (mapper_row sql v) # transform sql df else transform sql df)"
  by (simp add: transform_def)

lemma drop_warcFileName_sel [simp]:
  "language (drop_warcFileName r) = language r"
  "contentLength (drop_warcFileName r) = contentLength r"
  "warcType (drop_warcFileName r) = warcType r"
  "url (drop_warcFileName r) = url r"
  "docId (drop_warcFileName r) = docId r"
  "partitionKey (drop_warcFileName r) = partitionKey r"
  "docText (drop_warcFileName r) = docText r"
  by (simp_all add: drop_warcFileName_def warc_row.truncate_def)

lemma mapper_row_ids:
  "docId (mapper_row sql v) = url (mapper_row sql v)"
  "partitionKey (mapper_row sql v) = url (mapper_row sql v)"
  by (simp_all add: mapper_row_def select_row_def Let_def split: prod.splits)

lemma docText_mapper_row: "docText (mapper_row sql v) = snd (split_record (trim_value v))"
  by (simp add: mapper_row_def select_row_def Let_def split: prod.splits)

text \<open>
  Every row the mapper writes is a conversion record; its \<^verbatim>\<open>docId\<close> and its
  \<^verbatim>\<open>partitionKey\<close> are its \<^verbatim>\<open>url\<close>; and there is at most one row per input row.
\<close>

theorem transform_conversion_only:
  "list_all (\<lambda>r. warcType r = Some ''conversion'' \<and> docId r = url r \<and> partitionKey r = url r)
     (transform sql df) \<and>
   length (transform sql df) \<le> length df"
proof (induction df)
  case Nil
  show ?case by (simp add: transform_def)
next
  case (Cons v df)
  then show ?case by (simp add: transform_Cons mapper_row_ids)
qed

text \<open>A null row of the input is dropped.\<close>

lemma transform_null_row: "transform sql (None # df) = transform sql df"
  by (simp add: transform_Cons mapper_row_None select_row_def)

section \<open>What a run does\<close>

definition mapper_session :: "mapper_args \<Rightarrow> credentials \<Rightarrow> credentials \<Rightarrow> session_conf" where
  "mapper_session a readCredentials writeCredentials =
     \<lparr>s_appName = appName a, s_readDestination = readDestination a,
      s_writeDestination = writeDestination a, s_readUri = readUri a, s_writeUri = writeUri a,
      s_readCredentials = readCredentials, s_writeCredentials = writeCredentials\<rparr>"

definition mapper_calls :: "string \<Rightarrow> mapper_args \<Rightarrow> session_conf \<Rightarrow> 'o ext_call list" where
  "mapper_calls region a spark =
     [GetCredentials region (spark_credentials_secret_arn a) ''mapper'' ''read'',
      GetCredentials region (spark_credentials_secret_arn a) ''mapper'' ''write'',
      CreateSession spark,
      ReadDataframe (read_req spark (readDestination a) (readUri a) (readFormat a) (readOptions a))]"

definition mapper_write :: "mapper_args \<Rightarrow> session_conf \<Rightarrow> write_request" where
  "mapper_write a spark =
     write_req spark (writeDestination a) (writeUri a) (writeFormat a) (writeMode a) (writeOptions a)"

lemmas mapper_spec_defs = mapper_session_def mapper_calls_def mapper_write_def

text \<open>
  Claim C32.  A run in which the region is set, the secret manager answers and the file
  can be read: the mapper returns, and its calls are, in this order, the read and the
  write credentials for stage \<^verbatim>\<open>mapper\<close>, one session, one read of \<^verbatim>\<open>readUri\<close>, and one
  write of the transformed frame.
\<close>

theorem mapper_run:
  assumes "environ c ''AWS_REGION'' = Some region"
    and "secrets c region (spark_credentials_secret_arn a) ''mapper'' ''read'' = Inr rc"
    and "secrets c region (spark_credentials_secret_arn a) ''mapper'' ''write'' = Inr wc"
    and "spark = mapper_session a rc wc"
    and "storage c (read_req spark (readDestination a) (readUri a) (readFormat a) (readOptions a)) = Inr df"
  shows "mapper sql a c =
     (Inr (), c\<lparr>trace := trace c @ mapper_calls region a spark
                  @ [WriteDataframe (mapper_write a spark) (transform sql df)]\<rparr>)"
  using assms by (simp add: mapper_defs py_simps mapper_spec_defs)

text \<open>
  When the read fails the mapper ends with the exception of the read and
  writes nothing.
\<close>

theorem mapper_read_fails:
  assumes "environ c ''AWS_REGION'' = Some region"
    and "secrets c region (spark_credentials_secret_arn a) ''mapper'' ''read'' = Inr rc"
    and "secrets c region (spark_credentials_secret_arn a) ''mapper'' ''write'' = Inr wc"
    and "spark = mapper_session a rc wc"
    and "storage c (read_req spark (readDestination a) (readUri a) (readFormat a) (readOptions a)) = Inl e"
  shows "mapper sql a c = (Inl e, c\<lparr>trace := trace c @ mapper_calls region a spark\<rparr>)"
  using assms by (simp add: mapper_defs py_simps mapper_spec_defs)

section \<open>Records the pipeline does not keep whole\<close>


text \<open>A header whose target URI has a colon and a space in it.\<close>

definition fields1 :: str_dict where
  "fields1 = [(''WARC-Type'', ''conversion''), (''WARC-Target-URI'', ''http://a.io/?q=x: y''),
              (''Content-Length'', ''5'')]"

lemma split_header_fields1:
  "split_seps header_seps (version0 @ render_fields fields1) =
     [''WARC/1.0'', ''WARC-Type'', ''conversion'', ''WARC-Target-URI'', ''http://a.io/?q=x'', ''y'',
      ''Content-Length'', ''5'']"
  by (simp add: version0_def fields1_def split_seps.simps header_seps_def crlf_def)


section \<open>A run on one file\<close>

definition margs0 :: mapper_args where
  "margs0 = \<lparr>appName = ''app'', readDestination = ''S3'', readFormat = ''text'',
     readOptions = [(''lineSep'', [CHR 0x0A] @ crlf2)], writeDestination = ''S3'',
     writeUri = ''s3a://tmp/part-0'', writeFormat = ''parquet'', writeMode = ''overwrite'',
     writeOptions = [(''compression'', ''gzip'')], spark_credentials_secret_arn = ''arn'',
     readUri = ''s3a://crawl/file-0''\<rparr>"

definition rows0 :: "string option list" where
  "rows0 = [Some (render_record version0 fields0 ''hello''), None]"

definition cluster1 :: "(string option, string warc_row) cluster" where
  "cluster1 = \<lparr>environ = [''AWS_REGION'' \<mapsto> ''us-east-1''],
     secrets = (\<lambda>region arn stage direction. Inr (stage @ ''-'' @ direction)),
     storage = (\<lambda>req. if r_uri req = ''s3a://crawl/file-0'' then Inr rows0
                       else Inl (LibraryError ''no such file'')),
     trace = []\<rparr>"

definition spark1 :: session_conf where
  "spark1 = mapper_session margs0 ''mapper-read'' ''mapper-write''"

theorem mapper_run_witness:
  "mapper sql0 margs0 cluster1 =
     (Inr (), cluster1\<lparr>trace :=
        [GetCredentials ''us-east-1'' ''arn'' ''mapper'' ''read'',
         GetCredentials ''us-east-1'' ''arn'' ''mapper'' ''write'',
         CreateSession spark1,
         ReadDataframe (read_req spark1 ''S3'' ''s3a://crawl/file-0'' ''text''
                          [(''lineSep'', [CHR 0x0A] @ crlf2)]),
         WriteDataframe (mapper_write margs0 spark1) (transform sql0 rows0)]\<rparr>)"
  using mapper_run [of cluster1 "''us-east-1''" margs0 "''mapper-read''" "''mapper-write''"
      spark1 rows0 sql0]
  by (simp add: margs0_def cluster1_def spark1_def mapper_calls_def read_req_def)

theorem mapper_read_fails_witness:
  "mapper sql0 (margs0\<lparr>readUri := ''s3a://crawl/none''\<rparr>) cluster1 =
     (Inl (LibraryError ''no such file''),
      cluster1\<lparr>trace :=
        mapper_calls ''us-east-1'' (margs0\<lparr>readUri := ''s3a://crawl/none''\<rparr>)
          (mapper_session (margs0\<lparr>readUri := ''s3a://crawl/none''\<rparr>)
             ''mapper-read'' ''mapper-write'')\<rparr>)"
  using mapper_read_fails [of cluster1 "''us-east-1''" "margs0\<lparr>readUri := ''s3a://crawl/none''\<rparr>"
      "''mapper-read''" "''mapper-write''"
      "mapper_session (margs0\<lparr>readUri := ''s3a://crawl/none''\<rparr>) ''mapper-read'' ''mapper-write''"
      "LibraryError ''no such file''" sql0]
  by (simp add: margs0_def cluster1_def read_req_def)

end
