(* ===== verification/SparkReducer.thy ===== *)
theory SparkReducer
  imports SparkEngine WarcSchema Complex_Main "HOL-Library.Multiset"
begin

text \<open>
  \<^verbatim>\<open>src/letsdata_interfaces/readers/spark/SparkReducerInterface.py\<close>: the method
  \<^verbatim>\<open>reducer\<close> and its two credential helpers.

  \<^item> \<open>reducer_args\<close> holds the eleven parameters of the method under their names:
    the ten of \<open>job_args\<close> and \<^verbatim>\<open>readUris\<close>.
  \<^item> \<open>read_loop\<close> is the \<^verbatim>\<open>for readUri in readUris\<close> loop with the variable
    \<^verbatim>\<open>dataframe\<close> as its accumulator (\<open>None\<close> before the first file).  In the
    \<^verbatim>\<open>else\<close> branch the code calls \<^verbatim>\<open>dataframe.union(currDataFrame)\<close> and drops the
    result; the model computes the union and drops it as well.
  \<^item> \<open>aggregate\<close> is the chain \<^verbatim>\<open>groupBy("language").agg(...).orderBy(desc(...))\<close>.
    The operators are the engine's: \<open>percentile\<close> follows Spark's exact percentile
    (position \<open>(n - 1) * p\<close> in the sorted values, linear interpolation between the two
    neighbours) on reals where Spark computes in doubles; \<^verbatim>\<open>count\<close> counts the rows
    whose \<^verbatim>\<open>contentLength\<close> is not null; a null language is a group like any other.  The
    engine fixes no order among groups with the same count; the model takes the stable
    one, and the lemmas below state what holds for every such order.
  \<^item> \<open>reducer\<close> composes them in the order of the code; the arguments of a call are
    evaluated before it, left to right.
  A row is any record with the fields \<open>language\<close> and \<open>contentLength\<close> of
  \<open>lang_row\<close> (theory \<open>WarcSchema\<close>): the rows the mapper writes are such records.
\<close>

section \<open>Parameters and rows\<close>

record reducer_args = job_args +
  readUris :: "string list"

record lang_stats =
  group_language :: "string option"
  percentile90 :: "real option"
  samples :: nat

section \<open>Aggregation\<close>

definition percentile :: "real \<Rightarrow> int list \<Rightarrow> real option" where
  "percentile p vs =
     (if vs = [] then None
      else let sorted_vs = sort vs;
               position = of_nat (length vs - 1) * p;
               lower = nat \<lfloor>position\<rfloor>;
               higher = nat \<lceil>position\<rceil>;
               lowerKey = sorted_vs ! lower;
               higherKey = sorted_vs ! higher
           in if higher = lower \<or> higherKey = lowerKey then Some (of_int lowerKey)
              else Some ((of_nat higher - position) * of_int lowerKey
                         + (position - of_nat lower) * of_int higherKey))"

definition group_rows :: "'a lang_row_scheme list \<Rightarrow> string option \<Rightarrow> 'a lang_row_scheme list" where
  "group_rows df l = filter (\<lambda>r. language r = l) df"

definition agg_group :: "'a lang_row_scheme list \<Rightarrow> string option \<Rightarrow> lang_stats" where
  "agg_group df l =
     (let vs = List.map_filter contentLength (group_rows df l)
      in \<lparr>group_language = l, percentile90 = percentile (9 / 10) vs, samples = length vs\<rparr>)"

definition aggregate :: "'a lang_row_scheme list \<Rightarrow> lang_stats list" where
  "aggregate df =
     sort_key (\<lambda>s. - int (samples s)) (map (agg_group df) (remdups (map language df)))"

section \<open>The handler\<close>

definition get_read_destination_credentials ::
  "string \<Rightarrow> string \<Rightarrow> (('i, 'o) cluster, credentials) pym" where
  "get_read_destination_credentials region arn =
     get_spark_aws_credentials region arn ''reducer'' ''read''"

definition get_write_destination_credentials ::
  "string \<Rightarrow> string \<Rightarrow> (('i, 'o) cluster, credentials) pym" where
  "get_write_destination_credentials region arn =
     get_spark_aws_credentials region arn ''reducer'' ''write''"

fun read_loop ::
  "session_conf \<Rightarrow> reducer_args \<Rightarrow> string list \<Rightarrow> 'i list option
     \<Rightarrow> (('i, 'o) cluster, 'i list option) pym" where
  "read_loop spark a [] dataframe = py_return dataframe"
| "read_loop spark a (readUri # rest) dataframe =
     py_bind (readSparkDataframe spark (readDestination a) readUri (readFormat a) (readOptions a))
       (\<lambda>currDataFrame.
          case dataframe of
            None \<Rightarrow> read_loop spark a rest (Some currDataFrame)
          | Some df \<Rightarrow> (let discarded = df_union df currDataFrame
                        in read_loop spark a rest (Some df)))"

definition group_and_order :: "'a lang_row_scheme list option \<Rightarrow> lang_stats list result" where
  "group_and_order dataframe =
     (case dataframe of
        None \<Rightarrow> Inl (no_attribute_error PNone ''groupBy'')
      | Some df \<Rightarrow> Inr (aggregate df))"

definition reducer ::
  "reducer_args \<Rightarrow> (('a lang_row_scheme, lang_stats) cluster, unit) pym" where
  "reducer a =
     py_bind (os_environ ''AWS_REGION'') (\<lambda>region.
     py_bind (get_read_destination_credentials region (spark_credentials_secret_arn a))
       (\<lambda>readCredentials.
     py_bind (os_environ ''AWS_REGION'') (\<lambda>region'.
     py_bind (get_write_destination_credentials region' (spark_credentials_secret_arn a))
       (\<lambda>writeCredentials.
     py_bind (py_lift (py_index (readUris a) 0)) (\<lambda>readUri0.
     py_bind (createSparkSession (appName a) (readDestination a) (writeDestination a) readUri0
                (writeUri a) readCredentials writeCredentials) (\<lambda>spark.
     py_bind (read_loop spark a (readUris a) None) (\<lambda>dataframe.
     py_bind (py_lift (group_and_order dataframe)) (\<lambda>dataframe'.
     writeSparkDataframe spark (writeDestination a) (writeUri a) (writeFormat a) (writeMode a)
       (writeOptions a) dataframe'))))))))"

lemmas reducer_defs [handler_defs] =
  reducer_def get_read_destination_credentials_def get_write_destination_credentials_def
  group_and_order_def

section \<open>The calls of a run\<close>

definition read_reqs :: "session_conf \<Rightarrow> reducer_args \<Rightarrow> string list \<Rightarrow> read_request list" where
  "read_reqs spark a uris =
     map (\<lambda>u. read_req spark (readDestination a) u (readFormat a) (readOptions a)) uris"

definition first_frame :: "'i list option \<Rightarrow> 'i list list \<Rightarrow> 'i list option" where
  "first_frame d dfs = (case d of Some df \<Rightarrow> Some df | None \<Rightarrow> (case dfs of [] \<Rightarrow> None | df # _ \<Rightarrow> Some df))"

lemma first_frame_simps [simp]:
  "first_frame (Some df) dfs = Some df"
  "first_frame None [] = None"
  "first_frame None (df # dfs) = Some df"
  by (simp_all add: first_frame_def)

lemma read_reqs_simps [simp]:
  "read_reqs spark a [] = []"
  "read_reqs spark a (u # us) = read_req spark (readDestination a) u (readFormat a) (readOptions a) # read_reqs spark a us"
  by (simp_all add: read_reqs_def)

lemma read_loop_ok:
  "map (storage c) (read_reqs spark a uris) = map Inr dfs \<Longrightarrow>
   read_loop spark a uris d c =
     (Inr (first_frame d dfs), c\<lparr>trace := trace c @ map ReadDataframe (read_reqs spark a uris)\<rparr>)"
proof (induction uris arbitrary: dfs d c)
  case Nil
  then show ?case by (cases d) (simp_all add: py_simps)
next
  case (Cons u us)
  then obtain df dfs' where dfs: "dfs = df # dfs'" by (cases dfs) auto
  with Cons.prems have hd: "storage c (read_req spark (readDestination a) u (readFormat a) (readOptions a)) = Inr df"
    and tl: "map (storage c) (read_reqs spark a us) = map Inr dfs'" by simp_all
  show ?case
    by (cases d) (simp_all add: py_simps hd dfs Let_def Cons.IH [of _ dfs'] tl)
qed

lemma read_loop_fails:
  "map (storage c) (read_reqs spark a us) = map Inr dfs \<Longrightarrow>
   storage c (read_req spark (readDestination a) u (readFormat a) (readOptions a)) = Inl e \<Longrightarrow>
   read_loop spark a (us @ u # rest) d c =
     (Inl e, c\<lparr>trace := trace c @ map ReadDataframe (read_reqs spark a (us @ [u]))\<rparr>)"
proof (induction us arbitrary: dfs d c)
  case Nil
  then show ?case by (simp add: py_simps)
next
  case (Cons v vs)
  then obtain df dfs' where dfs: "dfs = df # dfs'" by (cases dfs) auto
  with Cons.prems have hd: "storage c (read_req spark (readDestination a) v (readFormat a) (readOptions a)) = Inr df"
    and tl: "map (storage c) (read_reqs spark a vs) = map Inr dfs'" by simp_all
  show ?case
    by (cases d) (simp_all add: py_simps hd Let_def Cons.IH [of _ dfs'] tl Cons.prems(2))
qed

definition session_of :: "reducer_args \<Rightarrow> string \<Rightarrow> credentials \<Rightarrow> credentials \<Rightarrow> session_conf" where
  "session_of a readUri0 readCredentials writeCredentials =
     \<lparr>s_appName = appName a, s_readDestination = readDestination a,
      s_writeDestination = writeDestination a, s_readUri = readUri0, s_writeUri = writeUri a,
      s_readCredentials = readCredentials, s_writeCredentials = writeCredentials\<rparr>"

definition reducer_write :: "reducer_args \<Rightarrow> session_conf \<Rightarrow> write_request" where
  "reducer_write a spark =
     write_req spark (writeDestination a) (writeUri a) (writeFormat a) (writeMode a) (writeOptions a)"

definition credential_calls :: "string \<Rightarrow> reducer_args \<Rightarrow> 'o ext_call list" where
  "credential_calls region a =
     [GetCredentials region (spark_credentials_secret_arn a) ''reducer'' ''read'',
      GetCredentials region (spark_credentials_secret_arn a) ''reducer'' ''write'']"

lemmas reducer_spec_defs = session_of_def reducer_write_def credential_calls_def

section \<open>What a run does\<close>

text \<open>
  Claim C22.  A run in which the region is set, the secret manager answers, and every file
  can be read: the reducer returns, and its calls are, in this order, the read and the
  write credentials for stage \<^verbatim>\<open>reducer\<close>, one session opened on the first file, one read
  per file in the order of \<^verbatim>\<open>readUris\<close>, and one write.  The frame written is the
  aggregate of the first file alone: the rows of the other files are read and left out.
\<close>

theorem reducer_writes_first:
  assumes "environ c ''AWS_REGION'' = Some region"
    and "secrets c region (spark_credentials_secret_arn a) ''reducer'' ''read'' = Inr rc"
    and "secrets c region (spark_credentials_secret_arn a) ''reducer'' ''write'' = Inr wc"
    and "readUris a = u # us"
    and "map (storage c) (read_reqs (session_of a u rc wc) a (u # us)) = map Inr (df # dfs)"
  shows "reducer a c =
     (Inr (), c\<lparr>trace := trace c @ credential_calls region a
                  @ CreateSession (session_of a u rc wc)
                  # map ReadDataframe (read_reqs (session_of a u rc wc) a (u # us))
                  @ [WriteDataframe (reducer_write a (session_of a u rc wc)) (aggregate df)]\<rparr>)"
proof -
  let ?spark = "session_of a u rc wc"
  let ?c = "c\<lparr>trace := trace c @ credential_calls region a @ [CreateSession ?spark]\<rparr>"
  have "map (storage ?c) (read_reqs ?spark a (u # us)) = map Inr (df # dfs)"
    using assms(5) by simp
  from read_loop_ok [OF this, of None]
  have "read_loop ?spark a (u # us) None ?c =
          (Inr (Some df), ?c\<lparr>trace := trace ?c @ map ReadDataframe (read_reqs ?spark a (u # us))\<rparr>)"
    by simp
  with assms(1-4) show ?thesis
    by (simp add: reducer_defs py_simps reducer_spec_defs del: read_loop.simps)
qed

text \<open>
  Without \<^verbatim>\<open>AWS_REGION\<close> in the environment the reducer raises the
  \<^verbatim>\<open>KeyError\<close> of the lookup before any call is made.
\<close>

theorem reducer_no_region:
  "environ c ''AWS_REGION'' = None \<Longrightarrow> reducer a c = (Inl (KeyError ''AWS_REGION''), c)"
  by (simp add: reducer_defs py_simps)

text \<open>
  With an empty list of files the reducer raises the \<^verbatim>\<open>IndexError\<close> of
  \<^verbatim>\<open>readUris[0]\<close>, after both credentials were fetched and before a session is opened;
  nothing is read or written.
\<close>

theorem reducer_no_uris:
  assumes "environ c ''AWS_REGION'' = Some region"
    and "secrets c region (spark_credentials_secret_arn a) ''reducer'' ''read'' = Inr rc"
    and "secrets c region (spark_credentials_secret_arn a) ''reducer'' ''write'' = Inr wc"
    and "readUris a = []"
  shows "reducer a c =
     (Inl (IndexError ''list index out of range''), c\<lparr>trace := trace c @ credential_calls region a\<rparr>)"
  using assms by (simp add: reducer_defs py_simps reducer_spec_defs)

section \<open>A run on two files\<close>

definition args0 :: reducer_args where
  "args0 = \<lparr>appName = ''app'', readDestination = ''S3'', readFormat = ''parquet'',
     readOptions = [], writeDestination = ''S3'', writeUri = ''s3a://out/result'',
     writeFormat = ''json'', writeMode = ''overwrite'',
     writeOptions = [(''compression'', ''gzip'')], spark_credentials_secret_arn = ''arn'',
     readUris = [''s3a://tmp/part-0'', ''s3a://tmp/part-1'']\<rparr>"

definition part0 :: "lang_row list" where
  "part0 = [\<lparr>language = Some ''eng'', contentLength = Some 10\<rparr>]"

definition part1 :: "lang_row list" where
  "part1 = [\<lparr>language = Some ''deu'', contentLength = Some 20\<rparr>,
            \<lparr>language = Some ''deu'', contentLength = Some 30\<rparr>]"

definition cluster0 :: "(lang_row, lang_stats) cluster" where
  "cluster0 = \<lparr>environ = [''AWS_REGION'' \<mapsto> ''us-east-1''],
     secrets = (\<lambda>region arn stage direction. Inr (stage @ ''-'' @ direction)),
     storage = (\<lambda>req. if r_uri req = ''s3a://tmp/part-0'' then Inr part0
                       else if r_uri req = ''s3a://tmp/part-1'' then Inr part1
                       else Inl (LibraryError ''no such file'')),
     trace = []\<rparr>"

definition spark0 :: session_conf where
  "spark0 = session_of args0 ''s3a://tmp/part-0'' ''reducer-read'' ''reducer-write''"

lemma args0_sel [simp]:
  "appName args0 = ''app''" "readDestination args0 = ''S3''"
  "readUris args0 = [''s3a://tmp/part-0'', ''s3a://tmp/part-1'']"
  "readFormat args0 = ''parquet''" "readOptions args0 = []" "writeDestination args0 = ''S3''"
  "writeUri args0 = ''s3a://out/result''" "writeFormat args0 = ''json''"
  "writeMode args0 = ''overwrite''" "writeOptions args0 = [(''compression'', ''gzip'')]"
  "spark_credentials_secret_arn args0 = ''arn''"
  by (simp_all add: args0_def)

lemma cluster0_sel [simp]:
  "environ cluster0 ''AWS_REGION'' = Some ''us-east-1''"
  "secrets cluster0 region arn stage direction = Inr (stage @ ''-'' @ direction)"
  "storage cluster0 (read_req spark d ''s3a://tmp/part-0'' f ro) = Inr part0"
  "storage cluster0 (read_req spark d ''s3a://tmp/part-1'' f ro) = Inr part1"
  "trace cluster0 = []"
  by (simp_all add: cluster0_def read_req_def)

lemma aggregate_part0:
  "aggregate part0 = [\<lparr>group_language = Some ''eng'', percentile90 = Some 10, samples = 1\<rparr>]"
  by (simp add: aggregate_def agg_group_def group_rows_def part0_def percentile_def
      List.map_filter_simps)

lemma aggregate_parts:
  "aggregate (df_union part0 part1) =
     [\<lparr>group_language = Some ''deu'', percentile90 = Some 29, samples = 2\<rparr>,
      \<lparr>group_language = Some ''eng'', percentile90 = Some 10, samples = 1\<rparr>]"
  by (simp add: aggregate_def agg_group_def group_rows_def part0_def part1_def percentile_def
      List.map_filter_simps df_union_def Let_def
     )

theorem reducer_writes_first_witness:
  "reducer args0 cluster0 =
     (Inr (), cluster0\<lparr>trace :=
        [GetCredentials ''us-east-1'' ''arn'' ''reducer'' ''read'',
         GetCredentials ''us-east-1'' ''arn'' ''reducer'' ''write'',
         CreateSession spark0,
         ReadDataframe (read_req spark0 ''S3'' ''s3a://tmp/part-0'' ''parquet'' []),
         ReadDataframe (read_req spark0 ''S3'' ''s3a://tmp/part-1'' ''parquet'' []),
         WriteDataframe (reducer_write args0 spark0)
           [\<lparr>group_language = Some ''eng'', percentile90 = Some 10, samples = 1\<rparr>]]\<rparr>)"
  using reducer_writes_first [of cluster0 "''us-east-1''" args0 "''reducer-read''"
      "''reducer-write''" "''s3a://tmp/part-0''" "[''s3a://tmp/part-1'']" part0 "[part1]"]
  by (simp add: aggregate_part0 spark0_def credential_calls_def)

theorem reducer_no_region_witness:
  "reducer args0 (cluster0\<lparr>environ := Map.empty\<rparr>) =
     (Inl (KeyError ''AWS_REGION''), cluster0\<lparr>environ := Map.empty\<rparr>)"
  using reducer_no_region [of "cluster0\<lparr>environ := Map.empty\<rparr>" args0] by simp

theorem reducer_no_uris_witness:
  "reducer (args0\<lparr>readUris := []\<rparr>) cluster0 =
     (Inl (IndexError ''list index out of range''),
      cluster0\<lparr>trace := [GetCredentials ''us-east-1'' ''arn'' ''reducer'' ''read'',
                          GetCredentials ''us-east-1'' ''arn'' ''reducer'' ''write'']\<rparr>)"
  using reducer_no_uris [of cluster0 "''us-east-1''" "args0\<lparr>readUris := []\<rparr>"
      "''reducer-read''" "''reducer-write''"]
  by (simp add: credential_calls_def args0_def)

text \<open>
  A read that fails ends the run with the exception of the read: the files
  before it were read, the files after it are not, and nothing is written.
\<close>

theorem reducer_read_fails:
  assumes "environ c ''AWS_REGION'' = Some region"
    and "secrets c region (spark_credentials_secret_arn a) ''reducer'' ''read'' = Inr rc"
    and "secrets c region (spark_credentials_secret_arn a) ''reducer'' ''write'' = Inr wc"
    and "readUris a = us @ u # rest" and "spark = session_of a (hd (us @ [u])) rc wc"
    and "map (storage c) (read_reqs spark a us) = map Inr dfs"
    and "storage c (read_req spark (readDestination a) u (readFormat a) (readOptions a)) = Inl e"
  shows "reducer a c =
     (Inl e, c\<lparr>trace := trace c @ credential_calls region a
                  @ CreateSession spark # map ReadDataframe (read_reqs spark a (us @ [u]))\<rparr>)"
proof -
  let ?c = "c\<lparr>trace := trace c @ credential_calls region a @ [CreateSession spark]\<rparr>"
  have uri0: "py_index (readUris a) 0 = Inr (hd (us @ [u]))"
    using assms(4) by (cases us) simp_all
  have "read_loop spark a (us @ u # rest) None ?c =
          (Inl e, ?c\<lparr>trace := trace ?c @ map ReadDataframe (read_reqs spark a (us @ [u]))\<rparr>)"
    using assms(6,7) by (intro read_loop_fails) simp_all
  with assms(1-5) uri0 show ?thesis
    by (simp add: reducer_defs py_simps reducer_spec_defs del: read_loop.simps)
qed

theorem reducer_read_fails_witness:
  "reducer (args0\<lparr>readUris := [''s3a://tmp/part-0'', ''s3a://tmp/none'']\<rparr>) cluster0 =
     (Inl (LibraryError ''no such file''),
      cluster0\<lparr>trace :=
        [GetCredentials ''us-east-1'' ''arn'' ''reducer'' ''read'',
         GetCredentials ''us-east-1'' ''arn'' ''reducer'' ''write'',
         CreateSession spark0,
         ReadDataframe (read_req spark0 ''S3'' ''s3a://tmp/part-0'' ''parquet'' []),
         ReadDataframe (read_req spark0 ''S3'' ''s3a://tmp/none'' ''parquet'' [])]\<rparr>)"
  using reducer_read_fails [of cluster0 "''us-east-1''"
      "args0\<lparr>readUris := [''s3a://tmp/part-0'', ''s3a://tmp/none'']\<rparr>"
      "''reducer-read''" "''reducer-write''" "[''s3a://tmp/part-0'']" "''s3a://tmp/none''" "[]"
      spark0 "[part0]" "LibraryError ''no such file''"]
  by (simp add: credential_calls_def args0_def spark0_def session_of_def cluster0_def read_req_def)


section \<open>The aggregate\<close>

text \<open>\<open>group_values df l\<close>: the content lengths that are not null of the rows with language \<open>l\<close>.\<close>

definition group_values :: "'a lang_row_scheme list \<Rightarrow> string option \<Rightarrow> int list" where
  "group_values df l = List.map_filter contentLength (group_rows df l)"

lemma agg_group_sel [simp]:
  "group_language (agg_group df l) = l"
  "samples (agg_group df l) = length (group_values df l)"
  "percentile90 (agg_group df l) = percentile (9 / 10) (group_values df l)"
  by (simp_all add: agg_group_def group_values_def Let_def)

lemma mset_aggregate:
  "mset (aggregate df) = image_mset (agg_group df) (mset (remdups (map language df)))"
  by (simp add: aggregate_def)

lemma set_aggregate: "set (aggregate df) = agg_group df ` language ` set df"
  by (simp add: aggregate_def)

lemma map_language_aggregate:
  "mset (map group_language (aggregate df)) = mset (remdups (map language df))"
  by (simp add: mset_aggregate image_mset.compositionality comp_def)

text \<open>
  The rows of the aggregate are in descending order of their number of
  samples.
\<close>

theorem aggregate_descending:
  "sorted_wrt (\<lambda>a b. samples b \<le> samples a) (aggregate df)"
proof -
  have "sorted (map (\<lambda>s. - int (samples s)) (aggregate df))"
    unfolding aggregate_def by (rule sorted_sort_key)
  then show ?thesis by (simp add: sorted_map)
qed

text \<open>
  The aggregate has exactly one row for each language of the frame, the null
  language included when a row has it.
\<close>

theorem aggregate_one_row_per_language:
  "distinct (map group_language (aggregate df)) \<and>
   set (map group_language (aggregate df)) = language ` set df"
proof -
  have "mset (map group_language (aggregate df)) = mset (remdups (map language df))"
    by (rule map_language_aggregate)
  then have "distinct (map group_language (aggregate df)) = distinct (remdups (map language df))"
    and "set (map group_language (aggregate df)) = set (remdups (map language df))"
    by (metis mset_eq_imp_distinct_iff, metis mset_eq_setD)
  then show ?thesis by simp
qed

lemma length_group_values:
  "length (group_values df l) =
     length (filter (\<lambda>r. language r = l \<and> contentLength r \<noteq> None) df)"
  by (simp add: group_values_def group_rows_def map_filter_def conj_commute)

text \<open>
  The number of samples of a row of the aggregate is the number of rows of its
  language whose content length is not null, and the numbers of samples add up to the
  number of rows of the frame whose content length is not null: no row is counted twice
  or left out.
\<close>

theorem aggregate_counts:
  "list_all (\<lambda>s. samples s = length (filter (\<lambda>r. language r = group_language s \<and>
                                               contentLength r \<noteq> None) df)) (aggregate df) \<and>
   sum_list (map samples (aggregate df)) = length (filter (\<lambda>r. contentLength r \<noteq> None) df)"
proof -
  have "sum_list (map samples (aggregate df)) = sum_mset (image_mset samples (mset (aggregate df)))"
    by (simp flip: sum_mset_sum_list)
  also have "\<dots> = (\<Sum>l\<leftarrow>remdups (map language df). length (group_values df l))"
    by (simp add: mset_aggregate image_mset.compositionality comp_def flip: sum_mset_sum_list)
  also have "\<dots> = length (filter (\<lambda>r. contentLength r \<noteq> None) df)"
    unfolding length_group_values by (rule sum_list_group_lengths) simp_all
  finally show ?thesis
    by (simp add: list_all_iff set_aggregate length_group_values)
qed

section \<open>The percentile\<close>

lemma percentile_None_iff [simp]: "percentile p vs = None \<longleftrightarrow> vs = []"
  by (simp add: percentile_def Let_def)

lemma percentile_Nil [simp]: "percentile p [] = None"
  by (simp add: percentile_def)

lemma percentile_mset:
  assumes "mset vs = mset vs'"
  shows "percentile p vs = percentile p vs'"
proof -
  from assms have "sort vs = sort vs'" by (metis sorted_list_of_multiset_mset)
  moreover from assms have "length vs = length vs'" by (rule mset_eq_length)
  moreover from assms have "vs = [] \<longleftrightarrow> vs' = []" by (metis mset_zero_iff)
  ultimately show ?thesis by (simp add: percentile_def)
qed

lemma convex_between:
  fixes a b lo hi :: real
  assumes "lo \<le> a" "a \<le> hi" "lo \<le> b" "b \<le> hi" "0 \<le> u" "0 \<le> v" "u + v = 1"
  shows "lo \<le> u * a + v * b \<and> u * a + v * b \<le> hi"
proof -
  have "u * lo + v * lo \<le> u * a + v * b"
    using assms by (intro add_mono mult_left_mono) auto
  moreover have "u * a + v * b \<le> u * hi + v * hi"
    using assms by (intro add_mono mult_left_mono) auto
  moreover have "u * lo + v * lo = lo" "u * hi + v * hi = hi"
    using assms(7) by (simp_all flip: distrib_right)
  ultimately show ?thesis by simp
qed

lemma percentile_bounds:
  assumes "0 \<le> p" and "p \<le> 1" and "vs \<noteq> []"
  shows "\<exists>q. percentile p vs = Some q \<and>
              real_of_int (Min (set vs)) \<le> q \<and> q \<le> real_of_int (Max (set vs))"
proof -
  let ?n = "length vs"
  let ?pos = "real (?n - 1) * p"
  let ?lo = "nat \<lfloor>?pos\<rfloor>" and ?hi = "nat \<lceil>?pos\<rceil>"
  let ?s = "sort vs"
  from assms have pos: "0 \<le> ?pos" "?pos \<le> real (?n - 1)"
    by (simp_all add: mult_left_le)
  then have hi: "?hi < ?n" and lo: "?lo < ?n"
    using assms(3) by (simp_all add: nat_less_iff ceiling_less_iff floor_less_iff less_eq_Suc_le
        flip: length_greater_0_conv) linarith+
  have key: "real_of_int (Min (set vs)) \<le> real_of_int (?s ! i) \<and>
             real_of_int (?s ! i) \<le> real_of_int (Max (set vs))" if "i < ?n" for i
  proof -
    from that have "?s ! i \<in> set vs" by (metis length_sort nth_mem set_sort)
    then show ?thesis by simp
  qed
  show ?thesis
  proof (cases "?hi = ?lo \<or> ?s ! ?hi = ?s ! ?lo")
    case True
    with assms(3) key [OF lo] show ?thesis by (auto simp: percentile_def Let_def)
  next
    case False
    have u: "0 \<le> real ?hi - ?pos" and v: "0 \<le> ?pos - real ?lo"
      using pos(1) by (simp_all add: le_of_int_ceiling of_nat_nat)
    have "\<lceil>?pos\<rceil> = \<lfloor>?pos\<rfloor> + 1"
      using False by (metis ceiling_altdef)
    then have uv: "(real ?hi - ?pos) + (?pos - real ?lo) = 1"
      using pos(1) by (simp add: of_nat_nat)
    from convex_between [OF conjunct1 [OF key [OF lo]] conjunct2 [OF key [OF lo]]
        conjunct1 [OF key [OF hi]] conjunct2 [OF key [OF hi]] u v uv]
    show ?thesis using False assms(3) by (simp add: percentile_def Let_def)
  qed
qed

text \<open>
  \<open>within_group df s\<close>: the percentile of the row \<open>s\<close> is null when its group has no
  content length, and otherwise lies between the least and the greatest content length of
  the group.
\<close>

definition within_group :: "'a lang_row_scheme list \<Rightarrow> lang_stats \<Rightarrow> bool" where
  "within_group df s =
     (case percentile90 s of
        None \<Rightarrow> samples s = 0
      | Some q \<Rightarrow> 0 < samples s \<and>
          real_of_int (Min (set (group_values df (group_language s)))) \<le> q \<and>
          q \<le> real_of_int (Max (set (group_values df (group_language s)))))"

lemma within_group_agg: "within_group df (agg_group df l)"
proof (cases "group_values df l = []")
  case True
  then show ?thesis by (simp add: within_group_def)
next
  case False
  with percentile_bounds [of "9 / 10" "group_values df l"] show ?thesis
    by (auto simp: within_group_def)
qed

text \<open>
  In every row of the aggregate the 90th percentile is null exactly when the
  language has no row with a content length, and otherwise it lies between the least and
  the greatest content length of the language.
\<close>

theorem aggregate_percentiles:
  "list_all (within_group df) (aggregate df)"
  by (auto simp: list_all_iff set_aggregate within_group_agg)

text \<open>
  Claim C31.  The aggregate is the grouping the reducer asks for.  Its rows are in
  descending order of their number of samples.  There is exactly one row for each
  language of the frame, the null language included when a row has it.  The number of
  samples of a row is the number of rows of its language whose content length is not
  null, and these numbers add up to the number of such rows in the frame: no row is
  counted twice or left out.  The 90th percentile of a row is null exactly when its
  language has no content length, and otherwise lies between the least and the greatest
  content length of the language.
\<close>

theorem aggregate_group_by:
  "sorted_wrt (\<lambda>a b. samples b \<le> samples a) (aggregate df) \<and>
   distinct (map group_language (aggregate df)) \<and>
   set (map group_language (aggregate df)) = language ` set df \<and>
   list_all (\<lambda>s. samples s = length (filter (\<lambda>r. language r = group_language s \<and>
                                               contentLength r \<noteq> None) df)) (aggregate df) \<and>
   sum_list (map samples (aggregate df)) = length (filter (\<lambda>r. contentLength r \<noteq> None) df) \<and>
   list_all (within_group df) (aggregate df)"
  using aggregate_descending [of df] aggregate_one_row_per_language [of df]
    aggregate_counts [of df] aggregate_percentiles [of df]
  by simp

lemma group_values_mset:
  assumes "mset df = mset df'"
  shows "mset (group_values df l) = mset (group_values df' l)"
  using assms by (simp add: group_values_def group_rows_def map_filter_def)

lemma agg_group_mset:
  assumes "mset df = mset df'"
  shows "agg_group df l = agg_group df' l"
proof -
  from assms have vs: "mset (group_values df l) = mset (group_values df' l)"
    by (rule group_values_mset)
  then have "percentile (9 / 10) (group_values df l) = percentile (9 / 10) (group_values df' l)"
    by (rule percentile_mset)
  moreover from vs have "length (group_values df l) = length (group_values df' l)"
    by (rule mset_eq_length)
  ultimately show ?thesis by (simp add: agg_group_def group_values_def Let_def)
qed

text \<open>
  The aggregate does not depend on the order of the rows of the frame, which
  the engine does not fix: two frames with the same rows have aggregates with the same
  rows.
\<close>

theorem aggregate_row_order:
  assumes "mset df = mset df'"
  shows "mset (aggregate df) = mset (aggregate df')"
proof -
  from assms have "set (map language df) = set (map language df')"
    by (metis mset_eq_setD mset_map)
  then have "mset (remdups (map language df)) = mset (remdups (map language df'))"
    by (rule iffD1 [OF set_eq_iff_mset_remdups_eq])
  moreover have "agg_group df = agg_group df'"
    using assms by (intro ext agg_group_mset)
  ultimately show ?thesis by (simp add: mset_aggregate)
qed

theorem aggregate_row_order_witness:
  "mset (aggregate (part1 @ part0)) = mset (aggregate (part0 @ part1))"
  using aggregate_row_order [of "part1 @ part0" "part0 @ part1"] by simp

end
