(* ===== verification/SparkJob.thy ===== *)
theory SparkJob
  imports SparkMapper SparkReducer
begin

text \<open>
  The run configuration \<^verbatim>\<open>MAPPER_AND_REDUCER\<close>, as the docstrings of \<^verbatim>\<open>mapper\<close> and
  \<^verbatim>\<open>reducer\<close> describe it: the platform calls the mapper once for each file of the manifest,
  with a generated location in the intermediate bucket to write to, and then the reducer
  once, with the list of these locations to read from.  The platform's own code is not in
  the repository; this theory models what the docstrings say of it, in order to state what
  the two handlers do together.

  \<^item> \<open>platform\<close> is what a run works on: the environment, the secret manager, and the
    files by their URI.  A \<open>frame\<close> is the content of a file: lines of text, rows of a
    WARC frame, or rows of statistics.  \<open>run_mapper\<close> and \<open>run_reducer\<close> run a handler
    on the cluster that the platform is for it and then store what the handler wrote, in
    the order of its writes, replacing what was there (\<^verbatim>\<open>writeMode\<close> is \<^verbatim>\<open>overwrite\<close>).
  \<^item> \<open>mapper_spec\<close> and \<open>reducer_spec\<close> say what a task does to the files, errors
    included, with no cluster and no trace; \<open>run_mapper_spec\<close> and \<open>run_reducer_spec\<close>
    show that the handlers do exactly that.  \<open>reducer_documented\<close> is the reducer of the
    docstring, which combines the rows of all its files.
  \<^item> \<open>job_config\<close> holds what a dataset configures; \<open>mapper_task\<close> and
    \<open>reducer_task\<close> are the arguments the platform passes, read from the annotated JSON
    of the docstrings.  The name of an intermediate file is generated by the platform: it
    is a function of the input file's name, and a parameter here.
  \<^item> \<open>job_step\<close> is one step of a run: a mapper task on any file that is still pending
    (the docstrings fix no order), or, when no file is pending, the reducer task.  A task
    that raises aborts the run.  \<open>job_reach\<close> are the states a run can be in,
    \<open>job_ends\<close> the states from which every run finishes, \<open>run_job_in\<close> is the run
    that maps the files in a given order, and \<open>run_job\<close> the run in the order of the
    manifest.
  \<^item> \<open>job_ready\<close> is what a run needs to succeed, \<open>map_ready\<close> the part of it that
    the mapper tasks need; \<open>job_inv\<close> is what is true of the
    files in every state of such a run; \<open>job_final\<close> is the platform it ends in;
    \<open>job_measure\<close> bounds the steps that are left.
\<close>

section \<open>Files\<close>

datatype 't frame =
    TextFrame "string option list"
  | WarcFrame "'t warc_row list"
  | StatsFrame "lang_stats list"

type_synonym 't files = "string \<rightharpoonup> 't frame"

record 't platform =
  p_environ :: "string \<rightharpoonup> string"
  p_secrets :: "string \<Rightarrow> string \<Rightarrow> string \<Rightarrow> string \<Rightarrow> credentials result"
  p_files :: "'t files"

definition text_file :: "'t files \<Rightarrow> string \<Rightarrow> string option list result" where
  "text_file fs uri =
     (case fs uri of
        Some (TextFrame rows) \<Rightarrow> Inr rows
      | _ \<Rightarrow> Inl (LibraryError ''cannot read the file as text''))"

definition warc_file :: "'t files \<Rightarrow> string \<Rightarrow> 't warc_row list result" where
  "warc_file fs uri =
     (case fs uri of
        Some (WarcFrame rows) \<Rightarrow> Inr rows
      | _ \<Rightarrow> Inl (LibraryError ''cannot read the file as rows''))"

definition read_text :: "'t files \<Rightarrow> read_request \<Rightarrow> string option list result" where
  "read_text fs req = text_file fs (r_uri req)"

definition read_warc :: "'t files \<Rightarrow> read_request \<Rightarrow> 't warc_row list result" where
  "read_warc fs req = warc_file fs (r_uri req)"

fun written :: "('o list \<Rightarrow> 't frame) \<Rightarrow> 'o ext_call \<Rightarrow> 't files \<Rightarrow> 't files" where
  "written frame_of (WriteDataframe req df) fs = fs(w_uri req \<mapsto> frame_of df)"
| "written frame_of _ fs = fs"

definition commit :: "('o list \<Rightarrow> 't frame) \<Rightarrow> 'o ext_call list \<Rightarrow> 't files \<Rightarrow> 't files" where
  "commit frame_of calls fs = fold (written frame_of) calls fs"

definition mapper_cluster :: "'t platform \<Rightarrow> (string option, 't warc_row) cluster" where
  "mapper_cluster p =
     \<lparr>environ = p_environ p, secrets = p_secrets p, storage = read_text (p_files p), trace = []\<rparr>"

definition reducer_cluster :: "'t platform \<Rightarrow> ('t warc_row, lang_stats) cluster" where
  "reducer_cluster p =
     \<lparr>environ = p_environ p, secrets = p_secrets p, storage = read_warc (p_files p), trace = []\<rparr>"

definition run_mapper ::
  "'t sql_functions \<Rightarrow> mapper_args \<Rightarrow> 't platform \<Rightarrow> unit result \<times> 't platform" where
  "run_mapper sql a p =
     (case mapper sql a (mapper_cluster p) of
        (r, c) \<Rightarrow> (r, p\<lparr>p_files := commit WarcFrame (trace c) (p_files p)\<rparr>))"

definition run_reducer :: "reducer_args \<Rightarrow> 't platform \<Rightarrow> unit result \<times> 't platform" where
  "run_reducer a p =
     (case reducer a (reducer_cluster p) of
        (r, c) \<Rightarrow> (r, p\<lparr>p_files := commit StatsFrame (trace c) (p_files p)\<rparr>))"

lemma commit_simps [simp]:
  "commit frame_of [] fs = fs"
  "commit frame_of (call # calls) fs = commit frame_of calls (written frame_of call fs)"
  "commit frame_of (calls @ calls') fs = commit frame_of calls' (commit frame_of calls fs)"
  by (simp_all add: commit_def)

lemma commit_reads [simp]: "commit frame_of (map ReadDataframe reqs) fs = fs"
  by (induction reqs) simp_all

lemma warc_file_Some [simp]: "fs uri = Some (WarcFrame rows) \<Longrightarrow> warc_file fs uri = Inr rows"
  by (simp add: warc_file_def)

lemma text_file_cong: "fs uri = fs' uri \<Longrightarrow> text_file fs uri = text_file fs' uri"
  by (simp add: text_file_def)

section \<open>What a task does to the files\<close>

text \<open>
  Both handlers look up the region and fetch the credentials to read and to write before
  anything else; \<open>task_credentials\<close> is the outcome of that.
\<close>

definition task_credentials ::
  "'t platform \<Rightarrow> string \<Rightarrow> string \<Rightarrow> (credentials \<times> credentials) result" where
  "task_credentials p arn stage =
     (case p_environ p ''AWS_REGION'' of
        None \<Rightarrow> Inl (KeyError ''AWS_REGION'')
      | Some region \<Rightarrow>
          sum_bind (p_secrets p region arn stage ''read'') (\<lambda>rc.
          sum_bind (p_secrets p region arn stage ''write'') (\<lambda>wc. Inr (rc, wc))))"

text \<open>
  The reads of a loop over a list of requests: \<open>read_all\<close> is the frames read, or the
  first failure; \<open>reads_made\<close> is the requests up to and including the first that fails.
\<close>

fun read_all :: "('r \<Rightarrow> 'x result) \<Rightarrow> 'r list \<Rightarrow> 'x list result" where
  "read_all st [] = Inr []"
| "read_all st (r # rs) =
     sum_bind (st r) (\<lambda>x. sum_bind (read_all st rs) (\<lambda>xs. Inr (x # xs)))"

fun reads_made :: "('r \<Rightarrow> 'x result) \<Rightarrow> 'r list \<Rightarrow> 'r list" where
  "reads_made st [] = []"
| "reads_made st (r # rs) = r # (case st r of Inl e \<Rightarrow> [] | Inr x \<Rightarrow> reads_made st rs)"

definition store :: "'t platform \<Rightarrow> string \<Rightarrow> 't frame \<Rightarrow> 't platform" where
  "store p uri fr = p\<lparr>p_files := (p_files p)(uri \<mapsto> fr)\<rparr>"

text \<open>A task that raises leaves the platform as it was; one that returns has stored its frame.\<close>

definition finish ::
  "'a result \<Rightarrow> ('a \<Rightarrow> 't platform) \<Rightarrow> 't platform \<Rightarrow> unit result \<times> 't platform" where
  "finish r k p = (case r of Inl e \<Rightarrow> (Inl e, p) | Inr x \<Rightarrow> (Inr (), k x))"

definition mapper_spec ::
  "'t sql_functions \<Rightarrow> mapper_args \<Rightarrow> 't platform \<Rightarrow> unit result \<times> 't platform" where
  "mapper_spec sql a p =
     finish
       (sum_bind (task_credentials p (spark_credentials_secret_arn a) ''mapper'') (\<lambda>_.
        text_file (p_files p) (readUri a)))
       (\<lambda>rows. store p (writeUri a) (WarcFrame (transform sql rows))) p"

definition reducer_spec :: "reducer_args \<Rightarrow> 't platform \<Rightarrow> unit result \<times> 't platform" where
  "reducer_spec a p =
     finish
       (sum_bind (task_credentials p (spark_credentials_secret_arn a) ''reducer'') (\<lambda>_.
        sum_bind (py_index (readUris a) 0) (\<lambda>_.
        sum_bind (read_all (warc_file (p_files p)) (readUris a)) (\<lambda>dfs.
        group_and_order (first_frame None dfs)))))
       (\<lambda>stats. store p (writeUri a) (StatsFrame stats)) p"

text \<open>
  The reducer of the docstring: \<^verbatim>\<open>the dataframes are appended (union) to create a combined
  dataframe from all the input files\<close>.
\<close>

definition reducer_documented :: "reducer_args \<Rightarrow> 't platform \<Rightarrow> unit result \<times> 't platform" where
  "reducer_documented a p =
     finish
       (sum_bind (task_credentials p (spark_credentials_secret_arn a) ''reducer'') (\<lambda>_.
        sum_bind (py_index (readUris a) 0) (\<lambda>_.
        sum_bind (read_all (warc_file (p_files p)) (readUris a)) (\<lambda>dfs.
        Inr (aggregate (foldr df_union dfs []))))))
       (\<lambda>stats. store p (writeUri a) (StatsFrame stats)) p"

lemma store_sel [simp]:
  "p_environ (store p uri fr) = p_environ p"
  "p_secrets (store p uri fr) = p_secrets p"
  "p_files (store p uri fr) = (p_files p)(uri \<mapsto> fr)"
  by (simp_all add: store_def)

lemma finish_Inr_iff: "finish r k p = (Inr u, p') \<longleftrightarrow> (\<exists>x. r = Inr x \<and> p' = k x)"
  by (cases r) (auto simp: finish_def)

lemma finish_Inl_iff: "finish r k p = (Inl e, p') \<longleftrightarrow> r = Inl e \<and> p' = p"
  by (cases r) (auto simp: finish_def)

lemma task_credentials_cong:
  "p_environ p = p_environ p0 \<Longrightarrow> p_secrets p = p_secrets p0 \<Longrightarrow>
   task_credentials p arn stage = task_credentials p0 arn stage"
  by (cases "p_environ p0 ''AWS_REGION''") (simp_all add: task_credentials_def)

lemma first_frame_Nil [simp]: "first_frame d [] = d"
  by (cases d) simp_all

lemma read_all_map: "read_all st (map f rs) = read_all (\<lambda>r. st (f r)) rs"
  by (induction rs) simp_all

lemma read_all_Inr:
  "(\<And>r. r \<in> set rs \<Longrightarrow> st r = Inr (g r)) \<Longrightarrow> read_all st rs = Inr (map g rs)"
  by (induction rs) simp_all

lemma read_all_warc:
  "read_all (read_warc fs) (read_reqs spark a uris) = read_all (warc_file fs) uris"
  by (simp add: read_reqs_def read_all_map read_warc_def read_req_def)

text \<open>
  The loop of the reducer on any storage: its value is the first frame read, or the first
  failure, and it has made the reads up to there.
\<close>

lemma read_loop_closed:
  "read_loop spark a uris d c =
     (map_sum id (first_frame d) (read_all (storage c) (read_reqs spark a uris)),
      c\<lparr>trace := trace c @ map ReadDataframe (reads_made (storage c) (read_reqs spark a uris))\<rparr>)"
proof (induction uris arbitrary: d c)
  case Nil
  then show ?case by (simp add: py_simps)
next
  case (Cons u us)
  show ?case
  proof (cases "storage c (read_req spark (readDestination a) u (readFormat a) (readOptions a))")
    case (Inl e)
    then show ?thesis by (simp add: py_simps)
  next
    case (Inr df)
    then show ?thesis
      by (cases d; cases "read_all (storage c) (read_reqs spark a us)")
         (simp_all add: py_simps Cons.IH Let_def)
  qed
qed

lemmas task_spec_defs =
  mapper_cluster_def reducer_cluster_def task_credentials_def finish_def store_def
  read_text_def read_req_def write_req_def

lemma run_mapper_spec: "run_mapper sql a p = mapper_spec sql a p"
  by (simp add: run_mapper_def mapper_spec_def mapper_defs py_simps task_spec_defs
      split: option.splits sum.splits)

lemma run_reducer_spec: "run_reducer a p = reducer_spec a p"
proof (cases "read_all (warc_file (p_files p)) (readUris a)")
  case (Inl e)
  then show ?thesis
    by (simp add: run_reducer_def reducer_spec_def reducer_defs py_simps read_loop_closed
        read_all_warc task_spec_defs split: option.splits sum.splits del: read_loop.simps)
next
  case (Inr dfs)
  then show ?thesis
    by (cases dfs)
       (simp_all add: run_reducer_def reducer_spec_def reducer_defs py_simps read_loop_closed
        read_all_warc task_spec_defs split: option.splits sum.splits del: read_loop.simps)
qed

text \<open>
  Claim C28.  What a task does, in terms of the files alone and on every branch: the mapper
  task fetches its credentials, reads the text of \<^verbatim>\<open>readUri\<close> and stores the transformed
  frame at \<^verbatim>\<open>writeUri\<close>; the reducer task fetches its credentials, takes \<^verbatim>\<open>readUris[0]\<close>,
  reads every file of \<^verbatim>\<open>readUris\<close> in order and stores the aggregate of the first frame at
  \<^verbatim>\<open>writeUri\<close>.  The first step that fails gives the exception of the task.
\<close>

theorem tasks_refine_specs:
  "run_mapper sql a p = mapper_spec sql a p \<and> run_reducer a' p' = reducer_spec a' p'"
  by (simp add: run_mapper_spec run_reducer_spec)

text \<open>
  A task that raises has written nothing: the platform after it is the platform
  before it.
\<close>

theorem failed_task_writes_nothing:
  "(fst (run_mapper sql a p) = Inl e \<longrightarrow> snd (run_mapper sql a p) = p) \<and>
   (fst (run_reducer a' p') = Inl e' \<longrightarrow> snd (run_reducer a' p') = p')"
  by (simp add: run_mapper_spec run_reducer_spec mapper_spec_def reducer_spec_def finish_def
      split: sum.splits)

text \<open>
  With at most one file to read the reducer is the reducer of its docstring.
  (With more files it is not: see \<open>reducer_later_files_lost\<close>.)
\<close>

theorem reducer_documented_single:
  assumes "length (readUris a) \<le> 1"
  shows "run_reducer a p = reducer_documented a p"
proof (cases "readUris a")
  case Nil
  then show ?thesis
    by (simp add: run_reducer_spec reducer_spec_def reducer_documented_def)
next
  case (Cons u us)
  with assms have "readUris a = [u]" by simp
  then show ?thesis
    by (cases "warc_file (p_files p) u")
       (simp_all add: run_reducer_spec reducer_spec_def reducer_documented_def
        group_and_order_def df_union_def)
qed

section \<open>The tasks of a job\<close>

text \<open>
  The dataset's configuration, under the names of the docstrings where they give one:
  the read connector (\<^verbatim>\<open>connectorDestination\<close>, \<^verbatim>\<open>bucketName\<close>, \<^verbatim>\<open>sparkFileFormat\<close>,
  \<^verbatim>\<open>sparkReadOptions\<close>), the manifest (\<^verbatim>\<open>fileContents\<close>, one file name per line), the
  write connector (its destination, format and options, and the URI of the output in its
  bucket), and what the system generates (the application's name, the intermediate bucket,
  the names of the intermediate files and the options to read them with).
\<close>

record job_config =
  sparkAppName :: string
  connectorDestination :: string
  bucketName :: string
  sparkFileFormat :: string
  sparkReadOptions :: options
  fileContents :: "string list"
  intermediateFilesBucketName :: string
  intermediateFilename :: "string \<Rightarrow> string"
  intermediateReadOptions :: options
  writeConnectorDestination :: string
  outputUri :: string
  writeSparkFileFormat :: string
  sparkWriteOptions :: options
  secretArn :: string

definition s3a :: "string \<Rightarrow> string \<Rightarrow> string" where
  "s3a bucket name = ''s3a://'' @ bucket @ ''/'' @ name"

definition input_uri :: "job_config \<Rightarrow> string \<Rightarrow> string" where
  "input_uri cfg f = s3a (bucketName cfg) f"

definition intermediate_uri :: "job_config \<Rightarrow> string \<Rightarrow> string" where
  "intermediate_uri cfg f = s3a (intermediateFilesBucketName cfg) (intermediateFilename cfg f)"

definition mapper_task :: "job_config \<Rightarrow> string \<Rightarrow> mapper_args" where
  "mapper_task cfg f =
     \<lparr>appName = sparkAppName cfg, readDestination = connectorDestination cfg,
      readFormat = sparkFileFormat cfg, readOptions = sparkReadOptions cfg,
      writeDestination = ''S3'', writeUri = intermediate_uri cfg f, writeFormat = ''parquet'',
      writeMode = ''overwrite'', writeOptions = [(''compression'', ''gzip'')],
      spark_credentials_secret_arn = secretArn cfg, readUri = input_uri cfg f\<rparr>"

definition reducer_task :: "job_config \<Rightarrow> reducer_args" where
  "reducer_task cfg =
     \<lparr>appName = sparkAppName cfg, readDestination = ''S3'', readFormat = ''parquet'',
      readOptions = intermediateReadOptions cfg,
      writeDestination = writeConnectorDestination cfg, writeUri = outputUri cfg,
      writeFormat = writeSparkFileFormat cfg, writeMode = ''overwrite'',
      writeOptions = sparkWriteOptions cfg, spark_credentials_secret_arn = secretArn cfg,
      readUris = map (intermediate_uri cfg) (fileContents cfg)\<rparr>"

lemma mapper_task_sel [simp]:
  "readUri (mapper_task cfg f) = input_uri cfg f"
  "writeUri (mapper_task cfg f) = intermediate_uri cfg f"
  "spark_credentials_secret_arn (mapper_task cfg f) = secretArn cfg"
  by (simp_all add: mapper_task_def)

lemma reducer_task_sel [simp]:
  "readUris (reducer_task cfg) = map (intermediate_uri cfg) (fileContents cfg)"
  "writeUri (reducer_task cfg) = outputUri cfg"
  "spark_credentials_secret_arn (reducer_task cfg) = secretArn cfg"
  by (simp_all add: reducer_task_def)

text \<open>The bucket and the name can be read off a URI when the bucket's name has no slash.\<close>

lemma s3a_inject:
  assumes "CHR ''/'' \<notin> set b" and "CHR ''/'' \<notin> set b'"
  shows "s3a b n = s3a b' n' \<longleftrightarrow> b = b' \<and> n = n'"
proof -
  have "b @ CHR ''/'' # n = b' @ CHR ''/'' # n' \<longleftrightarrow> b = b' \<and> n = n'"
    using assms
  proof (induction b arbitrary: b')
    case Nil
    then show ?case by (cases b') auto
  next
    case (Cons x xs)
    then show ?case by (cases b') auto
  qed
  then show ?thesis by (simp add: s3a_def)
qed

section \<open>The run\<close>

datatype phase = Pending "string list" | Finished | Aborted py_exn

type_synonym 't job = "phase \<times> 't platform"

inductive job_step :: "'t sql_functions \<Rightarrow> job_config \<Rightarrow> 't job \<Rightarrow> 't job \<Rightarrow> bool"
  for sql cfg where
  map_file:
    "f \<in> set fs \<Longrightarrow> run_mapper sql (mapper_task cfg f) p = (Inr (), p') \<Longrightarrow>
     job_step sql cfg (Pending fs, p) (Pending (remove1 f fs), p')"
| map_aborts:
    "f \<in> set fs \<Longrightarrow> run_mapper sql (mapper_task cfg f) p = (Inl e, p') \<Longrightarrow>
     job_step sql cfg (Pending fs, p) (Aborted e, p')"
| reduce:
    "run_reducer (reducer_task cfg) p = (Inr (), p') \<Longrightarrow>
     job_step sql cfg (Pending [], p) (Finished, p')"
| reduce_aborts:
    "run_reducer (reducer_task cfg) p = (Inl e, p') \<Longrightarrow>
     job_step sql cfg (Pending [], p) (Aborted e, p')"

inductive job_reach :: "'t sql_functions \<Rightarrow> job_config \<Rightarrow> 't platform \<Rightarrow> 't job \<Rightarrow> bool"
  for sql cfg p0 where
  start: "job_reach sql cfg p0 (Pending (fileContents cfg), p0)"
| step: "job_reach sql cfg p0 s \<Longrightarrow> job_step sql cfg s s' \<Longrightarrow> job_reach sql cfg p0 s'"

text \<open>Every run from the state ends, and ends finished.\<close>

inductive job_ends :: "'t sql_functions \<Rightarrow> job_config \<Rightarrow> 't job \<Rightarrow> bool" for sql cfg where
  finished: "job_ends sql cfg (Finished, p)"
| later: "\<exists>s'. job_step sql cfg s s' \<Longrightarrow> (\<And>s'. job_step sql cfg s s' \<Longrightarrow> job_ends sql cfg s') \<Longrightarrow>
          job_ends sql cfg s"

inductive_cases job_step_FinishedE [elim!]: "job_step sql cfg (Finished, p) s'"
inductive_cases job_step_AbortedE [elim!]: "job_step sql cfg (Aborted e, p) s'"

text \<open>The run that takes the files in the order of the manifest.\<close>

fun map_files :: "'t sql_functions \<Rightarrow> job_config \<Rightarrow> string list \<Rightarrow> 't platform \<Rightarrow> 't job" where
  "map_files sql cfg [] p = (Pending [], p)"
| "map_files sql cfg (f # fs) p =
     (case run_mapper sql (mapper_task cfg f) p of
        (Inl e, p') \<Rightarrow> (Aborted e, p')
      | (Inr u, p') \<Rightarrow> map_files sql cfg fs p')"

definition reduce_files :: "job_config \<Rightarrow> 't job \<Rightarrow> 't job" where
  "reduce_files cfg s =
     (case s of
        (Pending fs, p) \<Rightarrow>
          (case run_reducer (reducer_task cfg) p of
             (Inl e, p') \<Rightarrow> (Aborted e, p')
           | (Inr u, p') \<Rightarrow> (Finished, p'))
      | _ \<Rightarrow> s)"

definition run_job_in ::
  "'t sql_functions \<Rightarrow> job_config \<Rightarrow> string list \<Rightarrow> 't platform \<Rightarrow> 't job" where
  "run_job_in sql cfg order p = reduce_files cfg (map_files sql cfg order p)"

definition run_job :: "'t sql_functions \<Rightarrow> job_config \<Rightarrow> 't platform \<Rightarrow> 't job" where
  "run_job sql cfg p = run_job_in sql cfg (fileContents cfg) p"

definition job_measure :: "'t job \<Rightarrow> nat" where
  "job_measure s = (case fst s of Pending fs \<Rightarrow> Suc (length fs) | _ \<Rightarrow> 0)"

lemma job_step_measure: "job_step sql cfg s s' \<Longrightarrow> job_measure s' < job_measure s"
  by (induction rule: job_step.induct)
     (auto simp: job_measure_def length_remove1 dest: length_pos_if_in_set)

text \<open>A state with pending work has a step, whatever the platform answers.\<close>

lemma job_step_total: "\<exists>s'. job_step sql cfg (Pending fs, p) s'"
proof (cases fs)
  case Nil
  obtain r p' where "run_reducer (reducer_task cfg) p = (r, p')"
    by (cases "run_reducer (reducer_task cfg) p")
  with Nil have "job_step sql cfg (Pending fs, p)
      (case r of Inl e \<Rightarrow> Aborted e | Inr u \<Rightarrow> Finished, p')"
    by (cases r) (auto intro: job_step.intros)
  then show ?thesis by blast
next
  case (Cons f fs')
  obtain r p' where "run_mapper sql (mapper_task cfg f) p = (r, p')"
    by (cases "run_mapper sql (mapper_task cfg f) p")
  with Cons have "job_step sql cfg (Pending fs, p)
      (case r of Inl e \<Rightarrow> Aborted e | Inr u \<Rightarrow> Pending (remove1 f fs), p')"
    using job_step.map_file [where f = f and fs = fs] job_step.map_aborts [where f = f and fs = fs]
    by (cases r) auto
  then show ?thesis by blast
qed

lemma job_stuck_iff: "(\<nexists>s'. job_step sql cfg s s') \<longleftrightarrow> job_measure s = 0"
proof (cases s)
  case (Pair ph p)
  then show ?thesis
    using job_step_total [of sql cfg _ p] by (cases ph) (auto simp: job_measure_def)
qed

lemma map_files_reach:
  "job_reach sql cfg p0 (Pending fs, p) \<Longrightarrow> mset order = mset fs \<Longrightarrow>
   job_reach sql cfg p0 (map_files sql cfg order p)"
proof (induction order arbitrary: fs p)
  case Nil
  then show ?case by simp
next
  case (Cons f order)
  from Cons.prems(2) have f: "f \<in> set fs"
    by (metis list.set_intros(1) set_mset_mset)
  from Cons.prems(2) have rest: "mset order = mset (remove1 f fs)"
    by (metis add_mset_remove_trivial mset.simps(2) mset_remove1)
  obtain r p' where run: "run_mapper sql (mapper_task cfg f) p = (r, p')"
    by (cases "run_mapper sql (mapper_task cfg f) p")
  show ?case
  proof (cases r)
    case (Inl e)
    with run f have "job_step sql cfg (Pending fs, p) (Aborted e, p')"
      by (auto intro: job_step.map_aborts)
    with Cons.prems(1) run Inl show ?thesis by (auto intro: job_reach.step)
  next
    case (Inr u)
    with run f have "job_step sql cfg (Pending fs, p) (Pending (remove1 f fs), p')"
      by (intro job_step.map_file) simp_all
    with Cons.prems(1) have "job_reach sql cfg p0 (Pending (remove1 f fs), p')"
      by (auto intro: job_reach.step)
    from Cons.IH [OF this rest] run Inr show ?thesis by simp
  qed
qed

lemma map_files_phase:
  "fst (map_files sql cfg fs p) = Pending [] \<or> (\<exists>e. fst (map_files sql cfg fs p) = Aborted e)"
  by (induction fs arbitrary: p) (auto split: prod.splits sum.splits)

lemma run_job_in_reach:
  assumes "mset order = mset (fileContents cfg)"
  shows "job_reach sql cfg p0 (run_job_in sql cfg order p0)"
proof -
  let ?s = "map_files sql cfg order p0"
  have reach: "job_reach sql cfg p0 ?s"
    using job_reach.start assms by (rule map_files_reach)
  obtain ph p where s: "?s = (ph, p)" by (cases ?s)
  obtain r p' where run: "run_reducer (reducer_task cfg) p = (r, p')"
    by (cases "run_reducer (reducer_task cfg) p")
  from map_files_phase [of sql cfg order p0] s
  consider "ph = Pending []" | e where "ph = Aborted e" by auto
  then show ?thesis
  proof cases
    case 1
    with run have "job_step sql cfg (Pending [], p) (reduce_files cfg (Pending [], p))"
      by (cases r) (auto simp: reduce_files_def intro: job_step.intros)
    with reach s 1 show ?thesis by (auto simp: run_job_in_def intro: job_reach.step)
  next
    case 2
    with reach s show ?thesis by (simp add: run_job_in_def reduce_files_def)
  qed
qed

lemma run_job_in_measure: "job_measure (run_job_in sql cfg order p) = 0"
  using map_files_phase [of sql cfg order p]
  by (cases "map_files sql cfg order p")
     (auto simp: run_job_in_def reduce_files_def job_measure_def split: prod.splits sum.splits)


section \<open>A job that is ready\<close>

definition rows_of :: "'t files \<Rightarrow> string \<Rightarrow> string option list" where
  "rows_of fs uri = (case text_file fs uri of Inr rows \<Rightarrow> rows | Inl e \<Rightarrow> [])"

definition staged :: "'t sql_functions \<Rightarrow> job_config \<Rightarrow> 't platform \<Rightarrow> string \<Rightarrow> 't warc_row list" where
  "staged sql cfg p0 f = transform sql (rows_of (p_files p0) (input_uri cfg f))"

text \<open>What the run leaves at the output, and what the docstring of the reducer says it is.\<close>

definition job_output :: "'t sql_functions \<Rightarrow> job_config \<Rightarrow> 't platform \<Rightarrow> 't frame" where
  "job_output sql cfg p0 = StatsFrame (aggregate (staged sql cfg p0 (hd (fileContents cfg))))"

text \<open>
  The files of a finished run: the output, the intermediate file of every file of the
  manifest, and everything else as it was.
\<close>

definition job_files :: "'t sql_functions \<Rightarrow> job_config \<Rightarrow> 't platform \<Rightarrow> 't files" where
  "job_files sql cfg p0 u =
     (if u = outputUri cfg then Some (job_output sql cfg p0)
      else case find (\<lambda>f. intermediate_uri cfg f = u) (fileContents cfg) of
             Some f \<Rightarrow> Some (WarcFrame (staged sql cfg p0 f))
           | None \<Rightarrow> p_files p0 u)"

definition job_final :: "'t sql_functions \<Rightarrow> job_config \<Rightarrow> 't platform \<Rightarrow> 't platform" where
  "job_final sql cfg p0 = p0\<lparr>p_files := job_files sql cfg p0\<rparr>"

definition job_documented :: "'t sql_functions \<Rightarrow> job_config \<Rightarrow> 't platform \<Rightarrow> 't frame" where
  "job_documented sql cfg p0 =
     StatsFrame (aggregate (foldr df_union (map (staged sql cfg p0) (fileContents cfg)) []))"

text \<open>
  The mapper tasks of a manifest can run when the two buckets are different and their
  names have no slash, different files get different intermediate names, the region is
  set and the secret manager answers for the mapper stage, and every file of the manifest
  is there as text.  A job is ready when moreover the manifest is not empty and the
  secret manager answers for the reducer stage.
\<close>

definition map_ready :: "job_config \<Rightarrow> 't platform \<Rightarrow> bool" where
  "map_ready cfg p \<longleftrightarrow>
     CHR ''/'' \<notin> set (bucketName cfg) \<and> CHR ''/'' \<notin> set (intermediateFilesBucketName cfg) \<and>
     bucketName cfg \<noteq> intermediateFilesBucketName cfg \<and>
     inj_on (intermediateFilename cfg) (set (fileContents cfg)) \<and>
     \<not> isl (task_credentials p (secretArn cfg) ''mapper'') \<and>
     (\<forall>f\<in>set (fileContents cfg). \<not> isl (text_file (p_files p) (input_uri cfg f)))"

definition job_ready :: "job_config \<Rightarrow> 't platform \<Rightarrow> bool" where
  "job_ready cfg p \<longleftrightarrow>
     fileContents cfg \<noteq> [] \<and>
     CHR ''/'' \<notin> set (bucketName cfg) \<and> CHR ''/'' \<notin> set (intermediateFilesBucketName cfg) \<and>
     bucketName cfg \<noteq> intermediateFilesBucketName cfg \<and>
     inj_on (intermediateFilename cfg) (set (fileContents cfg)) \<and>
     \<not> isl (task_credentials p (secretArn cfg) ''mapper'') \<and>
     \<not> isl (task_credentials p (secretArn cfg) ''reducer'') \<and>
     (\<forall>f\<in>set (fileContents cfg). \<not> isl (text_file (p_files p) (input_uri cfg f)))"

definition job_inv :: "'t sql_functions \<Rightarrow> job_config \<Rightarrow> 't platform \<Rightarrow> 't job \<Rightarrow> bool" where
  "job_inv sql cfg p0 s \<longleftrightarrow>
     (case s of
        (Pending fs, p) \<Rightarrow>
          p_environ p = p_environ p0 \<and> p_secrets p = p_secrets p0 \<and>
          set fs \<subseteq> set (fileContents cfg) \<and>
          (\<forall>f\<in>set (fileContents cfg). f \<notin> set fs \<longrightarrow>
             p_files p (intermediate_uri cfg f) = Some (WarcFrame (staged sql cfg p0 f))) \<and>
          (\<forall>u. u \<notin> intermediate_uri cfg ` set (fileContents cfg) \<longrightarrow> p_files p u = p_files p0 u)
      | (Finished, p) \<Rightarrow> p = job_final sql cfg p0
      | (Aborted e, p) \<Rightarrow> False)"

lemma not_isl_Inr: "\<not> isl r \<Longrightarrow> \<exists>x. r = Inr x"
  by (cases r) simp_all

lemma text_file_rows_of: "\<not> isl (text_file fs uri) \<Longrightarrow> text_file fs uri = Inr (rows_of fs uri)"
  by (cases "text_file fs uri") (simp_all add: rows_of_def)

lemma job_ready_map: "job_ready cfg p \<Longrightarrow> map_ready cfg p"
  by (simp add: job_ready_def map_ready_def)

lemma map_ready_uris:
  assumes "map_ready cfg p0" and "f \<in> set (fileContents cfg)" and "g \<in> set (fileContents cfg)"
  shows "input_uri cfg g \<noteq> intermediate_uri cfg f"
    and "intermediate_uri cfg g = intermediate_uri cfg f \<longleftrightarrow> g = f"
  using assms
  by (auto simp: map_ready_def intermediate_uri_def input_uri_def s3a_inject dest: inj_onD)

lemma map_ready_input:
  assumes "map_ready cfg p0" and "g \<in> set (fileContents cfg)"
  shows "input_uri cfg g \<notin> intermediate_uri cfg ` set (fileContents cfg)"
  using map_ready_uris(1) [OF assms(1) _ assms(2)] by auto

text \<open>In a ready job a mapper task returns and stages its file; the reducer task returns.\<close>

lemma map_step:
  assumes ready: "map_ready cfg p0" and inv: "job_inv sql cfg p0 (Pending fs, p)" and f: "f \<in> set fs"
  shows "run_mapper sql (mapper_task cfg f) p =
           (Inr (), store p (intermediate_uri cfg f) (WarcFrame (staged sql cfg p0 f)))"
proof -
  from inv f have same: "p_environ p = p_environ p0" "p_secrets p = p_secrets p0"
    and mem: "f \<in> set (fileContents cfg)"
    and frame: "\<And>u. u \<notin> intermediate_uri cfg ` set (fileContents cfg) \<Longrightarrow> p_files p u = p_files p0 u"
    by (auto simp: job_inv_def)
  from frame map_ready_input [OF ready mem]
  have inp: "p_files p (input_uri cfg f) = p_files p0 (input_uri cfg f)" by blast
  from ready obtain cr where "task_credentials p0 (secretArn cfg) ''mapper'' = Inr cr"
    by (auto simp: map_ready_def dest: not_isl_Inr)
  moreover from ready mem
  have "text_file (p_files p0) (input_uri cfg f) = Inr (rows_of (p_files p0) (input_uri cfg f))"
    by (simp add: map_ready_def text_file_rows_of)
  moreover note text_file_cong [of "p_files p" "input_uri cfg f" "p_files p0", OF inp]
  ultimately show ?thesis
    by (simp add: run_mapper_spec mapper_spec_def task_credentials_cong [OF same]
        finish_def staged_def)
qed

lemma reduce_step:
  assumes ready: "job_ready cfg p0" and inv: "job_inv sql cfg p0 (Pending [], p)"
  shows "run_reducer (reducer_task cfg) p = (Inr (), store p (outputUri cfg) (job_output sql cfg p0))"
proof -
  from inv have same: "p_environ p = p_environ p0" "p_secrets p = p_secrets p0"
    and st: "\<And>f. f \<in> set (fileContents cfg) \<Longrightarrow>
                   warc_file (p_files p) (intermediate_uri cfg f) = Inr (staged sql cfg p0 f)"
    by (auto simp: job_inv_def)
  from ready obtain cr where "task_credentials p0 (secretArn cfg) ''reducer'' = Inr cr"
    by (auto simp: job_ready_def dest: not_isl_Inr)
  moreover from ready obtain f fs where "fileContents cfg = f # fs"
    by (cases "fileContents cfg") (auto simp: job_ready_def)
  moreover have "read_all (warc_file (p_files p)) (map (intermediate_uri cfg) (fileContents cfg)) =
      Inr (map (staged sql cfg p0) (fileContents cfg))"
    by (simp add: read_all_map read_all_Inr [OF st])
  ultimately show ?thesis
    by (simp add: run_reducer_spec reducer_spec_def task_credentials_cong [OF same] finish_def
        py_index_def group_and_order_def job_output_def)
qed

lemma job_inv_start: "job_inv sql cfg p0 (Pending (fileContents cfg), p0)"
  by (simp add: job_inv_def)

lemma job_inv_map:
  assumes ready: "map_ready cfg p0" and inv: "job_inv sql cfg p0 (Pending fs, p)" and f: "f \<in> set fs"
  shows "job_inv sql cfg p0
           (Pending (remove1 f fs), store p (intermediate_uri cfg f) (WarcFrame (staged sql cfg p0 f)))"
proof -
  let ?p' = "store p (intermediate_uri cfg f) (WarcFrame (staged sql cfg p0 f))"
  from inv f have base: "p_environ p = p_environ p0" "p_secrets p = p_secrets p0"
      "set fs \<subseteq> set (fileContents cfg)" "f \<in> set (fileContents cfg)"
    and frame: "\<And>u. u \<notin> intermediate_uri cfg ` set (fileContents cfg) \<Longrightarrow>
                p_files p u = p_files p0 u"
    and st: "\<And>g. g \<in> set (fileContents cfg) \<Longrightarrow> g \<notin> set fs \<Longrightarrow>
                p_files p (intermediate_uri cfg g) = Some (WarcFrame (staged sql cfg p0 g))"
    by (auto simp: job_inv_def)
  have "p_files ?p' u = p_files p0 u"
    if "u \<notin> intermediate_uri cfg ` set (fileContents cfg)" for u
    using that base(4) frame [OF that] by auto
  moreover
  have "p_files ?p' (intermediate_uri cfg g) = Some (WarcFrame (staged sql cfg p0 g))"
    if "g \<in> set (fileContents cfg)" and "g \<notin> set (remove1 f fs)" for g
    using that map_ready_uris(2) [OF ready base(4) that(1)] by (cases "g = f") (simp_all add: st)
  ultimately show ?thesis
    using base set_remove1_subset [of f fs] by (auto simp: job_inv_def)
qed

lemma job_inv_reduce:
  assumes "job_inv sql cfg p0 (Pending [], p)"
  shows "store p (outputUri cfg) (job_output sql cfg p0) = job_final sql cfg p0"
proof -
  from assms have same: "p_environ p = p_environ p0" "p_secrets p = p_secrets p0"
    and st: "\<And>f. f \<in> set (fileContents cfg) \<Longrightarrow>
               p_files p (intermediate_uri cfg f) = Some (WarcFrame (staged sql cfg p0 f))"
    and frame: "\<And>u. u \<notin> intermediate_uri cfg ` set (fileContents cfg) \<Longrightarrow>
               p_files p u = p_files p0 u"
    by (auto simp: job_inv_def)
  have "p_files p u =
      (case find (\<lambda>f. intermediate_uri cfg f = u) (fileContents cfg) of
         Some f \<Rightarrow> Some (WarcFrame (staged sql cfg p0 f)) | None \<Rightarrow> p_files p0 u)" for u
  proof (cases "find (\<lambda>f. intermediate_uri cfg f = u) (fileContents cfg)")
    case None
    then have "u \<notin> intermediate_uri cfg ` set (fileContents cfg)"
      by (auto simp: find_None_iff)
    with None show ?thesis by (simp add: frame)
  next
    case (Some f)
    then have "f \<in> set (fileContents cfg)" and "intermediate_uri cfg f = u"
      by (auto simp: find_Some_iff)
    with Some st [of f] show ?thesis by simp
  qed
  then have "(p_files p)(outputUri cfg \<mapsto> job_output sql cfg p0) = job_files sql cfg p0"
    by (auto simp: job_files_def fun_eq_iff)
  with same show ?thesis
    by (simp add: job_final_def store_def)
qed

lemma job_step_inv:
  assumes "job_ready cfg p0" and "job_inv sql cfg p0 s" and "job_step sql cfg s s'"
  shows "job_inv sql cfg p0 s'"
proof -
  note ready = job_ready_map [OF assms(1)]
  from assms(3,2) show ?thesis
  proof (cases rule: job_step.cases)
    case (map_file f fs p p')
    with assms(1,2) show ?thesis
      using map_step [OF ready, of sql fs p f] job_inv_map [OF ready, of sql fs p f] by simp
  next
    case (map_aborts f fs p e p')
    with assms(1,2) show ?thesis
      using map_step [OF ready, of sql fs p f] by simp
  next
    case (reduce p p')
    with assms(1,2) show ?thesis
      using reduce_step [OF assms(1), of sql p] job_inv_reduce [of sql cfg p0 p]
      by (auto simp: job_inv_def)
  next
    case (reduce_aborts p e p')
    with assms(1,2) show ?thesis
      using reduce_step [OF assms(1), of sql p] by simp
  qed
qed

lemma job_reach_inv:
  "job_reach sql cfg p0 s \<Longrightarrow> job_ready cfg p0 \<Longrightarrow> job_inv sql cfg p0 s"
  by (induction rule: job_reach.induct) (auto intro: job_inv_start job_step_inv)

lemma run_job_in_final:
  assumes "job_ready cfg p0" and "mset order = mset (fileContents cfg)"
  shows "run_job_in sql cfg order p0 = (Finished, job_final sql cfg p0)"
proof -
  have "job_inv sql cfg p0 (run_job_in sql cfg order p0)"
    using run_job_in_reach [OF assms(2)] assms(1) by (rule job_reach_inv)
  then show ?thesis
    using run_job_in_measure [of sql cfg order p0]
    by (cases "run_job_in sql cfg order p0"; cases "fst (run_job_in sql cfg order p0)")
       (auto simp: job_inv_def job_measure_def)
qed

lemma job_files_frame:
  "u \<noteq> outputUri cfg \<Longrightarrow> u \<notin> intermediate_uri cfg ` set (fileContents cfg) \<Longrightarrow>
   job_files sql cfg p0 u = p_files p0 u"
  by (auto simp: job_files_def find_Some_iff split: option.splits)

lemma job_output_single:
  "fileContents cfg = [f] \<Longrightarrow> job_output sql cfg p0 = job_documented sql cfg p0"
  by (simp add: job_output_def job_documented_def df_union_def)

text \<open>
  Claim C24.  The mapper and the reducer together: in a ready job, whatever the order in
  which the files are mapped, a run that has finished has left at the output the
  statistics of the rows of the first file of the manifest, and of no other file.
\<close>

theorem job_result:
  assumes "job_ready cfg p0" and "job_reach sql cfg p0 (Finished, p)"
  shows "p_files p (outputUri cfg) =
           Some (StatsFrame (aggregate (transform sql
             (rows_of (p_files p0) (input_uri cfg (hd (fileContents cfg)))))))"
  using job_reach_inv [OF assms(2,1)]
  by (simp add: job_inv_def job_final_def job_files_def job_output_def staged_def)

text \<open>
  Claim C25.  The order of the mapper tasks does not matter, and a job touches nothing but
  its own files: in a ready job every finished run, whatever the order in which the files
  were mapped, has left the platform \<open>job_final\<close>, which is the platform of the run in
  the order of the manifest; in it the environment and the secrets are as at the start,
  and so is every file that is not the output or an intermediate file of the manifest.
\<close>

theorem job_schedule_independent:
  assumes "job_ready cfg p0" and "job_reach sql cfg p0 (Finished, p)"
  shows "run_job sql cfg p0 = (Finished, p) \<and>
         p_environ p = p_environ p0 \<and> p_secrets p = p_secrets p0 \<and>
         (\<forall>u. u \<noteq> outputUri cfg \<longrightarrow> u \<notin> intermediate_uri cfg ` set (fileContents cfg) \<longrightarrow>
              p_files p u = p_files p0 u)"
proof -
  from job_reach_inv [OF assms(2,1)] have "p = job_final sql cfg p0"
    by (simp add: job_inv_def)
  then show ?thesis
    using run_job_in_final [OF assms(1) refl, of sql]
    by (simp add: run_job_def job_final_def job_files_frame)
qed

text \<open>
  Claim C26.  A ready job finishes: from every state a run can be in, every run goes on
  until it has finished; no task raises, and no order of the files gets stuck.
\<close>

theorem job_finishes:
  assumes "job_ready cfg p0"
  shows "job_reach sql cfg p0 s \<Longrightarrow> job_ends sql cfg s"
proof (induction "job_measure s" arbitrary: s rule: less_induct)
  case less
  from less.prems assms have inv: "job_inv sql cfg p0 s" by (rule job_reach_inv)
  obtain ph p where s: "s = (ph, p)" by (cases s)
  show ?case
  proof (cases ph)
    case (Pending fs)
    have "job_ends sql cfg s'" if "job_step sql cfg s s'" for s'
      using that less.hyps [of s'] less.prems by (auto intro: job_step_measure job_reach.step)
    with Pending s show ?thesis
      using job_step_total [of sql cfg fs p] by (auto intro: job_ends.later)
  next
    case Finished
    with s show ?thesis by (simp add: job_ends.finished)
  next
    case (Aborted e)
    with inv s show ?thesis by (simp add: job_inv_def)
  qed
qed

text \<open>
  Jobs that are not ready.  A step that aborts leaves the files as they were before the
  task that raised, so the intermediate files staged so far stay.  With an empty manifest
  no mapper task runs and the reducer raises at \<^verbatim>\<open>readUris[0]\<close>.
\<close>

lemma job_abort_keeps_files:
  assumes "job_step sql cfg (ph, p) (Aborted e, p')"
  shows "p' = p"
  using assms
proof (cases rule: job_step.cases)
  case (map_aborts f fs)
  then show ?thesis by (simp add: run_mapper_spec mapper_spec_def finish_Inl_iff)
next
  case reduce_aborts
  then show ?thesis by (simp add: run_reducer_spec reducer_spec_def finish_Inl_iff)
qed

lemma job_empty_manifest:
  assumes "fileContents cfg = []" and "\<not> isl (task_credentials p0 (secretArn cfg) ''reducer'')"
  shows "run_job sql cfg p0 = (Aborted (IndexError ''list index out of range''), p0)"
proof -
  from assms(2) obtain cr where "task_credentials p0 (secretArn cfg) ''reducer'' = Inr cr"
    by (auto dest: not_isl_Inr)
  with assms(1) show ?thesis
    by (simp add: run_job_def run_job_in_def reduce_files_def run_reducer_spec reducer_spec_def
        finish_def)
qed

text \<open>
  What \<open>job_ends\<close> gives: an aborted run has not ended in its sense, and a run from
  such a state that has stopped has finished.
\<close>

lemma job_ends_Aborted: "\<not> job_ends sql cfg (Aborted e, p)"
  by (auto elim: job_ends.cases)


lemma job_ends_stuck:
  assumes "job_ends sql cfg s" and "(job_step sql cfg)\<^sup>*\<^sup>* s s'" and "job_measure s' = 0"
  shows "fst s' = Finished"
  using assms(2,1,3)
proof (induction rule: converse_rtranclp_induct)
  case base
  then show ?case
    using job_stuck_iff [of sql cfg s'] by (cases rule: job_ends.cases) auto
next
  case (step y z)
  from step.prems(1) step.hyps(1) have "job_ends sql cfg z"
    by (cases rule: job_ends.cases) auto
  with step show ?case by simp
qed

section \<open>A job of two files\<close>

definition rows1 :: "string option list" where
  "rows1 = [Some (render_record version0 fields0 ''world'')]"

definition cfg0 :: job_config where
  "cfg0 = \<lparr>sparkAppName = ''app'', connectorDestination = ''S3'', bucketName = ''crawl'',
     sparkFileFormat = ''text'', sparkReadOptions = [(''lineSep'', [CHR 0x0A] @ crlf2)],
     fileContents = [''file-0'', ''file-1''], intermediateFilesBucketName = ''tmp'',
     intermediateFilename = (\<lambda>f. ''part-'' @ f), intermediateReadOptions = [],
     writeConnectorDestination = ''S3'', outputUri = ''s3a://out/result'',
     writeSparkFileFormat = ''json'', sparkWriteOptions = [(''compression'', ''gzip'')],
     secretArn = ''arn''\<rparr>"

definition plat0 :: "string platform" where
  "plat0 = \<lparr>p_environ = [''AWS_REGION'' \<mapsto> ''us-east-1''],
     p_secrets = (\<lambda>region arn stage direction. Inr (stage @ ''-'' @ direction)),
     p_files = [''s3a://crawl/file-0'' \<mapsto> TextFrame rows0,
                ''s3a://crawl/file-1'' \<mapsto> TextFrame rows1]\<rparr>"

lemmas job0_defs =
  cfg0_def plat0_def task_credentials_def text_file_def input_uri_def intermediate_uri_def
  s3a_def rows_of_def

lemma ready0: "job_ready cfg0 plat0"
  by (simp add: job_ready_def job0_defs inj_on_def)

lemma first_step0:
  "job_step sql0 cfg0 (Pending [''file-0'', ''file-1''], plat0)
     (Pending [''file-0''],
      store plat0 ''s3a://tmp/part-file-1'' (WarcFrame (transform sql0 rows1)))"
  using job_step.map_file [of "''file-1''" "[''file-0'', ''file-1'']" sql0 cfg0 plat0]
    map_step [OF job_ready_map [OF ready0], of sql0 "[''file-0'', ''file-1'']" plat0 "''file-1''"]
    job_inv_start [of sql0 cfg0 plat0]
  by (simp add: staged_def job0_defs)

theorem tasks_refine_specs_witness:
  "run_mapper sql0 (mapper_task cfg0 ''file-0'') plat0 =
     (Inr (), store plat0 ''s3a://tmp/part-file-0'' (WarcFrame (transform sql0 rows0))) \<and>
   run_reducer (reducer_task cfg0) plat0 =
     (Inl (LibraryError ''cannot read the file as rows''), plat0)"
  using tasks_refine_specs [of sql0 "mapper_task cfg0 ''file-0''" plat0 "reducer_task cfg0" plat0]
  by (simp add: mapper_spec_def reducer_spec_def finish_def warc_file_def job0_defs)

theorem failed_task_writes_nothing_witness:
  "fst (run_mapper sql0 (mapper_task cfg0 ''file-9'') plat0) =
     Inl (LibraryError ''cannot read the file as text'') \<and>
   snd (run_mapper sql0 (mapper_task cfg0 ''file-9'') plat0) = plat0 \<and>
   fst (run_reducer (reducer_task cfg0) plat0) =
     Inl (LibraryError ''cannot read the file as rows'') \<and>
   snd (run_reducer (reducer_task cfg0) plat0) = plat0"
  using failed_task_writes_nothing [of sql0 "mapper_task cfg0 ''file-9''" plat0
      "LibraryError ''cannot read the file as text''" "reducer_task cfg0" plat0
      "LibraryError ''cannot read the file as rows''"]
  by (simp add: run_mapper_spec run_reducer_spec mapper_spec_def reducer_spec_def finish_def
      warc_file_def job0_defs)

theorem reducer_documented_single_witness:
  "run_reducer (reducer_task (cfg0\<lparr>fileContents := [''file-0'']\<rparr>)) plat0 =
   reducer_documented (reducer_task (cfg0\<lparr>fileContents := [''file-0'']\<rparr>)) plat0"
  using reducer_documented_single [of "reducer_task (cfg0\<lparr>fileContents := [''file-0'']\<rparr>)" plat0]
  by simp


lemma reverse_run0:
  "job_reach sql0 cfg0 plat0 (Finished, snd (run_job_in sql0 cfg0 [''file-1'', ''file-0''] plat0))"
proof -
  have order: "mset [''file-1'', ''file-0''] = mset (fileContents cfg0)"
    by (simp add: cfg0_def)
  from run_job_in_reach [OF order, of sql0 plat0] run_job_in_final [OF ready0 order, of sql0]
  show ?thesis by simp
qed

theorem job_result_witness:
  "p_files (snd (run_job_in sql0 cfg0 [''file-1'', ''file-0''] plat0)) ''s3a://out/result'' =
     Some (StatsFrame (aggregate (transform sql0 rows0)))"
  using job_result [OF ready0 reverse_run0] by (simp add: job0_defs)

theorem job_schedule_independent_witness:
  "run_job sql0 cfg0 plat0 = (Finished, snd (run_job_in sql0 cfg0 [''file-1'', ''file-0''] plat0)) \<and>
   p_files (snd (run_job_in sql0 cfg0 [''file-1'', ''file-0''] plat0)) ''s3a://crawl/file-1'' =
     Some (TextFrame rows1)"
  using job_schedule_independent [OF ready0 reverse_run0] by (simp add: job0_defs)

theorem job_finishes_witness:
  "job_ends sql0 cfg0 (Pending [''file-0'', ''file-1''], plat0)"
  using job_finishes [OF ready0 job_reach.start [of sql0 cfg0 plat0]] by (simp add: cfg0_def)

end
