(* ===== verification/SparkRuns.thy ===== *)
theory SparkRuns
  imports SparkJob
begin

text \<open>
  The three run configurations of a Spark dataset (\<^verbatim>\<open>runSparkInterfaces\<close>), as the
  parameter documentation of \<^verbatim>\<open>mapper\<close> and \<^verbatim>\<open>reducer\<close> describes them.  Theory
  \<open>SparkJob\<close> has the run of both; this theory adds the run of the mapper alone and
  of the reducer alone, and one step relation for the three.

  \<^item> \<open>dataset\<close> is a job configuration with its run configuration and, for a run of
    the mapper alone, the write bucket and the names of the output files.  The docstring
    says that such a run writes an output file to the write destination bucket and does
    not say under which name: the name is a function of the input file's name, and a
    parameter here, as the names of the intermediate files are in \<open>SparkJob\<close>.
  \<^item> \<open>mapper_only_task\<close> are the arguments of a mapper task of a run of the mapper
    alone: it reads as in a run of both and writes to \<open>output_uri\<close> with the format
    and the options of the write connector.  \<open>reducer_only_task\<close> are the arguments
    of the reducer task of a run of the reducer alone: it reads the files of the manifest
    from the bucket of the read connector, with its format and options, and writes as in
    a run of both.  \<open>mapper_task_of\<close>, \<open>reducer_task_of\<close> and
    \<open>files_to_map\<close> choose by the run configuration.
  \<^item> \<open>run_step\<close> is one step of a run of a dataset: a mapper task on a pending
    file, the reducer task when no file is pending, or the end of a run that has no
    reducer task.  \<open>run_reach\<close> are the states of a run, \<open>run_dataset_in\<close> the
    run that maps the files in a given order, and \<open>run_dataset\<close> the run in the
    order of the manifest.  For a run of both these are \<open>job_step\<close>,
    \<open>job_reach\<close> and \<open>run_job\<close> (\<open>run_step_job\<close>, \<open>run_reach_job\<close>,
    \<open>run_dataset_job\<close>).
  \<^item> A task changes the files as a function of its secret, what it reads and where it
    writes (\<open>run_mapper_cong\<close>, \<open>run_reducer_cong\<close>), so a mapper task of a run
    of the mapper alone is a mapper task of the job \<open>as_job\<close>, whose intermediate
    bucket is the write bucket, and the invariant of the mapper tasks of a job carries
    over (\<open>mapper_only_reach_inv\<close>).
  \<^item> The properties: a run of both is a run of the mapper alone followed by a run of
    the reducer alone; what a run of the mapper alone leaves, in any order of its tasks;
    the two states of a run of the reducer alone, and that its output is the statistics
    of its first file; every run of every configuration ends within one step more than
    it has files to map (\<open>run_steps_measure\<close>).
\<close>

section \<open>The run configurations\<close>

datatype run_config = MAPPER_AND_REDUCER | MAPPER_ONLY | REDUCER_ONLY

record dataset =
  config :: job_config
  runSparkInterfaces :: run_config
  writeBucketName :: string
  outputFilename :: "string \<Rightarrow> string"

definition output_uri :: "dataset \<Rightarrow> string \<Rightarrow> string" where
  "output_uri ds f = s3a (writeBucketName ds) (outputFilename ds f)"

definition mapper_only_task :: "dataset \<Rightarrow> string \<Rightarrow> mapper_args" where
  "mapper_only_task ds f =
     (let cfg = config ds in
      \<lparr>appName = sparkAppName cfg, readDestination = connectorDestination cfg,
       readFormat = sparkFileFormat cfg, readOptions = sparkReadOptions cfg,
       writeDestination = writeConnectorDestination cfg, writeUri = output_uri ds f,
       writeFormat = writeSparkFileFormat cfg, writeMode = ''overwrite'',
       writeOptions = sparkWriteOptions cfg, spark_credentials_secret_arn = secretArn cfg,
       readUri = input_uri cfg f\<rparr>)"

definition reducer_only_task :: "dataset \<Rightarrow> reducer_args" where
  "reducer_only_task ds =
     (let cfg = config ds in
      \<lparr>appName = sparkAppName cfg, readDestination = connectorDestination cfg,
       readFormat = sparkFileFormat cfg, readOptions = sparkReadOptions cfg,
       writeDestination = writeConnectorDestination cfg, writeUri = outputUri cfg,
       writeFormat = writeSparkFileFormat cfg, writeMode = ''overwrite'',
       writeOptions = sparkWriteOptions cfg, spark_credentials_secret_arn = secretArn cfg,
       readUris = map (input_uri cfg) (fileContents cfg)\<rparr>)"

definition mapper_task_of :: "dataset \<Rightarrow> string \<Rightarrow> mapper_args" where
  "mapper_task_of ds =
     (case runSparkInterfaces ds of
        MAPPER_ONLY \<Rightarrow> mapper_only_task ds
      | _ \<Rightarrow> mapper_task (config ds))"

definition reducer_task_of :: "dataset \<Rightarrow> reducer_args option" where
  "reducer_task_of ds =
     (case runSparkInterfaces ds of
        MAPPER_AND_REDUCER \<Rightarrow> Some (reducer_task (config ds))
      | MAPPER_ONLY \<Rightarrow> None
      | REDUCER_ONLY \<Rightarrow> Some (reducer_only_task ds))"

definition files_to_map :: "dataset \<Rightarrow> string list" where
  "files_to_map ds =
     (case runSparkInterfaces ds of REDUCER_ONLY \<Rightarrow> [] | _ \<Rightarrow> fileContents (config ds))"

section \<open>A run\<close>

inductive run_step :: "'t sql_functions \<Rightarrow> dataset \<Rightarrow> 't job \<Rightarrow> 't job \<Rightarrow> bool"
  for sql ds where
  map_file:
    "f \<in> set fs \<Longrightarrow> run_mapper sql (mapper_task_of ds f) p = (Inr (), p') \<Longrightarrow>
     run_step sql ds (Pending fs, p) (Pending (remove1 f fs), p')"
| map_aborts:
    "f \<in> set fs \<Longrightarrow> run_mapper sql (mapper_task_of ds f) p = (Inl e, p') \<Longrightarrow>
     run_step sql ds (Pending fs, p) (Aborted e, p')"
| reduce:
    "reducer_task_of ds = Some a \<Longrightarrow> run_reducer a p = (Inr (), p') \<Longrightarrow>
     run_step sql ds (Pending [], p) (Finished, p')"
| reduce_aborts:
    "reducer_task_of ds = Some a \<Longrightarrow> run_reducer a p = (Inl e, p') \<Longrightarrow>
     run_step sql ds (Pending [], p) (Aborted e, p')"
| no_reducer:
    "reducer_task_of ds = None \<Longrightarrow> run_step sql ds (Pending [], p) (Finished, p)"

inductive run_reach :: "'t sql_functions \<Rightarrow> dataset \<Rightarrow> 't platform \<Rightarrow> 't job \<Rightarrow> bool"
  for sql ds p0 where
  start: "run_reach sql ds p0 (Pending (files_to_map ds), p0)"
| step: "run_reach sql ds p0 s \<Longrightarrow> run_step sql ds s s' \<Longrightarrow> run_reach sql ds p0 s'"

fun map_all ::
  "'t sql_functions \<Rightarrow> (string \<Rightarrow> mapper_args) \<Rightarrow> string list \<Rightarrow> 't platform \<Rightarrow> 't job" where
  "map_all sql task [] p = (Pending [], p)"
| "map_all sql task (f # fs) p =
     (case run_mapper sql (task f) p of
        (Inl e, p') \<Rightarrow> (Aborted e, p')
      | (Inr u, p') \<Rightarrow> map_all sql task fs p')"

definition reduce_all :: "reducer_args option \<Rightarrow> 't job \<Rightarrow> 't job" where
  "reduce_all task s =
     (case s of
        (Pending fs, p) \<Rightarrow>
          (case task of
             None \<Rightarrow> (Finished, p)
           | Some a \<Rightarrow>
               (case run_reducer a p of
                  (Inl e, p') \<Rightarrow> (Aborted e, p')
                | (Inr u, p') \<Rightarrow> (Finished, p')))
      | _ \<Rightarrow> s)"

definition run_dataset_in ::
  "'t sql_functions \<Rightarrow> dataset \<Rightarrow> string list \<Rightarrow> 't platform \<Rightarrow> 't job" where
  "run_dataset_in sql ds order p =
     reduce_all (reducer_task_of ds) (map_all sql (mapper_task_of ds) order p)"

definition run_dataset :: "'t sql_functions \<Rightarrow> dataset \<Rightarrow> 't platform \<Rightarrow> 't job" where
  "run_dataset sql ds p = run_dataset_in sql ds (files_to_map ds) p"

text \<open>
  The two halves of a run of both: the mapper tasks alone, writing to the intermediate
  bucket under the intermediate names, and the reducer task alone, on the intermediate
  files as its dataset.
\<close>

definition mapper_part :: "dataset \<Rightarrow> dataset" where
  "mapper_part ds =
     ds\<lparr>runSparkInterfaces := MAPPER_ONLY,
        writeBucketName := intermediateFilesBucketName (config ds),
        outputFilename := intermediateFilename (config ds)\<rparr>"

definition reducer_part :: "dataset \<Rightarrow> dataset" where
  "reducer_part ds =
     ds\<lparr>runSparkInterfaces := REDUCER_ONLY,
        config := (config ds)\<lparr>bucketName := intermediateFilesBucketName (config ds),
          fileContents := map (intermediateFilename (config ds)) (fileContents (config ds))\<rparr>\<rparr>"

section \<open>Tasks that do the same\<close>

lemma run_mapper_cong:
  assumes "readUri a = readUri a'" and "writeUri a = writeUri a'"
    and "spark_credentials_secret_arn a = spark_credentials_secret_arn a'"
  shows "run_mapper sql a p = run_mapper sql a' p"
  using assms by (simp add: run_mapper_spec mapper_spec_def)

lemma run_reducer_cong:
  assumes "readUris a = readUris a'" and "writeUri a = writeUri a'"
    and "spark_credentials_secret_arn a = spark_credentials_secret_arn a'"
  shows "run_reducer a p = run_reducer a' p"
  using assms by (simp add: run_reducer_spec reducer_spec_def)

lemma map_all_cong:
  "(\<And>f p. f \<in> set fs \<Longrightarrow> run_mapper sql (t f) p = run_mapper sql (t' f) p) \<Longrightarrow>
   map_all sql t fs p = map_all sql t' fs p"
  by (induction fs arbitrary: p) (simp_all split: prod.splits sum.splits)

lemma map_files_all: "map_files sql cfg fs p = map_all sql (mapper_task cfg) fs p"
  by (induction fs arbitrary: p) (simp_all split: prod.splits sum.splits)

lemma reduce_files_all: "reduce_files cfg s = reduce_all (Some (reducer_task cfg)) s"
  by (simp add: reduce_files_def reduce_all_def split: prod.splits phase.splits)

lemma task_of_simps [simp]:
  "runSparkInterfaces ds = MAPPER_AND_REDUCER \<Longrightarrow> mapper_task_of ds = mapper_task (config ds)"
  "runSparkInterfaces ds = MAPPER_AND_REDUCER \<Longrightarrow> reducer_task_of ds = Some (reducer_task (config ds))"
  "runSparkInterfaces ds = MAPPER_AND_REDUCER \<Longrightarrow> files_to_map ds = fileContents (config ds)"
  "runSparkInterfaces ds = MAPPER_ONLY \<Longrightarrow> mapper_task_of ds = mapper_only_task ds"
  "runSparkInterfaces ds = MAPPER_ONLY \<Longrightarrow> reducer_task_of ds = None"
  "runSparkInterfaces ds = MAPPER_ONLY \<Longrightarrow> files_to_map ds = fileContents (config ds)"
  "runSparkInterfaces ds = REDUCER_ONLY \<Longrightarrow> reducer_task_of ds = Some (reducer_only_task ds)"
  "runSparkInterfaces ds = REDUCER_ONLY \<Longrightarrow> files_to_map ds = []"
  by (simp_all add: mapper_task_of_def reducer_task_of_def files_to_map_def)

lemma mapper_only_task_sel [simp]:
  "readUri (mapper_only_task ds f) = input_uri (config ds) f"
  "writeUri (mapper_only_task ds f) = output_uri ds f"
  "spark_credentials_secret_arn (mapper_only_task ds f) = secretArn (config ds)"
  by (simp_all add: mapper_only_task_def Let_def)

lemma reducer_only_task_sel [simp]:
  "readUris (reducer_only_task ds) = map (input_uri (config ds)) (fileContents (config ds))"
  "writeUri (reducer_only_task ds) = outputUri (config ds)"
  "spark_credentials_secret_arn (reducer_only_task ds) = secretArn (config ds)"
  by (simp_all add: reducer_only_task_def Let_def)

section \<open>A run of both is a job\<close>

lemma run_step_job:
  assumes "runSparkInterfaces ds = MAPPER_AND_REDUCER"
  shows "run_step sql ds s s' \<longleftrightarrow> job_step sql (config ds) s s'"
proof
  assume "run_step sql ds s s'"
  then show "job_step sql (config ds) s s'"
    using assms by (cases rule: run_step.cases) (auto intro: job_step.intros)
next
  assume "job_step sql (config ds) s s'"
  then show "run_step sql ds s s'"
    using assms by (cases rule: job_step.cases) (auto intro: run_step.intros)
qed

lemma run_reach_job:
  assumes "runSparkInterfaces ds = MAPPER_AND_REDUCER"
  shows "run_reach sql ds p0 s \<longleftrightarrow> job_reach sql (config ds) p0 s"
proof
  assume "run_reach sql ds p0 s"
  then show "job_reach sql (config ds) p0 s"
    using assms
    by (induction rule: run_reach.induct) (auto simp: run_step_job intro: job_reach.intros)
next
  assume "job_reach sql (config ds) p0 s"
  then show "run_reach sql ds p0 s"
    using assms run_reach.start [of sql ds p0]
    by (induction rule: job_reach.induct) (auto simp: run_step_job intro: run_reach.step)
qed

lemma run_dataset_job:
  "runSparkInterfaces ds = MAPPER_AND_REDUCER \<Longrightarrow> run_dataset sql ds p = run_job sql (config ds) p"
  by (simp add: run_dataset_def run_dataset_in_def run_job_def run_job_in_def map_files_all
      reduce_files_all)

section \<open>Every run ends\<close>

lemma run_step_measure: "run_step sql ds s s' \<Longrightarrow> job_measure s' < job_measure s"
  by (induction rule: run_step.induct)
     (auto simp: job_measure_def length_remove1 dest: length_pos_if_in_set)

lemma run_steps_measure:
  "(run_step sql ds ^^ n) s s' \<Longrightarrow> n + job_measure s' \<le> job_measure s"
proof (induction n arbitrary: s')
  case 0
  then show ?case by simp
next
  case (Suc n)
  then obtain t where "(run_step sql ds ^^ n) s t" and "run_step sql ds t s'"
    by auto
  with Suc.IH [of t] run_step_measure [of sql ds t s'] show ?case by simp
qed

section \<open>The halves of a run of both\<close>

lemma mapper_part_task:
  "run_mapper sql (mapper_task_of (mapper_part ds) f) p = run_mapper sql (mapper_task (config ds) f) p"
  by (rule run_mapper_cong)
     (simp_all add: mapper_part_def output_uri_def intermediate_uri_def)

lemma reducer_part_task:
  "reducer_task_of (reducer_part ds) = Some (reducer_only_task (reducer_part ds))"
  "run_reducer (reducer_only_task (reducer_part ds)) p = run_reducer (reducer_task (config ds)) p"
proof -
  show "reducer_task_of (reducer_part ds) = Some (reducer_only_task (reducer_part ds))"
    by (simp add: reducer_part_def)
  show "run_reducer (reducer_only_task (reducer_part ds)) p =
      run_reducer (reducer_task (config ds)) p"
    by (rule run_reducer_cong)
       (simp_all add: reducer_part_def input_uri_def intermediate_uri_def comp_def)
qed

lemma map_all_phase: "fst (map_all sql t fs p) \<noteq> Finished"
  by (induction fs arbitrary: p) (simp_all split: prod.splits sum.splits)

lemma map_all_Pending: "map_all sql t fs p = (Pending gs, p') \<Longrightarrow> gs = []"
  by (induction fs arbitrary: p) (auto split: prod.splits sum.splits)



section \<open>A run of the mapper alone\<close>

text \<open>
  For the files, a mapper task of such a run is a mapper task of the job whose
  intermediate bucket is the write bucket: what \<open>SparkJob\<close> shows of the mapper tasks
  of a job holds of them.
\<close>

definition as_job :: "dataset \<Rightarrow> job_config" where
  "as_job ds =
     (config ds)\<lparr>intermediateFilesBucketName := writeBucketName ds,
                 intermediateFilename := outputFilename ds\<rparr>"

definition mapper_only_ready :: "dataset \<Rightarrow> 't platform \<Rightarrow> bool" where
  "mapper_only_ready ds p \<longleftrightarrow>
     runSparkInterfaces ds = MAPPER_ONLY \<and>
     CHR ''/'' \<notin> set (bucketName (config ds)) \<and> CHR ''/'' \<notin> set (writeBucketName ds) \<and>
     bucketName (config ds) \<noteq> writeBucketName ds \<and>
     inj_on (outputFilename ds) (set (fileContents (config ds))) \<and>
     \<not> isl (task_credentials p (secretArn (config ds)) ''mapper'') \<and>
     (\<forall>f\<in>set (fileContents (config ds)).
        \<not> isl (text_file (p_files p) (input_uri (config ds) f)))"

definition mapped :: "'t sql_functions \<Rightarrow> dataset \<Rightarrow> 't platform \<Rightarrow> 't platform \<Rightarrow> bool" where
  "mapped sql ds p0 p \<longleftrightarrow>
     p_environ p = p_environ p0 \<and> p_secrets p = p_secrets p0 \<and>
     (\<forall>f\<in>set (fileContents (config ds)).
        p_files p (output_uri ds f) =
          Some (WarcFrame (transform sql (rows_of (p_files p0) (input_uri (config ds) f))))) \<and>
     (\<forall>u. u \<notin> output_uri ds ` set (fileContents (config ds)) \<longrightarrow> p_files p u = p_files p0 u)"

definition mapper_only_inv :: "'t sql_functions \<Rightarrow> dataset \<Rightarrow> 't platform \<Rightarrow> 't job \<Rightarrow> bool" where
  "mapper_only_inv sql ds p0 s \<longleftrightarrow>
     (case s of
        (Pending fs, p) \<Rightarrow> job_inv sql (as_job ds) p0 (Pending fs, p)
      | (Finished, p) \<Rightarrow> mapped sql ds p0 p
      | (Aborted e, p) \<Rightarrow> False)"

lemma as_job_sel [simp]:
  "fileContents (as_job ds) = fileContents (config ds)"
  "input_uri (as_job ds) f = input_uri (config ds) f"
  "intermediate_uri (as_job ds) f = output_uri ds f"
  "secretArn (as_job ds) = secretArn (config ds)"
  by (simp_all add: as_job_def input_uri_def intermediate_uri_def output_uri_def)

lemma as_job_task:
  "run_mapper sql (mapper_only_task ds f) p = run_mapper sql (mapper_task (as_job ds) f) p"
  by (intro run_mapper_cong) simp_all

lemma mapper_only_map_ready: "mapper_only_ready ds p \<Longrightarrow> map_ready (as_job ds) p"
  by (simp add: mapper_only_ready_def map_ready_def) (simp add: as_job_def)

lemma mapped_iff: "mapped sql ds p0 p \<longleftrightarrow> job_inv sql (as_job ds) p0 (Pending [], p)"
  by (simp add: mapped_def job_inv_def staged_def)

lemma mapped_unique:
  assumes "mapped sql ds p0 p" and "mapped sql ds p0 q"
  shows "p = q"
proof -
  have "p_files p u = p_files q u" for u
    using assms by (cases "u \<in> output_uri ds ` set (fileContents (config ds))")
      (auto simp: mapped_def)
  with assms show ?thesis
    by (intro platform.equality) (auto simp: mapped_def)
qed

lemma mapper_only_step_inv:
  assumes ready: "mapper_only_ready ds p0" and inv: "mapper_only_inv sql ds p0 s"
    and step: "run_step sql ds s s'"
  shows "mapper_only_inv sql ds p0 s'"
proof -
  note mr = mapper_only_map_ready [OF ready]
  from ready have only: "runSparkInterfaces ds = MAPPER_ONLY"
    by (simp add: mapper_only_ready_def)
  from step inv show ?thesis
  proof (cases rule: run_step.cases)
    case (map_file f fs p p')
    with inv only show ?thesis
      using map_step [OF mr, of sql fs p f] job_inv_map [OF mr, of sql fs p f]
      by (simp add: mapper_only_inv_def as_job_task)
  next
    case (map_aborts f fs p e p')
    with inv only show ?thesis
      using map_step [OF mr, of sql fs p f] by (simp add: mapper_only_inv_def as_job_task)
  next
    case (no_reducer p)
    with inv show ?thesis by (simp add: mapper_only_inv_def mapped_iff)
  qed (simp_all add: only)
qed

lemma mapper_only_reach_inv:
  "run_reach sql ds p0 s \<Longrightarrow> mapper_only_ready ds p0 \<Longrightarrow> mapper_only_inv sql ds p0 s"
proof (induction rule: run_reach.induct)
  case start
  then show ?case
    using job_inv_start [of sql "as_job ds" p0]
    by (simp add: mapper_only_inv_def mapper_only_ready_def)
next
  case (step s s')
  then show ?case by (auto intro: mapper_only_step_inv)
qed

section \<open>The sequential run is a run\<close>

lemma map_all_reach:
  "run_reach sql ds p0 (Pending fs, p) \<Longrightarrow> mset order = mset fs \<Longrightarrow>
   run_reach sql ds p0 (map_all sql (mapper_task_of ds) order p)"
proof (induction order arbitrary: fs p)
  case Nil
  then show ?case by simp
next
  case (Cons f order)
  from Cons.prems(2) have f: "f \<in> set fs"
    by (metis list.set_intros(1) set_mset_mset)
  from Cons.prems(2) have rest: "mset order = mset (remove1 f fs)"
    by (metis add_mset_remove_trivial mset.simps(2) mset_remove1)
  obtain r p' where run: "run_mapper sql (mapper_task_of ds f) p = (r, p')"
    by (cases "run_mapper sql (mapper_task_of ds f) p")
  show ?case
  proof (cases r)
    case (Inl e)
    with run f have "run_step sql ds (Pending fs, p) (Aborted e, p')"
      by (auto intro: run_step.map_aborts)
    with Cons.prems(1) run Inl show ?thesis by (auto intro: run_reach.step)
  next
    case (Inr u)
    with run f have "run_step sql ds (Pending fs, p) (Pending (remove1 f fs), p')"
      by (intro run_step.map_file) simp_all
    with Cons.prems(1) have "run_reach sql ds p0 (Pending (remove1 f fs), p')"
      by (auto intro: run_reach.step)
    from Cons.IH [OF this rest] run Inr show ?thesis by simp
  qed
qed

lemma run_step_total: "\<exists>s'. run_step sql ds (Pending [], p) s' \<and> s' = reduce_all (reducer_task_of ds) (Pending [], p)"
proof (cases "reducer_task_of ds")
  case None
  then show ?thesis by (auto simp: reduce_all_def intro: run_step.no_reducer)
next
  case (Some a)
  obtain r p' where "run_reducer a p = (r, p')" by (cases "run_reducer a p")
  with Some show ?thesis
    by (cases r) (auto simp: reduce_all_def intro: run_step.reduce run_step.reduce_aborts)
qed

lemma run_dataset_in_reach:
  assumes "mset order = mset (files_to_map ds)"
  shows "run_reach sql ds p0 (run_dataset_in sql ds order p0)"
proof -
  let ?s = "map_all sql (mapper_task_of ds) order p0"
  have reach: "run_reach sql ds p0 ?s"
    using run_reach.start assms by (rule map_all_reach)
  obtain ph p where s: "?s = (ph, p)" by (cases ?s)
  show ?thesis
  proof (cases ph)
    case (Pending gs)
    with s have "gs = []" by (auto dest: map_all_Pending)
    with reach s Pending run_step_total [of sql ds p] show ?thesis
      by (auto simp: run_dataset_in_def intro: run_reach.step)
  next
    case Finished
    with s map_all_phase [of sql "mapper_task_of ds" order p0] show ?thesis by simp
  next
    case (Aborted e)
    with reach s show ?thesis by (simp add: run_dataset_in_def reduce_all_def)
  qed
qed

lemma run_dataset_in_measure: "job_measure (run_dataset_in sql ds order p) = 0"
proof -
  obtain ph p' where s: "map_all sql (mapper_task_of ds) order p = (ph, p')"
    by (cases "map_all sql (mapper_task_of ds) order p")
  then show ?thesis
    by (cases ph)
       (auto simp: run_dataset_in_def reduce_all_def job_measure_def
          split: option.splits prod.splits sum.splits)
qed

section \<open>What the runs leave\<close>

lemma run_dataset_in_mapped:
  assumes "mapper_only_ready ds p0" and "mset order = mset (fileContents (config ds))"
  shows "\<exists>p. run_dataset_in sql ds order p0 = (Finished, p) \<and> mapped sql ds p0 p"
proof -
  from assms(1) have only: "runSparkInterfaces ds = MAPPER_ONLY"
    by (simp add: mapper_only_ready_def)
  with assms(2) have "run_reach sql ds p0 (run_dataset_in sql ds order p0)"
    by (intro run_dataset_in_reach) simp
  then have "mapper_only_inv sql ds p0 (run_dataset_in sql ds order p0)"
    using assms(1) by (rule mapper_only_reach_inv)
  then show ?thesis
    using run_dataset_in_measure [of sql ds order p0]
    by (cases "run_dataset_in sql ds order p0"; cases "fst (run_dataset_in sql ds order p0)")
       (auto simp: mapper_only_inv_def job_measure_def)
qed

text \<open>
  Claim C30.  A run of the mapper alone: when the read bucket and the write bucket are
  different, different files get different output names, the credentials are there and
  every file of the manifest is there as text, every run that has finished, in whatever
  order the files were mapped, has left for each file of the manifest the transformed
  rows of that file at its output, and has changed nothing else: not the environment, not
  the secrets, not a file that is not such an output.  So it has left the platform of
  the run in the order of the manifest.
\<close>

theorem mapper_only_result:
  assumes "mapper_only_ready ds p0" and "run_reach sql ds p0 (Finished, p)"
  shows "(\<forall>f\<in>set (fileContents (config ds)).
            p_files p (output_uri ds f) =
              Some (WarcFrame (transform sql (rows_of (p_files p0) (input_uri (config ds) f))))) \<and>
         (\<forall>u. u \<notin> output_uri ds ` set (fileContents (config ds)) \<longrightarrow> p_files p u = p_files p0 u) \<and>
         p_environ p = p_environ p0 \<and> p_secrets p = p_secrets p0 \<and>
         run_dataset sql ds p0 = (Finished, p)"
proof -
  from mapper_only_reach_inv [OF assms(2,1)] have p: "mapped sql ds p0 p"
    by (simp add: mapper_only_inv_def)
  from assms(1) have "files_to_map ds = fileContents (config ds)"
    by (simp add: mapper_only_ready_def)
  with run_dataset_in_mapped [OF assms(1) refl, of sql]
  obtain q where "run_dataset sql ds p0 = (Finished, q)" and "mapped sql ds p0 q"
    by (auto simp: run_dataset_def)
  with p mapped_unique [of sql ds p0 p q] show ?thesis
    by (simp add: mapped_def)
qed

section \<open>A run of the reducer alone\<close>

definition warc_rows :: "'t files \<Rightarrow> string \<Rightarrow> 't warc_row list" where
  "warc_rows fs uri = (case warc_file fs uri of Inr rows \<Rightarrow> rows | Inl e \<Rightarrow> [])"

definition reducer_only_ready :: "dataset \<Rightarrow> 't platform \<Rightarrow> bool" where
  "reducer_only_ready ds p \<longleftrightarrow>
     runSparkInterfaces ds = REDUCER_ONLY \<and> fileContents (config ds) \<noteq> [] \<and>
     \<not> isl (task_credentials p (secretArn (config ds)) ''reducer'') \<and>
     (\<forall>f\<in>set (fileContents (config ds)).
        \<not> isl (warc_file (p_files p) (input_uri (config ds) f)))"

lemma warc_file_rows: "\<not> isl (warc_file fs uri) \<Longrightarrow> warc_file fs uri = Inr (warc_rows fs uri)"
  by (cases "warc_file fs uri") (simp_all add: warc_rows_def)

lemma reducer_only_step:
  assumes "reducer_only_ready ds p"
  shows "run_reducer (reducer_only_task ds) p =
     (Inr (), store p (outputUri (config ds))
        (StatsFrame (aggregate (warc_rows (p_files p)
           (input_uri (config ds) (hd (fileContents (config ds))))))))"
proof -
  let ?cfg = "config ds"
  from assms obtain cr where "task_credentials p (secretArn ?cfg) ''reducer'' = Inr cr"
    by (auto simp: reducer_only_ready_def dest: not_isl_Inr)
  moreover from assms obtain f fs where "fileContents ?cfg = f # fs"
    by (cases "fileContents ?cfg") (auto simp: reducer_only_ready_def)
  moreover from assms
  have "read_all (warc_file (p_files p)) (map (input_uri ?cfg) (fileContents ?cfg)) =
      Inr (map (\<lambda>f. warc_rows (p_files p) (input_uri ?cfg f)) (fileContents ?cfg))"
    by (simp add: read_all_map read_all_Inr reducer_only_ready_def warc_file_rows)
  ultimately show ?thesis
    by (simp add: run_reducer_spec reducer_spec_def finish_def py_index_def group_and_order_def)
qed

text \<open>
  A run of the reducer alone, on a manifest that is not empty and whose files
  are all there as rows, with the credentials there: it has two states, the start and the
  end, and no mapper task runs.  At the end the output holds the statistics of the rows
  of the first file of the manifest, and of no other file; every other file is as it was.
\<close>

theorem reducer_only_result:
  assumes "reducer_only_ready ds p0"
  shows "run_reach sql ds p0 s \<longleftrightarrow>
           s = (Pending [], p0) \<or>
           s = (Finished, store p0 (outputUri (config ds))
                  (StatsFrame (aggregate (warc_rows (p_files p0)
                     (input_uri (config ds) (hd (fileContents (config ds))))))))"
    (is "_ \<longleftrightarrow> _ \<or> s = ?end")
proof
  from assms have only: "runSparkInterfaces ds = REDUCER_ONLY"
    by (simp add: reducer_only_ready_def)
  {
    assume "run_reach sql ds p0 s"
    then show "s = (Pending [], p0) \<or> s = ?end"
    proof (induction rule: run_reach.induct)
      case start
      with only show ?case by simp
    next
      case (step s s')
      from step.hyps(2) step.IH only reducer_only_step [OF assms] show ?case
        by (cases rule: run_step.cases) auto
    qed
  next
    assume "s = (Pending [], p0) \<or> s = ?end"
    moreover have start: "run_reach sql ds p0 (Pending [], p0)"
      using run_reach.start [of sql ds p0] only by simp
    moreover have "run_step sql ds (Pending [], p0) ?end"
      using only reducer_only_step [OF assms] by (intro run_step.reduce) simp_all
    ultimately show "run_reach sql ds p0 s"
      by (auto intro: run_reach.step)
  }
qed

section \<open>A dataset of two files\<close>

definition ds0 :: dataset where
  "ds0 = \<lparr>config = cfg0, runSparkInterfaces = MAPPER_ONLY, writeBucketName = ''out'',
     outputFilename = (\<lambda>f. f @ ''.rows'')\<rparr>"

lemma ds0_ready: "mapper_only_ready ds0 plat0"
  by (simp add: mapper_only_ready_def ds0_def job0_defs inj_on_def)

lemma ds0_reverse:
  "run_reach sql0 ds0 plat0 (Finished, snd (run_dataset_in sql0 ds0 [''file-1'', ''file-0''] plat0))"
proof -
  have order: "mset [''file-1'', ''file-0''] = mset (fileContents (config ds0))"
    by (simp add: ds0_def cfg0_def)
  moreover have "files_to_map ds0 = fileContents (config ds0)"
    by (simp add: ds0_def files_to_map_def)
  ultimately show ?thesis
    using run_dataset_in_reach [of "[''file-1'', ''file-0'']" ds0 sql0 plat0]
      run_dataset_in_mapped [OF ds0_ready order, of sql0]
    by auto
qed

theorem mapper_only_result_witness:
  "p_files (snd (run_dataset_in sql0 ds0 [''file-1'', ''file-0''] plat0)) ''s3a://out/file-0.rows'' =
     Some (WarcFrame (transform sql0 rows0)) \<and>
   run_dataset sql0 ds0 plat0 =
     (Finished, snd (run_dataset_in sql0 ds0 [''file-1'', ''file-0''] plat0))"
  using mapper_only_result [OF ds0_ready ds0_reverse]
  by (simp add: ds0_def output_uri_def job0_defs)

definition plat1 :: "string platform" where
  "plat1 = plat0\<lparr>p_files := [''s3a://crawl/file-0'' \<mapsto> WarcFrame (transform sql0 rows0),
                              ''s3a://crawl/file-1'' \<mapsto> WarcFrame (transform sql0 rows1)]\<rparr>"

theorem reducer_only_result_witness:
  "run_reach sql0 (ds0\<lparr>runSparkInterfaces := REDUCER_ONLY\<rparr>) plat1
     (Finished, store plat1 ''s3a://out/result'' (StatsFrame (aggregate (transform sql0 rows0))))"
proof -
  have "reducer_only_ready (ds0\<lparr>runSparkInterfaces := REDUCER_ONLY\<rparr>) plat1"
    by (simp add: reducer_only_ready_def ds0_def plat1_def warc_file_def job0_defs)
  from reducer_only_result [OF this, of sql0
      "(Finished, store plat1 ''s3a://out/result'' (StatsFrame (aggregate (transform sql0 rows0))))"]
  show ?thesis
    by (simp add: ds0_def plat1_def warc_rows_def warc_file_def job0_defs)
qed

end
