(* ===== verification/PyFormat.thy ===== *)
theory PyFormat
  imports PyEffects
begin

text \<open>
  The text of a value as Python prints it: what \<^verbatim>\<open>str(v)\<close> and a replacement field
  \<^verbatim>\<open>{v}\<close> of an f-string produce for the values of \<open>pyval\<close>, and \<^verbatim>\<open>str(arr)\<close> for a
  list of strings.  The readers format their arguments into their log messages
  (\<^verbatim>\<open>f"... keys: {keys}"\<close>), and \<^verbatim>\<open>to_map\<close> prints \<^verbatim>\<open>str(arr)\<close>.

  \<^item> \<open>py_repr\<close> is \<^verbatim>\<open>repr\<close>: \<^verbatim>\<open>None\<close>, \<^verbatim>\<open>True\<close>, \<^verbatim>\<open>False\<close>, the decimal form of an
    integer, the quoted and escaped form of a string (theory \<open>PyStr\<close>), and for a dict
    the entries \<^verbatim>\<open>key: value\<close> in insertion order, separated by a comma and a space,
    between braces.  \<open>py_str\<close> is \<^verbatim>\<open>str\<close>: a string is itself, every other value its
    representation.  \<open>py_str_list\<close> is \<^verbatim>\<open>str\<close> of a list of strings that may be
    \<^verbatim>\<open>None\<close>.
  \<^item> \<open>parse_val\<close> and \<open>parse_entries\<close> read a representation back, a value and the
    entries of a dict; \<open>py_literal\<close> reads a whole text.  They are the inverse the round
    trip is stated with, not code of the handlers.  They recurse on what is left of the
    text, so they take fuel; \<open>py_literal\<close> gives them the length of the text, which is
    enough (\<open>fuel_le_length\<close>, \<open>parse_val_repr\<close>).
  \<^item> The properties: a representation is read back to the value it was made of, so the
    text of the keys in a log message determines the keys; and a representation consists
    of printable characters, so a value that is formatted by its representation cannot
    break the line it is written to.
\<close>

section \<open>Representation and string form of a value\<close>

fun py_repr :: "pyval \<Rightarrow> string" where
  "py_repr PNone = ''None''"
| "py_repr (PBool b) = (if b then ''True'' else ''False'')"
| "py_repr (PInt i) = py_str_int i"
| "py_repr (PStr s) = py_repr_str s"
| "py_repr (PDict kvs) =
     ''{'' @ join '', '' (map (\<lambda>kv. py_repr_str (fst kv) @ '': '' @ py_repr (snd kv)) kvs) @ ''}''"

definition py_str :: "pyval \<Rightarrow> string" where
  "py_str v = (case v of PStr s \<Rightarrow> s | _ \<Rightarrow> py_repr v)"

definition py_str_list :: "string list option \<Rightarrow> string" where
  "py_str_list arr =
     (case arr of None \<Rightarrow> ''None'' | Some xs \<Rightarrow> ''['' @ join '', '' (map py_repr_str xs) @ '']'')"

lemmas repr_defs = py_str_def py_str_list_def py_repr_str_def repr_quote_def repr_char_def
  py_isprintable_def backslash_def py_str_int_def digits10.simps digit_char_def Let_def

section \<open>Reading a representation back\<close>

definition is_sign_or_digit :: "char \<Rightarrow> bool" where
  "is_sign_or_digit ch \<longleftrightarrow> is_digit ch \<or> ch = CHR ''-''"

fun parse_val :: "nat \<Rightarrow> string \<Rightarrow> (pyval \<times> string) option"
  and parse_entries :: "nat \<Rightarrow> string \<Rightarrow> ((string \<times> pyval) list \<times> string) option" where
  "parse_val 0 s = None"
| "parse_val (Suc n) s =
     (if take 4 s = ''None'' then Some (PNone, drop 4 s)
      else if take 4 s = ''True'' then Some (PBool True, drop 4 s)
      else if take 5 s = ''False'' then Some (PBool False, drop 5 s)
      else (case s of
              [] \<Rightarrow> None
            | c # cs \<Rightarrow>
                if is_quote c then map_option (apfst PStr) (scan_str c cs)
                else if c = CHR ''{'' then
                  (if take 1 cs = ''}'' then Some (PDict [], drop 1 cs)
                   else map_option (apfst PDict) (parse_entries n cs))
                else (let tok = takeWhile is_sign_or_digit s in
                      map_option (\<lambda>i. (PInt i, drop (length tok) s)) (py_int tok))))"
| "parse_entries 0 s = None"
| "parse_entries (Suc n) s =
     (case s of
        [] \<Rightarrow> None
      | q # cs \<Rightarrow>
          if \<not> is_quote q then None
          else (case scan_str q cs of
                  None \<Rightarrow> None
                | Some (k, r) \<Rightarrow>
                    if take 2 r \<noteq> '': '' then None
                    else (case parse_val n (drop 2 r) of
                            None \<Rightarrow> None
                          | Some (v, r') \<Rightarrow>
                              if take 1 r' = ''}'' then Some ([(k, v)], drop 1 r')
                              else if take 2 r' = '', '' then
                                map_option (apfst ((#) (k, v))) (parse_entries n (drop 2 r'))
                              else None)))"

definition py_literal :: "string \<Rightarrow> pyval option" where
  "py_literal s = (case parse_val (length s) s of Some (v, []) \<Rightarrow> Some v | _ \<Rightarrow> None)"


text \<open>
  \<open>stops r\<close>: the text \<open>r\<close> does not go on with a digit or a sign, so an integer
  before it ends where \<open>r\<close> begins.  \<open>fuel_val v\<close> is fuel that is enough to read the
  representation of \<open>v\<close>: one for a value, one for each entry of a dict.
\<close>

definition stops :: "string \<Rightarrow> bool" where
  "stops r \<longleftrightarrow> (case r of [] \<Rightarrow> True | c # cs \<Rightarrow> \<not> is_sign_or_digit c)"

fun fuel_val :: "pyval \<Rightarrow> nat" where
  "fuel_val (PDict kvs) = Suc (sum_list (map (\<lambda>kv. Suc (fuel_val (snd kv))) kvs))"
| "fuel_val v = 1"

abbreviation entry_repr :: "string \<times> pyval \<Rightarrow> string" where
  "entry_repr \<equiv> (\<lambda>kv. py_repr_str (fst kv) @ '': '' @ py_repr (snd kv))"

section \<open>Tokens\<close>

lemma stops_simps [simp]:
  "stops []" "stops (CHR ''}'' # r)" "stops (CHR '','' # r)"
  by (simp_all add: stops_def is_sign_or_digit_def is_digit_def)

lemma takeWhile_stops [simp]: "stops r \<Longrightarrow> takeWhile is_sign_or_digit r = []"
  by (cases r) (simp_all add: stops_def)

lemma sign_or_digit_str_int: "list_all is_sign_or_digit (py_str_int i)"
  using digits10_digits [of "nat i"] digits10_digits [of "nat (- i)"]
  by (auto simp: py_str_int_def is_sign_or_digit_def list_all_iff)

lemma token_str_int:
  "stops r \<Longrightarrow> takeWhile is_sign_or_digit (py_str_int i @ r) = py_str_int i"
  using sign_or_digit_str_int [of i] by (simp add: takeWhile_append2 list_all_iff)

lemma py_str_int_Cons: "\<exists>c cs. py_str_int i = c # cs \<and> is_sign_or_digit c"
  using sign_or_digit_str_int [of i] by (cases "py_str_int i") simp_all

lemma not_sign_or_digit [simp]:
  "\<not> is_sign_or_digit (CHR ''N'')" "\<not> is_sign_or_digit (CHR ''T'')"
  "\<not> is_sign_or_digit (CHR ''F'')" "\<not> is_sign_or_digit (CHR ''{'')"
  "is_quote q \<Longrightarrow> \<not> is_sign_or_digit q"
  by (auto simp: is_sign_or_digit_def is_digit_def is_quote_def)

lemma not_is_quote_brace [simp]: "\<not> is_quote (CHR ''{'')"
  by (simp add: is_quote_def)

lemma is_quote_not [simp]:
  "is_quote q \<Longrightarrow> q \<noteq> CHR ''N''" "is_quote q \<Longrightarrow> q \<noteq> CHR ''T''" "is_quote q \<Longrightarrow> q \<noteq> CHR ''F''"
  "is_quote q \<Longrightarrow> q \<noteq> CHR ''{''" "is_quote q \<Longrightarrow> q \<noteq> CHR ''}''"
  by (auto simp: is_quote_def)

lemma parse_val_atom [simp]:
  "parse_val (Suc n) (CHR ''N'' # CHR ''o'' # CHR ''n'' # CHR ''e'' # r) = Some (PNone, r)"
  "parse_val (Suc n) (CHR ''T'' # CHR ''r'' # CHR ''u'' # CHR ''e'' # r) = Some (PBool True, r)"
  "parse_val (Suc n) (CHR ''F'' # CHR ''a'' # CHR ''l'' # CHR ''s'' # CHR ''e'' # r) = Some (PBool False, r)"
  "parse_val (Suc n) (CHR ''{'' # CHR ''}'' # r) = Some (PDict [], r)"
  by simp_all

lemma parse_val_dict:
  "is_quote q \<Longrightarrow>
     parse_val (Suc n) (CHR ''{'' # q # r) = map_option (apfst PDict) (parse_entries n (q # r))"
  by simp

lemma parse_entries_Suc:
  "is_quote q \<Longrightarrow> scan_str q cs = Some (k, CHR '':'' # CHR '' '' # r) \<Longrightarrow>
     parse_entries (Suc n) (q # cs) =
       (case parse_val n r of
          None \<Rightarrow> None
        | Some (v, r') \<Rightarrow>
            if take 1 r' = ''}'' then Some ([(k, v)], drop 1 r')
            else if take 2 r' = '', '' then
              map_option (apfst ((#) (k, v))) (parse_entries n (drop 2 r'))
            else None)"
  by simp

declare parse_val.simps(2) [simp del] parse_entries.simps(2) [simp del]

lemma parse_val_int:
  assumes "stops r"
  shows "parse_val (Suc n) (py_str_int i @ r) = Some (PInt i, r)"
proof -
  obtain c cs where c: "py_str_int i = c # cs" "is_sign_or_digit c"
    using py_str_int_Cons by blast
  then have "c \<noteq> CHR ''N''" "c \<noteq> CHR ''T''" "c \<noteq> CHR ''F''" "c \<noteq> CHR ''{''" "\<not> is_quote c"
    by auto
  moreover have "takeWhile is_sign_or_digit (c # cs @ r) = c # cs"
    using token_str_int [OF assms, of i] c by simp
  moreover have "py_int (c # cs) = Some i"
    using py_int_str [of i] c by simp
  ultimately show ?thesis
    using c by (simp add: parse_val.simps(2) del: takeWhile.simps)
qed

lemma parse_val_str: "parse_val (Suc n) (py_repr_str s @ r) = Some (PStr s, r)"
proof -
  obtain q body where q: "py_repr_str s @ r = q # body" "is_quote q" "scan_str q body = Some (s, r)"
    using scan_str_repr by blast
  then show ?thesis by (simp add: parse_val.simps(2))
qed


lemma fuel_val_pos: "0 < fuel_val v"
  by (cases v) simp_all

lemma entry_repr_Cons: "\<exists>q body. entry_repr kv @ r = q # body \<and> is_quote q \<and>
    scan_str q body = Some (fst kv, '': '' @ py_repr (snd kv) @ r)"
  using scan_str_repr [of "fst kv" "'': '' @ py_repr (snd kv) @ r"] by simp

lemma entries_repr_Cons:
  assumes "kvs \<noteq> []"
  shows "\<exists>q body. join '', '' (map entry_repr kvs) @ r = q # body \<and> is_quote q"
proof -
  from assms obtain kv kvs' where kvs: "kvs = kv # kvs'" by (cases kvs) simp_all
  obtain q b where "py_repr_str (fst kv) = q # b" "is_quote q"
    using py_repr_str_Cons by blast
  with kvs show ?thesis by (cases kvs') simp_all
qed

lemma parse_entries_repr:
  assumes IH: "\<And>kv n r. kv \<in> set kvs \<Longrightarrow> fuel_val (snd kv) \<le> n \<Longrightarrow> stops r \<Longrightarrow>
                 parse_val n (py_repr (snd kv) @ r) = Some (snd kv, r)"
    and "kvs \<noteq> []" and "sum_list (map (\<lambda>kv. Suc (fuel_val (snd kv))) kvs) \<le> n"
  shows "parse_entries n (join '', '' (map entry_repr kvs) @ CHR ''}'' # r) = Some (kvs, r)"
  using assms
proof (induction kvs arbitrary: n)
  case Nil
  then show ?case by simp
next
  case (Cons kv kvs)
  from Cons.prems(3) obtain m where n: "n = Suc m" and m: "fuel_val (snd kv) \<le> m"
      "sum_list (map (\<lambda>kv. Suc (fuel_val (snd kv))) kvs) \<le> m"
    by (cases n) simp_all
  have val: "parse_val m (py_repr (snd kv) @ r') = Some (snd kv, r')" if "stops r'" for r'
    using Cons.prems(1) [of kv m r'] m that by simp
  show ?case
  proof (cases "kvs = []")
    case True
    obtain q body where q: "entry_repr kv @ CHR ''}'' # r = q # body" "is_quote q"
        "scan_str q body = Some (fst kv, '': '' @ py_repr (snd kv) @ CHR ''}'' # r)"
      using entry_repr_Cons by blast
    with True n val [of "CHR ''}'' # r"] show ?thesis
      by (cases kv) (simp add: parse_entries_Suc)
  next
    case False
    let ?rest = "join '', '' (map entry_repr kvs) @ CHR ''}'' # r"
    have rest: "parse_entries m ?rest = Some (kvs, r)"
      using Cons.IH [of m] Cons.prems(1) False m by simp
    obtain q body where q: "entry_repr kv @ '', '' @ ?rest = q # body" "is_quote q"
        "scan_str q body = Some (fst kv, '': '' @ py_repr (snd kv) @ '', '' @ ?rest)"
      using entry_repr_Cons by blast
    have "join '', '' (map entry_repr (kv # kvs)) @ CHR ''}'' # r = entry_repr kv @ '', '' @ ?rest"
      using False by (simp add: join_Cons)
    with q n val [of "'', '' @ ?rest"] rest show ?thesis
      by (cases kv) (simp add: parse_entries_Suc)
  qed
qed

lemma parse_val_repr:
  "fuel_val v \<le> n \<Longrightarrow> stops r \<Longrightarrow> parse_val n (py_repr v @ r) = Some (v, r)"
proof (induction v arbitrary: n r rule: py_repr.induct)
  case (5 kvs)
  from "5.prems" obtain m where n: "n = Suc m"
      and m: "sum_list (map (\<lambda>kv. Suc (fuel_val (snd kv))) kvs) \<le> m"
    by (cases n) simp_all
  show ?case
  proof (cases "kvs = []")
    case True
    with n show ?thesis by simp
  next
    case False
    have ents: "parse_entries m (join '', '' (map entry_repr kvs) @ CHR ''}'' # r) = Some (kvs, r)"
      using "5.IH" False m by (intro parse_entries_repr) simp_all
    obtain q body where q: "join '', '' (map entry_repr kvs) @ CHR ''}'' # r = q # body" "is_quote q"
      using entries_repr_Cons [OF False] by blast
    with n ents show ?thesis by (simp add: parse_val_dict)
  qed
next
  case (3 i)
  then show ?case by (cases n) (simp_all add: parse_val_int)
next
  case (4 s)
  then show ?case by (cases n) (simp_all add: parse_val_str)
qed (case_tac [!] n, simp_all)


lemma fuel_le_length: "fuel_val v \<le> length (py_repr v)"
proof (induction v rule: py_repr.induct)
  case (5 kvs)
  have "Suc (fuel_val (snd kv)) \<le> length (entry_repr kv)" if "kv \<in> set kvs" for kv
    using "5.IH" [OF that] length_repr_str [of "fst kv"] by simp
  then have "sum_list (map (\<lambda>kv. Suc (fuel_val (snd kv))) kvs) \<le> sum_list (map (length \<circ> entry_repr) kvs)"
    by (intro sum_list_mono) simp
  also have "\<dots> \<le> length (join '', '' (map entry_repr kvs))"
    by (simp add: length_join comp_def)
  finally show ?case by simp
next
  case (3 i)
  then show ?case by (cases "py_str_int i") simp_all
next
  case (4 s)
  then show ?case using length_repr_str [of s] by simp
qed simp_all

section \<open>Properties of the representation\<close>


lemma py_repr_inject: "py_repr v = py_repr v' \<Longrightarrow> v = v'"
  using parse_val_repr [of v "length (py_repr v)" "[]"] fuel_le_length [of v]
    parse_val_repr [of v' "length (py_repr v)" "[]"] fuel_le_length [of v']
  by simp

lemma printable_join:
  assumes "list_all py_isprintable sep" and "\<And>x. x \<in> set xs \<Longrightarrow> list_all py_isprintable x"
  shows "list_all py_isprintable (join sep xs)"
  using assms set_join_subset [of sep xs] by (auto simp: list_all_iff)

lemma printable_literals [simp]:
  "list_all py_isprintable '', ''"
  "py_isprintable (CHR '','')" "py_isprintable (CHR '' '')" "py_isprintable (CHR '':'')"
  "py_isprintable (CHR ''{'')" "py_isprintable (CHR ''}'')"
  "py_isprintable (CHR ''['')" "py_isprintable (CHR '']'')"
  by (simp_all add: py_isprintable_def)

lemma printable_digit: "is_sign_or_digit ch \<Longrightarrow> py_isprintable ch"
  by (auto simp: is_sign_or_digit_def is_digit_def py_isprintable_def)

lemma printable_str_int: "list_all py_isprintable (py_str_int i)"
  using sign_or_digit_str_int [of i] by (auto simp: list_all_iff printable_digit)

lemma printable_repr: "list_all py_isprintable (py_repr v)"
proof (induction v rule: py_repr.induct)
  case (5 kvs)
  have "list_all py_isprintable (entry_repr kv)" if "kv \<in> set kvs" for kv
    using "5.IH" [OF that] printable_repr_str [of "fst kv"] by simp
  then have "list_all py_isprintable (join '', '' (map entry_repr kvs))"
    by (intro printable_join) auto
  then show ?case by simp
next
  case 1
  show ?case by (simp add: py_isprintable_def)
next
  case (2 b)
  show ?case by (simp add: py_isprintable_def)
qed (simp_all add: printable_repr_str printable_str_int)

lemma printable_str_list: "list_all py_isprintable (py_str_list arr)"
proof -
  have "list_all py_isprintable (join '', '' (map py_repr_str xs))" for xs
    by (intro printable_join) (auto simp: printable_repr_str)
  moreover have "list_all py_isprintable ''None''"
    by (simp add: py_isprintable_def)
  ultimately show ?thesis
    by (simp add: py_str_list_def split: option.splits)
qed


lemma line_feed_not_printable [simp]: "\<not> py_isprintable (CHR 0x0A)"
  by (simp add: py_isprintable_def)

lemma py_repr_no_line_feed: "CHR 0x0A \<notin> set (py_repr v)"
  using printable_repr [of v] by (auto simp: list_all_iff)

lemma py_repr_example:
  "py_repr (PDict [(''pk'', PStr ''A''), (''n'', PInt (- 7)), (''d'', PDict [])]) =
     ''{'' @ [CHR 0x27] @ ''pk'' @ [CHR 0x27] @ '': '' @ [CHR 0x27] @ ''A'' @ [CHR 0x27] @ '', ''
       @ [CHR 0x27] @ ''n'' @ [CHR 0x27] @ '': -7, '' @ [CHR 0x27] @ ''d'' @ [CHR 0x27] @ '': {}}''"
  by (simp add: repr_defs)

end
