(* ===== verification/LogLines.thy ===== *)
theory LogLines
  imports ReaderContract SparkMapper PyFormat
begin

text \<open>
  The text the handlers write: the lines of the log of the two readers and the line
  \<^verbatim>\<open>to_map\<close> prints.  The handlers build a message as an f-string or with \<^verbatim>\<open>+\<close> and
  \<^verbatim>\<open>str\<close>; their models keep a message as the list of its parts, and \<open>render\<close>
  is the text of such a list.

  \<^item> \<open>render_part\<close>: a literal part is itself; a replacement field \<^verbatim>\<open>{v}\<close> is
    \<^verbatim>\<open>str(v)\<close> (\<open>py_str\<close>), so a string is written as it is and a dict by its
    representation; \<^verbatim>\<open>{ex}\<close> and \<^verbatim>\<open>str(err)\<close> are the message of the exception;
    \<^verbatim>\<open>str(arr)\<close> is the representation of the list.
  \<^item> \<open>log_lines w\<close> is the text of each record of the log of \<open>w\<close>, and
    \<open>stdout_text w\<close> what has been printed, each \<^verbatim>\<open>print\<close> ending its line.
  \<^item> \<open>table_line\<close> and \<open>stream_lines\<close> are the lines a call of a reader appends,
    on every input; \<open>typed_line\<close> is the line on inputs of the promised types.
\<close>

section \<open>The text of a message\<close>

fun render_part :: "fpart \<Rightarrow> string" where
  "render_part (FLit s) = s"
| "render_part (FVal v) = py_str v"
| "render_part (FExn ex) = exn_str ex"
| "render_part (FArr arr) = py_str_list arr"

definition render :: "fpart list \<Rightarrow> string" where
  "render parts = concat (map render_part parts)"

definition log_lines :: "world \<Rightarrow> string list" where
  "log_lines w = map (\<lambda>r. render (message r)) (logs w)"

definition stdout_text :: "world \<Rightarrow> string" where
  "stdout_text w = concat (map (\<lambda>line. render line @ [CHR 0x0A]) (stdout w))"

section \<open>The lines of the readers\<close>

definition table_context :: "pyval \<Rightarrow> pyval \<Rightarrow> pyval \<Rightarrow> string" where
  "table_context tableName segmentNumber ks =
     ''tableName: '' @ py_str tableName @ '', segmentNumber: '' @ py_str segmentNumber
       @ '', keys: '' @ py_str ks"

definition table_line :: "pyval \<Rightarrow> pyval \<Rightarrow> pyval \<Rightarrow> pyval \<Rightarrow> string" where
  "table_line tableName segmentNumber ks item =
     (let fault = (\<lambda>ex. ''Exception in reading the document - ''
                     @ table_context tableName segmentNumber ks @ '', ex: '' @ exn_str ex) in
      case derive_docId ks of
        Inl ex \<Rightarrow> fault ex
      | Inr d \<Rightarrow>
          (case payload_missing item of
             Inl ex \<Rightarrow> fault ex
           | Inr missing \<Rightarrow>
               if missing then
                 ''item is null, returning skip - '' @ table_context tableName segmentNumber ks
               else ''processing record, returning success - docId: '' @ py_str d))"

definition stream_text :: "pyval stream_record \<Rightarrow> string" where
  "stream_text r =
     ''streamArn: '' @ py_str (streamArn r) @ '', shardId: '' @ py_str (shardId r)
       @ '', eventName: '' @ py_str (eventName r)
       @ '', sequenceNumber: '' @ py_str (sequenceNumber r)
       @ '', approximateArrivalTimestamp: '' @ py_str (approximateCreationDateTime r)
       @ '', keys: '' @ py_str (keys r)"

definition stream_lines :: "pyval stream_record \<Rightarrow> string list" where
  "stream_lines r =
     (let fault = (\<lambda>ex. [''Exception in reading the document - '' @ stream_text r
                           @ '', ex: '' @ exn_str ex]) in
      case derive_docId (keys r) of
        Inl ex \<Rightarrow> fault ex
      | Inr d \<Rightarrow>
          (case payload_missing (newImage r) of
             Inl ex \<Rightarrow> fault ex
           | Inr missing \<Rightarrow>
               if missing then [''newImage is null, returning skip - '' @ stream_text r]
               else [''processing record - sequenceNumber: '' @ py_str (sequenceNumber r),
                     ''returning success - docId: '' @ py_str d]))"

text \<open>The line of the table reader on inputs of the promised types.\<close>

definition typed_line ::
  "string \<Rightarrow> int \<Rightarrow> (string \<times> pyval) list \<Rightarrow> string list \<Rightarrow> (string \<times> pyval) list option \<Rightarrow> string"
  where
  "typed_line t n kvs ss payload =
     (case payload of
        Some (a # attrs) \<Rightarrow> ''processing record, returning success - docId: '' @ join ''|'' ss
      | _ \<Rightarrow> ''item is null, returning skip - tableName: '' @ t @ '', segmentNumber: ''
               @ py_str_int n @ '', keys: '' @ py_repr (PDict kvs))"

section \<open>Rendering\<close>

lemma render_simps [simp]:
  "render [] = []"
  "render (p # ps) = render_part p @ render ps"
  "render (ps @ qs) = render ps @ render qs"
  by (simp_all add: render_def)

lemma log_lines_append [simp]:
  "log_lines (w\<lparr>logs := logs w @ ls\<rparr>) = log_lines w @ map (\<lambda>r. render (message r)) ls"
  "log_lines (w\<lparr>logs := logs w @ ls, draws := n\<rparr>) = log_lines w @ map (\<lambda>r. render (message r)) ls"
  by (simp_all add: log_lines_def)

lemma stdout_text_append [simp]:
  "stdout_text (w\<lparr>stdout := stdout w @ [line]\<rparr>) = stdout_text w @ render line @ [CHR 0x0A]"
  by (simp add: stdout_text_def)

lemma py_str_simps [simp]:
  "py_str (PStr s) = s" "py_str (PInt i) = py_str_int i" "py_str (PDict kvs) = py_repr (PDict kvs)"
  "py_str PNone = ''None''"
  by (simp_all add: py_str_def)

lemma render_table_logs:
  "render (message (ddb_empty_log tableName segmentNumber ks)) =
     ''item is null, returning skip - '' @ table_context tableName segmentNumber ks"
  "render (message (ddb_success_log d)) =
     ''processing record, returning success - docId: '' @ py_str d"
  "render (message (ddb_exception_log tableName segmentNumber ks ex)) =
     ''Exception in reading the document - '' @ table_context tableName segmentNumber ks
       @ '', ex: '' @ exn_str ex"
  by (simp_all add: ddb_empty_log_def ddb_success_log_def ddb_exception_log_def table_context_def)

lemma render_stream_context:
  "render (stream_context pre r) = pre @ stream_text r"
  by (simp add: stream_context_def stream_text_def)

lemma render_stream_logs:
  "render (message (stream_skip_log r)) = ''newImage is null, returning skip - '' @ stream_text r"
  "map (\<lambda>l. render (message l)) (stream_success_logs r d) =
     [''processing record - sequenceNumber: '' @ py_str (sequenceNumber r),
      ''returning success - docId: '' @ py_str d]"
  "render (message (stream_exception_log r ex)) =
     ''Exception in reading the document - '' @ stream_text r @ '', ex: '' @ exn_str ex"
  by (simp_all add: stream_skip_log_def stream_success_logs_def stream_exception_log_def
      render_stream_context)

section \<open>What a call writes to the log\<close>

lemma table_logs:
  "log_lines (snd (parseDynamoDBItem tableName segmentNumber ks item w)) =
     log_lines w @ [table_line tableName segmentNumber ks item]"
proof (cases ks item rule: parseDynamoDBItem_cases)
  case (raised ex)
  then show ?thesis
    by (auto simp: parseDynamoDBItem_raised render_table_logs table_line_def)
next
  case (missing d)
  then show ?thesis
    by (simp add: parseDynamoDBItem_missing render_table_logs table_line_def)
next
  case (present d)
  then show ?thesis
    by (simp add: parseDynamoDBItem_present render_table_logs table_line_def)
qed

lemma stream_logs:
  "log_lines (snd (parseRecord r w)) = log_lines w @ stream_lines r"
proof (cases r rule: parseRecord_cases)
  case (raised ex)
  then show ?thesis
    by (auto simp: parseRecord_raised render_stream_logs stream_lines_def)
next
  case (missing d)
  then show ?thesis
    by (simp add: parseRecord_missing render_stream_logs stream_lines_def)
next
  case (present d)
  then show ?thesis
    by (simp add: parseRecord_present render_stream_logs stream_lines_def)
qed

section \<open>The lines on inputs of the promised types\<close>

lemma table_line_typed:
  assumes "map snd kvs = map PStr ss" and "ss \<noteq> []"
  shows "table_line (PStr t) (PInt n) (PDict kvs) (payload_val payload) =
           typed_line t n kvs ss payload"
proof -
  from assms have "derive_docId (PDict kvs) = Inr (PStr (join ''|'' ss))"
    by (simp add: derive_docId_PDict docId_loop_strs)
  then show ?thesis
    by (simp add: table_line_def typed_line_def table_context_def payload_val_def
        split: option.splits list.splits)
qed

text \<open>
  Claim C20.  The text of the log: on inputs of the promised types (a table name, a
  segment number, string key values, at least one, a payload that is absent or a dict)
  a call of the table reader appends one line to the log.  For a payload with an
  attribute it is \<^verbatim>\<open>processing record, returning success - docId: \<close> and the key
  values joined by \<open>|\<close>; otherwise it is \<^verbatim>\<open>item is null, returning skip - \<close>
  with the table name as it is, the segment number in decimal and the keys as Python
  prints a dict.
\<close>

theorem typed_log_line:
  assumes "map snd kvs = map PStr ss" and "ss \<noteq> []"
  shows "log_lines (snd (parseDynamoDBItem (PStr t) (PInt n) (PDict kvs) (payload_val payload) w)) =
           log_lines w @ [typed_line t n kvs ss payload]"
  using assms by (simp add: table_logs table_line_typed)

theorem typed_log_line_witness:
  "log_lines (snd (parseDynamoDBItem (PStr ''orders'') (PInt 3)
       (PDict [(''pk'', PStr ''A''), (''sk'', PStr ''B'')]) PNone world0)) =
     [''item is null, returning skip - tableName: orders, segmentNumber: 3, keys: {''
        @ [CHR 0x27] @ ''pk'' @ [CHR 0x27] @ '': '' @ [CHR 0x27] @ ''A'' @ [CHR 0x27] @ '', ''
        @ [CHR 0x27] @ ''sk'' @ [CHR 0x27] @ '': '' @ [CHR 0x27] @ ''B'' @ [CHR 0x27] @ ''}'']"
  using typed_log_line [of "[(''pk'', PStr ''A''), (''sk'', PStr ''B'')]" "[''A'', ''B'']"
      "''orders''" 3 None world0]
  by (simp add: payload_val_def typed_line_def log_lines_def repr_defs)

section \<open>Line breaks\<close>

lemma line_feed_str_int: "CHR 0x0A \<notin> set (py_str_int n)"
  using printable_str_int [of n] by (auto simp: list_all_iff)

lemma line_feed_join:
  "ss \<noteq> [] \<Longrightarrow> CHR 0x0A \<in> set (join ''|'' ss) \<longleftrightarrow> (\<exists>s\<in>set ss. CHR 0x0A \<in> set s)"
  by (induction "''|''" ss rule: join.induct) auto

lemma typed_line_breaks:
  assumes "ss \<noteq> []"
  shows "CHR 0x0A \<in> set (typed_line t n kvs ss payload) \<longleftrightarrow>
     (case payload of
        Some (a # attrs) \<Rightarrow> \<exists>s\<in>set ss. CHR 0x0A \<in> set s
      | _ \<Rightarrow> CHR 0x0A \<in> set t)"
  using assms py_repr_no_line_feed [of "PDict kvs"]
  by (simp add: typed_line_def line_feed_str_int line_feed_join del: py_repr.simps
      split: option.splits list.splits)

text \<open>
  Claim C21.  Line breaks in the log: on inputs of the promised types the line of a
  success holds a line feed exactly when a key value holds one, because the identifier
  is formatted as it is; the line of a missing payload holds one exactly when the table
  name does, because there the key values are written by their representation, which
  escapes them.  So a key value can break the line of a success, and cannot break the
  line of an error.
\<close>

theorem log_line_breaks:
  assumes "map snd kvs = map PStr ss" and "ss \<noteq> []"
  shows "\<exists>line.
           log_lines (snd (parseDynamoDBItem (PStr t) (PInt n) (PDict kvs) (payload_val payload) w)) =
             log_lines w @ [line] \<and>
           (CHR 0x0A \<in> set line \<longleftrightarrow>
              (case payload of
                 Some (a # attrs) \<Rightarrow> \<exists>s\<in>set ss. CHR 0x0A \<in> set s
               | _ \<Rightarrow> CHR 0x0A \<in> set t))"
  using assms by (simp add: table_logs table_line_typed typed_line_breaks)

theorem log_line_breaks_witness:
  "\<exists>line.
     log_lines (snd (parseDynamoDBItem (PStr ''orders'') (PInt 3)
         (PDict [(''pk'', PStr (''A'' @ [CHR 0x0A] @ ''ERROR''))])
         (PDict [(''a'', PInt 1)]) world0)) = [line] \<and>
     CHR 0x0A \<in> set line"
  using log_line_breaks [of "[(''pk'', PStr (''A'' @ [CHR 0x0A] @ ''ERROR''))]"
      "[''A'' @ [CHR 0x0A] @ ''ERROR'']" "''orders''" 3 "Some [(''a'', PInt 1)]" world0]
  by (simp add: payload_val_def log_lines_def)

section \<open>What \<^verbatim>\<open>to_map\<close> prints\<close>

lemma render_error_line:
  "render (to_map_error_line err arr) = ''error: '' @ exn_str err @ '', arr: '' @ py_str_list arr"
  by (simp add: to_map_error_line_def)

text \<open>
  What \<^verbatim>\<open>to_map\<close> prints: nothing for a list of odd length or an empty
  list; for a list of even length one line, \<^verbatim>\<open>error: list index out of range, arr: \<close>
  and the list as Python prints it; for a null column one line with the message of the
  \<^verbatim>\<open>TypeError\<close> of \<^verbatim>\<open>len\<close>.  The printed list consists of printable characters, so
  what is printed is one line whatever the strings of the list hold.
\<close>

theorem to_map_prints:
  "stdout_text (snd (to_map arr w)) = stdout_text w @
     (case arr of
        None \<Rightarrow> ''error: object of type '' @ [CHR 0x27] @ ''NoneType'' @ [CHR 0x27]
                  @ '' has no len(), arr: None'' @ [CHR 0x0A]
      | Some xs \<Rightarrow>
          if xs \<noteq> [] \<and> even (length xs)
          then ''error: list index out of range, arr: '' @ py_str_list arr @ [CHR 0x0A]
          else []) \<and>
   CHR 0x0A \<notin> set (py_str_list arr)"
proof -
  have "\<not> py_isprintable (CHR 0x0A)" by simp
  with printable_str_list [of arr] have "CHR 0x0A \<notin> set (py_str_list arr)"
    by (auto simp: list_all_iff)
  moreover have "stdout_text (snd (to_map None w)) = stdout_text w @
      ''error: object of type '' @ [CHR 0x27] @ ''NoneType'' @ [CHR 0x27]
        @ '' has no len(), arr: None'' @ [CHR 0x0A]"
    by (simp add: to_map_apply to_map_try_def py_len_list_def render_error_line exn_defs
        py_str_list_def)
  moreover have "stdout_text (snd (to_map (Some xs) w)) = stdout_text w @
      (if xs \<noteq> [] \<and> even (length xs)
       then ''error: list index out of range, arr: '' @ py_str_list (Some xs) @ [CHR 0x0A]
       else [])" for xs
    by (simp add: to_map_apply to_map_try_Some render_error_line)
  ultimately show ?thesis
    by (cases arr) simp_all
qed

end
