(* ===== verification/PyStore.thy ===== *)
theory PyStore
  imports PyFormat
begin

text \<open>
  Values that may be lists, and the store the lists are in.

  A list is the one kind of argument a reader can change: \<^verbatim>\<open>docId += s\<close> on a list
  extends the list in place, and the caller, who holds the same object, sees it grow.
  So a list is an address (\<open>HRef\<close>) into a store, and two values with the same
  address are the same object.  No statement of the readers changes a dict, a string or a
  number, so these stay values: \<open>hval\<close> is \<open>pyval\<close> with references, and \<open>hv\<close>
  embeds the one in the other.

  \<^item> \<open>heap\<close> is the store: the contents of the lists, by address.  \<open>deref\<close> reads a
    list; \<open>list_extend\<close> is \<^verbatim>\<open>list.extend\<close>, the in-place append.
  \<^item> The built-ins of theory \<open>PyValue\<close> again, on \<open>hval\<close>: \<open>h_values\<close>,
    \<open>h_str_add\<close>, \<open>h_len\<close> (which reads the store), and \<open>h_iadd_str\<close>, a
    computation on the store since \<^verbatim>\<open>+=\<close> may change it.
  \<^item> \<open>h_repr\<close> and \<open>h_str\<close> are \<^verbatim>\<open>repr\<close> and \<^verbatim>\<open>str\<close> read through the store; a
    list that is met again inside itself prints as \<^verbatim>\<open>[...]\<close>, as CPython prints it.
    They can raise: the interpreter writes no integer of more digits than its limit
    (\<^verbatim>\<open>sys.get_int_max_str_digits()\<close>, 4300 unless set; 0 for no limit) and raises
    \<^verbatim>\<open>ValueError\<close> instead (\<open>too_long\<close>, \<open>digits_error\<close>); \<open>too_long_iff\<close>
    gives the limit in numbers.  \<open>fits lim v\<close> says that a value of \<open>pyval\<close> holds
    no such integer.
  \<^item> On embedded values every built-in is the built-in of \<open>PyValue\<close> and leaves the
    store as it is (the lemmas named \<open>_hv\<close>).
\<close>

section \<open>Values and the store\<close>

type_synonym addr = nat

datatype hval =
    HNone
  | HBool bool
  | HInt int
  | HStr string
  | HDict "(string \<times> hval) list"
  | HRef addr

type_synonym heap = "hval list list"

definition deref :: "heap \<Rightarrow> addr \<Rightarrow> hval list" where
  "deref h a = (if a < length h then h ! a else [])"

definition list_extend :: "addr \<Rightarrow> hval list \<Rightarrow> heap \<Rightarrow> heap" where
  "list_extend a xs h = h[a := deref h a @ xs]"

text \<open>The characters of a string, as \<^verbatim>\<open>list.extend\<close> iterates over it.\<close>

definition chars :: "string \<Rightarrow> hval list" where
  "chars s = map (\<lambda>c. HStr [c]) s"

fun hv :: "pyval \<Rightarrow> hval" where
  "hv PNone = HNone"
| "hv (PBool b) = HBool b"
| "hv (PInt i) = HInt i"
| "hv (PStr s) = HStr s"
| "hv (PDict kvs) = HDict (map (\<lambda>kv. (fst kv, hv (snd kv))) kvs)"

fun h_type_name :: "hval \<Rightarrow> string" where
  "h_type_name HNone = ''NoneType''"
| "h_type_name (HBool b) = ''bool''"
| "h_type_name (HInt i) = ''int''"
| "h_type_name (HStr s) = ''str''"
| "h_type_name (HDict kvs) = ''dict''"
| "h_type_name (HRef a) = ''list''"

definition is_hstr :: "hval \<Rightarrow> bool" where
  "is_hstr v = (case v of HStr s \<Rightarrow> True | _ \<Rightarrow> False)"

fun the_hstr :: "hval \<Rightarrow> string" where
  "the_hstr (HStr s) = s"
| "the_hstr v = []"

section \<open>The exceptions of the built-ins\<close>

definition h_no_attribute_error :: "hval \<Rightarrow> string \<Rightarrow> py_exn" where
  "h_no_attribute_error v a =
     AttributeError (squote (h_type_name v) @ '' object has no attribute '' @ squote a)"

definition h_concat_error :: "hval \<Rightarrow> py_exn" where
  "h_concat_error v =
     TypeError (''can only concatenate str (not '' @ dquote (h_type_name v) @ '') to str'')"

definition h_iadd_error :: "hval \<Rightarrow> py_exn" where
  "h_iadd_error d =
     TypeError (''unsupported operand type(s) for +=: '' @ squote (h_type_name d)
       @ '' and '' @ squote ''str'')"

definition h_no_len_error :: "hval \<Rightarrow> py_exn" where
  "h_no_len_error v = TypeError (''object of type '' @ squote (h_type_name v) @ '' has no len()'')"

lemmas h_exn_defs = h_no_attribute_error_def h_concat_error_def h_iadd_error_def h_no_len_error_def

section \<open>Built-ins\<close>

text \<open>\<^verbatim>\<open>d.values()\<close>: a list has no such attribute.\<close>

definition h_values :: "hval \<Rightarrow> hval list result" where
  "h_values d =
     (case d of
        HDict kvs \<Rightarrow> Inr (map snd kvs)
      | _ \<Rightarrow> Inl (h_no_attribute_error d ''values''))"

definition h_str_add :: "string \<Rightarrow> hval \<Rightarrow> string result" where
  "h_str_add s v = (case v of HStr t \<Rightarrow> Inr (s @ t) | _ \<Rightarrow> Inl (h_concat_error v))"

text \<open>
  \<^verbatim>\<open>d += s\<close> for a string \<open>s\<close>.  A string has no in-place addition, so the
  statement is \<^verbatim>\<open>d = d + s\<close> and binds a new string.  A list has one,
  \<^verbatim>\<open>list.__iadd__\<close>, which is \<^verbatim>\<open>list.extend\<close>: the characters of \<open>s\<close> are appended
  to the object and \<open>d\<close> stays bound to it.
\<close>

definition h_iadd_str :: "hval \<Rightarrow> string \<Rightarrow> (heap, hval) pym" where
  "h_iadd_str d s =
     (case d of
        HStr t \<Rightarrow> py_return (HStr (t @ s))
      | HRef a \<Rightarrow> (\<lambda>h. (Inr (HRef a), list_extend a (chars s) h))
      | _ \<Rightarrow> py_raise (h_iadd_error d))"

definition h_len :: "heap \<Rightarrow> hval \<Rightarrow> int result" where
  "h_len h v =
     (case v of
        HStr s \<Rightarrow> Inr (int (length s))
      | HDict kvs \<Rightarrow> Inr (int (length kvs))
      | HRef a \<Rightarrow> Inr (int (length (deref h a)))
      | _ \<Rightarrow> Inl (h_no_len_error v))"

section \<open>The limit on the digits of an integer\<close>

text \<open>
  CPython refuses to write an integer in decimal when it has more digits than
  \<^verbatim>\<open>sys.get_int_max_str_digits()\<close>: 4300 unless configured otherwise, in every release
  since 3.11 and in the later releases of 3.7 to 3.10; the value 0 switches the limit
  off, and no other value below 640 can be set.  The conversion then raises
  \<^verbatim>\<open>ValueError\<close>.  \<open>lim\<close> is that setting; the sign is not counted.
\<close>

definition int_digits :: "int \<Rightarrow> nat" where
  "int_digits i = length (digits10 (nat \<bar>i\<bar>))"

definition too_long :: "nat \<Rightarrow> int \<Rightarrow> bool" where
  "too_long lim i \<longleftrightarrow> 0 < lim \<and> lim < int_digits i"

definition digits_error :: "nat \<Rightarrow> py_exn" where
  "digits_error lim =
     ValueError (''Exceeds the limit ('' @ py_str_int (int lim)
       @ '' digits) for integer string conversion; use sys.set_int_max_str_digits() ''
       @ ''to increase the limit'')"

definition h_str_int :: "nat \<Rightarrow> int \<Rightarrow> string result" where
  "h_str_int lim i = (if too_long lim i then Inl (digits_error lim) else Inr (py_str_int i))"

lemma length_digits10_power: "length (digits10 (10 ^ n)) = Suc n"
proof (induction n)
  case 0
  show ?case by simp
next
  case (Suc n)
  have "digits10 (10 ^ Suc n) = digits10 (10 ^ n) @ [digit_char 0]"
    by (subst digits10.simps) simp
  with Suc show ?case by simp
qed

lemma int_digits_power [simp]: "int_digits (10 ^ n) = Suc n"
proof -
  have "int_digits (10 ^ n) = length (digits10 (nat (10 ^ n :: int)))"
    by (simp add: int_digits_def)
  also have "nat (10 ^ n :: int) = 10 ^ n"
    by (simp add: nat_power_eq)
  finally show ?thesis by (simp only: length_digits10_power)
qed

lemma too_long_power [simp]: "too_long lim (10 ^ lim) \<longleftrightarrow> 0 < lim"
  by (simp add: too_long_def)

text \<open>An integer of 4301 digits, for the examples.\<close>

definition big :: int where
  "big = 10 ^ 4300"

lemma too_long_big [simp]: "too_long 4300 big"
  unfolding big_def by (rule iffD2 [OF too_long_power]) simp

lemma not_too_long_small: "\<bar>i\<bar> < 10 \<Longrightarrow> \<not> too_long lim i"
proof -
  assume "\<bar>i\<bar> < 10"
  then have "nat \<bar>i\<bar> < 10" by simp
  then have "int_digits i = 1" by (simp add: int_digits_def)
  then show ?thesis by (auto simp: too_long_def)
qed

text \<open>The limit in numbers: an integer is too long exactly from \<open>10 ^ lim\<close> on.\<close>

lemma length_digits10_gt: "Suc k < length (digits10 n) \<longleftrightarrow> 10 ^ Suc k \<le> n"
proof (induction k arbitrary: n)
  case 0
  show ?case by (subst digits10.simps) simp
next
  case (Suc k)
  show ?case
  proof (cases "n < 10")
    case True
    have "(10::nat) ^ 1 \<le> 10 ^ Suc (Suc k)" by (intro power_increasing) simp_all
    with True show ?thesis by (subst digits10.simps) (simp del: power_Suc)
  next
    case False
    have "10 ^ Suc k \<le> n div 10 \<longleftrightarrow> 10 ^ Suc (Suc k) \<le> n"
      by (simp add: less_eq_div_iff_mult_less_eq mult.commute)
    with False Suc [of "n div 10"] show ?thesis by (subst digits10.simps) simp
  qed
qed

lemma too_long_iff: "too_long lim i \<longleftrightarrow> 0 < lim \<and> 10 ^ lim \<le> \<bar>i\<bar>"
proof (cases lim)
  case 0
  then show ?thesis by (simp add: too_long_def)
next
  case (Suc k)
  have "((10::nat) ^ Suc k \<le> nat \<bar>i\<bar>) = (int (10 ^ Suc k) \<le> \<bar>i\<bar>)"
    by (simp only: le_nat_iff [OF abs_ge_zero])
  also have "int (10 ^ Suc k) = 10 ^ Suc k"
    by (simp only: of_nat_power of_nat_numeral)
  finally show ?thesis using Suc
    by (simp add: too_long_def int_digits_def length_digits10_gt del: power_Suc)
qed

lemma not_too_long_less: "\<bar>i\<bar> < 10 ^ k \<Longrightarrow> k \<le> lim \<Longrightarrow> \<not> too_long lim i"
proof -
  assume less: "\<bar>i\<bar> < 10 ^ k" and "k \<le> lim"
  then have "(10::int) ^ k \<le> 10 ^ lim"
    by (intro power_increasing) simp_all
  with less have "\<bar>i\<bar> < 10 ^ lim" by (rule less_le_trans)
  then show ?thesis by (simp add: too_long_iff)
qed

text \<open>\<open>fits lim v\<close>: no integer in \<open>v\<close> is too long to be written.\<close>

fun fits :: "nat \<Rightarrow> pyval \<Rightarrow> bool" where
  "fits lim (PInt i) = (\<not> too_long lim i)"
| "fits lim (PDict kvs) = list_all (\<lambda>kv. fits lim (snd kv)) kvs"
| "fits lim v = True"

section \<open>Representation and string form\<close>

text \<open>
  \<^verbatim>\<open>repr\<close> read through the store.  It raises when it comes to an integer that is too
  long.  \<open>seen\<close> holds the lists whose representation is being written: the
  interpreter keeps them to stop at a list that contains itself, which it writes as
  \<^verbatim>\<open>[...]\<close>.
\<close>

function h_repr :: "nat \<Rightarrow> heap \<Rightarrow> addr list \<Rightarrow> hval \<Rightarrow> string result" where
  "h_repr lim h seen HNone = Inr ''None''"
| "h_repr lim h seen (HBool b) = Inr (if b then ''True'' else ''False'')"
| "h_repr lim h seen (HInt i) = h_str_int lim i"
| "h_repr lim h seen (HStr s) = Inr (py_repr_str s)"
| "h_repr lim h seen (HDict kvs) =
     sum_bind
       (sum_mapM (\<lambda>kv. sum_bind (h_repr lim h seen (snd kv))
                          (\<lambda>t. Inr (py_repr_str (fst kv) @ '': '' @ t))) kvs)
       (\<lambda>ts. Inr (''{'' @ join '', '' ts @ ''}''))"
| "h_repr lim h seen (HRef a) =
     (if a \<in> set seen then Inr ''[...]''
      else sum_bind (sum_mapM (h_repr lim h (a # seen)) (deref h a))
             (\<lambda>ts. Inr (''['' @ join '', '' ts @ '']'')))"
  by pat_completeness auto

lemma size_snd_entry: "kv \<in> set kvs \<Longrightarrow> size (snd kv) < size (HDict kvs)"
  by (induction kvs) auto

lemma unseen_decreases:
  assumes "a \<notin> set seen" and "x \<in> set (deref h a)"
  shows "card ({..<length h} - set (a # seen)) < card ({..<length h} - set seen)"
proof -
  from assms(2) have "a < length h"
    by (auto simp: deref_def split: if_splits)
  with assms(1) have "a \<in> {..<length h} - set seen" by simp
  then have "card (({..<length h} - set seen) - {a}) < card ({..<length h} - set seen)"
    by (intro card_Diff1_less) simp_all
  moreover have "{..<length h} - set (a # seen) = ({..<length h} - set seen) - {a}" by auto
  ultimately show ?thesis by simp
qed

termination h_repr
proof (relation "(\<lambda>(lim, h, seen, v). card ({..<length h} - set seen)) <*mlex*>
    measure (\<lambda>(lim, h, seen, v). size v)")
  show "wf ((\<lambda>(lim, h, seen, v). card ({..<length h} - set seen)) <*mlex*>
      measure (\<lambda>(lim, h, seen, v). size v))"
    by (simp add: wf_mlex)
next
  fix lim :: nat and h :: heap and seen kvs and x :: "string \<times> hval"
  assume "x \<in> set kvs"
  then show "((lim, h, seen, snd x), lim, h, seen, HDict kvs) \<in>
      (\<lambda>(lim, h, seen, v). card ({..<length h} - set seen)) <*mlex*>
      measure (\<lambda>(lim, h, seen, v). size v)"
    by (auto intro!: mlex_leq dest: size_snd_entry)
next
  fix lim :: nat and h :: heap and seen a x
  assume "a \<notin> set seen" and "x \<in> set (deref h a)"
  then show "((lim, h, a # seen, x), lim, h, seen, HRef a) \<in>
      (\<lambda>(lim, h, seen, v). card ({..<length h} - set seen)) <*mlex*>
      measure (\<lambda>(lim, h, seen, v). size v)"
    by (auto intro!: mlex_less dest: unseen_decreases)
qed

definition h_str :: "nat \<Rightarrow> heap \<Rightarrow> hval \<Rightarrow> string result" where
  "h_str lim h v = (case v of HStr s \<Rightarrow> Inr s | _ \<Rightarrow> h_repr lim h [] v)"

section \<open>Reading and extending the store\<close>

lemma deref_simps [simp]:
  "a < length h \<Longrightarrow> deref h a = h ! a"
  "length h \<le> a \<Longrightarrow> deref h a = []"
  by (simp_all add: deref_def)

lemma length_list_extend [simp]: "length (list_extend a xs h) = length h"
  by (simp add: list_extend_def)

lemma deref_list_extend:
  "deref (list_extend a xs h) b = (if b = a \<and> a < length h then deref h a @ xs else deref h b)"
  by (auto simp: list_extend_def deref_def)

lemma deref_list_extend_other [simp]: "b \<noteq> a \<Longrightarrow> deref (list_extend a xs h) b = deref h b"
  by (simp add: deref_list_extend)

lemma list_extend_Nil [simp]: "list_extend a [] h = h"
  by (simp add: list_extend_def deref_def list_update_beyond)

lemma list_extend_twice [simp]:
  "list_extend a ys (list_extend a xs h) = list_extend a (xs @ ys) h"
  by (simp add: list_extend_def deref_def list_update_beyond)

lemma list_extend_outside [simp]: "length h \<le> a \<Longrightarrow> list_extend a xs h = h"
  by (simp add: list_extend_def list_update_beyond)

lemma chars_simps [simp]:
  "chars [] = []" "chars (c # s) = HStr [c] # chars s" "chars (s @ t) = chars s @ chars t"
  "length (chars s) = length s"
  by (simp_all add: chars_def)

section \<open>Strings among the values\<close>

lemma is_hstr_simps [simp]:
  "is_hstr (HStr s)" "\<not> is_hstr HNone" "\<not> is_hstr (HBool b)" "\<not> is_hstr (HInt i)"
  "\<not> is_hstr (HDict kvs)" "\<not> is_hstr (HRef a)"
  by (simp_all add: is_hstr_def)

lemma is_hstr_iff: "is_hstr v \<longleftrightarrow> (\<exists>s. v = HStr s)"
  by (cases v) simp_all

lemma HStr_the_hstr [simp]: "is_hstr v \<Longrightarrow> HStr (the_hstr v) = v"
  by (cases v) simp_all

section \<open>The built-ins, case by case\<close>

lemma h_values_HDict [simp, py_ops]: "h_values (HDict kvs) = Inr (map snd kvs)"
  by (simp add: h_values_def)

lemma h_values_raises:
  "(\<forall>kvs. d \<noteq> HDict kvs) \<Longrightarrow> h_values d = Inl (h_no_attribute_error d ''values'')"
  by (cases d) (simp_all add: h_values_def)

lemma h_str_add_HStr [simp, py_ops]: "h_str_add s (HStr t) = Inr (s @ t)"
  by (simp add: h_str_add_def)

lemma h_str_add_not_str: "\<not> is_hstr v \<Longrightarrow> h_str_add s v = Inl (h_concat_error v)"
  by (cases v) (simp_all add: h_str_add_def)

lemma h_iadd_str_HStr [simp, py_ops]: "h_iadd_str (HStr t) s h = (Inr (HStr (t @ s)), h)"
  by (simp add: h_iadd_str_def py_simps)

lemma h_iadd_str_HRef [simp, py_ops]:
  "h_iadd_str (HRef a) s h = (Inr (HRef a), list_extend a (chars s) h)"
  by (simp add: h_iadd_str_def)

lemma h_iadd_str_raises:
  "\<not> is_hstr d \<Longrightarrow> (\<forall>a. d \<noteq> HRef a) \<Longrightarrow> h_iadd_str d s h = (Inl (h_iadd_error d), h)"
  by (cases d) (simp_all add: h_iadd_str_def py_simps)

lemma h_len_simps [simp, py_ops]:
  "h_len h (HStr s) = Inr (int (length s))"
  "h_len h (HDict kvs) = Inr (int (length kvs))"
  "h_len h (HRef a) = Inr (int (length (deref h a)))"
  "h_len h HNone = Inl (h_no_len_error HNone)"
  "h_len h (HBool b) = Inl (h_no_len_error (HBool b))"
  "h_len h (HInt i) = Inl (h_no_len_error (HInt i))"
  by (simp_all add: h_len_def)

section \<open>Embedded values\<close>

lemma hv_eq_HNone [simp]: "hv v = HNone \<longleftrightarrow> v = PNone"
  by (cases v) simp_all

lemma hv_not_HRef [simp]: "hv v \<noteq> HRef a"
  by (cases v) simp_all

lemma is_hstr_hv [simp]: "is_hstr (hv v) = is_str v"
  by (cases v) simp_all

lemma h_type_name_hv [simp]: "h_type_name (hv v) = type_name v"
  by (cases v) simp_all

lemma h_errors_hv [simp]:
  "h_no_attribute_error (hv v) a = no_attribute_error v a"
  "h_concat_error (hv v) = concat_error v"
  "h_iadd_error (hv v) = iadd_error v"
  "h_no_len_error (hv v) = no_len_error v"
  by (simp_all add: h_exn_defs exn_defs)

lemma hv_inject [simp]: "hv v = hv v' \<longleftrightarrow> v = v'"
proof (induction v arbitrary: v' rule: hv.induct)
  case (5 kvs)
  show ?case
  proof (cases v')
    case (PDict kvs')
    have "map (\<lambda>kv. (fst kv, hv (snd kv))) kvs = map (\<lambda>kv. (fst kv, hv (snd kv))) kvs' \<longleftrightarrow> kvs = kvs'"
      using 5
    proof (induction kvs arbitrary: kvs')
      case Nil
      show ?case by auto
    next
      case (Cons kv kvs)
      then show ?case by (cases kvs') (auto simp: prod_eq_iff)
    qed
    with PDict show ?thesis by simp
  qed simp_all
qed (case_tac v'; simp)+

lemma h_values_hv: "h_values (hv d) = map_sum (\<lambda>e. e) (map hv) (py_values d)"
  by (cases d) (simp_all add: h_values_def py_values_def exn_defs h_exn_defs comp_def)

lemma h_str_add_hv [simp]: "h_str_add s (hv v) = py_str_add s v"
  by (cases v) (simp_all add: h_str_add_def py_str_add_def h_exn_defs exn_defs)

lemma h_iadd_str_hv: "h_iadd_str (hv d) s h = (map_sum (\<lambda>e. e) hv (py_iadd_str d s), h)"
  by (cases d) (simp_all add: h_iadd_str_def py_iadd_str_def py_simps h_exn_defs exn_defs)

lemma h_len_hv [simp]: "h_len h (hv v) = py_len v"
  by (cases v) (simp_all add: h_len_def py_len_def h_exn_defs exn_defs)

lemma h_str_int_simps [simp]:
  "h_str_int 0 i = Inr (py_str_int i)"
  "\<not> too_long lim i \<Longrightarrow> h_str_int lim i = Inr (py_str_int i)"
  "too_long lim i \<Longrightarrow> h_str_int lim i = Inl (digits_error lim)"
  by (simp_all add: h_str_int_def too_long_def)

lemma fits_unlimited [simp]: "fits 0 v"
  by (induction v rule: py_repr.induct) (simp_all add: too_long_def list_all_iff)

lemma h_repr_hv:
  "h_repr lim h seen (hv v) = (if fits lim v then Inr (py_repr v) else Inl (digits_error lim))"
proof (induction v rule: py_repr.induct)
  case (5 kvs)
  have "sum_mapM (\<lambda>kv. sum_bind (h_repr lim h seen (snd kv))
                          (\<lambda>t. Inr (py_repr_str (fst kv) @ '': '' @ t)))
          (map (\<lambda>kv. (fst kv, hv (snd kv))) kvs) =
        sum_mapM (\<lambda>kv. sum_bind (h_repr lim h seen (hv (snd kv)))
                          (\<lambda>t. Inr (py_repr_str (fst kv) @ '': '' @ t))) kvs"
    by (induction kvs) simp_all
  also have "\<dots> =
      (if list_all (\<lambda>kv. fits lim (snd kv)) kvs
       then Inr (map (\<lambda>kv. py_repr_str (fst kv) @ '': '' @ py_repr (snd kv)) kvs)
       else Inl (digits_error lim))"
    by (rule sum_mapM_if) (simp add: 5)
  finally show ?case by simp
qed (simp_all add: h_str_int_def)

lemma h_str_hv:
  "h_str lim h (hv v) = (if fits lim v then Inr (py_str v) else Inl (digits_error lim))"
  using h_repr_hv [of lim h "[]" v]
  by (cases v) (simp_all add: h_str_def py_str_def del: h_repr.simps)

lemma h_str_HStr [simp]: "h_str lim h (HStr s) = Inr s"
  by (simp add: h_str_def)

text \<open>Formatting raises one exception only.\<close>

lemma h_repr_raises: "h_repr lim h seen v = Inl e \<Longrightarrow> e = digits_error lim \<and> 0 < lim"
proof (induction lim h seen v rule: h_repr.induct)
  case (3 lim h seen i)
  then show ?case by (auto simp: h_str_int_def too_long_def split: if_splits)
next
  case (5 lim h seen kvs)
  from 5(2) obtain kv where "kv \<in> set kvs" and "h_repr lim h seen (snd kv) = Inl e"
    by (auto simp: sum_bind_Inl_iff dest!: sum_mapM_raises)
  then show ?case by (rule 5(1))
next
  case (6 lim h seen a)
  from 6(2) have a: "a \<notin> set seen"
    by (auto split: if_splits)
  with 6(2) obtain x where "x \<in> set (deref h a)" and "h_repr lim h (a # seen) x = Inl e"
    by (auto simp: sum_bind_Inl_iff dest!: sum_mapM_raises)
  with a show ?case by (intro 6(1))
qed simp_all

lemma h_str_raises: "h_str lim h v = Inl e \<Longrightarrow> e = digits_error lim \<and> 0 < lim"
  by (cases v) (auto simp: h_str_def dest: h_repr_raises simp del: h_repr.simps)

lemma h_str_unlimited: "\<exists>t. h_str 0 h v = Inr t"
  using h_str_raises [of 0 h v] by (cases "h_str 0 h v") auto


section \<open>Values whose representation can be written\<close>

definition repr_ok :: "nat \<Rightarrow> heap \<Rightarrow> addr list \<Rightarrow> hval \<Rightarrow> bool" where
  "repr_ok lim h seen v = (case h_repr lim h seen v of Inr t \<Rightarrow> True | Inl e \<Rightarrow> False)"

lemma repr_ok_iff: "repr_ok lim h seen v \<longleftrightarrow> (\<exists>t. h_repr lim h seen v = Inr t)"
  by (cases "h_repr lim h seen v") (simp_all add: repr_ok_def)

lemma repr_ok_simps [simp]:
  "repr_ok lim h seen HNone" "repr_ok lim h seen (HBool b)" "repr_ok lim h seen (HStr s)"
  "repr_ok lim h seen (HInt i) = (\<not> too_long lim i)"
  by (simp_all add: repr_ok_def h_str_int_def)

lemma repr_ok_HDict:
  "repr_ok lim h seen (HDict kvs) \<longleftrightarrow> (\<forall>kv \<in> set kvs. repr_ok lim h seen (snd kv))"
proof -
  have "repr_ok lim h seen (HDict kvs) \<longleftrightarrow>
      (\<exists>ts. sum_mapM (\<lambda>kv. sum_bind (h_repr lim h seen (snd kv))
                (\<lambda>t. Inr (py_repr_str (fst kv) @ '': '' @ t))) kvs = Inr ts)"
    by (simp add: repr_ok_iff sum_bind_Inr_iff)
  also have "\<dots> \<longleftrightarrow> (\<forall>kv \<in> set kvs. repr_ok lim h seen (snd kv))"
    by (simp add: sum_mapM_returns_iff sum_bind_Inr_iff repr_ok_iff)
  finally show ?thesis .
qed

lemma repr_ok_HRef:
  "repr_ok lim h seen (HRef a) \<longleftrightarrow>
     a \<in> set seen \<or> (\<forall>x \<in> set (deref h a). repr_ok lim h (a # seen) x)"
proof (cases "a \<in> set seen")
  case True
  then show ?thesis by (simp add: repr_ok_def)
next
  case False
  then have "repr_ok lim h seen (HRef a) \<longleftrightarrow>
      (\<exists>ts. sum_mapM (h_repr lim h (a # seen)) (deref h a) = Inr ts)"
    by (simp add: repr_ok_iff sum_bind_Inr_iff)
  also have "\<dots> \<longleftrightarrow> (\<forall>x \<in> set (deref h a). repr_ok lim h (a # seen) x)"
    by (simp add: sum_mapM_returns_iff repr_ok_iff)
  finally show ?thesis using False by simp
qed

text \<open>Strings appended to a list do not change what can be written.\<close>

lemma repr_ok_is_hstr [simp]: "is_hstr x \<Longrightarrow> repr_ok lim h seen x"
  by (auto simp: is_hstr_iff)

lemma repr_ok_list_extend:
  assumes "list_all is_hstr xs"
  shows "repr_ok lim (list_extend a xs h) seen v = repr_ok lim h seen v"
proof (induction lim h seen v rule: h_repr.induct)
  case (5 lim h seen kvs)
  then show ?case by (simp add: repr_ok_HDict)
next
  case (6 lim h seen b)
  show ?case
  proof (cases "b \<in> set seen")
    case True
    then show ?thesis by (simp add: repr_ok_HRef)
  next
    case False
    with 6 assms show ?thesis
      by (auto simp: repr_ok_HRef deref_list_extend list_all_iff)
  qed
qed simp_all

end
