(* ===== verification/StoreDocId.thy ===== *)
theory StoreDocId
  imports PyStore DocId
begin

text \<open>
  The identifier loop over values that may be lists.  The text of the loop is the one of
  theory \<open>DocId\<close>; what is new is the last case of \<^verbatim>\<open>docId += ('|' + keyValue)\<close>:
  when the first key value is a list, \<open>docId\<close> is bound to that list, and every
  string that follows is appended to it character by character, in the caller's object.

  \<^item> \<open>h_docId_step\<close>, \<open>h_docId_loop\<close> and \<open>h_derive_docId\<close> are the loop body,
    the loop and the loop after \<^verbatim>\<open>keys.values()\<close>, as computations on the store.
  \<^item> \<open>appended ws\<close> is what the loop appends to a list when the values \<open>ws\<close>
    follow it, and \<open>loop_heap\<close> the store the loop leaves, whether it raises or not.
  \<^item> On embedded values the loop is the loop of \<open>DocId\<close> and the store stays as it
    is (\<open>h_derive_docId_hv\<close>).
\<close>

section \<open>The loop\<close>

definition h_docId_step :: "hval \<Rightarrow> hval \<Rightarrow> (heap, hval) pym" where
  "h_docId_step docId keyValue =
     (if docId = HNone then py_return keyValue
      else py_bind (py_lift (h_str_add ''|'' keyValue)) (h_iadd_str docId))"

fun h_docId_loop :: "hval \<Rightarrow> hval list \<Rightarrow> (heap, hval) pym" where
  "h_docId_loop docId [] = py_return docId"
| "h_docId_loop docId (keyValue # rest) =
     py_bind (h_docId_step docId keyValue) (\<lambda>docId'. h_docId_loop docId' rest)"

definition h_derive_docId :: "hval \<Rightarrow> (heap, hval) pym" where
  "h_derive_docId keys = py_bind (py_lift (h_values keys)) (h_docId_loop HNone)"

section \<open>The loop without the loop\<close>

definition appended :: "hval list \<Rightarrow> hval list" where
  "appended ws = concat (map (\<lambda>w. chars (''|'' @ the_hstr w)) (takeWhile is_hstr ws))"

definition loop_heap :: "hval list \<Rightarrow> heap \<Rightarrow> heap" where
  "loop_heap vs h =
     (case dropWhile (\<lambda>v. v = HNone) vs of
        HRef a # ws \<Rightarrow> list_extend a (appended ws) h
      | _ \<Rightarrow> h)"

definition keys_heap :: "hval \<Rightarrow> heap \<Rightarrow> heap" where
  "keys_heap keys h = (case keys of HDict kvs \<Rightarrow> loop_heap (map snd kvs) h | _ \<Rightarrow> h)"

text \<open>
  The value of the loop: as in \<open>docId_spec\<close>, with a list in the place of the first
  value accepted as a string is.
\<close>

definition h_first_fault :: "hval \<Rightarrow> hval list \<Rightarrow> py_exn option" where
  "h_first_fault v ws =
     (case ws of
        [] \<Rightarrow> None
      | w # ws' \<Rightarrow>
          if \<not> is_hstr w then Some (h_concat_error w)
          else if \<not> is_hstr v \<and> (\<forall>a. v \<noteq> HRef a) then Some (h_iadd_error v)
          else map_option h_concat_error (find (\<lambda>x. \<not> is_hstr x) ws'))"

definition h_docId_spec :: "hval list \<Rightarrow> hval result" where
  "h_docId_spec vs =
     (case dropWhile (\<lambda>v. v = HNone) vs of
        [] \<Rightarrow> Inr HNone
      | v # ws \<Rightarrow>
          (case h_first_fault v ws of
             Some e \<Rightarrow> Inl e
           | None \<Rightarrow>
               if ws = [] \<or> \<not> is_hstr v then Inr v
               else Inr (HStr (join ''|'' (map the_hstr (v # ws))))))"

text \<open>The first key value that is not \<^verbatim>\<open>None\<close>: what \<open>docId\<close> is bound to.\<close>

definition first_key :: "hval \<Rightarrow> hval option" where
  "first_key keys =
     (case keys of
        HDict kvs \<Rightarrow>
          (case dropWhile (\<lambda>v. v = HNone) (map snd kvs) of [] \<Rightarrow> None | v # ws \<Rightarrow> Some v)
      | _ \<Rightarrow> None)"

definition h_keys_docId :: "hval \<Rightarrow> hval result" where
  "h_keys_docId keys =
     (case keys of
        HDict kvs \<Rightarrow> h_docId_spec (map snd kvs)
      | _ \<Rightarrow> Inl (h_no_attribute_error keys ''values''))"

section \<open>One step\<close>

lemma h_docId_step_None [simp]: "h_docId_step HNone v h = (Inr v, h)"
  by (simp add: h_docId_step_def py_simps)

lemma h_docId_step_HStr [simp]:
  "h_docId_step (HStr a) (HStr b) h = (Inr (HStr (a @ ''|'' @ b)), h)"
  by (simp add: h_docId_step_def py_simps)

lemma h_docId_step_HRef [simp]:
  "h_docId_step (HRef a) (HStr b) h = (Inr (HRef a), list_extend a (chars (''|'' @ b)) h)"
  by (simp add: h_docId_step_def py_simps)

lemma h_docId_step_raises_value:
  "d \<noteq> HNone \<Longrightarrow> \<not> is_hstr v \<Longrightarrow> h_docId_step d v h = (Inl (h_concat_error v), h)"
  by (simp add: h_docId_step_def py_simps h_str_add_not_str)

lemma h_docId_step_raises_docId:
  "d \<noteq> HNone \<Longrightarrow> \<not> is_hstr d \<Longrightarrow> (\<forall>a. d \<noteq> HRef a) \<Longrightarrow> is_hstr v \<Longrightarrow>
     h_docId_step d v h = (Inl (h_iadd_error d), h)"
  by (auto simp: h_docId_step_def py_simps is_hstr_iff [of v] h_iadd_str_raises)

lemma h_docId_step_hv:
  "h_docId_step (hv d) (hv v) h = (map_sum (\<lambda>e. e) hv (docId_step d v), h)"
  by (cases "py_str_add ''|'' v")
    (simp_all add: h_docId_step_def docId_step_def py_simps h_iadd_str_hv)

section \<open>The whole loop\<close>

lemma h_docId_loop_hv:
  "h_docId_loop (hv d) (map hv vs) h = (map_sum (\<lambda>e. e) hv (docId_loop d vs), h)"
proof (induction vs arbitrary: d)
  case Nil
  show ?case by (simp add: py_simps)
next
  case (Cons v vs)
  show ?case
    by (cases "docId_step d v") (simp_all add: py_simps h_docId_step_hv Cons.IH)
qed

lemma h_derive_docId_hv:
  "h_derive_docId (hv keys) h = (map_sum (\<lambda>e. e) hv (derive_docId keys), h)"
proof (cases "py_values keys")
  case (Inl e)
  then show ?thesis
    by (simp add: h_derive_docId_def derive_docId_def py_simps h_values_hv)
next
  case (Inr vs)
  with h_docId_loop_hv [of PNone vs h] show ?thesis
    by (simp add: h_derive_docId_def derive_docId_def py_simps h_values_hv)
qed


section \<open>The closed form\<close>

lemma appended_simps [simp]:
  "appended [] = []"
  "appended (HStr b # ws) = chars (''|'' @ b) @ appended ws"
  "\<not> is_hstr w \<Longrightarrow> appended (w # ws) = []"
  by (simp_all add: appended_def)

lemma h_docId_loop_from_str:
  "h_docId_loop (HStr a) ws h =
     (case find (\<lambda>x. \<not> is_hstr x) ws of
        Some x \<Rightarrow> Inl (h_concat_error x)
      | None \<Rightarrow> Inr (HStr (join ''|'' (a # map the_hstr ws))), h)"
proof (induction ws arbitrary: a)
  case Nil
  show ?case by (simp add: py_simps)
next
  case (Cons w ws)
  show ?case
  proof (cases "is_hstr w")
    case True
    then obtain b where w: "w = HStr b" by (auto simp: is_hstr_iff)
    have "h_docId_loop (HStr a) (w # ws) h = h_docId_loop (HStr (a @ ''|'' @ b)) ws h"
      by (simp add: w py_simps)
    also have "\<dots> =
        (case find (\<lambda>x. \<not> is_hstr x) ws of
           Some x \<Rightarrow> Inl (h_concat_error x)
         | None \<Rightarrow> Inr (HStr (join ''|'' ((a @ ''|'' @ b) # map the_hstr ws))), h)"
      by (rule Cons.IH)
    also have "join ''|'' ((a @ ''|'' @ b) # map the_hstr ws) = join ''|'' (a # map the_hstr (w # ws))"
      by (simp only: join_merge w list.map the_hstr.simps)
    finally show ?thesis by (simp add: w)
  next
    case False
    then show ?thesis by (simp add: py_simps h_docId_step_raises_value)
  qed
qed

lemma h_docId_loop_from_ref:
  "h_docId_loop (HRef a) ws h =
     (case find (\<lambda>x. \<not> is_hstr x) ws of
        Some x \<Rightarrow> Inl (h_concat_error x)
      | None \<Rightarrow> Inr (HRef a), list_extend a (appended ws) h)"
proof (induction ws arbitrary: h)
  case Nil
  show ?case by (simp add: py_simps)
next
  case (Cons w ws)
  show ?case
  proof (cases "is_hstr w")
    case True
    then obtain b where w: "w = HStr b" by (auto simp: is_hstr_iff)
    show ?thesis by (simp add: w py_simps Cons.IH)
  next
    case False
    then show ?thesis by (simp add: py_simps h_docId_step_raises_value)
  qed
qed

lemma h_docId_loop_dropWhile:
  "h_docId_loop HNone vs h = h_docId_loop HNone (dropWhile (\<lambda>v. v = HNone) vs) h"
  by (induction vs) (simp_all add: py_simps)

lemma h_docId_loop_first:
  assumes "v \<noteq> HNone"
  shows "h_docId_loop HNone (v # ws) h =
     (case h_first_fault v ws of
        Some e \<Rightarrow> Inl e
      | None \<Rightarrow>
          if ws = [] \<or> \<not> is_hstr v then Inr v
          else Inr (HStr (join ''|'' (map the_hstr (v # ws)))),
      case v of HRef a \<Rightarrow> list_extend a (appended ws) h | _ \<Rightarrow> h)"
proof (cases ws)
  case Nil
  then show ?thesis by (cases v) (simp_all add: h_first_fault_def py_simps)
next
  case (Cons w ws')
  consider (bad_value) "\<not> is_hstr w" | (bad_docId) "is_hstr w" "\<not> is_hstr v" "\<forall>a. v \<noteq> HRef a"
    | (strs) "is_hstr w" "is_hstr v" | (list) a where "is_hstr w" "v = HRef a"
    by blast
  then show ?thesis
  proof cases
    case bad_value
    with assms Cons show ?thesis
      by (cases v) (simp_all add: h_first_fault_def py_simps h_docId_step_raises_value)
  next
    case bad_docId
    with assms Cons show ?thesis
      by (cases v) (simp_all add: h_first_fault_def py_simps h_docId_step_raises_docId)
  next
    case strs
    then obtain a b where "v = HStr a" "w = HStr b" by (auto simp: is_hstr_iff)
    with Cons show ?thesis
      by (simp add: h_first_fault_def py_simps h_docId_loop_from_str join_merge_char
          split: option.splits)
  next
    case list
    then obtain b where "w = HStr b" by (auto simp: is_hstr_iff)
    with Cons list show ?thesis
      by (simp add: h_first_fault_def py_simps h_docId_loop_from_ref split: option.splits)
  qed
qed

lemma h_docId_loop_spec: "h_docId_loop HNone vs h = (h_docId_spec vs, loop_heap vs h)"
proof -
  have loop: "h_docId_loop HNone vs h = h_docId_loop HNone (dropWhile (\<lambda>v. v = HNone) vs) h"
    by (rule h_docId_loop_dropWhile)
  show ?thesis
  proof (cases "dropWhile (\<lambda>v. v = HNone) vs")
    case Nil
    have "h_docId_spec vs = Inr HNone" "loop_heap vs h = h"
      unfolding h_docId_spec_def loop_heap_def Nil by simp_all
    moreover from loop have "h_docId_loop HNone vs h = (Inr HNone, h)"
      unfolding Nil by (simp add: py_simps)
    ultimately show ?thesis by simp
  next
    case (Cons v ws)
    then have "v \<noteq> HNone"
      using hd_dropWhile [of "\<lambda>v. v = HNone" vs] by auto
    from h_docId_loop_first [OF this, of ws h]
    have "h_docId_loop HNone (v # ws) h = (h_docId_spec vs, loop_heap vs h)"
      unfolding h_docId_spec_def loop_heap_def Cons list.case by (cases v) simp_all
    with loop show ?thesis
      unfolding Cons by simp
  qed
qed

lemma h_derive_docId_closed: "h_derive_docId keys h = (h_keys_docId keys, keys_heap keys h)"
  by (cases keys)
    (simp_all add: h_derive_docId_def h_values_def keys_heap_def h_keys_docId_def py_simps
      h_docId_loop_spec)

text \<open>The store after the loop: only the list of the first key value can have changed.\<close>

lemma loop_heap_no_list:
  "list_all (\<lambda>v. \<forall>a. v \<noteq> HRef a) vs \<Longrightarrow> loop_heap vs h = h"
proof -
  assume vs: "list_all (\<lambda>v. \<forall>a. v \<noteq> HRef a) vs"
  show ?thesis
  proof (cases "dropWhile (\<lambda>v. v = HNone) vs")
    case Nil
    show ?thesis unfolding loop_heap_def Nil by simp
  next
    case (Cons v ws)
    then have "v \<in> set vs"
      by (metis list.set_intros(1) set_dropWhileD)
    with vs have "\<forall>a. v \<noteq> HRef a" by (auto simp: list_all_iff)
    then show ?thesis unfolding loop_heap_def Cons by (cases v) simp_all
  qed
qed

lemma length_loop_heap [simp]: "length (loop_heap vs h) = length h"
  by (simp add: loop_heap_def split: list.splits hval.splits)

lemma length_keys_heap [simp]: "length (keys_heap keys h) = length h"
  by (simp add: keys_heap_def split: hval.splits)

lemma keys_heap_hv [simp]: "keys_heap (hv keys) h = h"
  using h_derive_docId_hv [of keys h] by (simp add: h_derive_docId_closed)

lemma h_keys_docId_hv [simp]: "h_keys_docId (hv keys) = map_sum (\<lambda>e. e) hv (derive_docId keys)"
  using h_derive_docId_hv [of keys "[]"] by (simp add: h_derive_docId_closed)


lemma appended_strs [simp]: "list_all is_hstr (appended ws)"
  by (simp add: appended_def chars_def list_all_iff)

lemma keys_heap_cases:
  obtains (same) "keys_heap keys h = h" "\<forall>a. first_key keys \<noteq> Some (HRef a)"
    | (list) a xs where "first_key keys = Some (HRef a)" "keys_heap keys h = list_extend a xs h"
        "list_all is_hstr xs"
proof (cases keys)
  case (HDict kvs)
  show ?thesis
  proof (cases "dropWhile (\<lambda>v. v = HNone) (map snd kvs)")
    case Nil
    have "keys_heap keys h = h" "\<forall>a. first_key keys \<noteq> Some (HRef a)"
      unfolding keys_heap_def loop_heap_def first_key_def HDict hval.case Nil by simp_all
    then show ?thesis by (rule same)
  next
    case (Cons v ws)
    show ?thesis
    proof (cases v)
      case (HRef a)
      have "first_key keys = Some (HRef a)" "keys_heap keys h = list_extend a (appended ws) h"
        unfolding keys_heap_def loop_heap_def first_key_def HDict hval.case Cons HRef by simp_all
      then show ?thesis by (rule list) simp
    qed (rule same;
        simp add: keys_heap_def loop_heap_def first_key_def HDict Cons del: dropWhile_eq_Cons_conv)+
  qed
qed (rule same; simp add: keys_heap_def first_key_def)+

lemma keys_heap_frame:
  "deref (keys_heap keys h) b = deref h b \<or> first_key keys = Some (HRef b)"
  by (rule keys_heap_cases [of keys h]) (auto simp: deref_list_extend)

lemma keys_heap_grows:
  "take (length (deref h b)) (deref (keys_heap keys h) b) = deref h b"
  by (rule keys_heap_cases [of keys h]) (auto simp: deref_list_extend)

lemma keys_heap_no_list:
  "(\<forall>a. first_key keys \<noteq> Some (HRef a)) \<Longrightarrow> keys_heap keys h = h"
  by (rule keys_heap_cases [of keys h]) auto


text \<open>The identifier is a string, \<^verbatim>\<open>None\<close>, or one of the key values as it is.\<close>

lemma h_docId_spec_value:
  assumes "h_docId_spec vs = Inr d"
  shows "is_hstr d \<or> d = HNone \<or> d \<in> set vs"
proof (cases "dropWhile (\<lambda>v. v = HNone) vs")
  case Nil
  with assms show ?thesis by (simp add: h_docId_spec_def)
next
  case (Cons v ws)
  then have "v \<in> set vs"
    by (metis list.set_intros(1) set_dropWhileD)
  with assms show ?thesis
    unfolding h_docId_spec_def Cons by (auto split: option.splits if_splits)
qed

lemma h_keys_docId_value:
  assumes "h_keys_docId keys = Inr d"
  shows "is_hstr d \<or> d = HNone \<or> (\<exists>kvs. keys = HDict kvs \<and> d \<in> snd ` set kvs)"
proof (cases keys)
  case (HDict kvs)
  with assms have "h_docId_spec (map snd kvs) = Inr d"
    by (simp add: h_keys_docId_def)
  from h_docId_spec_value [OF this] HDict show ?thesis by auto
qed (use assms in \<open>simp_all add: h_keys_docId_def\<close>)


text \<open>A list as the first key value, and strings after it.\<close>

lemma appended_strings:
  "appended (map HStr ss) = chars (concat (map (\<lambda>x. ''|'' @ x) ss))"
  by (induction ss) simp_all

lemma keys_list_first:
  assumes "map snd kvs = HRef a # map HStr ss"
  shows "h_keys_docId (HDict kvs) = Inr (HRef a)"
    and "keys_heap (HDict kvs) h = list_extend a (chars (concat (map (\<lambda>x. ''|'' @ x) ss))) h"
proof -
  have "find (\<lambda>x. \<not> is_hstr x) (map HStr ss) = None"
    by (induction ss) simp_all
  then have "h_first_fault (HRef a) (map HStr ss) = None"
    by (cases ss) (simp_all add: h_first_fault_def)
  then show "h_keys_docId (HDict kvs) = Inr (HRef a)"
    by (simp add: h_keys_docId_def h_docId_spec_def assms)
  show "keys_heap (HDict kvs) h = list_extend a (chars (concat (map (\<lambda>x. ''|'' @ x) ss))) h"
    by (simp add: keys_heap_def loop_heap_def assms appended_strings)
qed

end
