(* ===== verification/StoreEffects.thy ===== *)
theory StoreEffects
  imports StoreDocId LogLines
begin

text \<open>
  The state of the interpreter a reader runs in, for the readers over values that may be
  lists: the store, the world outside (the log and the entropy, theory \<open>PyEffects\<close>) and
  the setting of the limit on the digits of an integer.

  \<^item> \<open>on_heap\<close>, \<open>on_world\<close> and \<open>read_heap\<close> run a computation on a part of the
    state.
  \<^item> An f-string is evaluated where it stands: \<open>fstring\<close> reads the store and returns
    the text, or raises when a value cannot be formatted.  A log call is the
    evaluation of its message and then the call (\<open>h_logger_error\<close>,
    \<open>h_logger_debug\<close>), so a log record holds the text of the values as they were when
    it was written.
  \<^item> \<open>formats\<close>: formatting a value raises nothing; \<open>text_of\<close> is the text then.
    Every failure of formatting is the same exception, \<open>digits_error\<close>.
  \<^item> \<open>h_payload_missing\<close> is the guard on the payload; the length of a list is read
    from the store.
  \<^item> \<open>rendered w\<close> is the world \<open>w\<close> with every message of its log as text: what the
    log of a reader of theory \<open>DynamoDBTableItemReader\<close> is when the f-strings are
    evaluated.
\<close>

section \<open>The state\<close>

record interp =
  objects :: heap
  outside :: world
  max_str_digits :: nat

definition on_heap :: "(heap, 'a) pym \<Rightarrow> (interp, 'a) pym" where
  "on_heap m = (\<lambda>s. case m (objects s) of (r, h') \<Rightarrow> (r, s\<lparr>objects := h'\<rparr>))"

definition on_world :: "(world, 'a) pym \<Rightarrow> (interp, 'a) pym" where
  "on_world m = (\<lambda>s. case m (outside s) of (r, w') \<Rightarrow> (r, s\<lparr>outside := w'\<rparr>))"

definition read_heap :: "(nat \<Rightarrow> heap \<Rightarrow> 'a result) \<Rightarrow> (interp, 'a) pym" where
  "read_heap f = (\<lambda>s. (f (max_str_digits s) (objects s), s))"

section \<open>Formatted messages\<close>

datatype hpart = HLit string | HVal hval | HExn py_exn

fun h_render_part :: "nat \<Rightarrow> heap \<Rightarrow> hpart \<Rightarrow> string result" where
  "h_render_part lim h (HLit s) = Inr s"
| "h_render_part lim h (HVal v) = h_str lim h v"
| "h_render_part lim h (HExn ex) = Inr (exn_str ex)"

definition h_render :: "nat \<Rightarrow> heap \<Rightarrow> hpart list \<Rightarrow> string result" where
  "h_render lim h parts = sum_bind (sum_mapM (h_render_part lim h) parts) (\<lambda>ts. Inr (concat ts))"

definition fstring :: "hpart list \<Rightarrow> (interp, string) pym" where
  "fstring parts = read_heap (\<lambda>lim h. h_render lim h parts)"

definition h_logger_error :: "hpart list \<Rightarrow> (interp, unit) pym" where
  "h_logger_error parts = py_bind (fstring parts) (\<lambda>msg. on_world (logger_error [FLit msg]))"

definition h_logger_debug :: "hpart list \<Rightarrow> (interp, unit) pym" where
  "h_logger_debug parts = py_bind (fstring parts) (\<lambda>msg. on_world (logger_debug [FLit msg]))"

definition formats :: "nat \<Rightarrow> heap \<Rightarrow> hval \<Rightarrow> bool" where
  "formats lim h v = (case h_str lim h v of Inr t \<Rightarrow> True | Inl e \<Rightarrow> False)"

definition text_of :: "nat \<Rightarrow> heap \<Rightarrow> hval \<Rightarrow> string" where
  "text_of lim h v = (case h_str lim h v of Inr t \<Rightarrow> t | Inl e \<Rightarrow> [])"

section \<open>The guard\<close>

definition h_payload_missing :: "heap \<Rightarrow> hval \<Rightarrow> bool result" where
  "h_payload_missing h item =
     (if item = HNone then Inr True
      else sum_bind (h_len h item) (\<lambda>n. Inr (n \<le> 0)))"

section \<open>The log as text\<close>

definition text_log :: "log_level \<Rightarrow> string \<Rightarrow> log_record" where
  "text_log l s = \<lparr>level = l, message = [FLit s]\<rparr>"

definition text_record :: "log_record \<Rightarrow> log_record" where
  "text_record r = text_log (level r) (render (message r))"

definition rendered :: "world \<Rightarrow> world" where
  "rendered w = w\<lparr>logs := map text_record (logs w)\<rparr>"

section \<open>Rules\<close>

lemma on_heap_apply [py_simps]:
  "on_heap m s = (case m (objects s) of (r, h') \<Rightarrow> (r, s\<lparr>objects := h'\<rparr>))"
  by (simp add: on_heap_def)

lemma on_world_apply [py_simps]:
  "on_world m s = (case m (outside s) of (r, w') \<Rightarrow> (r, s\<lparr>outside := w'\<rparr>))"
  by (simp add: on_world_def)

lemma read_heap_apply [py_simps]: "read_heap f s = (f (max_str_digits s) (objects s), s)"
  by (simp add: read_heap_def)

lemma fstring_apply [py_simps]:
  "fstring parts s = (h_render (max_str_digits s) (objects s) parts, s)"
  by (simp add: fstring_def read_heap_def)

lemma h_logger_apply [py_simps]:
  "h_logger_error parts s =
     (case h_render (max_str_digits s) (objects s) parts of
        Inl e \<Rightarrow> (Inl e, s)
      | Inr msg \<Rightarrow> (Inr (), s\<lparr>outside := (outside s)\<lparr>logs := logs (outside s) @ [text_log ERROR msg]\<rparr>\<rparr>))"
  "h_logger_debug parts s =
     (case h_render (max_str_digits s) (objects s) parts of
        Inl e \<Rightarrow> (Inl e, s)
      | Inr msg \<Rightarrow> (Inr (), s\<lparr>outside := (outside s)\<lparr>logs := logs (outside s) @ [text_log DEBUG msg]\<rparr>\<rparr>))"
  by (simp_all add: h_logger_error_def h_logger_debug_def py_simps fstring_def read_heap_def
      on_world_def text_log_def split: sum.splits)

section \<open>Formatting\<close>

lemma h_str_formats:
  "h_str lim h v = (if formats lim h v then Inr (text_of lim h v) else Inl (digits_error lim))"
  using h_str_raises [of lim h v]
  by (cases "h_str lim h v") (simp_all add: formats_def text_of_def)

lemma formats_HStr [simp]: "formats lim h (HStr s)" "text_of lim h (HStr s) = s"
  by (simp_all add: formats_def text_of_def)

lemma formats_unlimited [simp]: "formats 0 h v"
  using h_str_unlimited [of h v] by (auto simp: formats_def)

lemma formats_hv [simp]: "formats lim h (hv v) = fits lim v"
  by (simp add: formats_def h_str_hv)

lemma text_of_hv [simp]: "fits lim v \<Longrightarrow> text_of lim h (hv v) = py_str v"
  by (simp add: text_of_def h_str_hv)

lemma formats_iff: "formats lim h v \<longleftrightarrow> is_hstr v \<or> repr_ok lim h [] v"
  by (cases v) (simp_all add: formats_def h_str_def repr_ok_def del: h_repr.simps)

lemma formats_simps [simp]:
  "formats lim h HNone" "formats lim h (HBool b)"
  "formats lim h (HInt i) = (\<not> too_long lim i)"
  by (simp_all add: formats_iff)

text \<open>The identifier loop does not change what can be formatted.\<close>

lemma formats_keys_heap [simp]: "formats lim (keys_heap ks h) v = formats lim h v"
  by (rule keys_heap_cases [of ks h]) (simp_all add: formats_iff repr_ok_list_extend)

text \<open>A dict that can be formatted has values that can, and so has its identifier.\<close>

lemma formats_value:
  "formats lim h (HDict kvs) \<Longrightarrow> v \<in> snd ` set kvs \<Longrightarrow> formats lim h v"
  by (auto simp: formats_iff repr_ok_HDict)

lemma formats_docId:
  assumes "h_keys_docId ks = Inr d" and "formats lim h ks"
  shows "formats lim h d"
  using h_keys_docId_value [OF assms(1)] assms(2)
  by (auto simp: is_hstr_iff dest: formats_value)

fun part_formats :: "nat \<Rightarrow> heap \<Rightarrow> hpart \<Rightarrow> bool" where
  "part_formats lim h (HVal v) = formats lim h v"
| "part_formats lim h p = True"

fun part_text :: "nat \<Rightarrow> heap \<Rightarrow> hpart \<Rightarrow> string" where
  "part_text lim h (HLit s) = s"
| "part_text lim h (HVal v) = text_of lim h v"
| "part_text lim h (HExn ex) = exn_str ex"

lemma h_render_part_formats:
  "h_render_part lim h p =
     (if part_formats lim h p then Inr (part_text lim h p) else Inl (digits_error lim))"
  by (cases p) (simp_all add: h_str_formats)

lemma h_render_formats:
  "h_render lim h parts =
     (if list_all (part_formats lim h) parts then Inr (concat (map (part_text lim h) parts))
      else Inl (digits_error lim))"
proof -
  have "sum_mapM (h_render_part lim h) parts =
      (if list_all (part_formats lim h) parts then Inr (map (part_text lim h) parts)
       else Inl (digits_error lim))"
    by (rule sum_mapM_if) (rule h_render_part_formats)
  then show ?thesis by (simp add: h_render_def)
qed

lemma h_render_value:
  "h_render lim h [HLit a, HVal v] =
     (if formats lim h v then Inr (a @ text_of lim h v) else Inl (digits_error lim))"
  by (simp add: h_render_formats)

lemma h_render_exn: "h_render lim h [HLit a, HExn ex] = Inr (a @ exn_str ex)"
  by (simp add: h_render_formats)

lemma h_render_Nil: "h_render lim h [] = Inr []"
  by (simp add: h_render_formats)

section \<open>The guard, case by case\<close>

lemma h_payload_missing_simps [simp]:
  "h_payload_missing h HNone = Inr True"
  "h_payload_missing h (HDict kvs) = Inr (kvs = [])"
  "h_payload_missing h (HStr s) = Inr (s = [])"
  "h_payload_missing h (HRef a) = Inr (deref h a = [])"
  "h_payload_missing h (HBool b) = Inl (h_no_len_error (HBool b))"
  "h_payload_missing h (HInt i) = Inl (h_no_len_error (HInt i))"
  by (simp_all add: h_payload_missing_def)

lemma h_payload_missing_hv [simp]:
  "h_payload_missing h (hv item) = payload_missing item"
  by (simp add: h_payload_missing_def payload_missing_def)

section \<open>The text of a log\<close>

lemma rendered_sel [simp]:
  "logs (rendered w) = map text_record (logs w)"
  "urandom (rendered w) = urandom w" "draws (rendered w) = draws w"
  "stdout (rendered w) = stdout w"
  by (simp_all add: rendered_def)

lemma rendered_logged:
  "rendered (w\<lparr>logs := logs w @ ls\<rparr>) = (rendered w)\<lparr>logs := logs (rendered w) @ map text_record ls\<rparr>"
  "rendered (w\<lparr>logs := logs w @ ls, draws := n\<rparr>) =
     (rendered w)\<lparr>logs := logs (rendered w) @ map text_record ls, draws := n\<rparr>"
  by (simp_all add: rendered_def)

lemma log_lines_rendered [simp]: "log_lines (rendered w) = log_lines w"
  by (simp add: log_lines_def text_record_def text_log_def comp_def)

end
