(* ===== verification/StoreTableReader.thy ===== *)
theory StoreTableReader
  imports StoreEffects
begin

text \<open>
  The table item reader in full: \<^verbatim>\<open>parseDynamoDBItem\<close> statement by statement, over
  values that may be lists and in an interpreter that limits the digits of an integer.
  Theory \<open>DynamoDBTableItemReader\<close> is this method on arguments without lists in an
  interpreter without the limit.

  \<^item> \<open>h_parseDynamoDBItem_try\<close>, \<open>h_parseDynamoDBItem_except\<close> and
    \<open>h_parseDynamoDBItem\<close> are the \<^verbatim>\<open>try\<close> block, the \<^verbatim>\<open>except\<close> block and the
    method.
  \<^item> \<open>ctx_ok\<close>: the three values that both long messages format can be formatted.
  \<^item> What is shown: the method refines to \<open>parseDynamoDBItem\<close> where the two
    models meet; it raises nothing when the three values can be formatted, and then the
    store is as the identifier loop leaves it; it raises when they cannot, because the
    \<^verbatim>\<open>except\<close> block formats them again; and a list that is the first key value is
    extended in place.
\<close>

section \<open>The method\<close>

definition h_parseDynamoDBItem_try ::
  "hval \<Rightarrow> hval \<Rightarrow> hval \<Rightarrow> hval \<Rightarrow> (interp, hval parse_result) pym" where
  "h_parseDynamoDBItem_try tableName segmentNumber ks item =
     py_bind (on_heap (h_derive_docId ks)) (\<lambda>docId.
     py_bind (read_heap (\<lambda>lim h. h_payload_missing h item)) (\<lambda>missing.
       if missing then
         py_bind (h_logger_error
           [HLit ''item is null, returning skip - tableName: '', HVal tableName,
            HLit '', segmentNumber: '', HVal segmentNumber, HLit '', keys: '', HVal ks]) (\<lambda>_.
         py_return (ParseDocumentResult HNone
           (ErrorDoc docId ''DDB_ERROR'' docId (HDict []) (HDict [])
              (HDict [(''keys'', ks)]) (HDict [(''keys'', ks)]) ''empty record'')
           ''ERROR''))
       else
         py_bind (h_logger_debug
           [HLit ''processing record, returning success - docId: '', HVal docId]) (\<lambda>_.
         py_return (ParseDocumentResult HNone
           (Document DocumentType_Document docId ''DOCUMENT'' docId (HDict []) item)
           ''SUCCESS''))))"

definition h_parseDynamoDBItem_except ::
  "hval \<Rightarrow> hval \<Rightarrow> hval \<Rightarrow> hval \<Rightarrow> py_exn \<Rightarrow> (interp, hval parse_result) pym" where
  "h_parseDynamoDBItem_except tableName segmentNumber ks item ex =
     py_bind (h_logger_debug
       [HLit ''Exception in reading the document - tableName: '', HVal tableName,
        HLit '', segmentNumber: '', HVal segmentNumber, HLit '', keys: '', HVal ks,
        HLit '', ex: '', HExn ex]) (\<lambda>_.
     py_bind (on_world uuid4) (\<lambda>docIdUUID.
     py_return (ParseDocumentResult HNone
       (ErrorDoc (HStr docIdUUID) ''DDB_ERROR'' (HStr docIdUUID) (HDict []) (HDict [])
          (HDict [(''keys'', ks)]) (HDict [(''keys'', ks)])
          (''Exception - '' @ exn_str ex))
       ''ERROR'')))"

definition h_parseDynamoDBItem ::
  "hval \<Rightarrow> hval \<Rightarrow> hval \<Rightarrow> hval \<Rightarrow> (interp, hval parse_result) pym" where
  "h_parseDynamoDBItem tableName segmentNumber ks item =
     py_try (h_parseDynamoDBItem_try tableName segmentNumber ks item)
            (h_parseDynamoDBItem_except tableName segmentNumber ks item)"

lemmas h_parseDynamoDBItem_defs [handler_defs] =
  h_parseDynamoDBItem_def h_parseDynamoDBItem_try_def h_parseDynamoDBItem_except_def

section \<open>The ways through the method\<close>

definition ctx_ok :: "nat \<Rightarrow> heap \<Rightarrow> hval \<Rightarrow> hval \<Rightarrow> hval \<Rightarrow> bool" where
  "ctx_ok lim h tableName segmentNumber ks \<longleftrightarrow>
     formats lim h tableName \<and> formats lim h segmentNumber \<and> formats lim h ks"

definition h_table_context :: "nat \<Rightarrow> heap \<Rightarrow> hval \<Rightarrow> hval \<Rightarrow> hval \<Rightarrow> string" where
  "h_table_context lim h tableName segmentNumber ks =
     ''tableName: '' @ text_of lim h tableName @ '', segmentNumber: ''
       @ text_of lim h segmentNumber @ '', keys: '' @ text_of lim h ks"

text \<open>The \<^verbatim>\<open>except\<close> block returns when it can format its message, and raises when not.\<close>

lemma h_parseDynamoDBItem_except_apply:
  "h_parseDynamoDBItem_except tableName segmentNumber ks item ex s =
     (if ctx_ok (max_str_digits s) (objects s) tableName segmentNumber ks then
        (Inr (ParseDocumentResult HNone
           (ErrorDoc (HStr (fresh_id (outside s))) ''DDB_ERROR''
              (HStr (fresh_id (outside s))) (HDict []) (HDict [])
              (HDict [(''keys'', ks)]) (HDict [(''keys'', ks)])
              (''Exception - '' @ exn_str ex))
           ''ERROR''),
         s\<lparr>outside := (outside s)\<lparr>logs := logs (outside s) @
               [text_log DEBUG (''Exception in reading the document - ''
                  @ h_table_context (max_str_digits s) (objects s) tableName segmentNumber ks
                  @ '', ex: '' @ exn_str ex)],
             draws := Suc (draws (outside s))\<rparr>\<rparr>)
      else (Inl (digits_error (max_str_digits s)), s))"
  by (simp add: h_parseDynamoDBItem_except_def py_simps h_render_formats ctx_ok_def
      h_table_context_def fresh_id_def)

lemma h_parseDynamoDBItem_steps:
  "h_parseDynamoDBItem tableName segmentNumber ks item s =
     (let lim = max_str_digits s; h' = keys_heap ks (objects s); s' = s\<lparr>objects := h'\<rparr>;
          fault = (\<lambda>ex. h_parseDynamoDBItem_except tableName segmentNumber ks item ex s') in
      case h_keys_docId ks of
        Inl ex \<Rightarrow> fault ex
      | Inr d \<Rightarrow>
          (case h_payload_missing h' item of
             Inl ex \<Rightarrow> fault ex
           | Inr missing \<Rightarrow>
               if missing then
                 if ctx_ok lim h' tableName segmentNumber ks then
                   (Inr (ParseDocumentResult HNone
                      (ErrorDoc d ''DDB_ERROR'' d (HDict []) (HDict [])
                         (HDict [(''keys'', ks)]) (HDict [(''keys'', ks)]) ''empty record'')
                      ''ERROR''),
                    s'\<lparr>outside := (outside s)\<lparr>logs := logs (outside s) @
                          [text_log ERROR (''item is null, returning skip - ''
                             @ h_table_context lim h' tableName segmentNumber ks)]\<rparr>\<rparr>)
                 else fault (digits_error lim)
               else
                 if formats lim h' d then
                   (Inr (ParseDocumentResult HNone
                      (Document DocumentType_Document d ''DOCUMENT'' d (HDict []) item)
                      ''SUCCESS''),
                    s'\<lparr>outside := (outside s)\<lparr>logs := logs (outside s) @
                          [text_log DEBUG (''processing record, returning success - docId: ''
                             @ text_of lim h' d)]\<rparr>\<rparr>)
                 else fault (digits_error lim)))"
  by (simp add: h_parseDynamoDBItem_def h_parseDynamoDBItem_try_def py_simps
      h_derive_docId_closed h_render_formats ctx_ok_def h_table_context_def Let_def
      split: sum.splits)


text \<open>The way of a success, in terms of the identifier and the store after the loop.\<close>

lemma h_parseDynamoDBItem_present:
  assumes "h_keys_docId ks = Inr d"
    and "h_payload_missing (keys_heap ks (objects s)) item = Inr False"
    and "formats (max_str_digits s) (objects s) d"
  shows "h_parseDynamoDBItem tableName segmentNumber ks item s =
     (Inr (ParseDocumentResult HNone
        (Document DocumentType_Document d ''DOCUMENT'' d (HDict []) item) ''SUCCESS''),
      s\<lparr>objects := keys_heap ks (objects s),
        outside := (outside s)\<lparr>logs := logs (outside s) @
          [text_log DEBUG (''processing record, returning success - docId: ''
             @ text_of (max_str_digits s) (keys_heap ks (objects s)) d)]\<rparr>\<rparr>)"
  using assms by (simp add: h_parseDynamoDBItem_steps Let_def)

text \<open>The identifier of a record that the method classifies as a success.\<close>

definition table_success :: "heap \<Rightarrow> hval \<Rightarrow> hval \<Rightarrow> hval option" where
  "table_success h ks item =
     (case h_keys_docId ks of
        Inl ex \<Rightarrow> None
      | Inr d \<Rightarrow>
          (case h_payload_missing (keys_heap ks h) item of
             Inr False \<Rightarrow> Some d
           | _ \<Rightarrow> None))"

lemma ctx_ok_keys_heap [simp]:
  "ctx_ok lim (keys_heap ks' h) tableName segmentNumber ks = ctx_ok lim h tableName segmentNumber ks"
  by (simp add: ctx_ok_def)

lemma ctx_ok_docId:
  "ctx_ok lim h tableName segmentNumber ks \<Longrightarrow> h_keys_docId ks = Inr d \<Longrightarrow> formats lim h d"
  by (auto simp: ctx_ok_def intro: formats_docId)

section \<open>What the method promises\<close>

text \<open>
  Failure containment with lists and the limit: when the table name, the
  segment number and the keys can be formatted, the method returns a result and raises
  nothing, whatever the item and whatever the key values are, lists included; the status
  tag names the variant of the document and is never a skip.  The store it leaves is the
  one the identifier loop leaves: every list is as it was or has grown, and no list has
  changed but the one that is the first key value.
\<close>

theorem table_reader_contained:
  assumes "ctx_ok (max_str_digits s) (objects s) tableName segmentNumber ks"
  shows "\<exists>r w'. h_parseDynamoDBItem tableName segmentNumber ks item s =
           (Inr r, s\<lparr>objects := keys_heap ks (objects s), outside := w'\<rparr>) \<and>
         well_tagged r \<and> (status r = ''SUCCESS'' \<or> status r = ''ERROR'') \<and>
         (\<forall>b. take (length (deref (objects s) b)) (deref (keys_heap ks (objects s)) b) =
                deref (objects s) b \<and>
              (deref (keys_heap ks (objects s)) b = deref (objects s) b \<or>
               first_key ks = Some (HRef b)))"
  using assms ctx_ok_docId [OF assms] keys_heap_frame [of ks "objects s"]
    keys_heap_grows [of "objects s" _ ks]
  by (auto simp: h_parseDynamoDBItem_steps h_parseDynamoDBItem_except_apply Let_def
      split: sum.splits)

text \<open>
  Where containment ends: the method raises exactly when a message cannot be
  formatted, that is, for a record that classifies as a success when its identifier
  holds an integer that is too long, and for every other record when the table name, the
  segment number or the keys hold one.  The \<^verbatim>\<open>except\<close> block formats these three
  again, so the exception of the first message is raised a second time and leaves the
  method: a \<^verbatim>\<open>ValueError\<close>, with nothing logged and no identifier drawn.
\<close>

theorem table_reader_raises_iff:
  "h_parseDynamoDBItem tableName segmentNumber ks item s = (Inl e, s') \<longleftrightarrow>
     e = digits_error (max_str_digits s) \<and> s' = s\<lparr>objects := keys_heap ks (objects s)\<rparr> \<and>
     (case table_success (objects s) ks item of
        Some d \<Rightarrow> \<not> formats (max_str_digits s) (objects s) d
      | None \<Rightarrow> \<not> ctx_ok (max_str_digits s) (objects s) tableName segmentNumber ks)"
proof (cases "ctx_ok (max_str_digits s) (objects s) tableName segmentNumber ks")
  case True
  with ctx_ok_docId [OF True] show ?thesis
    by (auto simp: h_parseDynamoDBItem_steps h_parseDynamoDBItem_except_apply Let_def
        table_success_def split: sum.splits bool.splits)
next
  case False
  then show ?thesis
    by (auto simp: h_parseDynamoDBItem_steps h_parseDynamoDBItem_except_apply Let_def
        table_success_def split: sum.splits bool.splits)
qed

text \<open>
  An instance: with the limit set, a segment number of one digit more than the limit and
  an absent item, the method raises.
\<close>

theorem table_reader_escapes:
  assumes "0 < lim"
  shows "h_parseDynamoDBItem (HStr ''orders'') (HInt (10 ^ lim)) (HDict [(''pk'', HStr ''A'')]) HNone
           \<lparr>objects = [], outside = w, max_str_digits = lim\<rparr> =
         (Inl (digits_error lim), \<lparr>objects = [], outside = w, max_str_digits = lim\<rparr>)"
  using assms
  by (simp add: h_parseDynamoDBItem_steps h_parseDynamoDBItem_except_apply Let_def ctx_ok_def
      h_keys_docId_def h_docId_spec_def h_first_fault_def keys_heap_def loop_heap_def)

theorem table_reader_escapes_witness:
  "0 < (4300::nat) \<and>
   h_parseDynamoDBItem (HStr ''orders'') (HInt (10 ^ 4300)) (HDict [(''pk'', HStr ''A'')]) HNone
       \<lparr>objects = [], outside = world0, max_str_digits = 4300\<rparr> =
     (Inl (digits_error 4300), \<lparr>objects = [], outside = world0, max_str_digits = 4300\<rparr>)"
  by (intro conjI table_reader_escapes) simp_all

text \<open>
  Refinement: on arguments without lists, of which the table name, the
  segment number and the keys hold no integer that is too long, the method is
  \<open>parseDynamoDBItem\<close>: it returns the same result, it leaves the store as it is, and
  the log it leaves is the text of the log that \<open>parseDynamoDBItem\<close> leaves.  With the
  limit switched off this is every argument without lists.
\<close>

theorem table_reader_refines:
  assumes "fits (max_str_digits s) tableName" and "fits (max_str_digits s) segmentNumber"
    and "fits (max_str_digits s) ks" and "outside s = rendered w"
  shows "h_parseDynamoDBItem (hv tableName) (hv segmentNumber) (hv ks) (hv item) s =
     (case parseDynamoDBItem tableName segmentNumber ks item w of
        (r, w') \<Rightarrow> (map_sum (\<lambda>e. e) (map_result hv) r, s\<lparr>outside := rendered w'\<rparr>))"
proof -
  have ok: "ctx_ok (max_str_digits s) (objects s) (hv tableName) (hv segmentNumber) (hv ks)"
    using assms(1-3) by (simp add: ctx_ok_def)
  show ?thesis
  proof (cases ks item rule: parseDynamoDBItem_cases)
    case (raised ex)
    with ok assms show ?thesis
      by (auto simp: h_parseDynamoDBItem_steps h_parseDynamoDBItem_except_apply
          parseDynamoDBItem_raised rendered_logged text_record_def
          ddb_exception_log_def h_table_context_def fresh_id_def)
  next
    case (missing d)
    with ok assms show ?thesis
      by (simp add: h_parseDynamoDBItem_steps parseDynamoDBItem_missing rendered_logged
          text_record_def ddb_empty_log_def h_table_context_def)
  next
    case (present d)
    with ctx_ok_docId [OF ok, of "hv d"] assms show ?thesis
      by (simp add: h_parseDynamoDBItem_steps parseDynamoDBItem_present rendered_logged
          text_record_def ddb_success_log_def)
  qed
qed

theorem table_reader_refines_witness:
  "h_parseDynamoDBItem (HStr ''orders'') (HInt 3)
       (HDict [(''pk'', HStr ''A''), (''sk'', HStr ''B'')]) (HDict [(''x'', HStr ''1'')])
       \<lparr>objects = [], outside = world0, max_str_digits = 4300\<rparr> =
     (Inr (ParseDocumentResult HNone
        (Document DocumentType_Document (HStr ''A|B'') ''DOCUMENT'' (HStr ''A|B'') (HDict [])
           (HDict [(''x'', HStr ''1'')]))
        ''SUCCESS''),
      \<lparr>objects = [], outside = world0\<lparr>logs :=
           [text_log DEBUG ''processing record, returning success - docId: A|B'']\<rparr>,
        max_str_digits = 4300\<rparr>)"
  using table_reader_refines [of "\<lparr>objects = [], outside = world0, max_str_digits = 4300\<rparr>"
      "PStr ''orders''" "PInt 3" "PDict [(''pk'', PStr ''A''), (''sk'', PStr ''B'')]" world0
      "PDict [(''x'', PStr ''1'')]"]
  by (simp add: not_too_long_small rendered_def parseDynamoDBItem_present derive_docId_def
      docId_step_def ddb_success_log_def text_record_def)


text \<open>
  Claim C8.  A list among the keys: when the first key value is a list and strings
  follow it, the method appends to that list, in the caller's store, the characters of
  every following string after a \<open>|\<close>, and returns the list itself as the identifier
  and the partition key of the document; the log holds the list as it is after the loop.
\<close>

theorem list_key_extended:
  assumes "map snd kvs = HRef a # map HStr ss" and "attrs \<noteq> []"
    and "h' = list_extend a (chars (concat (map (\<lambda>x. ''|'' @ x) ss))) (objects s)"
    and "formats (max_str_digits s) h' (HRef a)"
  shows "h_parseDynamoDBItem tableName segmentNumber (HDict kvs) (HDict attrs) s =
     (Inr (ParseDocumentResult HNone
        (Document DocumentType_Document (HRef a) ''DOCUMENT'' (HRef a) (HDict []) (HDict attrs))
        ''SUCCESS''),
      s\<lparr>objects := h',
        outside := (outside s)\<lparr>logs := logs (outside s) @
          [text_log DEBUG (''processing record, returning success - docId: ''
             @ text_of (max_str_digits s) h' (HRef a))]\<rparr>\<rparr>)"
  using assms(2-) keys_list_first [OF assms(1)]
  by (simp add: h_parseDynamoDBItem_steps Let_def)

theorem list_key_extended_witness:
  "h_parseDynamoDBItem (HStr ''orders'') (HInt 3)
       (HDict [(''pk'', HRef 0), (''sk'', HStr ''B'')]) (HDict [(''x'', HRef 0)])
       \<lparr>objects = [[HStr ''A'']], outside = world0, max_str_digits = 4300\<rparr> =
     (Inr (ParseDocumentResult HNone
        (Document DocumentType_Document (HRef 0) ''DOCUMENT'' (HRef 0) (HDict [])
           (HDict [(''x'', HRef 0)]))
        ''SUCCESS''),
      \<lparr>objects = [[HStr ''A'', HStr ''|'', HStr ''B'']],
        outside = world0\<lparr>logs :=
          [text_log DEBUG (''processing record, returning success - docId: ['A', '|', 'B''
             @ [CHR 0x27] @ '']'')]\<rparr>,
        max_str_digits = 4300\<rparr>)"
  using list_key_extended [of "[(''pk'', HRef 0), (''sk'', HStr ''B'')]" 0 "[''B'']"
      "[(''x'', HRef 0)]" "[[HStr ''A'', HStr ''|'', HStr ''B'']]"
      "\<lparr>objects = [[HStr ''A'']], outside = world0, max_str_digits = 4300\<rparr>"
      "HStr ''orders''" "HInt 3"]
  by (simp add: list_extend_def formats_def text_of_def h_str_def repr_defs)


text \<open>
  The guard reads the store after the loop: an item that is the list of the first key
  value is empty at the call and is not when the guard measures it, so the record is a
  success, with the list as its payload.
\<close>

theorem guard_after_loop:
  "h_parseDynamoDBItem (HStr ''orders'') (HInt 3)
       (HDict [(''pk'', HRef 0), (''sk'', HStr ''B'')]) (HRef 0)
       \<lparr>objects = [[]], outside = world0, max_str_digits = 4300\<rparr> =
     (Inr (ParseDocumentResult HNone
        (Document DocumentType_Document (HRef 0) ''DOCUMENT'' (HRef 0) (HDict []) (HRef 0))
        ''SUCCESS''),
      \<lparr>objects = [[HStr ''|'', HStr ''B'']],
        outside = world0\<lparr>logs :=
          [text_log DEBUG (''processing record, returning success - docId: ['|', 'B''
             @ [CHR 0x27] @ '']'')]\<rparr>,
        max_str_digits = 4300\<rparr>)"
  using keys_list_first [where kvs = "[(''pk'', HRef 0), (''sk'', HStr ''B'')]" and a = 0
      and ss = "[''B'']"]
  by (simp add: h_parseDynamoDBItem_steps Let_def list_extend_def formats_def text_of_def
      h_str_def repr_defs)

text \<open>With the limit switched off the method raises nothing, whatever its arguments.\<close>

theorem table_reader_total_unlimited:
  assumes "max_str_digits s = 0"
  shows "\<exists>r s'. h_parseDynamoDBItem tableName segmentNumber ks item s = (Inr r, s')"
proof -
  from assms have "ctx_ok (max_str_digits s) (objects s) tableName segmentNumber ks"
    by (simp add: ctx_ok_def)
  from table_reader_contained [OF this] show ?thesis by blast
qed

end
