(* ===== verification/StoreStreamReader.thy ===== *)
theory StoreStreamReader
  imports StoreEffects
begin

text \<open>
  The stream record reader in full: \<^verbatim>\<open>parseRecord\<close> statement by statement, over values
  that may be lists and in an interpreter that limits the digits of an integer.  Theory
  \<open>DynamoDBStreamsRecordReader\<close> is this method on records without lists in an
  interpreter without the limit.

  \<^item> \<open>h_stream_context\<close> is the part the two long messages share;
    \<open>h_parseRecord_try\<close>, \<open>h_parseRecord_except\<close> and \<open>h_parseRecord\<close> are the
    \<^verbatim>\<open>try\<close> block, the \<^verbatim>\<open>except\<close> block and the method.
  \<^item> \<open>hv_record\<close> embeds a record; \<open>stream_ok\<close>: the six values that both long
    messages format can be formatted.
  \<^item> What is shown is what theory \<open>StoreTableReader\<close> shows of the table reader.  A
    success writes two log records, so a call that raises at the second has written the
    first.
\<close>

section \<open>The method\<close>

definition h_stream_context :: "string \<Rightarrow> hval stream_record \<Rightarrow> hpart list" where
  "h_stream_context pre r =
     [HLit (pre @ ''streamArn: ''), HVal (streamArn r), HLit '', shardId: '', HVal (shardId r),
      HLit '', eventName: '', HVal (eventName r),
      HLit '', sequenceNumber: '', HVal (sequenceNumber r),
      HLit '', approximateArrivalTimestamp: '', HVal (approximateCreationDateTime r),
      HLit '', keys: '', HVal (keys r)]"

definition h_parseRecord_try :: "hval stream_record \<Rightarrow> (interp, hval parse_result) pym" where
  "h_parseRecord_try r =
     py_bind (on_heap (h_derive_docId (keys r))) (\<lambda>docId.
     py_bind (read_heap (\<lambda>lim h. h_payload_missing h (newImage r))) (\<lambda>missing.
       if missing then
         py_bind (h_logger_error
           (h_stream_context ''newImage is null, returning skip - '' r)) (\<lambda>_.
         py_return (ParseDocumentResult HNone
           (SkipDoc docId ''DYNAMODBSTREAMS_SKIP'' docId (HDict []) (HDict [])
              (HDict [(''sequenceNumber'', sequenceNumber r)])
              (HDict [(''sequenceNumber'', sequenceNumber r)]) ''delete record'')
           ''SKIP''))
       else
         py_bind (h_logger_debug
           [HLit ''processing record - sequenceNumber: '', HVal (sequenceNumber r)]) (\<lambda>_.
         py_bind (h_logger_debug [HLit ''returning success - docId: '', HVal docId]) (\<lambda>_.
         py_return (ParseDocumentResult HNone
           (Document DocumentType_Document docId ''DOCUMENT'' docId (HDict []) (newImage r))
           ''SUCCESS'')))))"

definition h_parseRecord_except ::
  "hval stream_record \<Rightarrow> py_exn \<Rightarrow> (interp, hval parse_result) pym" where
  "h_parseRecord_except r ex =
     py_bind (h_logger_debug
       (h_stream_context ''Exception in reading the document - '' r
          @ [HLit '', ex: '', HExn ex])) (\<lambda>_.
     py_bind (on_world uuid4) (\<lambda>docIdUUID.
     py_return (ParseDocumentResult HNone
       (ErrorDoc (HStr docIdUUID) ''KINESIS_ERROR'' (HStr docIdUUID) (HDict []) (HDict [])
          (HDict [(''sequenceNumber'', sequenceNumber r)])
          (HDict [(''sequenceNumber'', sequenceNumber r)])
          (''Exception - '' @ exn_str ex))
       ''ERROR'')))"

definition h_parseRecord :: "hval stream_record \<Rightarrow> (interp, hval parse_result) pym" where
  "h_parseRecord r = py_try (h_parseRecord_try r) (h_parseRecord_except r)"

lemmas h_parseRecord_defs [handler_defs] =
  h_parseRecord_def h_parseRecord_try_def h_parseRecord_except_def

section \<open>Embedded records\<close>

definition hv_record :: "pyval stream_record \<Rightarrow> hval stream_record" where
  "hv_record r =
     \<lparr>streamArn = hv (streamArn r), shardId = hv (shardId r), eventId = hv (eventId r),
      eventName = hv (eventName r), identityPrincipalId = hv (identityPrincipalId r),
      identityType = hv (identityType r), sequenceNumber = hv (sequenceNumber r),
      sizeBytes = hv (sizeBytes r), streamViewType = hv (streamViewType r),
      approximateCreationDateTime = hv (approximateCreationDateTime r),
      keys = hv (keys r), oldImage = hv (oldImage r), newImage = hv (newImage r)\<rparr>"

lemma hv_record_sel [simp]:
  "streamArn (hv_record r) = hv (streamArn r)" "shardId (hv_record r) = hv (shardId r)"
  "eventName (hv_record r) = hv (eventName r)"
  "sequenceNumber (hv_record r) = hv (sequenceNumber r)"
  "approximateCreationDateTime (hv_record r) = hv (approximateCreationDateTime r)"
  "keys (hv_record r) = hv (keys r)" "newImage (hv_record r) = hv (newImage r)"
  by (simp_all add: hv_record_def)

section \<open>The ways through the method\<close>

definition stream_ok :: "nat \<Rightarrow> heap \<Rightarrow> hval stream_record \<Rightarrow> bool" where
  "stream_ok lim h r \<longleftrightarrow>
     formats lim h (streamArn r) \<and> formats lim h (shardId r) \<and> formats lim h (eventName r) \<and>
     formats lim h (sequenceNumber r) \<and> formats lim h (approximateCreationDateTime r) \<and>
     formats lim h (keys r)"

definition h_stream_text :: "nat \<Rightarrow> heap \<Rightarrow> hval stream_record \<Rightarrow> string" where
  "h_stream_text lim h r =
     ''streamArn: '' @ text_of lim h (streamArn r) @ '', shardId: '' @ text_of lim h (shardId r)
       @ '', eventName: '' @ text_of lim h (eventName r)
       @ '', sequenceNumber: '' @ text_of lim h (sequenceNumber r)
       @ '', approximateArrivalTimestamp: '' @ text_of lim h (approximateCreationDateTime r)
       @ '', keys: '' @ text_of lim h (keys r)"

lemma h_render_stream_context:
  "h_render lim h (h_stream_context pre r @ ps) =
     (if stream_ok lim h r then sum_bind (h_render lim h ps) (\<lambda>t. Inr (pre @ h_stream_text lim h r @ t))
      else Inl (digits_error lim))"
  by (simp add: h_render_formats h_stream_context_def stream_ok_def h_stream_text_def)

lemma h_render_stream_context0:
  "h_render lim h (h_stream_context pre r) =
     (if stream_ok lim h r then Inr (pre @ h_stream_text lim h r) else Inl (digits_error lim))"
  using h_render_stream_context [of lim h pre r "[]"] by (simp add: h_render_Nil)

lemma h_parseRecord_except_apply:
  "h_parseRecord_except r ex s =
     (if stream_ok (max_str_digits s) (objects s) r then
        (Inr (ParseDocumentResult HNone
           (ErrorDoc (HStr (fresh_id (outside s))) ''KINESIS_ERROR''
              (HStr (fresh_id (outside s))) (HDict []) (HDict [])
              (HDict [(''sequenceNumber'', sequenceNumber r)])
              (HDict [(''sequenceNumber'', sequenceNumber r)])
              (''Exception - '' @ exn_str ex))
           ''ERROR''),
         s\<lparr>outside := (outside s)\<lparr>logs := logs (outside s) @
               [text_log DEBUG (''Exception in reading the document - ''
                  @ h_stream_text (max_str_digits s) (objects s) r @ '', ex: '' @ exn_str ex)],
             draws := Suc (draws (outside s))\<rparr>\<rparr>)
      else (Inl (digits_error (max_str_digits s)), s))"
  by (simp add: h_parseRecord_except_def py_simps h_render_stream_context h_render_exn
      fresh_id_def)

lemma h_parseRecord_steps:
  "h_parseRecord r s =
     (let lim = max_str_digits s; h' = keys_heap (keys r) (objects s); s' = s\<lparr>objects := h'\<rparr>;
          fault = (\<lambda>ex. h_parseRecord_except r ex) in
      case h_keys_docId (keys r) of
        Inl ex \<Rightarrow> fault ex s'
      | Inr d \<Rightarrow>
          (case h_payload_missing h' (newImage r) of
             Inl ex \<Rightarrow> fault ex s'
           | Inr missing \<Rightarrow>
               if missing then
                 if stream_ok lim h' r then
                   (Inr (ParseDocumentResult HNone
                      (SkipDoc d ''DYNAMODBSTREAMS_SKIP'' d (HDict []) (HDict [])
                         (HDict [(''sequenceNumber'', sequenceNumber r)])
                         (HDict [(''sequenceNumber'', sequenceNumber r)]) ''delete record'')
                      ''SKIP''),
                    s'\<lparr>outside := (outside s)\<lparr>logs := logs (outside s) @
                          [text_log ERROR (''newImage is null, returning skip - ''
                             @ h_stream_text lim h' r)]\<rparr>\<rparr>)
                 else fault (digits_error lim) s'
               else
                 if formats lim h' (sequenceNumber r) then
                   (let s1 = s'\<lparr>outside := (outside s)\<lparr>logs := logs (outside s) @
                          [text_log DEBUG (''processing record - sequenceNumber: ''
                             @ text_of lim h' (sequenceNumber r))]\<rparr>\<rparr> in
                    if formats lim h' d then
                      (Inr (ParseDocumentResult HNone
                         (Document DocumentType_Document d ''DOCUMENT'' d (HDict []) (newImage r))
                         ''SUCCESS''),
                       s1\<lparr>outside := (outside s1)\<lparr>logs := logs (outside s1) @
                             [text_log DEBUG (''returning success - docId: ''
                                @ text_of lim h' d)]\<rparr>\<rparr>)
                    else fault (digits_error lim) s1)
                 else fault (digits_error lim) s'))"
  by (simp add: h_parseRecord_def h_parseRecord_try_def py_simps h_derive_docId_closed
      h_render_stream_context0 h_render_value Let_def split: sum.splits)


text \<open>The identifier of a record that the method classifies as a success.\<close>

definition stream_success :: "heap \<Rightarrow> hval stream_record \<Rightarrow> hval option" where
  "stream_success h r =
     (case h_keys_docId (keys r) of
        Inl ex \<Rightarrow> None
      | Inr d \<Rightarrow>
          (case h_payload_missing (keys_heap (keys r) h) (newImage r) of
             Inr False \<Rightarrow> Some d
           | _ \<Rightarrow> None))"

lemma stream_ok_keys_heap [simp]: "stream_ok lim (keys_heap ks h) r = stream_ok lim h r"
  by (simp add: stream_ok_def)

lemma stream_ok_docId:
  "stream_ok lim h r \<Longrightarrow> h_keys_docId (keys r) = Inr d \<Longrightarrow> formats lim h d"
  by (auto simp: stream_ok_def intro: formats_docId)

lemma stream_ok_sequenceNumber: "stream_ok lim h r \<Longrightarrow> formats lim h (sequenceNumber r)"
  by (simp add: stream_ok_def)

text \<open>The same of a record without lists: none of the six values holds an integer too long.\<close>

definition record_fits :: "nat \<Rightarrow> pyval stream_record \<Rightarrow> bool" where
  "record_fits lim r \<longleftrightarrow>
     fits lim (streamArn r) \<and> fits lim (shardId r) \<and> fits lim (eventName r) \<and>
     fits lim (sequenceNumber r) \<and> fits lim (approximateCreationDateTime r) \<and> fits lim (keys r)"

lemma stream_ok_hv [simp]: "stream_ok lim h (hv_record r) = record_fits lim r"
  by (simp add: stream_ok_def record_fits_def)

lemma record_fits_unlimited [simp]: "record_fits 0 r"
  by (simp add: record_fits_def)

lemma h_stream_text_hv:
  "record_fits lim r \<Longrightarrow> h_stream_text lim h (hv_record r) = stream_text r"
  by (simp add: h_stream_text_def stream_text_def record_fits_def)

section \<open>What the method promises\<close>

text \<open>
  Failure containment with lists and the limit: when the six values of the long
  messages can be formatted, the method returns a result and raises nothing, whatever the
  new image and the key values are, lists included; the status tag names the variant of
  the document.  The store it leaves is the one the identifier loop leaves.
\<close>

theorem stream_reader_contained:
  assumes "stream_ok (max_str_digits s) (objects s) r"
  shows "\<exists>res w'. h_parseRecord r s =
           (Inr res, s\<lparr>objects := keys_heap (keys r) (objects s), outside := w'\<rparr>) \<and>
         well_tagged res \<and>
         (\<forall>b. take (length (deref (objects s) b)) (deref (keys_heap (keys r) (objects s)) b) =
                deref (objects s) b \<and>
              (deref (keys_heap (keys r) (objects s)) b = deref (objects s) b \<or>
               first_key (keys r) = Some (HRef b)))"
  using assms stream_ok_docId [OF assms] stream_ok_sequenceNumber [OF assms]
    keys_heap_frame [of "keys r" "objects s"] keys_heap_grows [of "objects s" _ "keys r"]
  by (auto simp: h_parseRecord_steps h_parseRecord_except_apply Let_def split: sum.splits)

text \<open>
  Where containment ends: the method raises exactly when a message cannot be formatted.
  For a record that classifies as a success that is when the sequence number or the
  identifier holds an integer that is too long, and in the second case the first of the
  two log records has been written; for every other record it is when one of the six
  values of the long messages holds one.
\<close>

theorem stream_reader_raises_iff:
  "h_parseRecord r s = (Inl e, s') \<longleftrightarrow>
     e = digits_error (max_str_digits s) \<and>
     (let lim = max_str_digits s; h = objects s; s0 = s\<lparr>objects := keys_heap (keys r) h\<rparr> in
      case stream_success h r of
        Some d \<Rightarrow>
          if formats lim h (sequenceNumber r) then
            \<not> formats lim h d \<and>
            s' = s0\<lparr>outside := (outside s)\<lparr>logs := logs (outside s) @
                   [text_log DEBUG (''processing record - sequenceNumber: ''
                      @ text_of lim (keys_heap (keys r) h) (sequenceNumber r))]\<rparr>\<rparr>
          else s' = s0
      | None \<Rightarrow> \<not> stream_ok lim h r \<and> s' = s0)"
proof (cases "stream_ok (max_str_digits s) (objects s) r")
  case True
  with stream_ok_docId [OF True] stream_ok_sequenceNumber [OF True] show ?thesis
    by (auto simp: h_parseRecord_steps h_parseRecord_except_apply Let_def
        stream_success_def split: sum.splits bool.splits)
next
  case False
  then show ?thesis
    by (auto simp: h_parseRecord_steps h_parseRecord_except_apply Let_def
        stream_success_def split: sum.splits bool.splits)
qed

text \<open>
  Refinement: on a record without lists whose six values of the long messages hold no
  integer that is too long, the method is \<open>parseRecord\<close>: the same result, the store
  as it was, and as log the text of the log that \<open>parseRecord\<close> leaves.
\<close>

theorem stream_reader_refines:
  assumes "record_fits (max_str_digits s) r" and "outside s = rendered w"
  shows "h_parseRecord (hv_record r) s =
     (case parseRecord r w of
        (res, w') \<Rightarrow> (map_sum (\<lambda>e. e) (map_result hv) res, s\<lparr>outside := rendered w'\<rparr>))"
proof -
  have ok: "stream_ok (max_str_digits s) (objects s) (hv_record r)"
    using assms(1) by simp
  show ?thesis
  proof (cases r rule: parseRecord_cases)
    case (raised ex)
    with assms show ?thesis
      by (auto simp: h_parseRecord_steps h_parseRecord_except_apply h_stream_text_hv
          parseRecord_raised rendered_logged text_record_def stream_exception_log_def
          render_stream_context fresh_id_def)
  next
    case (missing d)
    with assms show ?thesis
      by (simp add: h_parseRecord_steps h_stream_text_hv parseRecord_missing rendered_logged
          text_record_def stream_skip_log_def render_stream_context)
  next
    case (present d)
    with stream_ok_docId [OF ok, of "hv d"] stream_ok_sequenceNumber [OF ok] assms
    show ?thesis
      by (simp add: h_parseRecord_steps parseRecord_present rendered_logged
          text_record_def stream_success_logs_def Let_def)
  qed
qed

text \<open>With the limit switched off the method raises nothing, whatever the record.\<close>

theorem stream_reader_total_unlimited:
  assumes "max_str_digits s = 0"
  shows "\<exists>res s'. h_parseRecord r s = (Inr res, s')"
proof -
  from assms have "stream_ok (max_str_digits s) (objects s) r"
    by (simp add: stream_ok_def)
  from stream_reader_contained [OF this] show ?thesis by blast
qed

end
