(* ===== verification/StoreTask.thy ===== *)
theory StoreTask
  imports ReaderTask StoreTableReader
begin

text \<open>
  The reader task of theory \<open>ReaderTask\<close> with the table reader in full, and calls of
  the reader one after another in one interpreter.

  \<^item> \<open>h_table_handler\<close> and \<open>h_table_reader\<close> are \<open>table_handler\<close> and
    \<open>table_reader\<close> over the interpreter's state: the loop \<open>reader_run\<close> is the same,
    since it is written for any handler and any state.
  \<^item> \<open>map_task f\<close> translates the documents a task holds; \<open>table_raises\<close> says that a
    call raises.
  \<^item> What is shown: on a scan without lists whose formatted values fit the limit, the
    task in full is the task of theory \<open>ReaderTask\<close>, so what is shown there of a task
    holds of it; a task stops at the first item at which the handler raises, whatever its
    configuration says of error documents; and a second call with the same list among
    the keys extends that list a second time, so two calls on the same arguments do not
    return the same identifier.
\<close>

section \<open>The task\<close>

definition h_table_handler :: "hval \<Rightarrow> hval \<Rightarrow> hval \<times> hval \<Rightarrow> (interp, hval parse_result) pym" where
  "h_table_handler tableName segmentNumber x =
     h_parseDynamoDBItem tableName segmentNumber (fst x) (snd x)"

definition h_table_reader ::
  "reader_config \<Rightarrow> hval \<Rightarrow> hval \<Rightarrow> (hval \<times> hval) list \<Rightarrow> interp \<Rightarrow> hval reader_task \<times> interp" where
  "h_table_reader cfg tableName segmentNumber items s =
     reader_run cfg (h_table_handler tableName segmentNumber) items (new_task, s)"

definition map_task :: "('a \<Rightarrow> 'b) \<Rightarrow> 'a reader_task \<Rightarrow> 'b reader_task" where
  "map_task f t =
     \<lparr>write_dest = map (map_doc f) (write_dest t), error_dest = map (map_doc f) (error_dest t),
      scanned = scanned t, checkpoint = checkpoint t, thrown = thrown t\<rparr>"

definition table_raises :: "nat \<Rightarrow> heap \<Rightarrow> hval \<Rightarrow> hval \<Rightarrow> hval \<Rightarrow> hval \<Rightarrow> bool" where
  "table_raises lim h tableName segmentNumber ks item =
     (case table_success h ks item of
        Some d \<Rightarrow> \<not> formats lim h d
      | None \<Rightarrow> \<not> ctx_ok lim h tableName segmentNumber ks)"

section \<open>The loop, for any handler and any state\<close>

lemma reader_run_append:
  "reader_run cfg h (xs @ ys) s =
     (if thrown (fst (reader_run cfg h xs s)) \<and> xs \<noteq> [] then reader_run cfg h xs s
      else reader_run cfg h ys (reader_run cfg h xs s))"
proof (induction xs arbitrary: s)
  case Nil
  show ?case by simp
next
  case (Cons x xs)
  show ?case
  proof (cases "thrown (fst (reader_step cfg h x s))")
    case True
    then show ?thesis by (simp add: Let_def)
  next
    case False
    with Cons [of "reader_step cfg h x s"] show ?thesis
      by (cases xs) (simp_all add: Let_def)
  qed
qed

lemma reader_step_raises:
  "h x s = (Inl e, s') \<Longrightarrow> reader_step cfg h x (t, s) = (t\<lparr>thrown := True\<rparr>, s')"
  by (simp add: reader_step_def)

lemma reader_run_raises:
  "h x s = (Inl e, s') \<Longrightarrow> reader_run cfg h (x # xs) (t, s) = (t\<lparr>thrown := True\<rparr>, s')"
  by (simp add: reader_step_raises Let_def)

section \<open>Translating a task\<close>

lemma map_task_sel [simp]:
  "write_dest (map_task f t) = map (map_doc f) (write_dest t)"
  "error_dest (map_task f t) = map (map_doc f) (error_dest t)"
  "scanned (map_task f t) = scanned t" "checkpoint (map_task f t) = checkpoint t"
  "thrown (map_task f t) = thrown t"
  by (simp_all add: map_task_def)

lemma map_task_new [simp]: "map_task f new_task = new_task"
  by (simp add: map_task_def new_task_def)

lemma map_task_steps [simp]:
  "route (map_result f res) (map_task f t) = map_task f (route res t)"
  "checkpoint_task cfg (map_task f t) = map_task f (checkpoint_task cfg t)"
  "throw_on_error cfg (map_result f res) (map_task f t) = map_task f (throw_on_error cfg res t)"
  by (simp_all add: route_def checkpoint_task_def throw_on_error_def map_task_def map_result_def)

section \<open>The task in full and the task on values\<close>

lemma reader_step_full:
  assumes "fits (max_str_digits s) tableName" and "fits (max_str_digits s) segmentNumber"
    and "fits (max_str_digits s) (fst x)" and "outside s = rendered w"
  shows "reader_step cfg (h_table_handler (hv tableName) (hv segmentNumber)) (map_prod hv hv x)
           (map_task hv t, s) =
         (case reader_step cfg (table_handler tableName segmentNumber) x (t, w) of
            (t', w') \<Rightarrow> (map_task hv t', s\<lparr>outside := rendered w'\<rparr>))"
proof -
  obtain res w' where call: "parseDynamoDBItem tableName segmentNumber (fst x) (snd x) w = (Inr res, w')"
    using table_step [of tableName segmentNumber "fst x" "snd x" w] by blast
  with table_reader_refines [OF assms, of "snd x"] show ?thesis
    by (simp add: reader_step_def h_table_handler_def table_handler_def)
qed

lemma reader_run_full:
  assumes "fits (max_str_digits s) tableName" and "fits (max_str_digits s) segmentNumber"
    and "\<forall>x \<in> set items. fits (max_str_digits s) (fst x)" and "outside s = rendered w"
  shows "reader_run cfg (h_table_handler (hv tableName) (hv segmentNumber))
           (map (map_prod hv hv) items) (map_task hv t, s) =
         (case reader_run cfg (table_handler tableName segmentNumber) items (t, w) of
            (t', w') \<Rightarrow> (map_task hv t', s\<lparr>outside := rendered w'\<rparr>))"
  using assms
proof (induction items arbitrary: t s w)
  case Nil
  then show ?case by simp
next
  case (Cons x items)
  obtain t1 w1 where one: "reader_step cfg (table_handler tableName segmentNumber) x (t, w) = (t1, w1)"
    by (cases "reader_step cfg (table_handler tableName segmentNumber) x (t, w)")
  from Cons.prems have step: "reader_step cfg (h_table_handler (hv tableName) (hv segmentNumber))
      (map_prod hv hv x) (map_task hv t, s) = (map_task hv t1, s\<lparr>outside := rendered w1\<rparr>)"
    by (simp add: reader_step_full one)
  from Cons.prems Cons.IH [of "s\<lparr>outside := rendered w1\<rparr>" w1 t1] show ?case
    by (simp add: step one Let_def)
qed

text \<open>
  Refinement of the task: on a table name, a segment number and a scan without lists
  whose keys hold no integer beyond the limit, in an interpreter whose log is the text of
  the log of a world, the task in full does what the task of theory \<open>ReaderTask\<close> does
  in that world: the same documents in the same destinations, the same position,
  checkpoint and outcome, the store as it was, and as log the text of the log.
\<close>

theorem task_refines:
  assumes "fits (max_str_digits s) tableName" and "fits (max_str_digits s) segmentNumber"
    and "\<forall>x \<in> set items. fits (max_str_digits s) (fst x)" and "outside s = rendered w"
  shows "h_table_reader cfg (hv tableName) (hv segmentNumber) (map (map_prod hv hv) items) s =
         (case table_reader cfg tableName segmentNumber items w of
            (t, w') \<Rightarrow> (map_task hv t, s\<lparr>outside := rendered w'\<rparr>))"
  using reader_run_full [OF assms, of cfg new_task]
  by (simp add: h_table_reader_def table_reader_def)

text \<open>
  So a task in full that is configured not to throw goes through such a scan: what
  \<open>table_reader_continues\<close> shows of the task on values.
\<close>

theorem task_continues:
  assumes "fits (max_str_digits s) tableName" and "fits (max_str_digits s) segmentNumber"
    and "\<forall>x \<in> set items. fits (max_str_digits s) (fst x)" and "outside s = rendered w"
    and "\<not> throwOnError cfg"
  shows "\<not> thrown (fst (h_table_reader cfg (hv tableName) (hv segmentNumber)
            (map (map_prod hv hv) items) s)) \<and>
         scanned (fst (h_table_reader cfg (hv tableName) (hv segmentNumber)
            (map (map_prod hv hv) items) s)) = length items"
proof -
  have "accounts cfg table_class items (new_task, w) (table_reader cfg tableName segmentNumber items w)"
    by (rule table_reader_accounts_aux)
  with assms(5) task_refines [OF assms(1-4), of cfg] show ?thesis
    by (simp add: accounts_def new_task_def split: prod.splits)
qed

section \<open>A handler that raises\<close>

lemma table_raises_iff:
  "table_raises (max_str_digits s) (objects s) tableName segmentNumber ks item \<longleftrightarrow>
     h_parseDynamoDBItem tableName segmentNumber ks item s =
       (Inl (digits_error (max_str_digits s)), s\<lparr>objects := keys_heap ks (objects s)\<rparr>)"
  by (simp add: table_reader_raises_iff table_raises_def)

text \<open>
  A task stops at the first item at which the handler raises, whatever the
  configuration: the documents of the items before it are where they were written, the
  items after it are not scanned, and the task has failed, also when it is configured to
  write an error document and go on.
\<close>

theorem task_stops_at_raise:
  assumes "h_table_reader cfg tableName segmentNumber pre s = (t1, s1)" and "\<not> thrown t1"
    and "table_raises (max_str_digits s1) (objects s1) tableName segmentNumber ks item"
  shows "h_table_reader cfg tableName segmentNumber (pre @ (ks, item) # post) s =
           (t1\<lparr>thrown := True\<rparr>, s1\<lparr>objects := keys_heap ks (objects s1)\<rparr>)"
proof -
  from assms(3) have "h_table_handler tableName segmentNumber (ks, item) s1 =
      (Inl (digits_error (max_str_digits s1)), s1\<lparr>objects := keys_heap ks (objects s1)\<rparr>)"
    by (simp add: table_raises_iff h_table_handler_def)
  then have "reader_run cfg (h_table_handler tableName segmentNumber) ((ks, item) # post) (t1, s1) =
      (t1\<lparr>thrown := True\<rparr>, s1\<lparr>objects := keys_heap ks (objects s1)\<rparr>)"
    by (rule reader_run_raises)
  with assms(1,2) show ?thesis
    by (simp add: h_table_reader_def reader_run_append)
qed

theorem task_stops_at_raise_witness:
  "h_table_reader keep_going (HStr ''orders'') (HInt 3)
       [(HDict [(''pk'', HStr ''A'')], HDict [(''x'', HStr ''1'')]),
        (HDict [(''pk'', HInt big)], HDict [(''x'', HStr ''1'')]),
        (HDict [(''pk'', HStr ''C'')], HDict [(''y'', HStr ''2'')])]
       \<lparr>objects = [], outside = world0, max_str_digits = 4300\<rparr> =
     (\<lparr>write_dest = [Document DocumentType_Document (HStr ''A'') ''DOCUMENT'' (HStr ''A'')
           (HDict []) (HDict [(''x'', HStr ''1'')])],
       error_dest = [], scanned = 1, checkpoint = 0, thrown = True\<rparr>,
      \<lparr>objects = [], outside = world0\<lparr>logs :=
           [text_log DEBUG ''processing record, returning success - docId: A'']\<rparr>,
        max_str_digits = 4300\<rparr>)"
proof -
  let ?s = "\<lparr>objects = [], outside = world0, max_str_digits = 4300\<rparr>"
  let ?s1 = "\<lparr>objects = [], outside = world0\<lparr>logs :=
      [text_log DEBUG ''processing record, returning success - docId: A'']\<rparr>, max_str_digits = 4300\<rparr>"
  let ?t1 = "\<lparr>write_dest = [Document DocumentType_Document (HStr ''A'') ''DOCUMENT''
      (HStr ''A'') (HDict []) (HDict [(''x'', HStr ''1'')])],
      error_dest = [], scanned = 1, checkpoint = 0, thrown = False\<rparr>"
  have "h_keys_docId (HDict [(''pk'', HStr ''A'')]) = Inr (HStr ''A'')"
    by (simp add: h_keys_docId_def h_docId_spec_def h_first_fault_def)
  then have pre: "h_table_reader keep_going (HStr ''orders'') (HInt 3)
      [(HDict [(''pk'', HStr ''A'')], HDict [(''x'', HStr ''1'')])] ?s = (?t1, ?s1)"
    by (simp add: h_table_reader_def h_table_handler_def reader_step_def
        h_parseDynamoDBItem_present keys_heap_def loop_heap_def route_def checkpoint_task_def
        throw_on_error_def keep_going_def new_task_def text_of_def)
  have "table_raises 4300 [] (HStr ''orders'') (HInt 3) (HDict [(''pk'', HInt big)])
      (HDict [(''x'', HStr ''1'')])"
    by (simp add: table_raises_def table_success_def h_keys_docId_def h_docId_spec_def
        h_first_fault_def keys_heap_def loop_heap_def)
  with task_stops_at_raise [OF pre, of "HDict [(''pk'', HInt big)]" "HDict [(''x'', HStr ''1'')]"
      "[(HDict [(''pk'', HStr ''C'')], HDict [(''y'', HStr ''2'')])]"]
  show ?thesis by (simp add: keys_heap_def loop_heap_def)
qed

section \<open>Calls that share a list\<close>

text \<open>
  The handlers keep no state, but a list among the keys is state: a second call on the
  same arguments finds the list as the first call left it and extends it again.  Both
  calls return the same object as the identifier of their document, and the log shows it
  in two states.
\<close>

theorem second_call_extends_again:
  assumes "map snd kvs = HRef a # map HStr ss" and "attrs \<noteq> []"
    and "formats (max_str_digits s) (objects s) (HRef a)"
    and "app = chars (concat (map (\<lambda>x. ''|'' @ x) ss))"
    and "res = ParseDocumentResult HNone
           (Document DocumentType_Document (HRef a) ''DOCUMENT'' (HRef a) (HDict []) (HDict attrs))
           ''SUCCESS''"
  shows "py_mapM (h_table_handler tableName segmentNumber)
           [(HDict kvs, HDict attrs), (HDict kvs, HDict attrs)] s =
     (Inr [res, res],
      s\<lparr>objects := list_extend a (app @ app) (objects s),
        outside := (outside s)\<lparr>logs := logs (outside s) @
          [text_log DEBUG (''processing record, returning success - docId: ''
             @ text_of (max_str_digits s) (list_extend a app (objects s)) (HRef a)),
           text_log DEBUG (''processing record, returning success - docId: ''
             @ text_of (max_str_digits s) (list_extend a (app @ app) (objects s)) (HRef a))]\<rparr>\<rparr>)"
proof -
  note keys = keys_list_first [OF assms(1)]
  from assms(3) have "formats (max_str_digits s) (keys_heap (HDict kvs) (objects s)) (HRef a)"
    by (simp only: formats_keys_heap)
  with assms(2-) show ?thesis
    by (simp add: py_simps h_table_handler_def h_parseDynamoDBItem_present keys)
qed

theorem second_call_extends_again_witness:
  "py_mapM (h_table_handler (HStr ''orders'') (HInt 3))
       [(HDict [(''pk'', HRef 0), (''sk'', HStr ''B'')], HDict [(''x'', HStr ''1'')]),
        (HDict [(''pk'', HRef 0), (''sk'', HStr ''B'')], HDict [(''x'', HStr ''1'')])]
       \<lparr>objects = [[HStr ''A'']], outside = world0, max_str_digits = 4300\<rparr> =
     (Inr [ParseDocumentResult HNone
             (Document DocumentType_Document (HRef 0) ''DOCUMENT'' (HRef 0) (HDict [])
                (HDict [(''x'', HStr ''1'')])) ''SUCCESS'',
           ParseDocumentResult HNone
             (Document DocumentType_Document (HRef 0) ''DOCUMENT'' (HRef 0) (HDict [])
                (HDict [(''x'', HStr ''1'')])) ''SUCCESS''],
      \<lparr>objects = [[HStr ''A'', HStr ''|'', HStr ''B'', HStr ''|'', HStr ''B'']],
        outside = world0\<lparr>logs :=
          [text_log DEBUG (''processing record, returning success - docId: ['A', '|', 'B''
             @ [CHR 0x27] @ '']''),
           text_log DEBUG (''processing record, returning success - docId: ['A', '|', 'B', '|', 'B''
             @ [CHR 0x27] @ '']'')]\<rparr>,
        max_str_digits = 4300\<rparr>)"
  using second_call_extends_again [of "[(''pk'', HRef 0), (''sk'', HStr ''B'')]" 0 "[''B'']"
      "[(''x'', HStr ''1'')]" "\<lparr>objects = [[HStr ''A'']], outside = world0, max_str_digits = 4300\<rparr>"
      "[HStr ''|'', HStr ''B'']" _ "HStr ''orders''" "HInt 3"]
  by (simp add: list_extend_def formats_def text_of_def h_str_def repr_defs)

end
