(* ===== verification/Spec2Isabelle.thy ===== *)
theory Spec2Isabelle
  imports ReaderContract ReaderTask SparkMapper SparkReducer SparkJob SparkRuns LogLines
    StoreTableReader StoreStreamReader StoreTask
begin

text \<open>
  \<^bold>\<open>A verification development for the #LetsData Python example handlers.\<close>

  \<^bold>\<open>The program.\<close>  The repository holds four user data handlers that a managed
  ingestion platform calls; the platform itself (table scan, stream consumption,
  checkpointing, retries, the Spark engine) is not in the repository.  What the sources
  say of it is in their docstrings: the design of the reader task that calls
  \<^verbatim>\<open>parseDynamoDBItem\<close>, and the arguments with which the mapper and the reducer are
  called in a run of both.
  \<^item> \<^verbatim>\<open>src/letsdata_interfaces/readers/dynamodb/DynamoDBTableItemReader.py\<close>, method
    \<^verbatim>\<open>parseDynamoDBItem\<close>: one scanned DynamoDB item to a document, an error document for
    an empty item, an error document with a random identifier for any exception.
  \<^item> \<^verbatim>\<open>src/letsdata_interfaces/readers/dynamodbstreams/DynamoDBStreamsRecordReader.py\<close>,
    method \<^verbatim>\<open>parseRecord\<close>: the same for one stream record, with a skip document where
    the table reader has its empty-item error.
  \<^item> \<^verbatim>\<open>src/letsdata_interfaces/readers/spark/SparkMapperInterface.py\<close>: the function
    \<^verbatim>\<open>to_map\<close> (a key-value list to a dict) and the method \<^verbatim>\<open>mapper\<close>, a pipeline of
    engine operators over WARC records.
  \<^item> \<^verbatim>\<open>src/letsdata_interfaces/readers/spark/SparkReducerInterface.py\<close>: the method
    \<^verbatim>\<open>reducer\<close>, which reads a list of files and aggregates them by language.
  The handlers share no state and call each other nowhere; what the two readers share is
  their text: the identifier loop, the payload guard and the shape of the result.  The
  mapper and the reducer meet in the files: the reducer reads what the mapper tasks wrote.

  \<^bold>\<open>The theories, in import order.\<close>
  \<^item> \<open>LD_Prelude\<close>: the fact collections \<open>py_simps\<close>, \<open>py_ops\<close>, \<open>handler_defs\<close>;
    \<open>join\<close> and \<open>split_on\<close> with their round trip; \<open>sum_bind\<close> and
    \<open>sum_mapM\<close>, a fallible function along a list.
  \<^item> \<open>Uuid\<close>: \<^verbatim>\<open>str(uuid.uuid4())\<close> as a function of 128 bits of entropy
    (\<open>uuid4_str\<close>), on \<open>128 word\<close>.
  \<^item> \<open>PyStr\<close>: the text of a string and of an integer as Python prints them:
    \<open>py_repr_str\<close> (\<^verbatim>\<open>repr\<close> of a string, with its quotes and escapes) and
    \<open>py_str_int\<close>; the readers \<open>py_unrepr\<close> and \<open>py_int\<close> that the round trips
    are stated with.
  \<^item> \<open>PyValue\<close>: the values a handler receives (\<open>pyval\<close>: \<^verbatim>\<open>None\<close>, bool, int, str,
    dict as an association list in insertion order), the exceptions (\<open>py_exn\<close>), and the
    built-ins the handlers apply, each total and returning \<open>py_exn + 'a\<close>:
    \<open>py_values\<close> (\<^verbatim>\<open>keys.values()\<close>), \<open>py_str_add\<close> (\<^verbatim>\<open>'|' + keyValue\<close>),
    \<open>py_iadd_str\<close> (\<^verbatim>\<open>docId += ...\<close>), \<open>py_len\<close> (\<^verbatim>\<open>len(item)\<close>), with CPython's
    messages; on lists of strings \<open>py_index\<close> (\<^verbatim>\<open>arr[i]\<close>), \<open>py_len_list\<close> and
    \<open>py_range\<close> (\<^verbatim>\<open>range(1, n, 2)\<close>).
  \<^item> \<open>PyEffects\<close>: computations \<open>('s, 'a) pym\<close> over a state \<open>'s\<close> that may raise:
    \<open>py_bind\<close>, \<open>py_try\<close> (\<^verbatim>\<open>try/except Exception\<close>), \<open>py_lift\<close>; the \<open>world\<close> of
    the readers and of \<^verbatim>\<open>to_map\<close> (the log, the standard output, the entropy source and
    the number of draws taken from it) with \<open>logger_error\<close>, \<open>logger_debug\<close>,
    \<open>py_print\<close>, \<open>uuid4\<close>; \<open>returns\<close>, the predicate "raises nothing".
  \<^item> \<open>PyFormat\<close>: \<^verbatim>\<open>repr\<close> and \<^verbatim>\<open>str\<close> of the values of \<open>pyval\<close> (\<open>py_repr\<close>,
    \<open>py_str\<close>) and \<^verbatim>\<open>str\<close> of a list of strings (\<open>py_str_list\<close>): what a
    replacement field of an f-string writes; the reader \<open>py_literal\<close> of
    representations.
  \<^item> \<open>Documents\<close>: the classes of the platform's interface package that the handlers
    construct (\<open>Document\<close>, \<open>ErrorDoc\<close>, \<open>SkipDoc\<close>, \<open>ParseDocumentResult\<close>), modelled
    from the specification since their code is not in the repository, over any type of
    values; \<open>well_tagged\<close>, the outbound contract; \<open>outcome_of\<close>, the abstraction
    to the three outcomes; \<open>map_result\<close>, a result with its values translated.
  \<^item> \<open>DocId\<close>: the identifier loop (\<open>docId_step\<close>, \<open>docId_loop\<close>, \<open>derive_docId\<close>),
    lines 66-71 of the table reader and 60-65 of the stream reader, which are the same text;
    its closed form \<open>docId_spec\<close>.
  \<^item> \<open>PayloadGuard\<close>: \<^verbatim>\<open>item is None or len(item) <= 0\<close> (\<open>payload_missing\<close>).
  \<^item> \<open>DynamoDBTableItemReader\<close>: \<open>parseDynamoDBItem\<close> as \<open>py_try\<close> of
    \<open>parseDynamoDBItem_try\<close> and \<open>parseDynamoDBItem_except\<close>.
  \<^item> \<open>DynamoDBStreamsRecordReader\<close>: \<open>parseRecord\<close> over the record
    \<open>stream_record\<close> of its thirteen parameters, as \<open>py_try\<close> of \<open>parseRecord_try\<close> and
    \<open>parseRecord_except\<close>.
  \<^item> \<open>ReaderContract\<close>: \<open>classify\<close>, the classification of a record that both
    readers implement, stated without loop and effect; the lemmas that each reader
    computes it and what a call changes in the world.
  \<^item> \<open>ReaderTask\<close>: the reader task of the docstring of the table reader (lines
    17-46): \<open>reader_step\<close> (parse one item, \<open>route\<close> the document by its status,
    \<open>checkpoint_task\<close>, \<open>throw_on_error\<close>) and \<open>reader_run\<close>, the loop over a
    scan, for any handler that meets \<open>handler_refines\<close>; \<open>table_reader\<close>, the loop
    with \<open>parseDynamoDBItem\<close>.
  \<^item> \<open>TextOps\<close>: the two text operators the mapper applies with fixed patterns:
    \<open>trim\<close> (\<^verbatim>\<open>regexp_replace(value, "^\s+|\s+$", "")\<close>) and \<open>split_seps\<close>
    (\<^verbatim>\<open>split\<close> at an alternation of literal separators), with the separators
    \<open>crlf2\<close> and \<open>header_seps\<close> and the round trip between joining and splitting.
  \<^item> \<open>WarcSchema\<close>: the columns of the frames: \<open>lang_row\<close> (what the reducer reads)
    and its extension \<open>warc_row\<close> (what the mapper writes).
  \<^item> \<open>SparkEngine\<close>: the interface of the Spark handlers to what they call: a
    \<open>cluster\<close> (environment, secret manager, storage, and the trace of the calls made)
    and the calls \<open>os_environ\<close>, \<open>get_spark_aws_credentials\<close>, \<open>createSparkSession\<close>,
    \<open>readSparkDataframe\<close>, \<open>writeSparkDataframe\<close>, modelled from their use since their
    code is not in the repository; \<open>job_args\<close>, the parameters both handlers have.
  \<^item> \<open>SparkMapper\<close>: the function \<^verbatim>\<open>to_map\<close> (\<open>to_map_loop\<close> is the index loop with
    the dict as its state, \<open>to_map_try\<close> the body of the \<^verbatim>\<open>try\<close>, \<open>to_map\<close> the
    function with the \<^verbatim>\<open>print\<close> of its \<^verbatim>\<open>except\<close> block) and the method
    \<^verbatim>\<open>SparkMapperInterface.mapper\<close>: one function on rows per statement
    (\<open>trim_value\<close>, \<open>split_record\<close>, \<open>split_header\<close>, \<open>array_to_map\<close>,
    \<open>select_row\<close>), their composition \<open>mapper_row\<close>, the frame transformation
    \<open>transform\<close> with the \<^verbatim>\<open>where\<close> and the \<^verbatim>\<open>drop\<close>, and \<open>mapper\<close> with its calls.
  \<^item> \<open>SparkReducer\<close>: \<^verbatim>\<open>SparkReducerInterface.reducer\<close>: \<open>read_loop\<close> (the loop
    over \<^verbatim>\<open>readUris\<close>), \<open>aggregate\<close> (group by language, 90th percentile and count
    of \<^verbatim>\<open>contentLength\<close>, descending by count), \<open>reducer\<close> and its two credential
    helpers.
  \<^item> \<open>SparkJob\<close>: a run of the mapper and the reducer (run configuration
    \<^verbatim>\<open>MAPPER_AND_REDUCER\<close> of the docstrings): the \<open>platform\<close> with its files,
    \<open>run_mapper\<close> and \<open>run_reducer\<close> (a handler run on the files, its writes stored),
    their specifications \<open>mapper_spec\<close> and \<open>reducer_spec\<close>, the arguments
    \<open>mapper_task\<close> and \<open>reducer_task\<close> the platform passes, the step relation
    \<open>job_step\<close> with \<open>job_reach\<close> and \<open>job_ends\<close>, and the sequential run
    \<open>run_job\<close>.
  \<^item> \<open>SparkRuns\<close>: the three run configurations of a dataset: the arguments of the
    tasks of a run of the mapper alone (\<open>mapper_only_task\<close>) and of the reducer alone
    (\<open>reducer_only_task\<close>), the step relation \<open>run_step\<close> for the three, and the
    sequential run \<open>run_dataset\<close>.
  \<^item> \<open>LogLines\<close>: the text of the messages: \<open>render\<close>, the text of the parts of
    an f-string; \<open>log_lines\<close> and \<open>stdout_text\<close>, what a world holds as text;
    the lines a call of a reader appends and the line \<^verbatim>\<open>to_map\<close> prints.
  \<^item> \<open>PyStore\<close>: values with references (\<open>hval\<close>: the values of \<open>pyval\<close> and
    \<open>HRef\<close>, the address of a list) and the store of the lists (\<open>heap\<close>);
    \<open>list_extend\<close>, what \<^verbatim>\<open>+=\<close> does to a list; the built-ins on these values
    (\<open>h_values\<close>, \<open>h_str_add\<close>, \<open>h_iadd_str\<close>, \<open>h_len\<close>); \<open>h_repr\<close> and
    \<open>h_str\<close>, formatting under the interpreter's limit on the digits of an integer
    (\<open>too_long\<close>, \<open>digits_error\<close>) and with the mark \<^verbatim>\<open>[...]\<close> for a list inside
    itself; \<open>hv\<close>, the embedding of \<open>pyval\<close>.
  \<^item> \<open>StoreDocId\<close>: the identifier loop on these values (\<open>h_docId_step\<close>,
    \<open>h_docId_loop\<close>, \<open>h_derive_docId\<close>), a computation on the store; its closed form
    (\<open>h_keys_docId\<close> for the value, \<open>keys_heap\<close> for the store).
  \<^item> \<open>StoreEffects\<close>: the state of a call in full, \<open>interp\<close> (the store, the
    world, the limit on digits); \<open>fstring\<close>, an f-string evaluated where it stands;
    \<open>h_logger_error\<close> and \<open>h_logger_debug\<close>; \<open>h_payload_missing\<close>; \<open>formats\<close>
    and \<open>text_of\<close>; \<open>rendered\<close>, the world of theory \<open>PyEffects\<close> with its
    messages as text.
  \<^item> \<open>StoreTableReader\<close>, \<open>StoreStreamReader\<close>: the two methods in full
    (\<open>h_parseDynamoDBItem\<close>, \<open>h_parseRecord\<close>), statement by statement as in the
    two reader theories above, on these values and this state.
  \<^item> \<open>StoreTask\<close>: the reader task with the table reader in full
    (\<open>h_table_reader\<close>: the loop \<open>reader_run\<close> of theory \<open>ReaderTask\<close>, which is
    written for any handler and any state), and calls one after another in one
    interpreter.
  \<^item> \<open>Spec2Isabelle\<close> (this theory): the properties that span the two readers, in
    the model of values and in full.

  \<^bold>\<open>How state and effects correspond to the code.\<close>  A handler object has no fields
  (\<^verbatim>\<open>__init__\<close> is \<^verbatim>\<open>pass\<close>), so a call is a function of its arguments and the state
  outside it.  For the readers and \<^verbatim>\<open>to_map\<close> that state is the \<open>world\<close>: a log call
  appends one record; an f-string is the list of its literal parts and formatted values,
  and \<open>render\<close> of theory \<open>LogLines\<close> is its text; \<^verbatim>\<open>uuid.uuid4()\<close> reads the next 16 bytes of entropy: the world
  holds the source as a function of the draw's index and counts the draws.  For the
  mapper and the reducer the state is the \<open>cluster\<close>: each call to a collaborator
  appends itself to the trace, so the order of the calls and the data handed to each
  write are part of the result.  A raise leaves the state as it was at the raise.  A data
  frame is the list of its rows and an operator of the engine is a function on that list.
  In a job the state is the \<open>platform\<close>: a task runs on the cluster that reads from
  the platform's files, and the writes of its trace are then stored in the files, a write
  replacing the file.  The state of a reader task is the \<open>reader_task\<close> (the two
  destinations, the scan position, the checkpoint, the flag of a thrown task) with the
  \<open>world\<close> of the handler.

  \<^bold>\<open>Two models of the readers.\<close>  The reader theories take their arguments as values
  (\<open>pyval\<close>), keep a message as the parts of its f-string, and format nothing: that is
  the method on arguments without lists in an interpreter whose limit on digits is
  switched off, and the theories are written, and their claims are meant, for these.  The
  theories \<open>Store...\<close> model what that leaves out.  An argument can be or hold a
  list, which is an object: \<^verbatim>\<open>docId = keyValue\<close> makes the identifier the caller's list
  and \<^verbatim>\<open>docId += '|' + keyValue\<close> extends that list in place, so the state has a store
  of lists and a value may be an address in it.  Dicts stay values, since no statement
  of the readers changes a dict.  An f-string calls \<^verbatim>\<open>str\<close> on its values before the
  log call is made, and \<^verbatim>\<open>str\<close> of an integer of more than
  \<^verbatim>\<open>sys.get_int_max_str_digits()\<close> digits raises \<^verbatim>\<open>ValueError\<close> (4300 by default
  since CPython 3.11; 0 switches the limit off), so formatting is a fallible step of the
  method and the limit is a field of the state.  The two models are related by
  \<open>table_reader_refines\<close> and \<open>stream_reader_refines\<close>.

  \<^bold>\<open>What the lemmas show.\<close>
  \<^item> Identifier derivation: the loop equals its closed form on every list of values; on
    string values it is the \<open>|\<close>-join in iteration order; it is injective on values
    free of the separator, and not injective without that condition.
  \<^item> Each reader, in the model of values: it raises nothing on any arguments (failure
    containment); the exact result and the exact change of the world on each of its
    three paths; the status tag names the document's variant.  The stream reader is the same function of its record
    whatever the six fields are that its body does not read.
  \<^item> The two readers together (this theory): both refine \<open>classify\<close>; the stream
    reader is the table reader up to the names of the outcomes; on inputs of the promised
    types no fault is reported and the outcome does not depend on the world; a call only
    appends to the log and draws entropy exactly when it reports a fault; a sequence of
    calls raises nothing and returns one result per item; the identifier of a fault has
    the form of a version 4 UUID, and can coincide with a key value.
  \<^item> The readers in full (\<open>PyStore\<close> to \<open>StoreStreamReader\<close>, and this theory):
    the identifier loop equals its closed form, value and store; a call changes no list
    but the one that is the first key value, and that one only by appending strings of
    one character; on embedded arguments whose formatted values fit the limit a method
    in full is the method of the model of values, result, store and text of the log;
    failure containment holds when the values of the long messages can be formatted,
    whatever the payload and the key values are; a method raises exactly when a message
    cannot be formatted, because the \<^verbatim>\<open>except\<close> block formats the same values again;
    with a list as the first key value the document's identifier is that list, extended,
    and the guard on the payload reads the store after the loop
    (\<open>guard_after_loop\<close>); a second call on the same arguments extends the list
    again (\<open>second_call_extends_again\<close>).  The task with the reader in full
    (\<open>StoreTask\<close>) is the task on values where the models meet
    (\<open>task_refines\<close>), and it stops at the first item at which the handler raises,
    whatever its configuration (\<open>task_stops_at_raise\<close>).
  \<^item> The reader task (\<open>ReaderTask\<close>): both readers meet \<open>handler_refines\<close>; for
    any such handler a run keeps \<open>task_inv\<close> and \<open>accounts\<close> for every item; for
    the table reader: each scanned item has one document in one destination, of the
    right variant, and the checkpoint is the last position that asked for one; a task
    that does not throw scans everything and writes the successes in order; a task that
    throws stops at the first error document.
  \<^item> The text of the log (\<open>PyStr\<close>, \<open>PyFormat\<close>, \<open>LogLines\<close>): the
    representation of a value is read back to the value, so it is injective; it consists
    of printable characters; the line each call of a reader appends, on every input
    (\<open>table_logs\<close>, \<open>stream_logs\<close>) and as text on inputs of the promised types;
    a key value can break the line of a success, where the identifier is formatted as it
    is, and not the line of an error, where the keys are written by their representation;
    what \<^verbatim>\<open>to_map\<close> prints is one line.
  \<^item> \<^verbatim>\<open>to_map\<close>: it raises nothing; its closed form on every list (the pairs after the
    first element, a dangling key printed and dropped); the round trip from a list of
    header fields; a repeated key keeps its last value.
  \<^item> The mapper: the exact sequence of calls of a run, and of a run whose read fails; the
    round trip from the text of a well-formed WARC record to its row; every written row
    is a conversion record with \<^verbatim>\<open>docId\<close> and \<^verbatim>\<open>partitionKey\<close> equal to \<^verbatim>\<open>url\<close>; and
    two kinds of records the pipeline does not keep whole: a payload with a blank line
    is cut at it, and a header value with \<^verbatim>\<open>: \<close> in it shifts the fields after it.
  \<^item> The reducer: the exact sequence of calls of a run in which everything succeeds, and
    that the frame written is the aggregate of the first file only, the result of
    \<^verbatim>\<open>dataframe.union\<close> being dropped at line 122; the exception and the calls made
    before it when the region is not set, when \<^verbatim>\<open>readUris\<close> is empty, and when a read
    fails.  The aggregate: descending counts, one row per language, counts that add up,
    percentiles within the values of their group, independence of the order of the rows.
  \<^item> The job (\<open>SparkJob\<close>): a mapper task and a reducer task do to the files what
    \<open>mapper_spec\<close> and \<open>reducer_spec\<close> say, on every branch, and a task that raises
    has written nothing; with at most one file the reducer is the reducer of its
    docstring.  For a job that is ready (\<open>job_ready\<close>): \<open>job_inv\<close> holds in every
    state of every run; a finished run has left the aggregate of the first file of the
    manifest at the output, in whatever order the files were mapped, and the platform of
    the run in manifest order, with every other file untouched; every run finishes.  For
    every job: a run has at most one step more than the manifest has files; a step that
    aborts leaves the files as they were; an empty manifest makes the reducer raise.
  \<^item> The run configurations (\<open>SparkRuns\<close>): a run of both is a job of
    \<open>SparkJob\<close>, and it is a run of the mapper alone into the intermediate bucket
    followed by a run of the reducer alone on the intermediate files; a run of the mapper
    alone that is ready leaves, in any order of its tasks, the transformed rows of each
    file at its output and nothing else; a run of the reducer alone has two states and
    writes the statistics of its first file; every run of every configuration ends
    within one step more than it has files to map.

  \<^bold>\<open>Bounds.\<close>  No loop of the handlers needs fuel: each runs over a finite list and is
  a structural recursion; \<open>split_seps\<close> recurses on a shorter text, with a termination
  proof by the length.  The reader task is a recursion over the items of the scan.  A run
  of a job is a sequence of steps of a relation, since the order of the mapper tasks is
  not fixed; \<open>job_measure\<close>, one more than the number of pending files, decreases with
  every step, so no bound on the length of a run is assumed: it is proved.  \<open>h_repr\<close>
  follows references, and a list can hold itself: it carries the addresses it is inside
  of, as CPython does, and terminates by the number of addresses not yet entered, then
  the size of the value.  The limit on digits is a parameter of the state, and
  \<open>too_long_iff\<close> gives it in numbers; the limit on the depth of recursion of
  \<^verbatim>\<open>repr\<close> and the size of memory are not modelled, so \<open>h_repr\<close> returns a text for
  every nesting.  The one
  function with fuel is the reader of representations \<open>parse_val\<close>, which is not code
  of the handlers: it recurses on what is left of the text, \<open>py_literal\<close> gives it the
  length of the text, and \<open>parse_val_repr\<close> with \<open>fuel_le_length\<close> shows that
  this is enough for every representation.  Strings are
  lists of \<open>char\<close>, so a character is a code point
  below 256; the handlers concatenate, compare and split strings at ASCII separators, so
  nothing depends on the alphabet; \<^verbatim>\<open>repr\<close> does depend on it, and is modelled for
  these code points, where its escapes are \<^verbatim>\<open>\xhh\<close>.  Python's integers are \<open>int\<close>; the 128 bits of a UUID
  are a \<open>128 word\<close>.  The percentile is computed on \<open>real\<close>, exactly, where the
  engine computes in doubles.

  \<^bold>\<open>Not modelled.\<close>
  \<^item> Floats, tuples, sets, bytes and objects of other classes as argument values of
    the readers.  The text of a float is the shortest decimal that reads back to it,
    which is CPython's number formatting and not code of this repository; for an object
    of any class \<^verbatim>\<open>str\<close>, \<^verbatim>\<open>len\<close> and \<^verbatim>\<open>+\<close> run the code of that class.  A key
    attribute of a DynamoDB table is a string, a number or a binary.
  \<^item> \<^verbatim>\<open>RecursionError\<close> and \<^verbatim>\<open>MemoryError\<close>: \<^verbatim>\<open>repr\<close> of a value nested deeper
    than the interpreter's recursion limit raises, as can any allocation; both are
    subclasses of \<^verbatim>\<open>Exception\<close>, so where they arise in the \<^verbatim>\<open>try\<close> block the
    method goes on as for the \<^verbatim>\<open>ValueError\<close> of the limit on digits.  The depth and the
    memory an interpreter has are not facts of this repository.
  \<^item> The Spark handlers over a store of objects: their arguments are strings and
    dicts of strings that they hand on, they format nothing but the exception and the
    list of strings that \<^verbatim>\<open>to_map\<close> prints, and they change no argument, so the
    model on values loses nothing of them.
  \<^item> The sink of the log: the level filter, the format of a record and where it is
    written are the platform's logger; the development has the message each call passes.
  \<^item> The platform beyond what the docstrings say: how a stream is consumed, how a task
    resumes from a checkpoint (the docstring names the checkpoint and not what a resumed
    task does with the documents it has already written), retries, when a checkpoint is
    taken (a parameter of the reader task), the names of the intermediate files and of
    the output files of a run of the mapper alone (parameters of the job and of the
    dataset).
  \<^item> Inside the engine: partitioning, scheduling, file formats and compression; the
    cast to integer and \<^verbatim>\<open>to_timestamp\<close>, which are parameters of the mapper's model
    (\<open>sql_functions\<close>), since their code is the engine's; two tasks writing one file at
    the same time.

  \<^bold>\<open>Plan.\<close>  Done: values, effects, identifier derivation, both readers and the
  properties that span them, the reader task, the text of the log, \<^verbatim>\<open>to_map\<close>, the
  mapper, the reducer and its aggregate, the format of the random identifier, the job of
  mapper and reducer with its termination, its progress and the independence of its
  result from the order of the mapper tasks, and the three run configurations with their
  composition; the two readers in full, with a store of lists and the limit on digits.
  Open: a reader task for the stream reader, whose docstring gives no design.
\<close>

section \<open>Properties of the two readers together\<close>

text \<open>
  Claim C13.  Refinement: on every input and in every world the outcome of the table
  reader is \<open>classify TableScan\<close> and the outcome of the stream reader is
  \<open>classify Stream\<close> of the key mapping and the payload, with the rendering of the next
  draw as the identifier of a fault.  The outcome depends on nothing else: not on the
  table name, the segment number or the other fields of the record, and not on the log.
\<close>

theorem readers_classify:
  "run_outcome (parseDynamoDBItem tableName segmentNumber ks item) w =
     Inr (classify TableScan (fresh_id w) ks item) \<and>
   run_outcome (parseRecord r) w = Inr (classify Stream (fresh_id w) (keys r) (newImage r))"
  by (simp add: table_outcome stream_outcome)

text \<open>
  Claim C14.  The stream reader is the table reader up to the names of the outcomes: on
  the keys and the new image of a record, and in the same world, its outcome is the table
  reader's with \<^verbatim>\<open>empty record\<close> turned into the skip \<^verbatim>\<open>delete record\<close> and the
  fault code \<^verbatim>\<open>DDB_ERROR\<close> into \<^verbatim>\<open>KINESIS_ERROR\<close>; identifiers, payloads and
  fault messages are the same.
\<close>

theorem readers_agree:
  "run_outcome (parseRecord r) w =
     map_sum (\<lambda>e. e) stream_of_table
       (run_outcome (parseDynamoDBItem tableName segmentNumber (keys r) (newImage r)) w)"
  by (simp add: table_outcome stream_outcome stream_of_table_classify)

text \<open>
  On inputs of the promised types (string key values, at least one, and a
  payload that is absent or a dict) no reader reports a fault and the outcome does not
  depend on the world: success with the \<open>|\<close>-joined identifier and the payload when
  the payload has an attribute, and otherwise the reader's outcome for a missing payload.
\<close>

theorem typed_records_classified:
  assumes "map snd kvs = map PStr ss" and "ss \<noteq> []"
  shows "run_outcome (parseDynamoDBItem tableName segmentNumber (PDict kvs) (payload_val payload)) w =
           Inr (spec_outcome TableScan ss payload) \<and>
         run_outcome (parseRecord (r\<lparr>keys := PDict kvs, newImage := payload_val payload\<rparr>)) w =
           Inr (spec_outcome Stream ss payload)"
  using assms by (simp add: table_outcome stream_outcome classify_typed)

theorem typed_records_classified_witness:
  "run_outcome (parseDynamoDBItem (PStr ''orders'') (PInt 3)
       (PDict [(''pk'', PStr ''A''), (''sk'', PStr ''B'')]) PNone) world0 =
     Inr (Error (PStr ''A|B'') ''DDB_ERROR'' ''empty record'') \<and>
   run_outcome (parseRecord (record0\<lparr>keys := PDict [(''pk'', PStr ''A''), (''sk'', PStr ''B'')],
       newImage := PNone\<rparr>)) world0 =
     Inr (Skip (PStr ''A|B'') ''DYNAMODBSTREAMS_SKIP'' ''delete record'')"
  using typed_records_classified [of "[(''pk'', PStr ''A''), (''sk'', PStr ''B'')]" "[''A'', ''B'']"
      "PStr ''orders''" "PInt 3" None world0 record0]
  by (simp add: payload_val_def spec_outcome_def)

text \<open>
  Claim C15.  What a call changes: it appends to the log (one record for the table reader;
  for the stream reader two on success and one otherwise), it takes one draw of entropy
  when it reports a fault and none otherwise, and it changes nothing else: the output
  and the entropy source stay, and no earlier log record is touched.
\<close>

theorem reader_effects:
  "(\<exists>res ls. parseDynamoDBItem tableName segmentNumber ks item w =
           (Inr res, w\<lparr>logs := logs w @ ls, draws := draws w + drawn res\<rparr>) \<and> length ls = 1) \<and>
   (\<exists>res ls. parseRecord r w =
           (Inr res, w\<lparr>logs := logs w @ ls, draws := draws w + drawn res\<rparr>) \<and>
         length ls = (if status res = ''SUCCESS'' then 2 else 1))"
  using table_step [of tableName segmentNumber ks item w] stream_step [of r w] by blast

text \<open>
  A run of calls of the table reader over any list of items raises nothing:
  it returns one well-tagged result per item, in order, after one log record per item and
  as many draws as there are faults.  A faulty item does not end the run.
\<close>

theorem batch_contained:
  "\<exists>rs ls. py_mapM (\<lambda>(ks, item). parseDynamoDBItem tableName segmentNumber ks item) items w =
           (Inr rs, w\<lparr>logs := logs w @ ls, draws := draws w + sum_list (map drawn rs)\<rparr>) \<and>
         length rs = length items \<and> length ls = length items \<and> list_all well_tagged rs"
proof (rule py_mapM_steps)
  fix x :: "pyval \<times> pyval" and w
  show "\<exists>r ls. (case x of (ks, item) \<Rightarrow> parseDynamoDBItem tableName segmentNumber ks item) w =
           (Inr r, w\<lparr>logs := logs w @ ls, draws := draws w + drawn r\<rparr>) \<and>
         well_tagged r \<and> length ls = 1"
    using table_step [of tableName segmentNumber "fst x" "snd x" w] by (simp add: case_prod_beta)
qed

section \<open>The identifier of a fault\<close>

text \<open>
  Claim C16.  When the identifier loop raises, the identifier and the partition key of the
  error document of either reader have the form of a version 4 UUID, whatever the
  entropy: 36 characters, hyphens in the four places, lower-case hexadecimal digits, the
  version digit 4 and a variant digit among 8, 9, a, b.
\<close>

theorem fault_identifier_format:
  assumes "derive_docId ks = Inl ex" and "keys r = ks"
  shows "\<exists>res res' w' w'' s.
           parseDynamoDBItem tableName segmentNumber ks item w = (Inr res, w') \<and>
           parseRecord r w = (Inr res', w'') \<and>
           doc_identifier (parsed res) = PStr s \<and> doc_partition (parsed res) = PStr s \<and>
           doc_identifier (parsed res') = PStr s \<and> doc_partition (parsed res') = PStr s \<and>
           uuid4_format s"
  using assms
  by (simp add: parseDynamoDBItem_raised parseRecord_raised uuid4_str_format)

theorem fault_identifier_format_witness:
  "\<exists>res res' w' w'' s.
     parseDynamoDBItem (PStr ''orders'') (PInt 3) PNone (PDict []) world0 = (Inr res, w') \<and>
     parseRecord (record0\<lparr>keys := PNone\<rparr>) world0 = (Inr res', w'') \<and>
     doc_identifier (parsed res) = PStr s \<and> doc_partition (parsed res) = PStr s \<and>
     doc_identifier (parsed res') = PStr s \<and> doc_partition (parsed res') = PStr s \<and>
     uuid4_format s"
  using fault_identifier_format [of PNone "no_attribute_error PNone ''values''"
      "record0\<lparr>keys := PNone\<rparr>" "PStr ''orders''" "PInt 3" "PDict []" world0]
  by (simp add: derive_docId_def py_values_def)

text \<open>
  The identifier of a fault is drawn without looking at the keys, so it can be
  one of the key values: with the next draw of the entropy as the first key value and a
  second key value that is not a string, the table reader returns an error document whose
  identifier is that key value.
\<close>

theorem fault_identifier_can_be_a_key:
  "\<exists>res w'.
     parseDynamoDBItem tableName segmentNumber
       (PDict [(''pk'', PStr (fresh_id w)), (''sk'', PInt 7)]) item w = (Inr res, w') \<and>
     status res = ''ERROR'' \<and> doc_identifier (parsed res) = PStr (fresh_id w)"
proof -
  have "derive_docId (PDict [(''pk'', PStr (fresh_id w)), (''sk'', PInt 7)]) =
      Inl (concat_error (PInt 7))"
    by (simp add: derive_docId_def docId_step_def py_str_add_def)
  then show ?thesis by (simp add: parseDynamoDBItem_raised fresh_id_def)
qed


section \<open>The readers in full\<close>

text \<open>An interpreter to run examples in: an empty store, the default limit of 4300 digits.\<close>

definition interp0 :: interp where
  "interp0 = \<lparr>objects = [], outside = world0, max_str_digits = 4300\<rparr>"

lemma interp0_sel [simp]:
  "objects interp0 = []" "outside interp0 = world0" "max_str_digits interp0 = 4300"
  by (simp_all add: interp0_def)

lemma rendered_world0 [simp]: "rendered world0 = world0"
  by (simp add: rendered_def world0_def)

text \<open>
  Claim C7.  Refinement: the readers of theories \<open>DynamoDBTableItemReader\<close> and
  \<open>DynamoDBStreamsRecordReader\<close> are the readers in full where the models meet.  On
  arguments without lists, of which the values that the long messages format hold no
  integer beyond the limit on digits, each method in full returns the result of its
  model, leaves the store as it is, and leaves as log the text of the log of its model.
  With the limit switched off that is every argument without lists.
\<close>

theorem full_readers_refine:
  assumes "fits (max_str_digits s) tableName" and "fits (max_str_digits s) segmentNumber"
    and "fits (max_str_digits s) ks" and "record_fits (max_str_digits s) r"
    and "outside s = rendered w"
  shows "h_parseDynamoDBItem (hv tableName) (hv segmentNumber) (hv ks) (hv item) s =
           (case parseDynamoDBItem tableName segmentNumber ks item w of
              (res, w') \<Rightarrow> (map_sum (\<lambda>e. e) (map_result hv) res, s\<lparr>outside := rendered w'\<rparr>)) \<and>
         h_parseRecord (hv_record r) s =
           (case parseRecord r w of
              (res, w') \<Rightarrow> (map_sum (\<lambda>e. e) (map_result hv) res, s\<lparr>outside := rendered w'\<rparr>))"
  using assms by (simp add: table_reader_refines stream_reader_refines)

theorem full_readers_refine_witness:
  "h_parseDynamoDBItem (HStr ''orders'') (HInt 3) (HDict [(''pk'', HStr ''A'')]) HNone interp0 =
     (Inr (ParseDocumentResult HNone
        (ErrorDoc (HStr ''A'') ''DDB_ERROR'' (HStr ''A'') (HDict []) (HDict [])
           (HDict [(''keys'', HDict [(''pk'', HStr ''A'')])])
           (HDict [(''keys'', HDict [(''pk'', HStr ''A'')])]) ''empty record'')
        ''ERROR''),
      interp0\<lparr>outside := world0\<lparr>logs := [text_log ERROR
        (''item is null, returning skip - tableName: orders, segmentNumber: 3, keys: {'pk': 'A''
           @ [CHR 0x27] @ ''}'')]\<rparr>\<rparr>) \<and>
   h_parseRecord (hv_record record0) interp0 =
     (Inr (ParseDocumentResult HNone
        (Document DocumentType_Document (HStr ''A'') ''DOCUMENT'' (HStr ''A'') (HDict [])
           (HDict [(''x'', HStr ''1'')]))
        ''SUCCESS''),
      interp0\<lparr>outside := world0\<lparr>logs :=
        [text_log DEBUG ''processing record - sequenceNumber: 100'',
         text_log DEBUG ''returning success - docId: A'']\<rparr>\<rparr>)"
  using full_readers_refine [of interp0 "PStr ''orders''" "PInt 3" "PDict [(''pk'', PStr ''A'')]"
      record0 world0 PNone]
  by (simp add: not_too_long_small not_too_long_less [where k = 10] record_fits_def record0_def
      parseDynamoDBItem_missing parseRecord_present derive_docId_def
      rendered_def text_record_def ddb_empty_log_def stream_success_logs_def repr_defs)

text \<open>
  Claim C5.  Failure containment in full: when the values that the long messages format
  can be formatted (the table name, the segment number and the keys; for the stream
  reader the six values of its context), each method returns a result and raises
  nothing, whatever the payload and whatever the key values are, lists included, and the
  status tag names the variant of the document.  The store a call leaves is the one the
  identifier loop leaves: every list is as it was or has grown at its end, and no list
  has changed but the one that is the first key value.
\<close>

theorem full_readers_contained:
  assumes "ctx_ok (max_str_digits s) (objects s) tableName segmentNumber ks"
    and "stream_ok (max_str_digits s) (objects s) r"
  shows "(\<exists>res w'. h_parseDynamoDBItem tableName segmentNumber ks item s =
             (Inr res, s\<lparr>objects := keys_heap ks (objects s), outside := w'\<rparr>) \<and>
           well_tagged res) \<and>
         (\<exists>res w'. h_parseRecord r s =
             (Inr res, s\<lparr>objects := keys_heap (keys r) (objects s), outside := w'\<rparr>) \<and>
           well_tagged res) \<and>
         (\<forall>b. take (length (deref (objects s) b)) (deref (keys_heap ks (objects s)) b) =
                deref (objects s) b \<and>
              (deref (keys_heap ks (objects s)) b = deref (objects s) b \<or>
               first_key ks = Some (HRef b)))"
  using table_reader_contained [OF assms(1), of item] stream_reader_contained [OF assms(2)]
  by blast

theorem full_readers_contained_witness:
  "(\<exists>res w'. h_parseDynamoDBItem (HStr ''orders'') (HInt 3)
        (HDict [(''pk'', HRef 0), (''sk'', HStr ''B'')]) (HDict [(''x'', HRef 0)])
        (interp0\<lparr>objects := [[HStr ''A'']]\<rparr>) =
      (Inr res, interp0\<lparr>objects := [[HStr ''A'', HStr ''|'', HStr ''B'']], outside := w'\<rparr>) \<and>
      well_tagged res) \<and>
   (\<exists>res w'. h_parseRecord (hv_record record0) (interp0\<lparr>objects := [[HStr ''A'']]\<rparr>) =
      (Inr res, interp0\<lparr>objects := [[HStr ''A'']], outside := w'\<rparr>) \<and> well_tagged res)"
  using full_readers_contained [of "interp0\<lparr>objects := [[HStr ''A'']]\<rparr>" "HStr ''orders''" "HInt 3"
      "HDict [(''pk'', HRef 0), (''sk'', HStr ''B'')]" "hv_record record0" "HDict [(''x'', HRef 0)]"]
  by (simp add: ctx_ok_def formats_iff repr_ok_HDict repr_ok_HRef not_too_long_small
      not_too_long_less [where k = 10] record_fits_def record0_def keys_heap_def loop_heap_def
      appended_def list_extend_def)

text \<open>
  Claim C6.  Where containment ends: a method raises exactly when a message cannot be
  formatted, and what it raises is the \<^verbatim>\<open>ValueError\<close> of the limit on digits.  The
  \<^verbatim>\<open>except\<close> block formats the values of the \<^verbatim>\<open>try\<close> block's message again, so
  the exception of the first formatting is raised a second time and leaves the method.
  For a record that classifies as a success the values are the identifier (and for the
  stream reader, before it, the sequence number, whose log record is written when only
  the identifier fails); for every other record they are the values of the long message.
  Nothing else is logged and no identifier is drawn.
\<close>

theorem full_readers_raise_iff:
  "(h_parseDynamoDBItem tableName segmentNumber ks item s = (Inl e, s') \<longleftrightarrow>
      e = digits_error (max_str_digits s) \<and> s' = s\<lparr>objects := keys_heap ks (objects s)\<rparr> \<and>
      (case table_success (objects s) ks item of
         Some d \<Rightarrow> \<not> formats (max_str_digits s) (objects s) d
       | None \<Rightarrow> \<not> ctx_ok (max_str_digits s) (objects s) tableName segmentNumber ks)) \<and>
   (h_parseRecord r s = (Inl e, s') \<longleftrightarrow>
      e = digits_error (max_str_digits s) \<and>
      (let lim = max_str_digits s; h = objects s; s0 = s\<lparr>objects := keys_heap (keys r) h\<rparr> in
       case stream_success h r of
         Some d \<Rightarrow>
           if formats lim h (sequenceNumber r) then
             \<not> formats lim h d \<and>
             s' = s0\<lparr>outside := (outside s)\<lparr>logs := logs (outside s) @
                    [text_log DEBUG (''processing record - sequenceNumber: ''
                       @ text_of lim (keys_heap (keys r) h) (sequenceNumber r))]\<rparr>\<rparr>
           else s' = s0
       | None \<Rightarrow> \<not> stream_ok lim h r \<and> s' = s0))"
  by (rule conjI) (rule table_reader_raises_iff, rule stream_reader_raises_iff)

theorem full_readers_raise_iff_witness:
  "h_parseDynamoDBItem (HStr ''orders'') (HInt big) (HDict [(''pk'', HStr ''A'')]) HNone interp0 =
     (Inl (digits_error 4300), interp0) \<and>
   h_parseRecord ((hv_record record0)\<lparr>keys := HDict [(''pk'', HInt big)]\<rparr>) interp0 =
     (Inl (digits_error 4300),
      interp0\<lparr>outside := world0\<lparr>logs :=
        [text_log DEBUG ''processing record - sequenceNumber: 100'']\<rparr>\<rparr>)"
  using full_readers_raise_iff [of "HStr ''orders''" "HInt big" "HDict [(''pk'', HStr ''A'')]" HNone
      interp0 "digits_error 4300" interp0 "(hv_record record0)\<lparr>keys := HDict [(''pk'', HInt big)]\<rparr>"]
    full_readers_raise_iff [of "HStr ''orders''" "HInt big" "HDict [(''pk'', HStr ''A'')]" HNone
      interp0 "digits_error 4300"
      "interp0\<lparr>outside := world0\<lparr>logs :=
        [text_log DEBUG ''processing record - sequenceNumber: 100'']\<rparr>\<rparr>"
      "(hv_record record0)\<lparr>keys := HDict [(''pk'', HInt big)]\<rparr>"]
  by (simp add: table_success_def stream_success_def ctx_ok_def h_keys_docId_def
      h_docId_spec_def h_first_fault_def keys_heap_def loop_heap_def hv_record_def record0_def
      interp0_def)

end
